(* ===== verification/Prelude.thy ===== *)
theory Prelude
  imports Main "HOL-Library.Multiset" "HOL-Library.AList"
begin

text \<open>
  Shared vocabulary of the development: the JavaScript and Firestore idioms that the
  hooks and pages of the repository use, written once as executable HOL functions with
  the lemmas the component theories rely on.
  \<^item> \<open>find_index\<close> is \<^verbatim>\<open>Array.prototype.findIndex\<close>, with \<open>None\<close> for the
    source's \<open>-1\<close>;
  \<^item> \<open>str_at_or_empty xs i\<close> is the expression \<^verbatim>\<open>xs[i] || ''\<close> on an array of
    strings (an index out of range reads \<^verbatim>\<open>undefined\<close>, which is falsy);
  \<^item> \<open>js_truthy_str\<close> is the truthiness of a \<^verbatim>\<open>string | null\<close> value;
  \<^item> \<open>array_union\<close> and \<open>array_remove\<close> are Firestore's \<^verbatim>\<open>arrayUnion\<close> and
    \<^verbatim>\<open>arrayRemove\<close> field transforms with a single element;
  \<^item> \<open>reindex_from\<close> is \<^verbatim>\<open>xs.map((x, index) => ...)\<close>, the callback seeing the
    position of each element.
\<close>

named_theorems js_simps "evaluation rules of the JavaScript idioms of the model"

type_synonym uid = string

subsection \<open>JavaScript idioms\<close>

fun find_index :: "('a \<Rightarrow> bool) \<Rightarrow> 'a list \<Rightarrow> nat option" where
  "find_index P [] = None"
| "find_index P (x # xs) = (if P x then Some 0 else map_option Suc (find_index P xs))"

definition str_at_or_empty :: "string list \<Rightarrow> nat \<Rightarrow> string" where
  "str_at_or_empty xs i = (if i < length xs then xs ! i else [])"

definition js_truthy_str :: "string option \<Rightarrow> bool" where
  "js_truthy_str s = (case s of None \<Rightarrow> False | Some x \<Rightarrow> x \<noteq> [])"

definition array_union :: "'a list \<Rightarrow> 'a \<Rightarrow> 'a list" where
  "array_union xs y = (if y \<in> set xs then xs else xs @ [y])"

definition array_remove :: "'a list \<Rightarrow> 'a \<Rightarrow> 'a list" where
  "array_remove xs y = removeAll y xs"

definition reindex_from :: "(nat \<Rightarrow> 'a \<Rightarrow> 'b) \<Rightarrow> 'a list \<Rightarrow> 'b list" where
  "reindex_from f xs = map (\<lambda>(i, x). f i x) (enumerate 0 xs)"

declare str_at_or_empty_def [js_simps] js_truthy_str_def [js_simps]
  array_union_def [js_simps] array_remove_def [js_simps]

subsection \<open>Lemmas on the idioms\<close>

lemma find_index_None_iff [simp]:
  "find_index P xs = None \<longleftrightarrow> (\<forall>x \<in> set xs. \<not> P x)"
  by (induction xs) auto

lemma find_index_SomeD:
  "find_index P xs = Some i \<Longrightarrow> i < length xs \<and> P (xs ! i) \<and> (\<forall>j < i. \<not> P (xs ! j))"
proof (induction xs arbitrary: i)
  case Nil
  then show ?case by simp
next
  case (Cons x xs)
  show ?case
  proof (cases "P x")
    case True
    with Cons.prems show ?thesis by simp
  next
    case False
    with Cons.prems obtain k where k: "find_index P xs = Some k" and i: "i = Suc k"
      by auto
    from Cons.IH [OF k] False i show ?thesis
      by (auto simp: less_Suc_eq_0_disj)
  qed
qed

lemma find_index_Some_unique:
  assumes "distinct (map f xs)" and "find_index (\<lambda>x. f x = k) xs = Some i"
    and "j < length xs" and "f (xs ! j) = k"
  shows "j = i"
proof -
  from find_index_SomeD [OF assms(2)] have "i < length xs" and "f (xs ! i) = k"
    by auto
  with assms(1,3,4) show ?thesis
    by (metis distinct_conv_nth length_map nth_map)
qed

lemma length_reindex_from [simp]: "length (reindex_from f xs) = length xs"
  by (simp add: reindex_from_def)

lemma nth_reindex_from [simp]:
  "i < length xs \<Longrightarrow> reindex_from f xs ! i = f i (xs ! i)"
  by (simp add: reindex_from_def nth_enumerate_eq)

lemma map_reindex_from:
  "map g (reindex_from f xs) = reindex_from (\<lambda>i x. g (f i x)) xs"
  by (auto simp: reindex_from_def)

lemma reindex_from_positions:
  "(\<And>i x. h (f i x) = i) \<Longrightarrow> map h (reindex_from f xs) = [0..<length xs]"
  by (rule nth_equalityI) (auto simp: reindex_from_def nth_enumerate_eq)

lemma array_union_distinct [simp]:
  "distinct (array_union xs y) = distinct xs"
  by (auto simp: array_union_def)

lemma set_array_union [simp]: "set (array_union xs y) = insert y (set xs)"
  by (auto simp: array_union_def)

lemma set_array_remove [simp]: "set (array_remove xs y) = set xs - {y}"
  by (simp add: array_remove_def)

lemma array_remove_distinct [simp]:
  "distinct xs \<Longrightarrow> distinct (array_remove xs y)"
  by (simp add: array_remove_def distinct_removeAll)

lemma array_remove_union_fresh:
  "y \<notin> set xs \<Longrightarrow> array_remove (array_union xs y) y = xs"
  by (simp add: array_union_def array_remove_def)

subsection \<open>Searching lists\<close>

lemma find_index_find:
  "find_index P xs = Some i \<Longrightarrow> find P xs = Some (xs ! i)"
proof (induction xs arbitrary: i)
  case Nil then show ?case by simp
next
  case (Cons x xs) then show ?case by (auto split: if_splits)
qed
lemma find_update_first:
  "find_index P xs = Some i \<Longrightarrow> P y \<Longrightarrow> find P (xs[i := y]) = Some y"
  by (induction xs arbitrary: i) (auto split: if_splits)
lemma find_update_other:
  "find_index P xs = Some i \<Longrightarrow> \<not> Q y \<Longrightarrow> \<forall>x. Q x \<longrightarrow> \<not> P x \<Longrightarrow> find Q (xs[i := y]) = find Q xs"
  by (induction xs arbitrary: i) (auto split: if_splits)
lemma find_filter_implied:
  "\<forall>x. Q x \<longrightarrow> P x \<Longrightarrow> find Q (filter P xs) = find Q xs"
  by (induction xs) auto
lemma find_append_eq:
  "find P (xs @ ys) = (case find P xs of None \<Rightarrow> find P ys | Some x \<Rightarrow> Some x)"
  by (induction xs) auto

subsection \<open>Lists of distinct bounded indices\<close>

lemma distinct_bounded_length:
  assumes "distinct xs" and "\<forall>x \<in> set xs. x < (n::nat)"
  shows "length xs \<le> n"
proof -
  have "length xs = card (set xs)" using assms(1) by (simp add: distinct_card)
  also have "\<dots> \<le> card {..<n}" using assms(2) by (intro card_mono) auto
  finally show ?thesis by simp
qed

lemma sum_list_filter_partition:
  "sum_list (map g (filter P xs)) + sum_list (map g (filter (\<lambda>x. \<not> P x) xs))
     = (sum_list (map g xs) :: 'b :: comm_monoid_add)"
  by (induction xs) (simp_all add: ac_simps)

subsection \<open>Counting and summing\<close>

lemma sum_list_map_upd_add:
  "distinct keys \<Longrightarrow> q \<in> set keys \<Longrightarrow>
     sum_list (map (sc(q := sc q + v)) keys) = sum_list (map sc keys) + (v :: int)"
  by (induction keys) auto

lemma sum_list_le_length:
  "\<forall>x \<in> set xs. x \<le> (k :: int) \<Longrightarrow> sum_list xs \<le> k * int (length xs)"
  by (induction xs) (auto simp: algebra_simps)

lemma count_positions: "length (filter (\<lambda>i. xs ! i = c) [0..<length xs]) = count_list xs c"
proof (induction xs rule: rev_induct)
  case Nil then show ?case by simp
next
  case (snoc x xs)
  have "filter (\<lambda>i. (xs @ [x]) ! i = c) [0..<length xs] = filter (\<lambda>i. xs ! i = c) [0..<length xs]"
    by (rule filter_cong) (auto simp: nth_append)
  with snoc.IH show ?case by simp
qed

lemma count_list_replicate: "count_list (replicate n x) y = (if x = y then n else 0)"
  by (induction n) auto

subsection \<open>Association lists and filters\<close>

lemma set_alist_update:
  "distinct (map fst al) \<Longrightarrow> set (AList.update k v al) = insert (k, v) {x \<in> set al. fst x \<noteq> k}"
  by (induction al) (auto simp: image_iff)

lemma set_alist_delete: "set (AList.delete k al) = {x \<in> set al. fst x \<noteq> k}"
  by (auto simp: AList.delete_eq)

lemma keys_comprehension:
  "concat (map (\<lambda>(k, _). if P k then [g k] else []) xs) = map g (filter P (map fst xs))"
  by (induction xs) auto

lemma length_removeAll_distinct:
  "distinct xs \<Longrightarrow> x \<in> set xs \<Longrightarrow> length (removeAll x xs) + 1 = length xs"
  by (induction xs) (auto simp: removeAll_id)

lemma filter_removeAll_comm: "filter P (removeAll x xs) = removeAll x (filter P xs)"
  by (induction xs) auto

lemma length_filter_mono_imp:
  "(\<And>x. P x \<Longrightarrow> Q x) \<Longrightarrow> length (filter P xs) \<le> length (filter Q xs)"
  by (induction xs) auto

lemma length_comprehension:
  "length (concat (map (\<lambda>(k, v). if P k then [g k v] else []) xs)) = length (filter P (map fst xs))"
  by (induction xs) auto

end
