(* ===== verification/Schedule.thy ===== *)
theory Schedule
  imports Prelude
begin

text \<open>
  The weekly lesson schedule of a teacher, \<^verbatim>\<open>src/src/hooks/use-weekly-schedule.ts\<close>.
  The remote Firestore document \<^verbatim>\<open>users/{uid}/schedules/weekly-lessons-schedule\<close> holds
  one lesson array per day and the settings (time slots, lesson duration); the hook keeps
  a local copy of the settings that its snapshot listener refreshes. The handlers
  \<open>updateLesson\<close>, \<open>updateSettings\<close> and \<open>setSchedule\<close> read the document, compute
  new day arrays and write them back; a write to a document that does not exist is
  rejected by Firestore and ends in the handler's error toast, here the value
  \<open>Inl NoSuchDocument\<close>.
\<close>

section \<open>Data model\<close>

datatype day = Pazartesi | Sali | Carsamba | Persembe | Cuma | Cumartesi | Pazar

definition dayOrder :: "day list" where
  "dayOrder = [Pazartesi, Sali, Carsamba, Persembe, Cuma, Cumartesi, Pazar]"

text \<open>The day's name as the source spells it (UTF-8 bytes), used in generated lesson ids.\<close>

fun day_name :: "day \<Rightarrow> string" where
  "day_name Pazartesi = ''Pazartesi''"
| "day_name Sali = ''Sal'' @ [CHR 0xC4, CHR 0xB1]"
| "day_name Carsamba = [CHR 0xC3, CHR 0x87] @ ''ar'' @ [CHR 0xC5, CHR 0x9F] @ ''amba''"
| "day_name Persembe = ''Per'' @ [CHR 0xC5, CHR 0x9F] @ ''embe''"
| "day_name Cuma = ''Cuma''"
| "day_name Cumartesi = ''Cumartesi''"
| "day_name Pazar = ''Pazar''"

record lesson =
  lesson_id :: string
  lessonSlot :: nat
  subject :: string
  grade :: string
  lesson_class :: string
  time :: string
  planId :: "string option"

text \<open>
  The form data \<^verbatim>\<open>Omit<Lesson, 'id' | 'lessonSlot'>\<close>, as the JavaScript object that
  is spread into the stored lesson: a key that the object does not carry is \<open>None\<close>.
\<close>

record lesson_data =
  ld_subject :: string
  ld_grade :: string
  ld_class :: string
  ld_time :: "string option"
  ld_planId :: "string option"

record settings =
  timeSlots :: "string list"
  lessonDuration :: nat

text \<open>\<^verbatim>\<open>Partial<ScheduleSettings>\<close>: the fields the caller passes.\<close>

record settings_patch =
  new_timeSlots :: "string list option"
  new_lessonDuration :: "nat option"

record sched_doc =
  day_lessons :: "day \<Rightarrow> lesson list"
  doc_settings :: settings

datatype sched_error = NoSuchDocument

type_synonym sched_result = "sched_error + sched_doc option"

definition defaultSettings :: settings where
  "defaultSettings =
     \<lparr>timeSlots = [''08:30'', ''09:20'', ''10:10'', ''11:00'', ''11:50'', ''13:30'', ''14:20'', ''15:10''],
      lessonDuration = 40\<rparr>"

definition default_doc :: sched_doc where
  "default_doc = \<lparr>day_lessons = (\<lambda>_. []), doc_settings = defaultSettings\<rparr>"

section \<open>Helpers of the handlers\<close>

fun nat_str :: "nat \<Rightarrow> string" where
  "nat_str n = (if n < 10 then [char_of (48 + n)] else nat_str (n div 10) @ [char_of (48 + n mod 10)])"

declare nat_str.simps [simp del]

definition new_lesson_id :: "day \<Rightarrow> nat \<Rightarrow> nat \<Rightarrow> string" where
  "new_lesson_id d slot now = day_name d @ ''-'' @ nat_str slot @ ''-'' @ nat_str now"

text \<open>\<^verbatim>\<open>{ ...existingLesson, ...lessonData, lessonSlot, time: settings.timeSlots[lessonSlot] || '' }\<close>\<close>

definition merge_lesson :: "lesson \<Rightarrow> lesson_data \<Rightarrow> nat \<Rightarrow> string \<Rightarrow> lesson" where
  "merge_lesson l ld slot label =
     l\<lparr>subject := ld_subject ld, grade := ld_grade ld, lesson_class := ld_class ld,
       planId := (case ld_planId ld of Some p \<Rightarrow> Some p | None \<Rightarrow> planId l),
       lessonSlot := slot, time := label\<rparr>"

text \<open>\<^verbatim>\<open>{ id: `${day}-${lessonSlot}-${now}`, lessonSlot, time: ..., ...lessonData }\<close>:
  the spread comes last, so a \<open>time\<close> key of the form data wins over the slot's label.\<close>

definition new_lesson :: "day \<Rightarrow> nat \<Rightarrow> nat \<Rightarrow> string \<Rightarrow> lesson_data \<Rightarrow> lesson" where
  "new_lesson d slot now label ld =
     \<lparr>lesson_id = new_lesson_id d slot now, lessonSlot = slot,
      subject = ld_subject ld, grade = ld_grade ld, lesson_class = ld_class ld,
      time = (case ld_time ld of Some t \<Rightarrow> t | None \<Rightarrow> label),
      planId = ld_planId ld\<rparr>"

text \<open>\<^verbatim>\<open>updateDoc(scheduleDocRef, { [day]: updatedLessons })\<close>\<close>

definition write_day :: "sched_doc option \<Rightarrow> day \<Rightarrow> lesson list \<Rightarrow> sched_result" where
  "write_day docOpt d ls =
     (case docOpt of None \<Rightarrow> Inl NoSuchDocument
      | Some doc \<Rightarrow> Inr (Some (doc\<lparr>day_lessons := (day_lessons doc)(d := ls)\<rparr>)))"

definition current_day_lessons :: "sched_doc option \<Rightarrow> day \<Rightarrow> lesson list" where
  "current_day_lessons docOpt d = (case docOpt of None \<Rightarrow> [] | Some doc \<Rightarrow> day_lessons doc d)"

section \<open>The handlers\<close>

text \<open>
  The array \<^verbatim>\<open>updatedLessons\<close> that \<^verbatim>\<open>updateLesson\<close> computes from the day's
  current lessons (lines 98--131): \<open>None\<close> is the early \<^verbatim>\<open>return\<close> of a clear on
  an empty slot, where nothing is written.
\<close>

definition updatedLessons ::
  "settings \<Rightarrow> nat \<Rightarrow> day \<Rightarrow> lesson_data option \<Rightarrow> nat \<Rightarrow> lesson list \<Rightarrow> lesson list option" where
  "updatedLessons st now d lessonData slot dayLessons =
     (let existing = find_index (\<lambda>l. lessonSlot l = slot) dayLessons;
          label = str_at_or_empty (timeSlots st) slot
      in case lessonData of
           Some ld \<Rightarrow>
             Some (case existing of
                     Some i \<Rightarrow> dayLessons[i := merge_lesson (dayLessons ! i) ld slot label]
                   | None \<Rightarrow> dayLessons @ [new_lesson d slot now label ld])
         | None \<Rightarrow>
             (case existing of
                Some _ \<Rightarrow> Some (filter (\<lambda>l. lessonSlot l \<noteq> slot) dayLessons)
              | None \<Rightarrow> None))"

text \<open>
  \<^verbatim>\<open>updateLesson(day, lessonData, lessonSlot)\<close>, lines 90--143. The parameters in
  front are the hook's context: the signed-in user, the hook's local settings and the
  clock reading used in the generated id.
\<close>

definition updateLesson ::
  "uid option \<Rightarrow> settings \<Rightarrow> nat \<Rightarrow> day \<Rightarrow> lesson_data option \<Rightarrow> nat \<Rightarrow> sched_doc option \<Rightarrow> sched_result" where
  "updateLesson userId st now d lessonData slot docOpt =
     (if userId = None then Inr docOpt else
      case updatedLessons st now d lessonData slot (current_day_lessons docOpt d) of
        None \<Rightarrow> Inr docOpt
      | Some ls \<Rightarrow> write_day docOpt d ls)"

text \<open>
  \<^verbatim>\<open>removedSlotsIndices\<close>: the old slot indices \<open>i\<close> with \<^verbatim>\<open>!newTimeSlots[i]\<close>,
  that is, out of range of the new list or an empty label there.
\<close>

definition removedSlotsIndices :: "string list \<Rightarrow> string list \<Rightarrow> nat list" where
  "removedSlotsIndices old new = filter (\<lambda>i. str_at_or_empty new i = []) [0..<length old]"

text \<open>\<^verbatim>\<open>dayLessons.filter(l => l.lessonSlot < newTimeSlots.length).map((l, index) => ({ ...l, lessonSlot: index }))\<close>\<close>

definition cleanLessons :: "nat \<Rightarrow> lesson list \<Rightarrow> lesson list" where
  "cleanLessons n ls = reindex_from (\<lambda>i l. l\<lparr>lessonSlot := i\<rparr>) (filter (\<lambda>l. lessonSlot l < n) ls)"

definition apply_settings_patch :: "settings_patch \<Rightarrow> settings \<Rightarrow> settings" where
  "apply_settings_patch p s =
     s\<lparr>timeSlots := (case new_timeSlots p of Some ts \<Rightarrow> ts | None \<Rightarrow> timeSlots s),
       lessonDuration := (case new_lessonDuration p of Some n \<Rightarrow> n | None \<Rightarrow> lessonDuration s)\<rparr>"

text \<open>
  \<^verbatim>\<open>updateSettings(newSettings)\<close>, lines 145--194. One write batch: when the new time
  slots drop an old index, every day's lessons are cleaned (read from the document, if
  it exists); then the settings fields are written. The batch commits both updates or,
  when the document does not exist, neither.
\<close>

definition updateSettings :: "uid option \<Rightarrow> settings \<Rightarrow> settings_patch \<Rightarrow> sched_doc option \<Rightarrow> sched_result" where
  "updateSettings userId st newSettings docOpt =
     (if userId = None then Inr docOpt else
      let cleaned =
            (case new_timeSlots newSettings of
               None \<Rightarrow> None
             | Some nts \<Rightarrow>
                 if removedSlotsIndices (timeSlots st) nts \<noteq> []
                 then map_option (\<lambda>doc. \<lambda>d. cleanLessons (length nts) (day_lessons doc d)) docOpt
                 else None)
      in case docOpt of
           None \<Rightarrow> Inl NoSuchDocument
         | Some doc \<Rightarrow>
             Inr (Some (doc\<lparr>day_lessons := (case cleaned of None \<Rightarrow> day_lessons doc | Some f \<Rightarrow> f),
                            doc_settings := apply_settings_patch newSettings (doc_settings doc)\<rparr>)))"

text \<open>
  \<^verbatim>\<open>setSchedule(newSchedule)\<close>, lines 196--214: the items are folded into one object
  keyed by day (a later item for the same day wins) and written with \<^verbatim>\<open>updateDoc\<close>.
\<close>

type_synonym weekly_schedule_item = "day \<times> lesson list"

definition setSchedule :: "uid option \<Rightarrow> weekly_schedule_item list \<Rightarrow> sched_doc option \<Rightarrow> sched_result" where
  "setSchedule userId items docOpt =
     (if userId = None then Inr docOpt else
      case docOpt of
        None \<Rightarrow> Inl NoSuchDocument
      | Some doc \<Rightarrow> Inr (Some (doc\<lparr>day_lessons := foldl (\<lambda>f (d, ls). f(d := ls)) (day_lessons doc) items\<rparr>)))"

text \<open>
  The snapshot listener, lines 43--84: an existing document refreshes the local view
  (\<^verbatim>\<open>data.lessonDuration || 40\<close>: a stored duration 0 reads as 40); a missing one is
  created with the defaults.
\<close>

definition snapshot_settings :: "sched_doc \<Rightarrow> settings" where
  "snapshot_settings doc =
     \<lparr>timeSlots = timeSlots (doc_settings doc),
      lessonDuration = (if lessonDuration (doc_settings doc) = 0 then 40 else lessonDuration (doc_settings doc))\<rparr>"

definition onSnapshot :: "sched_doc option \<Rightarrow> sched_doc \<times> settings" where
  "onSnapshot docOpt =
     (case docOpt of None \<Rightarrow> (default_doc, defaultSettings)
      | Some doc \<Rightarrow> (doc, snapshot_settings doc))"

section \<open>The schedule page, \<^verbatim>\<open>src/src/components/ders-programi.tsx\<close>\<close>

text \<open>
  The page shows the hook's schedule as one \<open>(day, lessons)\<close> item per day in
  \<open>dayOrder\<close> (hook lines 47--50) and finds the lesson of a cell with
  \<^verbatim>\<open>getLessonForSlot\<close> (page lines 202--205).
\<close>

definition schedule_view :: "sched_doc \<Rightarrow> weekly_schedule_item list" where
  "schedule_view doc = map (\<lambda>d. (d, day_lessons doc d)) dayOrder"

definition getLessonForSlot :: "weekly_schedule_item list \<Rightarrow> day \<Rightarrow> nat \<Rightarrow> lesson option" where
  "getLessonForSlot sched d slot =
     (case find (\<lambda>it. fst it = d) sched of None \<Rightarrow> None
      | Some it \<Rightarrow> find (\<lambda>l. lessonSlot l = slot) (snd it))"

text \<open>
  \<^verbatim>\<open>handleSettingsBlur(field, value)\<close> (lines 192--200): the new value is sent to
  \<open>updateSettings\<close> only when its JSON differs from the hook's settings. Removing a
  time slot (lines 187--190) and adding one (lines 182--185) go through it.
\<close>

datatype settings_value = TimeSlotsValue "string list" | LessonDurationValue nat

definition handleSettingsBlur :: "uid option \<Rightarrow> settings \<Rightarrow> settings_value \<Rightarrow> sched_doc option \<Rightarrow> sched_result" where
  "handleSettingsBlur user st v docOpt =
     (if user = None then Inr docOpt else
      case v of
        TimeSlotsValue ts \<Rightarrow>
          if ts \<noteq> timeSlots st
          then updateSettings user st \<lparr>new_timeSlots = Some ts, new_lessonDuration = None\<rparr> docOpt
          else Inr docOpt
      | LessonDurationValue n \<Rightarrow>
          if n \<noteq> lessonDuration st
          then updateSettings user st \<lparr>new_timeSlots = None, new_lessonDuration = Some n\<rparr> docOpt
          else Inr docOpt)"

definition handleRemoveTimeSlot :: "uid option \<Rightarrow> settings \<Rightarrow> string list \<Rightarrow> nat \<Rightarrow> sched_doc option \<Rightarrow> sched_result" where
  "handleRemoveTimeSlot user st localSlots indexToRemove docOpt =
     handleSettingsBlur user st
       (TimeSlotsValue (map snd (filter (\<lambda>(index, _). index \<noteq> indexToRemove) (enumerate 0 localSlots)))) docOpt"

definition handleAddNewTimeSlot :: "uid option \<Rightarrow> settings \<Rightarrow> string list \<Rightarrow> sched_doc option \<Rightarrow> sched_result" where
  "handleAddNewTimeSlot user st localSlots docOpt =
     handleSettingsBlur user st (TimeSlotsValue (localSlots @ [''16:00''])) docOpt"

section \<open>The hook as a state machine\<close>

text \<open>
  One browser tab: the remote document and the hook's local settings. An operation runs
  its handler with the local settings; a rejected write leaves the document as it was
  (the toast is the only effect); then the snapshot listener delivers the document and
  refreshes the local settings. The page only offers lesson cells for the configured
  slots, which is the guard \<open>ui_allows\<close>; an imported schedule is assumed to respect
  the slot count.
\<close>

record hook_state =
  remote :: "sched_doc option"
  hook_settings :: settings

datatype sched_op =
    UpdateLessonOp day "lesson_data option" nat nat
  | UpdateSettingsOp settings_patch
  | SetScheduleOp "weekly_schedule_item list"

definition run_handler :: "uid \<Rightarrow> settings \<Rightarrow> sched_op \<Rightarrow> sched_doc option \<Rightarrow> sched_result" where
  "run_handler u st op docOpt =
     (case op of
        UpdateLessonOp d ld slot now \<Rightarrow> updateLesson (Some u) st now d ld slot docOpt
      | UpdateSettingsOp p \<Rightarrow> updateSettings (Some u) st p docOpt
      | SetScheduleOp items \<Rightarrow> setSchedule (Some u) items docOpt)"

definition commit :: "sched_result \<Rightarrow> sched_doc option \<Rightarrow> sched_doc option" where
  "commit r docOpt = (case r of Inl _ \<Rightarrow> docOpt | Inr docOpt' \<Rightarrow> docOpt')"

definition hook_mount :: "sched_doc option \<Rightarrow> hook_state" where
  "hook_mount docOpt = (case onSnapshot docOpt of (doc, st) \<Rightarrow> \<lparr>remote = Some doc, hook_settings = st\<rparr>)"

definition hook_step :: "uid \<Rightarrow> hook_state \<Rightarrow> sched_op \<Rightarrow> hook_state" where
  "hook_step u s op = hook_mount (commit (run_handler u (hook_settings s) op (remote s)) (remote s))"

definition wf_day :: "nat \<Rightarrow> lesson list \<Rightarrow> bool" where
  "wf_day n ls \<longleftrightarrow> distinct (map lessonSlot ls) \<and> (\<forall>l \<in> set ls. lessonSlot l < n)"

definition wf_doc :: "sched_doc \<Rightarrow> bool" where
  "wf_doc doc \<longleftrightarrow> (\<forall>d \<in> set dayOrder. wf_day (length (timeSlots (doc_settings doc))) (day_lessons doc d))"

definition ui_allows :: "settings \<Rightarrow> sched_op \<Rightarrow> bool" where
  "ui_allows st op =
     (case op of
        UpdateLessonOp d ld slot now \<Rightarrow> slot < length (timeSlots st)
      | UpdateSettingsOp p \<Rightarrow> True
      | SetScheduleOp items \<Rightarrow> list_all (\<lambda>(d, ls). wf_day (length (timeSlots st)) ls) items)"

inductive hook_reachable :: "uid \<Rightarrow> hook_state \<Rightarrow> bool" for u where
  mount: "(case docOpt of None \<Rightarrow> True | Some doc \<Rightarrow> wf_doc doc) \<Longrightarrow> hook_reachable u (hook_mount docOpt)"
| step: "hook_reachable u s \<Longrightarrow> ui_allows (hook_settings s) op \<Longrightarrow> hook_reachable u (hook_step u s op)"

definition hook_inv :: "hook_state \<Rightarrow> bool" where
  "hook_inv s =
     (case remote s of None \<Rightarrow> False
      | Some doc \<Rightarrow> wf_doc doc \<and> timeSlots (hook_settings s) = timeSlots (doc_settings doc))"

section \<open>Several tabs on one document\<close>

text \<open>
  Two tabs of the same teacher share the document; each keeps its own settings copy,
  which its listener refreshes only when a snapshot is delivered to it. Events
  interleave freely; a run is checked against the page's guard at every step.
\<close>

record sched_sys =
  shared :: "sched_doc option"
  tab_settings :: "nat \<Rightarrow> settings"

datatype sys_event = Act nat sched_op | Deliver nat

definition sys_step :: "uid \<Rightarrow> sched_sys \<Rightarrow> sys_event \<Rightarrow> sched_sys" where
  "sys_step u s e =
     (case e of
        Act c op \<Rightarrow> s\<lparr>shared := commit (run_handler u (tab_settings s c) op (shared s)) (shared s)\<rparr>
      | Deliver c \<Rightarrow>
          (case onSnapshot (shared s) of (doc, st) \<Rightarrow>
             s\<lparr>shared := Some doc, tab_settings := (tab_settings s)(c := st)\<rparr>))"

definition event_allowed :: "sched_sys \<Rightarrow> sys_event \<Rightarrow> bool" where
  "event_allowed s e = (case e of Act c op \<Rightarrow> ui_allows (tab_settings s c) op | Deliver c \<Rightarrow> True)"

fun sys_run :: "uid \<Rightarrow> sched_sys \<Rightarrow> sys_event list \<Rightarrow> sched_sys option" where
  "sys_run u s [] = Some s"
| "sys_run u s (e # es) = (if event_allowed s e then sys_run u (sys_step u s e) es else None)"

section \<open>Abstract view: the lesson grid\<close>

text \<open>
  What the schedule promises: a partial map from (day, slot) to the lesson shown there.
  \<open>lesson_cell\<close> is the specification of one \<open>updateLesson\<close> on its cell: merge
  into an occupied slot, insert a new lesson into an empty one, clear on \<open>null\<close>.
\<close>

definition grid :: "sched_doc \<Rightarrow> day \<Rightarrow> nat \<Rightarrow> lesson option" where
  "grid doc = getLessonForSlot (schedule_view doc)"


definition lesson_cell :: "settings \<Rightarrow> nat \<Rightarrow> day \<Rightarrow> lesson_data option \<Rightarrow> nat \<Rightarrow> lesson option \<Rightarrow> lesson option" where
  "lesson_cell st now d lessonData slot old =
     (case lessonData of None \<Rightarrow> None
      | Some ld \<Rightarrow> Some (case old of
                          Some l \<Rightarrow> merge_lesson l ld slot (str_at_or_empty (timeSlots st) slot)
                        | None \<Rightarrow> new_lesson d slot now (str_at_or_empty (timeSlots st) slot) ld))"

section \<open>Lemmas\<close>

lemma set_dayOrder [simp]: "set dayOrder = UNIV"
  by (auto simp: dayOrder_def intro: day.exhaust)

lemma wf_day_slots:
  "wf_day n ls \<longleftrightarrow> distinct (map lessonSlot ls) \<and> (\<forall>s \<in> set (map lessonSlot ls). s < n)"
  by (simp add: wf_day_def)

lemma wf_doc_iff: "wf_doc doc \<longleftrightarrow> (\<forall>d. wf_day (length (timeSlots (doc_settings doc))) (day_lessons doc d))"
  by (simp add: wf_doc_def)

lemma find_schedule_view: "find (\<lambda>it. fst it = d) (schedule_view doc) = Some (d, day_lessons doc d)"
  by (cases d) (simp_all add: schedule_view_def dayOrder_def)

lemma getLessonForSlot_view:
  "getLessonForSlot (schedule_view doc) d slot = find (\<lambda>l. lessonSlot l = slot) (day_lessons doc d)"
  by (simp add: getLessonForSlot_def find_schedule_view)

lemma wf_day_updatedLessons:
  assumes wf: "wf_day n ls" and slot: "slot < n"
    and upd: "updatedLessons st now d lessonData slot ls = Some ls'"
  shows "wf_day n ls'"
proof (cases lessonData)
  case None
  with upd have "ls' = filter (\<lambda>l. lessonSlot l \<noteq> slot) ls"
    by (auto simp: updatedLessons_def Let_def split: option.splits)
  with wf show ?thesis by (auto simp: wf_day_def distinct_map_filter)
next
  case (Some ld)
  show ?thesis
  proof (cases "find_index (\<lambda>l. lessonSlot l = slot) ls")
    case None
    with upd Some have "ls' = ls @ [new_lesson d slot now (str_at_or_empty (timeSlots st) slot) ld]"
      by (simp add: updatedLessons_def)
    with None wf slot show ?thesis
      by (auto simp: wf_day_def new_lesson_def)
  next
    case (Some i)
    from find_index_SomeD [OF Some] have i: "i < length ls" "lessonSlot (ls ! i) = slot" by auto
    with upd Some \<open>lessonData = Some ld\<close>
    have ls': "ls' = ls[i := merge_lesson (ls ! i) ld slot (str_at_or_empty (timeSlots st) slot)]"
      by (simp add: updatedLessons_def)
    have "map lessonSlot ls' = (map lessonSlot ls)[i := slot]"
      by (simp add: ls' map_update merge_lesson_def)
    also have "\<dots> = map lessonSlot ls"
      using i by (metis list_update_id nth_map)
    finally have "map lessonSlot ls' = map lessonSlot ls" .
    with wf show ?thesis by (simp add: wf_day_slots)
  qed
qed

lemma find_updatedLessons:
  "find (\<lambda>l. lessonSlot l = s) (case updatedLessons st now d lessonData slot ls of None \<Rightarrow> ls | Some ls' \<Rightarrow> ls')
     = (if s = slot then lesson_cell st now d lessonData slot (find (\<lambda>l. lessonSlot l = slot) ls)
        else find (\<lambda>l. lessonSlot l = s) ls)"
proof (cases lessonData)
  case None
  then show ?thesis
    by (auto simp: updatedLessons_def lesson_cell_def find_None_iff find_filter_implied split: option.splits)
next
  case (Some ld)
  show ?thesis
  proof (cases "find_index (\<lambda>l. lessonSlot l = slot) ls")
    case None
    have f: "find (\<lambda>l. lessonSlot l = slot) ls = None" using None by (simp add: find_None_iff)
    from Some show ?thesis
      unfolding updatedLessons_def Let_def None
      by (simp add: f lesson_cell_def find_append_eq new_lesson_def split: option.split)
  next
    case (Some i)
    with \<open>lessonData = Some ld\<close> show ?thesis
      by (auto simp: updatedLessons_def lesson_cell_def merge_lesson_def find_index_find
            find_update_first find_update_other)
  qed
qed

lemma grid_eq: "grid doc d s = find (\<lambda>l. lessonSlot l = s) (day_lessons doc d)"
  by (simp add: grid_def getLessonForSlot_view)

lemma updateLesson_Some_doc:
  "updateLesson (Some u) st now d lessonData slot (Some doc) =
     Inr (Some (doc\<lparr>day_lessons := (day_lessons doc)(d :=
       case updatedLessons st now d lessonData slot (day_lessons doc d) of None \<Rightarrow> day_lessons doc d | Some ls \<Rightarrow> ls)\<rparr>))"
  by (auto simp: updateLesson_def write_day_def current_day_lessons_def fun_upd_idem split: option.split)

text \<open>
  C2 (refinement). On an existing document, \<open>updateLesson\<close> succeeds, leaves the
  settings alone, and changes the lesson grid in exactly one cell, the one of its day and
  slot, as \<open>lesson_cell\<close> specifies: merge into an occupied slot, insert a new lesson
  into an empty one, clear on \<open>null\<close>.
\<close>

theorem updateLesson_refines_grid:
  "\<exists>doc'. updateLesson (Some u) st now d lessonData slot (Some doc) = Inr (Some doc') \<and>
     doc_settings doc' = doc_settings doc \<and>
     grid doc' = (\<lambda>d' s. if d' = d \<and> s = slot
                          then lesson_cell st now d lessonData slot (grid doc d slot)
                          else grid doc d' s)"
  by (auto intro!: ext simp: updateLesson_Some_doc grid_eq find_updatedLessons)

lemma updateLesson_keeps_wf:
  assumes "wf_doc doc" and "slot < length (timeSlots (doc_settings doc))"
    and "updateLesson u st now d lessonData slot (Some doc) = Inr (Some doc')"
  shows "wf_doc doc'"
proof (cases u)
  case None
  with assms show ?thesis by (simp add: updateLesson_def)
next
  case (Some uid)
  with assms(3) have doc': "doc' = doc\<lparr>day_lessons := (day_lessons doc)(d :=
       case updatedLessons st now d lessonData slot (day_lessons doc d) of None \<Rightarrow> day_lessons doc d | Some ls \<Rightarrow> ls)\<rparr>"
    by (simp add: updateLesson_Some_doc)
  let ?n = "length (timeSlots (doc_settings doc))"
  have "wf_day ?n (case updatedLessons st now d lessonData slot (day_lessons doc d) of
                     None \<Rightarrow> day_lessons doc d | Some ls \<Rightarrow> ls)"
  proof (cases "updatedLessons st now d lessonData slot (day_lessons doc d)")
    case None
    with assms(1) show ?thesis by (simp add: wf_doc_iff)
  next
    case (Some ls)
    from assms(1) have "wf_day ?n (day_lessons doc d)" by (simp add: wf_doc_iff)
    from wf_day_updatedLessons [OF this assms(2) Some] Some show ?thesis by simp
  qed
  with assms(1) show ?thesis by (simp add: doc' wf_doc_iff)
qed

lemma cleanLessons_slots:
  "map lessonSlot (cleanLessons n ls) = [0..<length (filter (\<lambda>l. lessonSlot l < n) ls)]"
  unfolding cleanLessons_def by (rule reindex_from_positions) simp

lemma cleanLessons_wf:
  assumes "wf_day m ls" shows "wf_day n (cleanLessons n ls)"
proof -
  let ?f = "filter (\<lambda>l. lessonSlot l < n) ls"
  have "distinct (map lessonSlot ?f)" using assms by (simp add: wf_day_def distinct_map_filter)
  moreover have "\<forall>s \<in> set (map lessonSlot ?f). s < n" by auto
  ultimately have "length (map lessonSlot ?f) \<le> n" by (rule distinct_bounded_length)
  then show ?thesis by (simp add: wf_day_slots cleanLessons_slots)
qed

lemma wf_day_mono: "wf_day m ls \<Longrightarrow> m \<le> n \<Longrightarrow> wf_day n ls"
  by (auto simp: wf_day_def)

lemma removedSlotsIndices_Nil:
  assumes "removedSlotsIndices old new = []" shows "length old \<le> length new"
proof (rule ccontr)
  assume "\<not> length old \<le> length new"
  then have "length new \<in> set (removedSlotsIndices old new)"
    by (simp add: removedSlotsIndices_def str_at_or_empty_def)
  with assms show False by simp
qed

lemma updateSettings_keeps_wf:
  assumes wf: "wf_doc doc" and synced: "timeSlots st = timeSlots (doc_settings doc)"
    and upd: "updateSettings u st p (Some doc) = Inr (Some doc')"
  shows "wf_doc doc'"
proof (cases "u = None")
  case True
  with upd wf show ?thesis by (simp add: updateSettings_def)
next
  case False
  show ?thesis
  proof (cases "new_timeSlots p")
    case None
    with upd False wf show ?thesis
      by (auto simp: updateSettings_def wf_doc_iff apply_settings_patch_def)
  next
    case (Some nts)
    show ?thesis
    proof (cases "removedSlotsIndices (timeSlots st) nts = []")
      case True
      then have "length (timeSlots (doc_settings doc)) \<le> length nts"
        using removedSlotsIndices_Nil synced by metis
      with wf have "\<forall>d. wf_day (length nts) (day_lessons doc d)"
        by (auto simp: wf_doc_iff intro: wf_day_mono)
      with upd False Some True show ?thesis
        by (auto simp: updateSettings_def wf_doc_iff apply_settings_patch_def)
    next
      case nonempty: False
      from wf have "\<forall>d. wf_day (length nts) (cleanLessons (length nts) (day_lessons doc d))"
        by (meson cleanLessons_wf wf_doc_iff)
      with upd False Some nonempty show ?thesis
        by (auto simp: updateSettings_def wf_doc_iff apply_settings_patch_def intro: cleanLessons_wf)
    qed
  qed
qed


lemma wf_default_doc: "wf_doc default_doc"
  by (simp add: wf_doc_def default_doc_def wf_day_def)

lemma doc_settings_default_doc [simp]: "doc_settings default_doc = defaultSettings"
  by (simp add: default_doc_def)

lemma hook_mount_inv:
  "(case docOpt of None \<Rightarrow> True | Some doc \<Rightarrow> wf_doc doc) \<Longrightarrow> hook_inv (hook_mount docOpt)"
  by (auto simp: hook_mount_def onSnapshot_def hook_inv_def wf_default_doc
      snapshot_settings_def split: option.splits)

lemma foldl_day_update:
  "foldl (\<lambda>f (d, ls). f(d := ls)) g items d \<in> insert (g d) (snd ` set items)"
proof (induction items arbitrary: g)
  case Nil then show ?case by simp
next
  case (Cons it items)
  obtain d' ls' where it: "it = (d', ls')" by fastforce
  from Cons.IH [of "g(d' := ls')"] it show ?case by (auto split: if_splits)
qed

lemma setSchedule_keeps_wf:
  assumes "wf_doc doc" and "list_all (\<lambda>(d, ls). wf_day (length (timeSlots (doc_settings doc))) ls) items"
    and "setSchedule u items (Some doc) = Inr (Some doc')"
  shows "wf_doc doc'"
proof -
  let ?n = "length (timeSlots (doc_settings doc))"
  have "\<forall>d. wf_day ?n (foldl (\<lambda>f (d, ls). f(d := ls)) (day_lessons doc) items d)"
  proof
    fix d
    from foldl_day_update [of "day_lessons doc" items d] assms(1,2)
    show "wf_day ?n (foldl (\<lambda>f (d, ls). f(d := ls)) (day_lessons doc) items d)"
      by (auto simp: wf_doc_iff list_all_iff)
  qed
  with assms(1,3) show ?thesis
    by (auto simp: setSchedule_def wf_doc_iff split: if_splits)
qed

lemma updateSettings_Some_doc: "\<exists>doc'. updateSettings (Some u) st p (Some doc) = Inr (Some doc')"
  by (simp add: updateSettings_def Let_def)

lemma run_handler_keeps_wf:
  assumes "hook_inv s" and "ui_allows (hook_settings s) op"
    and "commit (run_handler u (hook_settings s) op (remote s)) (remote s) = docOpt"
  shows "case docOpt of None \<Rightarrow> True | Some doc \<Rightarrow> wf_doc doc"
proof -
  from assms(1) obtain doc where r: "remote s = Some doc" and wf: "wf_doc doc"
    and sync: "timeSlots (hook_settings s) = timeSlots (doc_settings doc)"
    by (auto simp: hook_inv_def split: option.splits)
  show ?thesis
  proof (cases op)
    case (UpdateLessonOp d ld slot now)
    with assms(2) sync have "slot < length (timeSlots (doc_settings doc))" by (simp add: ui_allows_def)
    obtain doc' where upd: "updateLesson (Some u) (hook_settings s) now d ld slot (Some doc) = Inr (Some doc')"
      using updateLesson_Some_doc by blast
    from updateLesson_keeps_wf [OF wf \<open>slot < _\<close> upd] assms(3) UpdateLessonOp r upd
    show ?thesis by (auto simp: run_handler_def commit_def)
  next
    case (UpdateSettingsOp p)
    obtain doc' where upd: "updateSettings (Some u) (hook_settings s) p (Some doc) = Inr (Some doc')"
      using updateSettings_Some_doc by blast
    from updateSettings_keeps_wf [OF wf sync upd] assms(3) UpdateSettingsOp r upd
    show ?thesis by (auto simp: run_handler_def commit_def)
  next
    case (SetScheduleOp items)
    let ?doc' = "doc\<lparr>day_lessons := foldl (\<lambda>f (d, ls). f(d := ls)) (day_lessons doc) items\<rparr>"
    have upd: "setSchedule (Some u) items (Some doc) = Inr (Some ?doc')"
      by (simp add: setSchedule_def)
    from assms(2) SetScheduleOp sync
    have "list_all (\<lambda>(d, ls). wf_day (length (timeSlots (doc_settings doc))) ls) items"
      by (simp add: ui_allows_def)
    from setSchedule_keeps_wf [OF wf this upd] assms(3) SetScheduleOp r upd
    show ?thesis by (auto simp: run_handler_def commit_def)
  qed
qed

text \<open>
  C1 (invariant). In every state of one tab's hook that the page can reach (mount on an
  absent or well-formed document, then any handler whose lesson cell is one the page
  shows, each followed by the listener's snapshot), the document exists, no day has two
  lessons in one slot, every lesson's slot is below the number of time slots, and the
  hook's settings carry the document's time slots.
\<close>

theorem hook_reachable_inv: "hook_reachable u s \<Longrightarrow> hook_inv s"
proof (induction rule: hook_reachable.induct)
  case (mount docOpt)
  then show ?case by (rule hook_mount_inv)
next
  case (step s op)
  then show ?case
    unfolding hook_step_def by (intro hook_mount_inv run_handler_keeps_wf) auto
qed

lemma remove_index_enumerate:
  "map snd (filter (\<lambda>(j, _). j \<noteq> i) (enumerate k xs)) =
     (if k \<le> i then take (i - k) xs @ drop (Suc (i - k)) xs else xs)"
proof (induction xs arbitrary: k)
  case Nil then show ?case by simp
next
  case (Cons x xs)
  show ?case
  proof (cases "k \<le> i")
    case True
    then show ?thesis
    proof (cases "k = i")
      case True
      with Cons.IH [of "Suc k"] show ?thesis by simp
    next
      case False
      with \<open>k \<le> i\<close> have e: "i - k = Suc (i - Suc k)" by arith
      from False Cons.IH [of "Suc k"] show ?thesis by (simp add: e)
    qed
  next
    case False
    with Cons.IH [of "Suc k"] show ?thesis by simp
  qed
qed

lemma length_remove_index:
  "i < length xs \<Longrightarrow> length (map snd (filter (\<lambda>(j, _). j \<noteq> i) (enumerate 0 xs))) = length xs - 1"
  by (simp add: remove_index_enumerate)

lemma cleanLessons_content:
  "map (\<lambda>l. l\<lparr>lessonSlot := 0\<rparr>) (cleanLessons n ls) = map (\<lambda>l. l\<lparr>lessonSlot := 0\<rparr>) (filter (\<lambda>l. lessonSlot l < n) ls)"
  unfolding cleanLessons_def by (rule nth_equalityI) simp_all

lemma removedSlotsIndices_shorter:
  "length new < length old \<Longrightarrow> removedSlotsIndices old new \<noteq> []"
  using removedSlotsIndices_Nil by fastforce

lemma updateSettings_cleaned:
  assumes "new_timeSlots p = Some nts" and "removedSlotsIndices (timeSlots st) nts \<noteq> []"
  shows "updateSettings (Some u) st p (Some doc) =
           Inr (Some (doc\<lparr>day_lessons := (\<lambda>d. cleanLessons (length nts) (day_lessons doc d)),
                          doc_settings := apply_settings_patch p (doc_settings doc)\<rparr>))"
  using assms by (simp add: updateSettings_def)

text \<open>
  C3 (functional). When the new time slots drop an old index, \<open>updateSettings\<close>
  writes the new slots and, on every day, keeps exactly the lessons whose slot is below
  the new count, in their array order and otherwise unchanged, renumbered
  \<open>0, 1, ..., k-1\<close> by their position in the array.
\<close>

theorem updateSettings_reindexes:
  assumes "new_timeSlots p = Some nts" and "removedSlotsIndices (timeSlots st) nts \<noteq> []"
  shows "\<exists>doc'. updateSettings (Some u) st p (Some doc) = Inr (Some doc') \<and>
           timeSlots (doc_settings doc') = nts \<and>
           (\<forall>d. map lessonSlot (day_lessons doc' d) = [0..<length (filter (\<lambda>l. lessonSlot l < length nts) (day_lessons doc d))] \<and>
                map (\<lambda>l. l\<lparr>lessonSlot := 0\<rparr>) (day_lessons doc' d) =
                map (\<lambda>l. l\<lparr>lessonSlot := 0\<rparr>) (filter (\<lambda>l. lessonSlot l < length nts) (day_lessons doc d)))"
  using assms by (simp add: updateSettings_cleaned cleanLessons_slots cleanLessons_content apply_settings_patch_def)

text \<open>
  C4 (functional). Removing time slot \<open>i\<close> on the page (with the page's slots equal
  to the hook's) deletes label \<open>i\<close>, but what happens to the lessons does not depend
  on \<open>i\<close>: every day keeps the lessons below the old last slot and renumbers them by
  position. The lesson of the removed slot survives and the one of the last slot is
  deleted.
\<close>

theorem handleRemoveTimeSlot_ignores_index:
  assumes "i < length (timeSlots st)"
  shows "handleRemoveTimeSlot (Some u) st (timeSlots st) i (Some doc) =
           Inr (Some (doc\<lparr>day_lessons := (\<lambda>d. cleanLessons (length (timeSlots st) - 1) (day_lessons doc d)),
             doc_settings := (doc_settings doc)\<lparr>timeSlots :=
               map snd (filter (\<lambda>(j, _). j \<noteq> i) (enumerate 0 (timeSlots st)))\<rparr>\<rparr>))"
proof -
  let ?new = "map snd (filter (\<lambda>(j, _). j \<noteq> i) (enumerate 0 (timeSlots st)))"
  have len: "length ?new = length (timeSlots st) - 1" using assms by (rule length_remove_index)
  with assms have "length ?new \<noteq> length (timeSlots st)" by linarith
  then have "?new \<noteq> timeSlots st" by metis
  moreover have "removedSlotsIndices (timeSlots st) ?new \<noteq> []"
    using assms len by (intro removedSlotsIndices_shorter) simp
  moreover have "length (filter (\<lambda>(j, _). j \<noteq> i) (enumerate 0 (timeSlots st))) = length (timeSlots st) - 1"
    using len by simp
  ultimately show ?thesis
    by (simp add: handleRemoveTimeSlot_def handleSettingsBlur_def updateSettings_cleaned
        apply_settings_patch_def)
qed

text \<open>Removing the third of the eight default slots: the lesson in it survives at slot 0
  with its old time label, the lesson in the last slot is deleted.\<close>

theorem remove_middle_slot_keeps_its_lesson:
  "handleRemoveTimeSlot (Some ''t'') defaultSettings (timeSlots defaultSettings) 2
     (Some (default_doc\<lparr>day_lessons := (\<lambda>_. [])(Pazartesi :=
        [\<lparr>lesson_id = ''a'', lessonSlot = 2, subject = ''Mat'', grade = ''5'', lesson_class = ''A'', time = ''10:10'', planId = None\<rparr>,
         \<lparr>lesson_id = ''b'', lessonSlot = 7, subject = ''Fen'', grade = ''5'', lesson_class = ''A'', time = ''15:10'', planId = None\<rparr>])\<rparr>))
   = Inr (Some (default_doc\<lparr>day_lessons := (\<lambda>_. [])(Pazartesi :=
        [\<lparr>lesson_id = ''a'', lessonSlot = 0, subject = ''Mat'', grade = ''5'', lesson_class = ''A'', time = ''10:10'', planId = None\<rparr>]),
        doc_settings := defaultSettings\<lparr>timeSlots := [''08:30'', ''09:20'', ''11:00'', ''11:50'', ''13:30'', ''14:20'', ''15:10'']\<rparr>\<rparr>))"
proof -
  have "(2::nat) < length (timeSlots defaultSettings)" by (simp add: defaultSettings_def)
  from handleRemoveTimeSlot_ignores_index [OF this] show ?thesis
    by (simp add: defaultSettings_def default_doc_def cleanLessons_def reindex_from_def fun_eq_iff)
qed


text \<open>
  C6 (error). On a missing document, adding or editing a lesson is rejected (Firestore's
  \<^verbatim>\<open>updateDoc\<close> fails and the handler shows its toast), clearing a lesson is a no-op
  without a write, and without a signed-in user nothing happens at all.
\<close>

theorem updateLesson_missing_doc:
  "updateLesson (Some u) st now d lessonData slot None =
     (case lessonData of None \<Rightarrow> Inr None | Some _ \<Rightarrow> Inl NoSuchDocument)
   \<and> updateLesson None st now d lessonData slot docOpt = Inr docOpt"
  by (simp add: updateLesson_def updatedLessons_def current_day_lessons_def write_day_def Let_def
      split: option.split)

text \<open>A reachable state: mount on a missing document, then add a lesson in slot 3.\<close>

theorem hook_reachable_inv_witness:
  "hook_reachable ''t'' (hook_step ''t'' (hook_mount None)
      (UpdateLessonOp Pazartesi (Some \<lparr>ld_subject = ''Mat'', ld_grade = ''5'', ld_class = ''A'',
         ld_time = None, ld_planId = None\<rparr>) 3 0))
   \<and> hook_inv (hook_step ''t'' (hook_mount None)
      (UpdateLessonOp Pazartesi (Some \<lparr>ld_subject = ''Mat'', ld_grade = ''5'', ld_class = ''A'',
         ld_time = None, ld_planId = None\<rparr>) 3 0))"
proof -
  have m: "hook_reachable ''t'' (hook_mount None)" by (rule hook_reachable.mount) simp
  have r: "hook_reachable ''t'' (hook_step ''t'' (hook_mount None)
      (UpdateLessonOp Pazartesi (Some \<lparr>ld_subject = ''Mat'', ld_grade = ''5'', ld_class = ''A'',
         ld_time = None, ld_planId = None\<rparr>) 3 0))"
    by (rule hook_reachable.step [OF m])
       (simp add: ui_allows_def hook_mount_def onSnapshot_def defaultSettings_def)
  from r hook_reachable_inv [OF r] show ?thesis by simp
qed

text \<open>The two-slot-removal case of C3 on a concrete document: from the eight default slots to
  the first six, a lesson in slot 7 is dropped and one in slot 4 renumbered to 0.\<close>

theorem updateSettings_reindexes_witness:
  "new_timeSlots \<lparr>new_timeSlots = Some (take 6 (timeSlots defaultSettings)), new_lessonDuration = None\<rparr>
     = Some (take 6 (timeSlots defaultSettings))
   \<and> removedSlotsIndices (timeSlots defaultSettings) (take 6 (timeSlots defaultSettings)) \<noteq> []
   \<and> (\<exists>doc'. updateSettings (Some ''t'') defaultSettings
          \<lparr>new_timeSlots = Some (take 6 (timeSlots defaultSettings)), new_lessonDuration = None\<rparr>
          (Some (default_doc\<lparr>day_lessons := (\<lambda>_. [])(Cuma :=
             [\<lparr>lesson_id = ''x'', lessonSlot = 7, subject = ''Mat'', grade = ''5'', lesson_class = ''A'', time = ''15:10'', planId = None\<rparr>,
              \<lparr>lesson_id = ''y'', lessonSlot = 4, subject = ''Fen'', grade = ''5'', lesson_class = ''A'', time = ''11:50'', planId = None\<rparr>])\<rparr>))
        = Inr (Some doc') \<and> map lessonSlot (day_lessons doc' Cuma) = [0])"
proof -
  have n: "new_timeSlots \<lparr>new_timeSlots = Some (take 6 (timeSlots defaultSettings)), new_lessonDuration = None\<rparr>
     = Some (take 6 (timeSlots defaultSettings))" by simp
  have r: "removedSlotsIndices (timeSlots defaultSettings) (take 6 (timeSlots defaultSettings)) \<noteq> []"
    by (simp add: removedSlotsIndices_def str_at_or_empty_def defaultSettings_def)
  from updateSettings_reindexes [OF n r, of "''t''" "default_doc\<lparr>day_lessons := (\<lambda>_. [])(Cuma :=
             [\<lparr>lesson_id = ''x'', lessonSlot = 7, subject = ''Mat'', grade = ''5'', lesson_class = ''A'', time = ''15:10'', planId = None\<rparr>,
              \<lparr>lesson_id = ''y'', lessonSlot = 4, subject = ''Fen'', grade = ''5'', lesson_class = ''A'', time = ''11:50'', planId = None\<rparr>])\<rparr>"]
  obtain doc' where "updateSettings (Some ''t'') defaultSettings
          \<lparr>new_timeSlots = Some (take 6 (timeSlots defaultSettings)), new_lessonDuration = None\<rparr>
          (Some (default_doc\<lparr>day_lessons := (\<lambda>_. [])(Cuma :=
             [\<lparr>lesson_id = ''x'', lessonSlot = 7, subject = ''Mat'', grade = ''5'', lesson_class = ''A'', time = ''15:10'', planId = None\<rparr>,
              \<lparr>lesson_id = ''y'', lessonSlot = 4, subject = ''Fen'', grade = ''5'', lesson_class = ''A'', time = ''11:50'', planId = None\<rparr>])\<rparr>))
        = Inr (Some doc')"
    and "map lessonSlot (day_lessons doc' Cuma) = [0..<1]"
    by (auto simp: defaultSettings_def)
  with n r show ?thesis by auto
qed

end
