(* ===== verification/SchedulePage.thy ===== *)
theory SchedulePage
  imports Schedule "HOL-Library.Word" "HOL-Library.Sublist" "HOL-Library.While_Combinator"
begin

text \<open>
  The schedule page, \<^verbatim>\<open>src/src/components/ders-programi.tsx\<close>, beyond the slot
  handlers that \<open>Schedule\<close> models: the end time shown under each slot, the day chosen
  on mount, the plan attached to a lesson, the decoding of a stored plan file and its
  spreadsheet rows, the click handler that tells a single from a double click with a
  250 ms timer, and the save and clear handlers of the lesson editor. The browser's
  \<^verbatim>\<open>atob\<close>, \<^verbatim>\<open>decodeURI\<close> and the XLSX reader are library functions the page only
  calls; they are parameters of the model.
\<close>

section \<open>String idioms\<close>

text \<open>\<^verbatim>\<open>s.split(c)\<close> with a one-character separator: never empty.\<close>

fun split_on :: "char \<Rightarrow> string \<Rightarrow> string list" where
  "split_on c [] = [[]]"
| "split_on c (x # xs) =
     (let ps = split_on c xs in if x = c then [] # ps else (x # hd ps) # tl ps)"

definition is_digit :: "char \<Rightarrow> bool" where
  "is_digit c \<longleftrightarrow> (48::nat) \<le> of_char c \<and> of_char c \<le> (57::nat)"

definition digits_val :: "string \<Rightarrow> nat" where
  "digits_val ds = foldl (\<lambda>n c. 10 * n + (of_char c - 48)) 0 ds"

text \<open>JavaScript's white space among the 8-bit characters the model's strings carry.\<close>

definition js_space :: "char \<Rightarrow> bool" where
  "js_space c \<longleftrightarrow> of_char c \<in> {9, 10, 11, 12, 13, 32::nat}"

definition js_trim :: "string \<Rightarrow> string" where
  "js_trim s = rev (dropWhile js_space (rev (dropWhile js_space s)))"

text \<open>
  A decimal literal without sign, \<open>digits [. digits]\<close> with a digit somewhere, read
  and truncated toward zero; \<open>None\<close> is \<^verbatim>\<open>NaN\<close>.
\<close>

definition unsigned_trunc :: "string \<Rightarrow> nat option" where
  "unsigned_trunc s =
     (let ds = takeWhile is_digit s; rest = dropWhile is_digit s in
      if rest = [] then (if ds = [] then None else Some (digits_val ds))
      else if hd rest = CHR ''.'' \<and> list_all is_digit (tl rest) \<and> (ds \<noteq> [] \<or> tl rest \<noteq> [])
      then Some (digits_val ds) else None)"

text \<open>
  \<^verbatim>\<open>Number(s)\<close> followed by the truncation that \<^verbatim>\<open>setHours\<close> applies to its
  arguments: white space is trimmed, the empty string is 0, a sign may lead. Exponent,
  hexadecimal and \<^verbatim>\<open>Infinity\<close> literals, which a time input never produces, are read
  as \<^verbatim>\<open>NaN\<close>.
\<close>

definition js_Number_int :: "string \<Rightarrow> int option" where
  "js_Number_int s =
     (let t = js_trim s in
      case t of
        [] \<Rightarrow> Some 0
      | c # r \<Rightarrow>
          if c = CHR ''-'' then map_option (\<lambda>n. - int n) (unsigned_trunc r)
          else if c = CHR ''+'' then map_option int (unsigned_trunc r)
          else map_option int (unsigned_trunc t))"

text \<open>\<^verbatim>\<open>String(n).padStart(2, '0')\<close> for \<open>n \<ge> 0\<close>.\<close>

definition pad2 :: "nat \<Rightarrow> string" where
  "pad2 n = (let s = nat_str n in replicate (2 - length s) (CHR ''0'') @ s)"

section \<open>The end time of a slot\<close>

text \<open>
  \<^verbatim>\<open>calculateEndTime(startTime, duration)\<close>, lines 38--46. A \<^verbatim>\<open>Date\<close> holds
  a time value in milliseconds, \<^verbatim>\<open>NaN\<close> beyond \<open>8.64 \<cdot> 10^15\<close>
  (\<^verbatim>\<open>TimeClip\<close>). The clock is given by the local day number \<open>today\<close> and the
  zone's offset \<open>tz\<close> in milliseconds (local time = UTC + \<open>tz\<close>), fixed over the
  day: a zone without a daylight-saving change that day, such as Europe/Istanbul, which
  has none. \<^verbatim>\<open>setHours(h, m, 0, 0)\<close> sets the time value to local midnight plus
  \<open>h\<close> hours and \<open>m\<close> minutes, whatever their range; \<^verbatim>\<open>getHours\<close> and
  \<^verbatim>\<open>getMinutes\<close> read the local time back with floor division.
\<close>

definition ms_per_minute :: int where
  "ms_per_minute = 60000"

definition ms_per_day :: int where
  "ms_per_day = 86400000"

definition time_clip :: "int \<Rightarrow> int option" where
  "time_clip t = (if \<bar>t\<bar> \<le> 8640000000000000 then Some t else None)"

definition clock_of :: "int \<Rightarrow> int \<Rightarrow> string" where
  "clock_of tz t =
     (let local_min = (t + tz) div ms_per_minute
      in pad2 (nat ((local_min div 60) mod 24)) @ '':'' @ pad2 (nat (local_min mod 60)))"

definition calculateEndTime :: "int \<Rightarrow> int \<Rightarrow> string \<Rightarrow> int \<Rightarrow> string" where
  "calculateEndTime tz today startTime duration =
     (if startTime = [] \<or> duration = 0 then [] else
      let parts = map js_Number_int (split_on (CHR '':'') startTime)
      in case (hd parts, if 2 \<le> length parts then parts ! 1 else None) of
           (Some h, Some m) \<Rightarrow>
             (case time_clip (today * ms_per_day - tz + (h * 60 + m) * ms_per_minute) of
                None \<Rightarrow> ''NaN:NaN''
              | Some u \<Rightarrow>
                  (case time_clip (u + duration * ms_per_minute) of
                     None \<Rightarrow> ''NaN:NaN''
                   | Some e \<Rightarrow> clock_of tz e))
         | _ \<Rightarrow> [])"

section \<open>Days\<close>

text \<open>\<^verbatim>\<open>dayShort\<close>, lines 28--36 (UTF-8 bytes as in \<open>day_name\<close>).\<close>

fun dayShort :: "day \<Rightarrow> string" where
  "dayShort Pazartesi = ''Pzt''"
| "dayShort Sali = ''Sal''"
| "dayShort Carsamba = [CHR 0xC3, CHR 0x87] @ ''ar''"
| "dayShort Persembe = ''Per''"
| "dayShort Cuma = ''Cum''"
| "dayShort Cumartesi = ''Cmt''"
| "dayShort Pazar = ''Paz''"

text \<open>
  The mount effect of lines 69--77: \<^verbatim>\<open>getDay()\<close> counts from Sunday, the page's
  days from Monday; the day stays \<^verbatim>\<open>'Pazartesi'\<close> when the index is out of range.
\<close>

definition select_today :: "nat \<Rightarrow> day \<Rightarrow> day" where
  "select_today todayIndex selected =
     (let adjustedIndex = (if todayIndex = 0 then 6 else int todayIndex - 1)
      in if 0 \<le> adjustedIndex \<and> adjustedIndex < int (length dayOrder)
         then dayOrder ! nat adjustedIndex else selected)"

section \<open>Plan files\<close>

text \<open>The fields of \<^verbatim>\<open>Plan\<close> that the page reads.\<close>

record plan =
  plan_id :: string
  title :: string
  fileDataUrl :: string
  fileType :: string
  plan_grade :: string
  plan_type :: string

text \<open>
  A spreadsheet cell as \<^verbatim>\<open>sheet_to_json\<close> returns it (numbers are modelled by their
  integer values), and a row: its \<^verbatim>\<open>week\<close> column and the other columns by header.
\<close>

datatype cell = CellString string | CellNumber int | CellBool bool

record sheet_row =
  week :: "cell option"
  row_cells :: "(string \<times> cell) list"

text \<open>
  The library functions the page calls: \<^verbatim>\<open>atob\<close> (\<open>None\<close> for its
  \<^verbatim>\<open>InvalidCharacterError\<close>), \<^verbatim>\<open>decodeURI\<close> with the UTF-16 code units of its
  result (\<open>None\<close> for \<^verbatim>\<open>URIError\<close>), and the XLSX reader with
  \<^verbatim>\<open>sheet_to_json\<close> of the first sheet (\<open>None\<close> when it throws).
\<close>

record browser =
  atob :: "string \<Rightarrow> string option"
  decodeURI :: "string \<Rightarrow> nat list option"
  xlsx_rows :: "8 word list \<Rightarrow> sheet_row list option"

record blob =
  blob_bytes :: "8 word list"
  blob_type :: string

text \<open>
  The loop of lines 89--91 over a \<^verbatim>\<open>Uint8Array\<close> of the string's length: the store
  \<^verbatim>\<open>ia[i] = byteString.charCodeAt(i)\<close> keeps the code unit modulo \<open>2^8\<close>, which is
  \<open>word_of_nat\<close> into an 8-bit word.
\<close>

definition copy_loop :: "nat list \<Rightarrow> (nat \<times> 8 word list) option" where
  "copy_loop byteString =
     while_option (\<lambda>(i, ia). i < length byteString)
       (\<lambda>(i, ia). (Suc i, ia[i := word_of_nat (byteString ! i)]))
       (0, replicate (length byteString) 0)"

text \<open>
  \<^verbatim>\<open>dataURIToBlob(dataURI)\<close>, lines 83--98. A missing part after the comma is
  \<^verbatim>\<open>undefined\<close>, which both decoders read as the string \<^verbatim>\<open>"undefined"\<close>; a
  header without a colon makes \<^verbatim>\<open>split(':')[1].split\<close> throw. Every exception is
  caught and gives \<^verbatim>\<open>null\<close>, here \<open>None\<close>; so would a loop that does not end,
  which never happens.
\<close>

definition dataURIToBlob :: "browser \<Rightarrow> string \<Rightarrow> blob option" where
  "dataURIToBlob br dataURI =
     (let splitDataURI = split_on (CHR '','') dataURI;
          header = hd splitDataURI;
          payload = (if 2 \<le> length splitDataURI then splitDataURI ! 1 else ''undefined'');
          byteString = (if sublist ''base64'' header then map_option (map of_char) (atob br payload)
                        else decodeURI br payload);
          mimeParts = split_on (CHR '':'') header
      in case byteString of
           None \<Rightarrow> None
         | Some bs \<Rightarrow>
             if length mimeParts < 2 then None
             else (case copy_loop bs of
                     None \<Rightarrow> None
                   | Some (_, ia) \<Rightarrow> Some \<lparr>blob_bytes = ia, blob_type = hd (split_on (CHR '';'') (mimeParts ! 1))\<rparr>))"

text \<open>\<^verbatim>\<open>value.toString()\<close> and the truthiness of a cell.\<close>

definition int_str :: "int \<Rightarrow> string" where
  "int_str n = (if n < 0 then ''-'' @ nat_str (nat (- n)) else nat_str (nat n))"

fun cell_string :: "cell \<Rightarrow> string" where
  "cell_string (CellString s) = s"
| "cell_string (CellNumber n) = int_str n"
| "cell_string (CellBool b) = (if b then ''true'' else ''false'')"

fun cell_truthy :: "cell \<Rightarrow> bool" where
  "cell_truthy (CellString s) = (s \<noteq> [])"
| "cell_truthy (CellNumber n) = (n \<noteq> 0)"
| "cell_truthy (CellBool b) = b"

text \<open>The predicate of \<^verbatim>\<open>findIndex\<close> on line 118: a week column that names a week.\<close>

definition is_week_row :: "sheet_row \<Rightarrow> bool" where
  "is_week_row row =
     (case week row of
        None \<Rightarrow> False
      | Some c \<Rightarrow> cell_truthy c \<and> (sublist ''Hafta'' (cell_string c) \<or> list_ex is_digit (cell_string c)))"

record plan_entry =
  entry_id :: string
  entry_row :: sheet_row

text \<open>Lines 118--122: the rows from the first week row on (all rows if there is none).\<close>

definition planEntries :: "string \<Rightarrow> sheet_row list \<Rightarrow> plan_entry list" where
  "planEntries pid json =
     (let startIndex = find_index is_week_row json
      in map (\<lambda>(index, row). \<lparr>entry_id = pid @ ''-'' @ nat_str index, entry_row = row\<rparr>)
           (enumerate 0 (drop (case startIndex of Some i \<Rightarrow> i | None \<Rightarrow> 0) json)))"

section \<open>The page's state and its handlers\<close>

datatype page_toast =
    FileUnreadable | ExcelError | NoInAppViewer
  | LessonUpdateFailed | LessonSaved string | LessonCleared

text \<open>
  What a handler does that the user sees: the editor opened for a cell, a plan passed to
  \<^verbatim>\<open>viewFile\<close>, a toast.
\<close>

datatype page_effect = OpenEditor day nat "lesson option" | ViewPlan plan | Toast page_toast

record viewer_state =
  viewingPlanContent :: "plan_entry list option"
  viewingPlanTitle :: string
  startWeekForPlan :: nat

text \<open>
  \<^verbatim>\<open>viewFile(plan, lesson)\<close>, lines 100--136 (the lesson is not used): the title is
  set first; a file that cannot be decoded, a spreadsheet the reader rejects and a file
  of another type each end in a toast.
\<close>

definition viewFile :: "browser \<Rightarrow> plan \<Rightarrow> viewer_state \<Rightarrow> viewer_state \<times> page_toast list" where
  "viewFile br p v =
     (let v1 = v\<lparr>viewingPlanTitle := title p\<rparr> in
      case dataURIToBlob br (fileDataUrl p) of
        None \<Rightarrow> (v1, [FileUnreadable])
      | Some b \<Rightarrow>
          if sublist ''sheet'' (fileType p) \<or> sublist ''excel'' (fileType p) then
            (case xlsx_rows br (blob_bytes b) of
               None \<Rightarrow> (v1\<lparr>viewingPlanTitle := []\<rparr>, [ExcelError])
             | Some json \<Rightarrow>
                 (v1\<lparr>startWeekForPlan := 1, viewingPlanContent := Some (planEntries (plan_id p) json)\<rparr>, []))
          else (v1, [NoInAppViewer]))"

definition closeViewer :: "viewer_state \<Rightarrow> viewer_state" where
  "closeViewer v = v\<lparr>viewingPlanContent := None, viewingPlanTitle := []\<rparr>"

text \<open>
  \<^verbatim>\<open>findRelatedPlan(lesson)\<close>, lines 211--221: the plan a non-empty \<^verbatim>\<open>planId\<close>
  names, else the first annual plan of the lesson's grade.
\<close>

definition findRelatedPlan :: "plan list \<Rightarrow> lesson option \<Rightarrow> plan option" where
  "findRelatedPlan plans l =
     (case l of
        None \<Rightarrow> None
      | Some les \<Rightarrow>
          (case (case planId les of
                   Some pid \<Rightarrow> if pid \<noteq> [] then find (\<lambda>p. plan_id p = pid) plans else None
                 | None \<Rightarrow> None) of
             Some p \<Rightarrow> Some p
           | None \<Rightarrow>
               if grade les = [] then None
               else find (\<lambda>p. plan_grade p = grade les \<and> plan_type p = ''annual'') plans))"

text \<open>
  The timer of \<^verbatim>\<open>clickTimeoutRef\<close> holds the callback of a single click, which closes
  over the clicked cell and the plans of the render that handled the click.
\<close>

record pending_click =
  click_day :: day
  click_slot :: nat
  click_lesson :: "lesson option"
  click_plans :: "plan list"

record page_state =
  editingLesson :: "(day \<times> nat \<times> lesson option) option"
  viewer :: viewer_state
  clickTimeout :: "pending_click option"
  selectedDay :: day

definition openEditLessonModal :: "day \<Rightarrow> nat \<Rightarrow> lesson option \<Rightarrow> page_state \<Rightarrow> page_state \<times> page_effect list" where
  "openEditLessonModal d slot l s = (s\<lparr>editingLesson := Some (d, slot, l)\<rparr>, [OpenEditor d slot l])"

text \<open>
  \<^verbatim>\<open>handleLessonClick(day, slotIndex, lesson)\<close>, lines 223--247: a click while a
  timer is pending cancels it and opens the editor for the cell just clicked; otherwise
  it starts the 250 ms timer.
\<close>

definition handleLessonClick ::
  "plan list \<Rightarrow> day \<Rightarrow> nat \<Rightarrow> lesson option \<Rightarrow> page_state \<Rightarrow> page_state \<times> page_effect list" where
  "handleLessonClick plans d slot l s =
     (if clickTimeout s \<noteq> None then openEditLessonModal d slot l (s\<lparr>clickTimeout := None\<rparr>)
      else (s\<lparr>clickTimeout := Some \<lparr>click_day = d, click_slot = slot, click_lesson = l, click_plans = plans\<rparr>\<rparr>, []))"

text \<open>
  The timer's callback (lines 231--245): the plan of the lesson if it has one, the
  editor otherwise; then the timer is cleared. \<^verbatim>\<open>viewFile\<close> is asynchronous; its
  effects are taken at once, as no other handler touches the viewer meanwhile.
\<close>

definition single_click :: "browser \<Rightarrow> pending_click \<Rightarrow> page_state \<Rightarrow> page_state \<times> page_effect list" where
  "single_click br c s =
     (case click_lesson c of
        None \<Rightarrow> openEditLessonModal (click_day c) (click_slot c) None s
      | Some les \<Rightarrow>
          (case findRelatedPlan (click_plans c) (Some les) of
             Some p \<Rightarrow> (let (v, ts) = viewFile br p (viewer s) in (s\<lparr>viewer := v\<rparr>, ViewPlan p # map Toast ts))
           | None \<Rightarrow> openEditLessonModal (click_day c) (click_slot c) (Some les) s))"

definition click_timer_fires :: "browser \<Rightarrow> page_state \<Rightarrow> page_state \<times> page_effect list" where
  "click_timer_fires br s =
     (case clickTimeout s of
        None \<Rightarrow> (s, [])
      | Some c \<Rightarrow> (let (s', effs) = single_click br c s in (s'\<lparr>clickTimeout := None\<rparr>, effs)))"

section \<open>The page as an event system\<close>

text \<open>
  The events of the page that do not write to the store: a click on a cell, the click
  timer, the day buttons (line 275), closing the plan viewer and closing the editor.
\<close>

datatype page_event =
    LessonClick "plan list" day nat "lesson option"
  | ClickTimer
  | SelectDay day
  | CloseViewer
  | CloseEditor

definition page_step :: "browser \<Rightarrow> page_state \<Rightarrow> page_event \<Rightarrow> page_state \<times> page_effect list" where
  "page_step br s e =
     (case e of
        LessonClick plans d slot l \<Rightarrow> handleLessonClick plans d slot l s
      | ClickTimer \<Rightarrow> click_timer_fires br s
      | SelectDay d \<Rightarrow> (s\<lparr>selectedDay := d\<rparr>, [])
      | CloseViewer \<Rightarrow> (s\<lparr>viewer := closeViewer (viewer s)\<rparr>, [])
      | CloseEditor \<Rightarrow> (s\<lparr>editingLesson := None\<rparr>, []))"

fun page_run :: "browser \<Rightarrow> page_state \<Rightarrow> page_event list \<Rightarrow> page_state \<times> page_effect list" where
  "page_run br s [] = (s, [])"
| "page_run br s (e # es) =
     (let (s', effs) = page_step br s e; (s'', effs') = page_run br s' es in (s'', effs @ effs'))"

fun is_click :: "page_event \<Rightarrow> bool" where
  "is_click (LessonClick _ _ _ _) = True"
| "is_click _ = False"

section \<open>The lesson editor's handlers\<close>

text \<open>
  \<^verbatim>\<open>handleLessonSave\<close> and \<^verbatim>\<open>handleClearLesson\<close>, lines 143--158: without a user
  nothing happens; otherwise \<^verbatim>\<open>updateLesson\<close> runs (its rejected write ends in its own
  error toast, and it does not throw), then the page's toast and the editor closes.
\<close>

definition lesson_write :: "sched_result \<Rightarrow> sched_doc option \<Rightarrow> sched_doc option \<times> page_effect list" where
  "lesson_write r docOpt = (case r of Inl _ \<Rightarrow> (docOpt, [Toast LessonUpdateFailed]) | Inr docOpt' \<Rightarrow> (docOpt', []))"

definition handleLessonSave ::
  "uid option \<Rightarrow> settings \<Rightarrow> nat \<Rightarrow> day \<Rightarrow> lesson_data \<Rightarrow> nat \<Rightarrow> sched_doc option \<Rightarrow> page_state \<Rightarrow>
   (sched_doc option \<times> page_state) \<times> page_effect list" where
  "handleLessonSave user st now d ld slot docOpt s =
     (if user = None then ((docOpt, s), [])
      else let (docOpt', effs) = lesson_write (updateLesson user st now d (Some ld) slot docOpt) docOpt
           in ((docOpt', s\<lparr>editingLesson := None\<rparr>), effs @ [Toast (LessonSaved (ld_subject ld))]))"

definition handleClearLesson ::
  "uid option \<Rightarrow> settings \<Rightarrow> nat \<Rightarrow> day \<Rightarrow> nat \<Rightarrow> sched_doc option \<Rightarrow> page_state \<Rightarrow>
   (sched_doc option \<times> page_state) \<times> page_effect list" where
  "handleClearLesson user st now d slot docOpt s =
     (if user = None then ((docOpt, s), [])
      else let (docOpt', effs) = lesson_write (updateLesson user st now d None slot docOpt) docOpt
           in ((docOpt', s\<lparr>editingLesson := None\<rparr>), effs @ [Toast LessonCleared]))"

section \<open>The slot list\<close>

text \<open>
  Lines 301--335: one row per time slot of the local settings, with its start, the end
  time for the hook's lesson duration, and the lesson of the selected day at that index;
  \<^verbatim>\<open>handleTimeSlotChange\<close> (lines 176--180) edits one start time of the local
  copy. The page calls it only with the index of a rendered input; an index past the
  end, which would extend the array with holes, is \<open>None\<close>.
\<close>

definition slot_rows ::
  "int \<Rightarrow> int \<Rightarrow> weekly_schedule_item list \<Rightarrow> settings \<Rightarrow> settings \<Rightarrow> day \<Rightarrow> (string \<times> string \<times> lesson option) list" where
  "slot_rows tz today sched localSettings st d =
     map (\<lambda>(slotIndex, t). (t, calculateEndTime tz today t (int (lessonDuration st)), getLessonForSlot sched d slotIndex))
       (enumerate 0 (timeSlots localSettings))"

definition handleTimeSlotChange :: "nat \<Rightarrow> string \<Rightarrow> settings \<Rightarrow> settings option" where
  "handleTimeSlotChange index value localSettings =
     (if index < length (timeSlots localSettings)
      then Some (localSettings\<lparr>timeSlots := (timeSlots localSettings)[index := value]\<rparr>) else None)"

text \<open>
  The lesson-duration input, lines 354--361. \<^verbatim>\<open>parseInt\<close> reads an optional sign and
  the leading decimal digits after white space (\<^verbatim>\<open>NaN\<close> without digits); the value of a
  number input is a decimal literal or empty, so no other radix arises. \<^verbatim>\<open>|| 0\<close>
  turns \<^verbatim>\<open>NaN\<close> into 0. The model's durations are natural numbers: a negative entry
  is \<open>None\<close>. The input shows \<^verbatim>\<open>lessonDuration || 40\<close>, and leaving it calls
  \<^verbatim>\<open>handleSettingsBlur('lessonDuration')\<close> with the local value.
\<close>

definition js_parseInt :: "string \<Rightarrow> int option" where
  "js_parseInt s =
     (let t = dropWhile js_space s;
          (sign, r) = (case t of
                         c # r \<Rightarrow> if c = CHR ''-'' then (-1, r) else if c = CHR ''+'' then (1, r) else (1, t)
                       | [] \<Rightarrow> (1, []));
          ds = takeWhile is_digit r
      in if ds = [] then None else Some (sign * int (digits_val ds)))"

definition handleDurationChange :: "string \<Rightarrow> settings \<Rightarrow> settings option" where
  "handleDurationChange value localSettings =
     (let v = (case js_parseInt value of Some n \<Rightarrow> n | None \<Rightarrow> 0)
      in if v < 0 then None else Some (localSettings\<lparr>lessonDuration := nat v\<rparr>))"

definition duration_shown :: "settings \<Rightarrow> nat" where
  "duration_shown localSettings = (if lessonDuration localSettings = 0 then 40 else lessonDuration localSettings)"

definition handleDurationBlur :: "uid option \<Rightarrow> settings \<Rightarrow> settings \<Rightarrow> sched_doc option \<Rightarrow> sched_result" where
  "handleDurationBlur user st localSettings docOpt =
     handleSettingsBlur user st (LessonDurationValue (lessonDuration localSettings)) docOpt"

text \<open>
  The answer a single click is owed: the plan viewer for a lesson with a related plan
  (among the plans of the click's render), the editor for any other cell.
\<close>

definition click_answer :: "pending_click \<Rightarrow> page_effect" where
  "click_answer c =
     (case click_lesson c of
        None \<Rightarrow> OpenEditor (click_day c) (click_slot c) None
      | Some les \<Rightarrow>
          (case findRelatedPlan (click_plans c) (Some les) of
             Some p \<Rightarrow> ViewPlan p
           | None \<Rightarrow> OpenEditor (click_day c) (click_slot c) (Some les)))"

section \<open>Lemmas\<close>

subsection \<open>Splitting and reading numbers\<close>

lemma split_on_no_sep: "c \<notin> set xs \<Longrightarrow> split_on c xs = [xs]"
  by (induction xs) (auto simp: Let_def)

lemma split_on_append_sep:
  "c \<notin> set xs \<Longrightarrow> split_on c (xs @ c # ys) = xs # split_on c ys"
  by (induction xs) (auto simp: Let_def)

lemma is_digit_not_space: "is_digit c \<Longrightarrow> \<not> js_space c"
  by (auto simp: is_digit_def js_space_def)

lemma js_Number_int_digits:
  assumes "list_all is_digit ds" and "ds \<noteq> []"
  shows "js_Number_int ds = Some (int (digits_val ds))"
proof -
  have h: "is_digit (hd ds)" "is_digit (last ds)" using assms by (simp_all add: list_all_iff)
  have "dropWhile js_space ds = ds"
    using h(1) is_digit_not_space by (simp add: dropWhile_eq_self_iff)
  moreover have "dropWhile js_space (rev ds) = rev ds"
    using h(2) is_digit_not_space assms(2) by (simp add: dropWhile_eq_self_iff hd_rev)
  ultimately have t: "js_trim ds = ds" by (simp add: js_trim_def)
  have tw: "takeWhile is_digit ds = ds" and dw: "dropWhile is_digit ds = []"
    using assms(1) by (simp_all add: list_all_iff)
  have u: "unsigned_trunc ds = Some (digits_val ds)"
    using assms(2) by (simp add: unsigned_trunc_def Let_def tw dw)
  obtain c r where ds: "ds = c # r" using assms(2) by (cases ds) auto
  have "c \<noteq> CHR ''-''" "c \<noteq> CHR ''+''" using h(1) ds by (auto simp: is_digit_def)
  then show ?thesis using t u ds by (simp add: js_Number_int_def)
qed

subsection \<open>The end time\<close>

lemma clock_of_local:
  "clock_of tz (today * ms_per_day - tz + x * ms_per_minute) =
     pad2 (nat ((x div 60) mod 24)) @ '':'' @ pad2 (nat (x mod 60))"
proof -
  have e: "today * ms_per_day - tz + x * ms_per_minute + tz = (today * 1440 + x) * ms_per_minute"
    by (simp add: ms_per_day_def ms_per_minute_def algebra_simps)
  have m: "(today * ms_per_day - tz + x * ms_per_minute + tz) div ms_per_minute = today * 1440 + x"
    unfolding e by (rule nonzero_mult_div_cancel_right) (simp add: ms_per_minute_def)
  have a: "today * 1440 + x = x + (today * 24) * 60" by simp
  have "(x + (today * 24) * 60) div 60 = today * 24 + x div 60"
    by (rule div_mult_self1) simp
  then have "((today * 1440 + x) div 60) mod 24 = (x div 60 + today * 24) mod 24"
    unfolding a by (simp only: add.commute)
  also have "\<dots> = (x div 60) mod 24" by (rule mod_mult_self1)
  finally have "((today * 1440 + x) div 60) mod 24 = (x div 60) mod 24" .
  moreover have "(today * 1440 + x) mod 60 = x mod 60"
    unfolding a by (rule mod_mult_self1)
  ultimately show ?thesis by (simp only: clock_of_def m Let_def)
qed

lemma calculateEndTime_clock:
  assumes "list_all is_digit hh" "hh \<noteq> []" "list_all is_digit mm" "mm \<noteq> []" "duration \<noteq> 0"
    and "\<bar>today * ms_per_day - tz + (int (digits_val hh) * 60 + int (digits_val mm)) * ms_per_minute\<bar> \<le> 8640000000000000"
    and "\<bar>today * ms_per_day - tz + (int (digits_val hh) * 60 + int (digits_val mm) + duration) * ms_per_minute\<bar> \<le> 8640000000000000"
  shows "calculateEndTime tz today (hh @ '':'' @ mm) duration =
           (let x = int (digits_val hh) * 60 + int (digits_val mm) + duration
            in pad2 (nat ((x div 60) mod 24)) @ '':'' @ pad2 (nat (x mod 60)))"
proof -
  have c1: "CHR '':'' \<notin> set hh" "CHR '':'' \<notin> set mm"
    using assms(1,3) by (auto simp: list_all_iff is_digit_def)
  then have sp: "split_on (CHR '':'') (hh @ '':'' @ mm) = [hh, mm]"
    using split_on_append_sep [of "CHR '':''" hh mm] split_on_no_sep [of "CHR '':''" mm] by simp
  let ?x = "int (digits_val hh) * 60 + int (digits_val mm)"
  have e: "today * ms_per_day - tz + ?x * ms_per_minute + duration * ms_per_minute =
           today * ms_per_day - tz + (?x + duration) * ms_per_minute"
    by (simp add: algebra_simps)
  show ?thesis
    using assms(2,4,5,6,7) sp js_Number_int_digits [OF assms(1,2)] js_Number_int_digits [OF assms(3,4)]
    by (simp add: calculateEndTime_def time_clip_def e clock_of_local [of tz today "?x + duration"] Let_def)
qed

text \<open>A lesson that ends after midnight shows an end time before its start.\<close>

lemma calculateEndTime_past_midnight:
  "calculateEndTime 10800000 20000 ''23:30'' 40 = ''00:10''"
  by code_simp

subsection \<open>The byte loop\<close>

lemma copy_loop_from:
  assumes "i \<le> length bs" and "length ia = length bs"
  shows "while_option (\<lambda>(i, ia). i < length bs) (\<lambda>(i, ia). (Suc i, ia[i := word_of_nat (bs ! i)])) (i, ia) =
           Some (length bs, take i ia @ map word_of_nat (drop i bs))"
  using assms
proof (induction "length bs - i" arbitrary: i ia)
  case 0
  then show ?case by (simp add: while_option_unfold [of _ _ "(i, ia)"])
next
  case (Suc k)
  then have i: "i < length bs" by simp
  have "take (Suc i) (ia[i := word_of_nat (bs ! i)]) @ map word_of_nat (drop (Suc i) bs) =
        take i ia @ map word_of_nat (drop i bs)"
    using i Suc.prems(2) by (simp add: take_Suc_conv_app_nth Cons_nth_drop_Suc [symmetric])
  moreover have "while_option (\<lambda>(i, ia). i < length bs) (\<lambda>(i, ia). (Suc i, ia[i := word_of_nat (bs ! i)]))
                   (Suc i, ia[i := word_of_nat (bs ! i)]) =
                 Some (length bs, take (Suc i) (ia[i := word_of_nat (bs ! i)]) @ map word_of_nat (drop (Suc i) bs))"
    using Suc.hyps(2) i Suc.prems(2) by (intro Suc.hyps(1)) auto
  ultimately show ?case using i by (simp add: while_option_unfold [of _ _ "(i, ia)"])
qed

lemma unat_code_unit: "unat (word_of_nat n :: 8 word) = n mod 256"
  by (simp add: unat_of_nat)

subsection \<open>Clicks\<close>

lemma page_run_append:
  "page_run br s (es @ es') =
     (let (s1, e1) = page_run br s es; (s2, e2) = page_run br s1 es' in (s2, e1 @ e2))"
  by (induction es arbitrary: s) (auto simp: Let_def split: prod.splits)

lemma single_click_answers: "click_answer c \<in> set (snd (single_click br c s))"
  by (auto simp: single_click_def click_answer_def openEditLessonModal_def split: option.splits prod.splits)

lemma timer_answers:
  "clickTimeout s = Some c \<Longrightarrow> click_answer c \<in> set (snd (page_step br s ClickTimer))"
  using single_click_answers [of c br s]
  by (auto simp: page_step_def click_timer_fires_def split: prod.splits)

lemma non_click_keeps_timer:
  "\<not> is_click e \<Longrightarrow> e \<noteq> ClickTimer \<Longrightarrow> clickTimeout (fst (page_step br s e)) = clickTimeout s"
  by (cases e) (simp_all add: page_step_def)

lemma pending_click_answered:
  assumes "clickTimeout s = Some c" and "\<not> list_ex is_click es"
  shows "click_answer c \<in> set (snd (page_run br s (es @ [ClickTimer])))"
  using assms
proof (induction es arbitrary: s)
  case Nil
  then show ?case using timer_answers [of s c br] by (auto split: prod.splits)
next
  case (Cons e es)
  show ?case
  proof (cases "e = ClickTimer")
    case True
    then show ?thesis using timer_answers [OF Cons.prems(1), of br] by (auto split: prod.splits)
  next
    case False
    with Cons.prems have "clickTimeout (fst (page_step br s e)) = Some c" "\<not> list_ex is_click es"
      using non_click_keeps_timer [of e br s] by auto
    from Cons.IH [OF this] show ?thesis by (auto split: prod.splits)
  qed
qed

lemma double_click_takes_second_cell:
  assumes "clickTimeout s = None"
  shows "snd (page_run br s [LessonClick ps d i l, LessonClick ps' d' i' l']) = [OpenEditor d' i' l']"
  using assms by (simp add: page_step_def handleLessonClick_def openEditLessonModal_def)

lemma handleLessonSave_missing_doc:
  assumes "user \<noteq> None"
  shows "handleLessonSave user st now d ld slot None s =
           ((None, s\<lparr>editingLesson := None\<rparr>), [Toast LessonUpdateFailed, Toast (LessonSaved (ld_subject ld))])"
  using assms
  by (auto simp: handleLessonSave_def updateLesson_def updatedLessons_def write_day_def lesson_write_def Let_def
           split: option.splits)

text \<open>
  The comment on line 218 says the grade is tried when no plan id is set; the code also
  tries it when the plan id names no plan of the list.
\<close>

lemma findRelatedPlan_dangling_planId:
  assumes "planId les = Some pid" and "pid \<noteq> []" and "\<forall>p \<in> set plans. plan_id p \<noteq> pid" and "grade les \<noteq> []"
  shows "findRelatedPlan plans (Some les) = find (\<lambda>p. plan_grade p = grade les \<and> plan_type p = ''annual'') plans"
proof -
  have "find (\<lambda>p. plan_id p = pid) plans = None" using assms(3) by (simp add: find_None_iff)
  with assms(1,2,4) show ?thesis by (simp add: findRelatedPlan_def)
qed

text \<open>
  Clearing the duration field shows 40 but stores 0 on leaving it, and with a duration of
  0 every slot loses its end time.
\<close>

lemma cleared_duration_saved_as_zero:
  assumes "user \<noteq> None" and "lessonDuration st \<noteq> 0"
  shows "handleDurationChange [] localSettings = Some (localSettings\<lparr>lessonDuration := 0\<rparr>) \<and>
         duration_shown (localSettings\<lparr>lessonDuration := 0\<rparr>) = 40 \<and>
         handleDurationBlur user st (localSettings\<lparr>lessonDuration := 0\<rparr>) docOpt =
           updateSettings user st \<lparr>new_timeSlots = None, new_lessonDuration = Some 0\<rparr> docOpt \<and>
         calculateEndTime tz today t (int 0) = []"
  using assms
  by (auto simp: handleDurationChange_def js_parseInt_def duration_shown_def handleDurationBlur_def
                 handleSettingsBlur_def calculateEndTime_def)

lemma handleDurationChange_digits:
  "list_all is_digit ds \<Longrightarrow> ds \<noteq> [] \<Longrightarrow>
     handleDurationChange ds localSettings = Some (localSettings\<lparr>lessonDuration := digits_val ds\<rparr>)"
proof -
  assume a: "list_all is_digit ds" "ds \<noteq> []"
  then have h: "is_digit (hd ds)" by (cases ds) simp_all
  then have "dropWhile js_space ds = ds" using is_digit_not_space by (simp add: dropWhile_eq_self_iff)
  moreover have "takeWhile is_digit ds = ds" using a(1) by (simp add: list_all_iff)
  moreover have "hd ds \<noteq> CHR ''-''" "hd ds \<noteq> CHR ''+''" using h by (auto simp: is_digit_def)
  ultimately show ?thesis using a(2)
    by (cases ds) (simp_all add: handleDurationChange_def js_parseInt_def Let_def)
qed

section \<open>Properties\<close>

text \<open>
  C38 (liveness). Every click on a cell of an idle page is answered: whatever non-click events follow, the firing of the 250 ms timer opens the editor for that cell, or the plan viewer for the plan related to its lesson among the plans of the click's render.
\<close>

theorem click_eventually_answered:
  assumes "clickTimeout s = None" and "\<not> list_ex is_click es"
  shows "click_answer \<lparr>click_day = d, click_slot = i, click_lesson = l, click_plans = ps\<rparr>
           \<in> set (snd (page_run br s (LessonClick ps d i l # es @ [ClickTimer])))"
proof -
  let ?c = "\<lparr>click_day = d, click_slot = i, click_lesson = l, click_plans = ps\<rparr>"
  have "clickTimeout (fst (page_step br s (LessonClick ps d i l))) = Some ?c"
    using assms(1) by (simp add: page_step_def handleLessonClick_def)
  from pending_click_answered [OF this assms(2)]
  show ?thesis using assms(1) by (auto simp: page_step_def handleLessonClick_def split: prod.splits)
qed

text \<open>
  C39 (termination). The byte loop of \<^verbatim>\<open>dataURIToBlob\<close> ends on every decoded string, after exactly one pass, and stores each UTF-16 code unit modulo 256: a code unit above 255 (possible on the \<^verbatim>\<open>decodeURI\<close> path) loses its high bits.
\<close>

theorem copy_loop_terminates:
  "copy_loop bs = Some (length bs, map word_of_nat bs) \<and>
   map unat (map word_of_nat bs :: 8 word list) = map (\<lambda>c. c mod 256) bs"
  using copy_loop_from [of 0 bs "replicate (length bs) 0"] by (simp add: copy_loop_def unat_code_unit)

section \<open>Witnesses\<close>

theorem click_eventually_answered_witness:
  "clickTimeout \<lparr>editingLesson = None, viewer = \<lparr>viewingPlanContent = None, viewingPlanTitle = [], startWeekForPlan = 1\<rparr>,
                 clickTimeout = None, selectedDay = Pazartesi\<rparr> = None \<and>
   \<not> list_ex is_click [SelectDay Sali] \<and>
   OpenEditor Cuma 1 None \<in> set (snd (page_run \<lparr>atob = (\<lambda>_. None), decodeURI = (\<lambda>_. None), xlsx_rows = (\<lambda>_. None)\<rparr>
     \<lparr>editingLesson = None, viewer = \<lparr>viewingPlanContent = None, viewingPlanTitle = [], startWeekForPlan = 1\<rparr>,
      clickTimeout = None, selectedDay = Pazartesi\<rparr>
     [LessonClick [] Cuma 1 None, SelectDay Sali, ClickTimer]))"
proof -
  have a: "clickTimeout \<lparr>editingLesson = None, viewer = \<lparr>viewingPlanContent = None, viewingPlanTitle = [], startWeekForPlan = 1\<rparr>,
                 clickTimeout = None, selectedDay = Pazartesi\<rparr> = None" by simp
  have b: "\<not> list_ex is_click [SelectDay Sali]" by simp
  from click_eventually_answered [OF a b, where d = Cuma and i = 1 and l = None and ps = "[]"
         and br = "\<lparr>atob = (\<lambda>_. None), decodeURI = (\<lambda>_. None), xlsx_rows = (\<lambda>_. None)\<rparr>"]
  show ?thesis by (simp add: click_answer_def findRelatedPlan_def)
qed

end
