(* ===== verification/SchedulePanel.thy ===== *)
theory SchedulePanel
  imports SchedulePage
begin

text \<open>
  The settings card of the schedule page and what it shares with the grid
  (\<^verbatim>\<open>src/src/components/ders-programi.tsx\<close>, lines 55--67, 176--200 and 249--427). The
  page keeps a local copy \<^verbatim>\<open>localSettings\<close> of the hook's settings: typing edits the
  copy, leaving a field (or adding and removing a slot) writes to the schedule document
  through \<open>handleSettingsBlur\<close>, and every snapshot of the hook overwrites the copy (the
  effect of lines 65--67). The state is the document on the server, the hook's settings
  from the last snapshot, and the local copy. The day tabs above the grid are here too.
\<close>

section \<open>The panel\<close>

record panel_state =
  pn_doc :: "sched_doc option"
  pn_settings :: settings
  pn_local :: settings

text \<open>
  The controls of the settings card (lines 341--404): the duration input and its blur,
  each start-time input and its blur, the confirmed delete dialog of a slot, the add
  button; and the hook's snapshot, after which the page's effect copies the settings.
\<close>

datatype panel_event =
    SlotInput nat string | SlotsBlur | DurationInput string | DurationBlur
  | AddSlot | RemoveSlot nat | SnapshotArrives

definition panel_write :: "sched_result \<Rightarrow> panel_state \<Rightarrow> panel_state" where
  "panel_write r s = s\<lparr>pn_doc := commit r (pn_doc s)\<rparr>"

definition panel_step :: "uid option \<Rightarrow> panel_state \<Rightarrow> panel_event \<Rightarrow> panel_state" where
  "panel_step user s e =
     (case e of
        SlotInput i v \<Rightarrow>
          (case handleTimeSlotChange i v (pn_local s) of Some l \<Rightarrow> s\<lparr>pn_local := l\<rparr> | None \<Rightarrow> s)
      | SlotsBlur \<Rightarrow>
          panel_write (handleSettingsBlur user (pn_settings s) (TimeSlotsValue (timeSlots (pn_local s))) (pn_doc s)) s
      | DurationInput v \<Rightarrow>
          (case handleDurationChange v (pn_local s) of Some l \<Rightarrow> s\<lparr>pn_local := l\<rparr> | None \<Rightarrow> s)
      | DurationBlur \<Rightarrow> panel_write (handleDurationBlur user (pn_settings s) (pn_local s) (pn_doc s)) s
      | AddSlot \<Rightarrow> panel_write (handleAddNewTimeSlot user (pn_settings s) (timeSlots (pn_local s)) (pn_doc s)) s
      | RemoveSlot i \<Rightarrow>
          if i < length (timeSlots (pn_local s))
          then panel_write (handleRemoveTimeSlot user (pn_settings s) (timeSlots (pn_local s)) i (pn_doc s)) s
          else s
      | SnapshotArrives \<Rightarrow>
          (let st = snd (onSnapshot (pn_doc s)) in s\<lparr>pn_settings := st, pn_local := st\<rparr>))"

definition panel_init :: "sched_doc option \<Rightarrow> panel_state" where
  "panel_init d = (let st = snd (onSnapshot d) in \<lparr>pn_doc = d, pn_settings = st, pn_local = st\<rparr>)"

definition panel_run :: "uid option \<Rightarrow> panel_state \<Rightarrow> panel_event list \<Rightarrow> panel_state" where
  "panel_run user s es = foldl (panel_step user) s es"

section \<open>What the page shows\<close>

text \<open>
  Lines 249--256: the loading card while the schedule or the plans load. Lines
  341--404: the settings card shows the duration \<^verbatim>\<open>localSettings.lessonDuration || 40\<close>
  and one start-time input per local slot.
\<close>

datatype settings_card = SettingsCard nat "string list"

definition schedule_loading :: "bool \<Rightarrow> bool \<Rightarrow> bool" where
  "schedule_loading isLoading isLoadingPlans = (isLoading \<or> isLoadingPlans)"

definition settings_card_view :: "settings \<Rightarrow> settings_card" where
  "settings_card_view localSettings = SettingsCard (duration_shown localSettings) (timeSlots localSettings)"

text \<open>
  The editor's props (lines 406--419): the cell, the lesson, the label
  \<^verbatim>\<open>`${settings.timeSlots[slot]} - ${calculateEndTime(...)}`\<close> from the hook's
  settings (an index out of range prints \<^verbatim>\<open>undefined\<close>, and the end time of
  \<^verbatim>\<open>undefined\<close> is empty), the related plan and the annual plans offered.
\<close>

definition editor_time_label :: "int \<Rightarrow> int \<Rightarrow> settings \<Rightarrow> nat \<Rightarrow> string" where
  "editor_time_label tz today st slot =
     (if slot < length (timeSlots st)
      then timeSlots st ! slot @ '' - '' @ calculateEndTime tz today (timeSlots st ! slot) (int (lessonDuration st))
      else ''undefined - '')"

record editor_props =
  ed_day :: day
  ed_slot :: nat
  ed_lesson :: "lesson option"
  ed_timeSlot :: string
  ed_relatedPlan :: "plan option"
  ed_availablePlans :: "plan list"

definition editor_view ::
  "int \<Rightarrow> int \<Rightarrow> settings \<Rightarrow> plan list \<Rightarrow> (day \<times> nat \<times> lesson option) option \<Rightarrow> editor_props option" where
  "editor_view tz today st plans editing =
     map_option (\<lambda>(d, slot, l). \<lparr>ed_day = d, ed_slot = slot, ed_lesson = l,
                                 ed_timeSlot = editor_time_label tz today st slot,
                                 ed_relatedPlan = findRelatedPlan plans l,
                                 ed_availablePlans = filter (\<lambda>p. plan_type p = ''annual'') plans\<rparr>) editing"

text \<open>
  The day tabs of lines 270--290 and the banner of lines 294--299. A tab shows the day's
  name (its short form on small screens), and only the selected day's tab is filled with
  the day's colour; clicking a tab selects its day (\<open>SelectDay\<close> of the page's events).
  The colour is the \<^verbatim>\<open>string-to-color\<close> package's hash of the name, a parameter here.
\<close>

datatype day_tab = DayTab day string string "string option"

definition day_tabs :: "(string \<Rightarrow> string) \<Rightarrow> day \<Rightarrow> day_tab list" where
  "day_tabs stringToColor sel =
     map (\<lambda>d. DayTab d (day_name d) (dayShort d)
                (if sel = d then Some (stringToColor (day_name d)) else None)) dayOrder"

definition day_banner :: "(string \<Rightarrow> string) \<Rightarrow> day \<Rightarrow> string \<times> string" where
  "day_banner stringToColor sel = (stringToColor (day_name sel), day_name sel)"

fun tab_filled :: "day_tab \<Rightarrow> bool" where
  "tab_filled (DayTab d n sh bg) = (bg \<noteq> None)"

fun tab_day :: "day_tab \<Rightarrow> day" where
  "tab_day (DayTab d n sh bg) = d"

section \<open>Lemmas\<close>

lemma handleTimeSlotChange_length:
  "handleTimeSlotChange i v l = Some l' \<Longrightarrow> length (timeSlots l') = length (timeSlots l)"
  by (auto simp: handleTimeSlotChange_def split: if_splits)

lemma handleDurationChange_slots:
  "handleDurationChange v l = Some l' \<Longrightarrow> timeSlots l' = timeSlots l"
  by (auto simp: handleDurationChange_def Let_def split: if_splits)

lemma panel_write_keeps: "pn_local (panel_write r s) = pn_local s \<and> pn_settings (panel_write r s) = pn_settings s"
  by (simp add: panel_write_def)

text \<open>The local copy always has as many slots as the hook's settings.\<close>

lemma panel_step_slots:
  "length (timeSlots (pn_local s)) = length (timeSlots (pn_settings s)) \<Longrightarrow>
   length (timeSlots (pn_local (panel_step u s e))) = length (timeSlots (pn_settings (panel_step u s e)))"
  by (cases e)
     (auto simp: panel_step_def panel_write_keeps Let_def dest: handleTimeSlotChange_length handleDurationChange_slots
           split: option.split)

lemma panel_run_slots:
  "length (timeSlots (pn_local s)) = length (timeSlots (pn_settings s)) \<Longrightarrow>
   length (timeSlots (pn_local (panel_run u s es))) = length (timeSlots (pn_settings (panel_run u s es)))"
  by (induction es arbitrary: s) (simp_all add: panel_run_def panel_step_slots)

text \<open>
  So the editor opened from any row of the grid (one row per local slot) labels the slot
  with the hook's start time, never with \<^verbatim>\<open>undefined\<close>.
\<close>

lemma editor_label_defined:
  assumes "s = panel_run u (panel_init d) es" and "slot < length (timeSlots (pn_local s))"
  shows "editor_time_label tz today (pn_settings s) slot =
           timeSlots (pn_settings s) ! slot @ '' - '' @
           calculateEndTime tz today (timeSlots (pn_settings s) ! slot) (int (lessonDuration (pn_settings s)))"
proof -
  have "length (timeSlots (pn_local (panel_init d))) = length (timeSlots (pn_settings (panel_init d)))"
    by (simp add: panel_init_def Let_def)
  from panel_run_slots [OF this] assms show ?thesis by (simp add: editor_time_label_def)
qed

text \<open>
  A snapshot that arrives between typing a start time and leaving the field discards the
  typed value: the page ends as if nothing had been typed, and the blur that follows
  writes nothing new.
\<close>

lemma snapshot_discards_edit:
  "i < length (timeSlots (pn_local s)) \<Longrightarrow>
   panel_step u (panel_step u s (SlotInput i v)) SnapshotArrives = panel_step u s SnapshotArrives"
  by (simp add: panel_step_def handleTimeSlotChange_def Let_def)

text \<open>
  One tab per day, in the page's order, and exactly one of them filled: the selected
  day's, with the banner's colour.
\<close>

lemma day_tabs_one_filled:
  "map tab_day (day_tabs c sel) = dayOrder \<and>
   filter tab_filled (day_tabs c sel) = [DayTab sel (day_name sel) (dayShort sel) (Some (fst (day_banner c sel)))]"
proof -
  have "filter tab_filled (day_tabs c sel) =
          map (\<lambda>d. DayTab d (day_name d) (dayShort d) (Some (c (day_name d)))) (filter (\<lambda>d. d = sel) dayOrder)"
    by (simp add: day_tabs_def filter_map comp_def eq_commute)
  also have "filter (\<lambda>d. d = sel) dayOrder = [sel]"
    by (cases sel) (simp_all add: dayOrder_def)
  finally show ?thesis
    by (simp add: day_tabs_def day_banner_def comp_def)
qed

text \<open>Clicking the tab of a day fills that tab and no other.\<close>

lemma click_tab_fills:
  "filter tab_filled (day_tabs c (selectedDay (fst (page_step br s (SelectDay d))))) =
     [DayTab d (day_name d) (dayShort d) (Some (c (day_name d)))]"
  using day_tabs_one_filled [of c d] by (simp add: page_step_def day_banner_def)

end
