(* ===== verification/Survey.thy ===== *)
theory Survey
  imports Prelude
begin

text \<open>
  The three student surveys under \<^verbatim>\<open>src/src/app/anket/\<close> and the survey store
  \<^verbatim>\<open>src/src/hooks/use-surveys.ts\<close>. Each page keeps an answers object (question index to
  answer value), enables its submit button once every question has an answer, adds each
  answer to its question's category, and saves one result record per completed survey
  under the signed-in teacher. The learning-style page reports the dominant style; the
  other two rank all categories by score (a stable sort), and the Holland page prints the
  initials of the top three. The question texts are not modelled, only their categories in
  the source's order.
\<close>

section \<open>Answers and scores, shared by the three pages\<close>

text \<open>
  \<^verbatim>\<open>type Answers = { [key: number]: number }\<close>. Integer keys of a JavaScript object
  enumerate in ascending order, whatever the insertion order, so the object is the list of
  its entries sorted by key.
\<close>

type_synonym answers = "(nat \<times> int) list"

text \<open>\<^verbatim>\<open>setAnswers(prev => ({ ...prev, [questionIndex]: parseInt(value) }))\<close>\<close>

fun set_answer :: "nat \<Rightarrow> int \<Rightarrow> answers \<Rightarrow> answers" where
  "set_answer i v [] = [(i, v)]"
| "set_answer i v ((j, w) # xs) =
     (if i = j then (i, v) # xs
      else if i < j then (i, v) # (j, w) # xs
      else (j, w) # set_answer i v xs)"

text \<open>\<^verbatim>\<open>disabled={answeredCount < questions.length || isSaving}\<close>, with
  \<^verbatim>\<open>answeredCount = Object.keys(answers).length\<close>.\<close>

definition submit_enabled :: "answers \<Rightarrow> nat \<Rightarrow> bool \<Rightarrow> bool" where
  "submit_enabled ans nQuestions isSaving = (\<not> (length ans < nQuestions \<or> isSaving))"

text \<open>
  The scoring loop: \<^verbatim>\<open>Object.entries(answers).forEach(([questionIndex, answerValue]) =>
  { const question = questions[parseInt(questionIndex)]; if (question) scores[question.type]
  += answerValue; })\<close>, from scores that start at 0 for every category.
\<close>

definition tally :: "'c list \<Rightarrow> answers \<Rightarrow> 'c \<Rightarrow> int" where
  "tally questions ans =
     foldl (\<lambda>sc (i, v). if i < length questions then sc(questions ! i := sc (questions ! i) + v) else sc)
       (\<lambda>_. 0) ans"

text \<open>
  \<^verbatim>\<open>Object.entries(scores).map(([type, score], index) => ({ id: type, score, fill:
  resultColors[index % resultColors.length], ... }))\<close>: one entry per category in declaration
  order, with the index of its chart colour.
\<close>

definition score_entries :: "'c list \<Rightarrow> nat \<Rightarrow> ('c \<Rightarrow> int) \<Rightarrow> ('c \<times> int \<times> nat) list" where
  "score_entries keys nColors sc = reindex_from (\<lambda>index c. (c, sc c, index mod nColors)) keys"

text \<open>\<^verbatim>\<open>.sort((a, b) => b.score - a.score)\<close>: \<^verbatim>\<open>Array.prototype.sort\<close> is stable, so the
  result is the stable sort by descending score, which \<open>sort_key\<close> (insertion sort) computes.\<close>

definition rank_results :: "('c \<times> int \<times> nat) list \<Rightarrow> ('c \<times> int \<times> nat) list" where
  "rank_results entries = sort_key (\<lambda>(c, s, k). - s) entries"

definition rankedResults :: "'c list \<Rightarrow> 'c list \<Rightarrow> nat \<Rightarrow> answers \<Rightarrow> ('c \<times> int \<times> nat) list" where
  "rankedResults keys questions nColors ans = rank_results (score_entries keys nColors (tally questions ans))"

text \<open>\<^verbatim>\<open>Object.keys(scores).reduce((a, b) => scores[a] > scores[b] ? a : b)\<close>\<close>

definition reduce_dominant :: "('c \<Rightarrow> int) \<Rightarrow> 'c \<Rightarrow> 'c list \<Rightarrow> 'c" where
  "reduce_dominant sc first rest = foldl (\<lambda>a b. if sc a > sc b then a else b) first rest"

section \<open>The three surveys\<close>

subsection \<open>Learning styles, \<^verbatim>\<open>ogrenme-stilleri/page.tsx\<close>\<close>

datatype learning_style = Visual | Auditory | Kinesthetic

definition learningStyleKeys :: "learning_style list" where
  "learningStyleKeys = [Visual, Auditory, Kinesthetic]"

definition ls_questions :: "learning_style list" where
  "ls_questions = [Visual, Auditory, Kinesthetic, Visual, Auditory]"

definition ls_answerValues :: "int list" where
  "ls_answerValues = [2, 1, 0]"

subsection \<open>Multiple intelligences, \<^verbatim>\<open>coklu-zeka-kurami/page.tsx\<close>\<close>

datatype intelligence =
  Linguistic | Logical | Spatial | Bodily | Musical | Interpersonal | Intrapersonal | Naturalist

definition intelligenceKeys :: "intelligence list" where
  "intelligenceKeys = [Linguistic, Logical, Spatial, Bodily, Musical, Interpersonal, Intrapersonal, Naturalist]"

text \<open>Eighty questions, ten per intelligence, in blocks in the order of the keys.\<close>

definition mi_questions :: "intelligence list" where
  "mi_questions =
     replicate 10 Linguistic @ replicate 10 Logical @ replicate 10 Spatial @ replicate 10 Bodily @
     replicate 10 Musical @ replicate 10 Interpersonal @ replicate 10 Intrapersonal @
     replicate 10 Naturalist"

definition mi_answerValues :: "int list" where
  "mi_answerValues = [0, 1, 2, 3]"

definition mi_colorCount :: nat where
  "mi_colorCount = 8"

subsection \<open>Holland vocational inventory, \<^verbatim>\<open>holland-meslek-envanteri/page.tsx\<close>\<close>

datatype personality = Realistic | Investigative | Artistic | Social | Enterprising | Conventional

definition personalityKeys :: "personality list" where
  "personalityKeys = [Realistic, Investigative, Artistic, Social, Enterprising, Conventional]"

definition holland_questions :: "personality list" where
  "holland_questions =
     replicate 10 Realistic @ replicate 10 Investigative @ replicate 10 Artistic @
     replicate 10 Social @ replicate 10 Enterprising @ replicate 10 Conventional"

definition holland_answerValues :: "int list" where
  "holland_answerValues = [0, 1, 2]"

definition holland_colorCount :: nat where
  "holland_colorCount = 6"

text \<open>
  The first character of \<^verbatim>\<open>personalityTypes[type].name.split(' ')[0]\<close>: the names are
  Turkish (Gercekci, Arastirmaci, Sanatci, Sosyal, Girisimci, Geleneksel, each followed by the
  English name in brackets), so the initials are those of the Turkish words.
\<close>

fun personality_initial :: "personality \<Rightarrow> char" where
  "personality_initial Realistic = CHR ''G''"
| "personality_initial Investigative = CHR ''A''"
| "personality_initial Artistic = CHR ''S''"
| "personality_initial Social = CHR ''S''"
| "personality_initial Enterprising = CHR ''G''"
| "personality_initial Conventional = CHR ''G''"

text \<open>\<^verbatim>\<open>results.slice(0, 3).map(r => r.name.charAt(0)).join('')\<close>\<close>

definition hollandCode :: "(personality \<times> int \<times> nat) list \<Rightarrow> string" where
  "hollandCode results = map (\<lambda>(c, s, k). personality_initial c) (take 3 results)"

section \<open>The survey store, \<^verbatim>\<open>use-surveys.ts\<close>\<close>

datatype survey_results =
    LearningStyleResult learning_style "(learning_style \<times> int) list"
  | IntelligenceResults "(intelligence \<times> int \<times> nat) list"
  | HollandResults "(personality \<times> int \<times> nat) list"

record survey_record =
  sr_id :: string
  sr_userId :: uid
  sr_studentId :: string
  sr_classId :: string
  surveyType :: string
  sr_results :: survey_results
  completedAt :: string

text \<open>The collections \<^verbatim>\<open>users/{uid}/surveys\<close>, one list per teacher in creation order.\<close>

type_synonym survey_db = "uid \<Rightarrow> survey_record list"

text \<open>
  The errors of a submission: the page's own check of the URL parameters, the store's
  missing user, and a rejected \<^verbatim>\<open>addDoc\<close>, whose message the store prefixes
  (line 38).
\<close>

datatype survey_error = MissingStudentOrClass | NotSignedIn | WriteFailed string

definition write_failed_prefix :: string where
  "write_failed_prefix =
     ''Anket sonu'' @ [CHR 0xC3, CHR 0xA7] @ ''lar'' @ [CHR 0xC4, CHR 0xB1] @ '' veritaban'' @ [CHR 0xC4, CHR 0xB1] @
     ''na kaydedilirken bir hata olu'' @ [CHR 0xC5, CHR 0x9F] @ ''tu: ''"

text \<open>
  \<^verbatim>\<open>saveSurveyResult(surveyData)\<close>, lines 16--42: without a signed-in user it throws;
  otherwise \<^verbatim>\<open>addDoc\<close> appends the record with the user's id. \<open>created\<close> is the
  outcome of \<^verbatim>\<open>addDoc\<close>: \<open>Inr i\<close>, the new document's id, or \<open>Inl m\<close>, a rejection
  with message \<open>m\<close>, which the store rethrows with its prefix and no document.
\<close>

definition saveSurveyResult ::
  "uid option \<Rightarrow> string + string \<Rightarrow> string \<Rightarrow> string \<Rightarrow> string \<Rightarrow> survey_results \<Rightarrow> string \<Rightarrow> survey_db \<Rightarrow> survey_error + survey_db" where
  "saveSurveyResult currentUser created studentId classId stype res completed db =
     (case currentUser of
        None \<Rightarrow> Inl NotSignedIn
      | Some u \<Rightarrow>
          (case created of
             Inl m \<Rightarrow> Inl (WriteFailed (write_failed_prefix @ m))
           | Inr freshId \<Rightarrow> Inr (db(u := db u @
               [\<lparr>sr_id = freshId, sr_userId = u, sr_studentId = studentId, sr_classId = classId,
                 surveyType = stype, sr_results = res, completedAt = completed\<rparr>]))))"

text \<open>\<^verbatim>\<open>useStudentSurveys(studentId)\<close>: the listener's query \<^verbatim>\<open>where("studentId", "==", studentId)\<close>.\<close>

definition studentSurveys :: "survey_db \<Rightarrow> uid \<Rightarrow> string \<Rightarrow> survey_record list" where
  "studentSurveys db u sid = filter (\<lambda>r. sr_studentId r = sid) (db u)"

text \<open>\<^verbatim>\<open>deleteSurvey(surveyId)\<close>, lines 81--92 (deleting a missing document succeeds).\<close>

definition deleteSurvey :: "uid option \<Rightarrow> string \<Rightarrow> survey_db \<Rightarrow> bool \<times> survey_db" where
  "deleteSurvey user surveyId db =
     (case user of None \<Rightarrow> (False, db)
      | Some u \<Rightarrow> (True, db(u := filter (\<lambda>r. sr_id r \<noteq> surveyId) (db u))))"

section \<open>The pages' state and handlers\<close>

record 'r survey_page =
  pg_answers :: answers
  pg_complete :: bool
  pg_result :: 'r

definition handleAnswerChange :: "nat \<Rightarrow> int \<Rightarrow> 'r survey_page \<Rightarrow> 'r survey_page" where
  "handleAnswerChange i v pg = pg\<lparr>pg_answers := set_answer i v (pg_answers pg)\<rparr>"

definition resetSurvey :: "('c \<times> int \<times> nat) list survey_page \<Rightarrow> ('c \<times> int \<times> nat) list survey_page" where
  "resetSurvey pg = pg\<lparr>pg_answers := [], pg_complete := False, pg_result := []\<rparr>"

definition str_of :: "string option \<Rightarrow> string" where
  "str_of s = (case s of None \<Rightarrow> [] | Some x \<Rightarrow> x)"

text \<open>
  \<^verbatim>\<open>calculateResults\<close> of the learning-style page, lines 76--113: the result is shown
  (\<^verbatim>\<open>setDominantStyle\<close>) before the save; the page turns complete only when the save
  succeeds. The outcome is the toast: \<open>None\<close> for success.
\<close>

definition calculateResults_ls ::
  "string option \<Rightarrow> string option \<Rightarrow> uid option \<Rightarrow> string + string \<Rightarrow> string \<Rightarrow>
   learning_style option survey_page \<Rightarrow> survey_db \<Rightarrow>
   survey_error option \<times> learning_style option survey_page \<times> survey_db" where
  "calculateResults_ls studentId classId currentUser created now pg db =
     (if \<not> js_truthy_str studentId \<or> \<not> js_truthy_str classId then (Some MissingStudentOrClass, pg, db) else
      let scores = tally ls_questions (pg_answers pg);
          dominant = reduce_dominant scores Visual [Auditory, Kinesthetic];
          pg' = pg\<lparr>pg_result := Some dominant\<rparr>;
          res = LearningStyleResult dominant (map (\<lambda>c. (c, scores c)) learningStyleKeys)
      in case saveSurveyResult currentUser created (str_of studentId) (str_of classId) ''ogrenme-stilleri'' res now db of
           Inl e \<Rightarrow> (Some e, pg', db)
         | Inr db' \<Rightarrow> (None, pg'\<lparr>pg_complete := True\<rparr>, db'))"

text \<open>\<^verbatim>\<open>calculateResults\<close> of the multiple-intelligence page, lines 200--242.\<close>

definition calculateResults_mi ::
  "string option \<Rightarrow> string option \<Rightarrow> uid option \<Rightarrow> string + string \<Rightarrow> string \<Rightarrow>
   (intelligence \<times> int \<times> nat) list survey_page \<Rightarrow> survey_db \<Rightarrow>
   survey_error option \<times> (intelligence \<times> int \<times> nat) list survey_page \<times> survey_db" where
  "calculateResults_mi studentId classId currentUser created now pg db =
     (if \<not> js_truthy_str studentId \<or> \<not> js_truthy_str classId then (Some MissingStudentOrClass, pg, db) else
      let res = rankedResults intelligenceKeys mi_questions mi_colorCount (pg_answers pg);
          pg' = pg\<lparr>pg_result := res\<rparr>
      in case saveSurveyResult currentUser created (str_of studentId) (str_of classId) ''coklu-zeka''
                (IntelligenceResults res) now db of
           Inl e \<Rightarrow> (Some e, pg', db)
         | Inr db' \<Rightarrow> (None, pg'\<lparr>pg_complete := True\<rparr>, db'))"

text \<open>\<^verbatim>\<open>calculateResults\<close> of the Holland page, lines 174--217.\<close>

definition calculateResults_holland ::
  "string option \<Rightarrow> string option \<Rightarrow> uid option \<Rightarrow> string + string \<Rightarrow> string \<Rightarrow>
   (personality \<times> int \<times> nat) list survey_page \<Rightarrow> survey_db \<Rightarrow>
   survey_error option \<times> (personality \<times> int \<times> nat) list survey_page \<times> survey_db" where
  "calculateResults_holland studentId classId currentUser created now pg db =
     (if \<not> js_truthy_str studentId \<or> \<not> js_truthy_str classId then (Some MissingStudentOrClass, pg, db) else
      let res = rankedResults personalityKeys holland_questions holland_colorCount (pg_answers pg);
          pg' = pg\<lparr>pg_result := res\<rparr>
      in case saveSurveyResult currentUser created (str_of studentId) (str_of classId) ''holland''
                (HollandResults res) now db of
           Inl e \<Rightarrow> (Some e, pg', db)
         | Inr db' \<Rightarrow> (None, pg'\<lparr>pg_complete := True\<rparr>, db'))"

text \<open>The answers object after the page's radio groups have recorded a sequence of choices.\<close>

abbreviation answers_of :: "(nat \<times> int) list \<Rightarrow> answers" where
  "answers_of changes \<equiv> foldl (\<lambda>a (i, v). set_answer i v a) [] changes"

section \<open>Lemmas\<close>

lemma tally_foldl:
  fixes sc0 :: "'c \<Rightarrow> int" and qs :: "'c list"
  defines "step \<equiv> (\<lambda>sc (i, v). if i < length qs then sc(qs ! i := sc (qs ! i) + v) else sc)"
  shows "foldl step sc0 ans c
     = sc0 c + sum_list (map snd (filter (\<lambda>(i, v). i < length qs \<and> qs ! i = c) ans))"
proof (induction ans arbitrary: sc0)
  case Nil then show ?case by simp
next
  case (Cons a ans)
  obtain i v where a: "a = (i, v)" by fastforce
  have IH: "foldl step (step sc0 a) ans c
      = step sc0 a c + sum_list (map snd (filter (\<lambda>(i, v). i < length qs \<and> qs ! i = c) ans))"
    by (rule Cons.IH)
  have "step sc0 a c = sc0 c + (if i < length qs \<and> qs ! i = c then v else 0)"
    by (simp add: step_def a)
  with IH a show ?case by simp
qed

lemma tally_eq:
  "tally qs ans c = sum_list (map snd (filter (\<lambda>(i, v). i < length qs \<and> qs ! i = c) ans))"
  unfolding tally_def by (simp add: tally_foldl)

lemma tally_foldl_total:
  fixes sc0 :: "'c \<Rightarrow> int"
  assumes "distinct keys" and "set qs \<subseteq> set keys"
  defines "step \<equiv> (\<lambda>sc (i, v). if i < length qs then sc(qs ! i := sc (qs ! i) + v) else sc)"
  shows "sum_list (map (foldl step sc0 ans) keys)
     = sum_list (map sc0 keys) + sum_list (map snd (filter (\<lambda>(i, v). i < length qs) ans))"
proof (induction ans arbitrary: sc0)
  case Nil then show ?case by simp
next
  case (Cons a ans)
  obtain i v where a: "a = (i, v)" by fastforce
  have IH: "sum_list (map (foldl step (step sc0 a) ans) keys)
      = sum_list (map (step sc0 a) keys) + sum_list (map snd (filter (\<lambda>(i, v). i < length qs) ans))"
    by (rule Cons.IH)
  show ?case
  proof (cases "i < length qs")
    case True
    then have q: "qs ! i \<in> set keys" using assms(2) nth_mem by blast
    have "sum_list (map (step sc0 a) keys) = sum_list (map sc0 keys) + v"
      using True a sum_list_map_upd_add [OF assms(1) q] by (simp add: step_def)
    with IH True a show ?thesis by simp
  next
    case False
    then have "step sc0 a = sc0" by (simp add: a step_def)
    with IH False a show ?thesis by simp
  qed
qed

text \<open>
  C8 (invariant). No answer is lost or counted twice: when the category keys are distinct
  and cover every question's category, the category scores add up to the sum of the answers
  given to existing questions.
\<close>

theorem tally_total:
  assumes "distinct keys" and "set qs \<subseteq> set keys"
  shows "sum_list (map (tally qs ans) keys) = sum_list (map snd (filter (\<lambda>(i, v). i < length qs) ans))"
  using tally_foldl_total [OF assms, of "\<lambda>_. 0" ans] by (simp add: tally_def)

text \<open>
  C9 (functional). The ranking of the multiple-intelligence and Holland pages lists the
  category entries by descending score, is a permutation of them, and keeps entries of equal
  score in declaration order.
\<close>

theorem rank_results_correct:
  "sorted_wrt (\<ge>) (map (\<lambda>(c, s, k). s) (rank_results es)) \<and>
   mset (rank_results es) = mset es \<and>
   (\<forall>x. filter (\<lambda>(c, s, k). s = x) (rank_results es) = filter (\<lambda>(c, s, k). s = x) es)"
proof (intro conjI allI)
  have "sorted (map (\<lambda>(c, s, k). - s) (rank_results es))"
    unfolding rank_results_def by (rule sorted_sort_key)
  then show "sorted_wrt (\<ge>) (map (\<lambda>(c, s, k). s) (rank_results es))"
    by (simp add: sorted_wrt_map case_prod_beta)
  show "mset (rank_results es) = mset es" by (simp add: rank_results_def)
  fix x :: int
  have "filter (\<lambda>(c, s, k). s = x) (rank_results es)
      = filter (\<lambda>y. (\<lambda>(c, s, k). - s) y = - x) (sort_key (\<lambda>(c, s, k). - s) es)"
    unfolding rank_results_def by (rule filter_cong) auto
  also have "\<dots> = filter (\<lambda>y. (\<lambda>(c, s, k). - s) y = - x) es"
    by (rule sort_key_stable)
  also have "\<dots> = filter (\<lambda>(c, s, k). s = x) es"
    by (rule filter_cong) auto
  finally show "filter (\<lambda>(c, s, k). s = x) (rank_results es) = filter (\<lambda>(c, s, k). s = x) es" .
qed

lemma reduce_dominant_snoc:
  "reduce_dominant sc x (xs @ [b]) = (if sc (reduce_dominant sc x xs) > sc b then reduce_dominant sc x xs else b)"
  by (simp add: reduce_dominant_def)

text \<open>
  C10 (equivalence). The learning-style page's \<^verbatim>\<open>reduce\<close> returns a category of
  maximal score, and the last such one: every category after it scores strictly less. A tie
  therefore goes to the later category.
\<close>

theorem reduce_dominant_last_max:
  "\<exists>ys zs. x # xs = ys @ reduce_dominant sc x xs # zs \<and>
     (\<forall>d \<in> set (x # xs). sc d \<le> sc (reduce_dominant sc x xs)) \<and>
     (\<forall>d \<in> set zs. sc d < sc (reduce_dominant sc x xs))"
proof (induction xs rule: rev_induct)
  case Nil
  show ?case by (rule exI [of _ "[]"], rule exI [of _ "[]"]) (simp add: reduce_dominant_def)
next
  case (snoc b xs)
  let ?r = "reduce_dominant sc x xs"
  from snoc.IH obtain ys zs where split: "x # xs = ys @ ?r # zs"
    and le: "\<forall>d \<in> set (x # xs). sc d \<le> sc ?r" and lt: "\<forall>d \<in> set zs. sc d < sc ?r" by blast
  show ?case
  proof (cases "sc ?r > sc b")
    case True
    have r: "reduce_dominant sc x (xs @ [b]) = ?r" using True by (simp add: reduce_dominant_snoc)
    have eq: "x # xs @ [b] = ys @ ?r # (zs @ [b])" using split by simp
    have le': "\<forall>d \<in> set (x # xs @ [b]). sc d \<le> sc ?r" using le True by auto
    have lt': "\<forall>d \<in> set (zs @ [b]). sc d < sc ?r" using lt True by auto
    show ?thesis unfolding r using eq le' lt' by blast
  next
    case False
    have r: "reduce_dominant sc x (xs @ [b]) = b" using False by (simp add: reduce_dominant_snoc)
    have le': "\<forall>d \<in> set (x # xs @ [b]). sc d \<le> sc b" using le False by auto
    then have "x # xs @ [b] = (x # xs) @ b # [] \<and> (\<forall>d \<in> set (x # xs @ [b]). sc d \<le> sc b)
        \<and> (\<forall>d \<in> set []. sc d < sc b)" by simp
    then show ?thesis unfolding r by blast
  qed
qed

lemma set_answer_map_of: "map_of (set_answer i v ans) = (map_of ans)(i \<mapsto> v)"
  by (induction i v ans rule: set_answer.induct) (auto simp: fun_eq_iff)

lemma set_answer_keys: "fst ` set (set_answer i v ans) = insert i (fst ` set ans)"
  by (induction i v ans rule: set_answer.induct) auto

lemma set_answer_memD:
  "(a, b) \<in> set (set_answer i v ans) \<Longrightarrow> a = i \<or> (\<exists>b'. (a, b') \<in> set ans)"
  by (induction i v ans rule: set_answer.induct) (auto split: if_splits)

lemma set_answer_sorted:
  "sorted_wrt (<) (map fst ans) \<Longrightarrow> sorted_wrt (<) (map fst (set_answer i v ans))"
  by (induction i v ans rule: set_answer.induct) (auto dest!: set_answer_memD)

text \<open>
  Recording an answer and reading it back: after
  \<^verbatim>\<open>handleAnswerChange(i, v)\<close> the answer of question \<open>i\<close> is \<open>v\<close> and the others are
  unchanged; the entries stay in ascending key order, as JavaScript enumerates them.
\<close>

theorem set_answer_roundtrip:
  "map_of (set_answer i v ans) = (map_of ans)(i \<mapsto> v) \<and>
   (sorted_wrt (<) (map fst ans) \<longrightarrow> sorted_wrt (<) (map fst (set_answer i v ans)))"
  by (simp add: set_answer_map_of set_answer_sorted)

lemma set_answer_mem:
  "(a, b) \<in> set (set_answer i v ans) \<Longrightarrow> (a = i \<and> b = v) \<or> (a, b) \<in> set ans"
  by (induction i v ans rule: set_answer.induct) (auto split: if_splits)

lemma foldl_set_answer_keys:
  "fst ` set (foldl (\<lambda>a (i, v). set_answer i v a) a0 changes) = fst ` set a0 \<union> fst ` set changes"
proof (induction changes arbitrary: a0)
  case Nil then show ?case by simp
next
  case (Cons c changes)
  obtain i v where c: "c = (i, v)" by fastforce
  have "fst ` set (foldl (\<lambda>a (i, v). set_answer i v a) (set_answer i v a0) changes)
      = insert i (fst ` set a0) \<union> fst ` set changes"
    by (simp only: Cons.IH set_answer_keys)
  then show ?case by (simp add: c)
qed

lemma foldl_set_answer_sorted:
  "sorted_wrt (<) (map fst a0) \<Longrightarrow> sorted_wrt (<) (map fst (foldl (\<lambda>a (i, v). set_answer i v a) a0 changes))"
  by (induction changes arbitrary: a0) (auto simp: set_answer_sorted)

lemma foldl_set_answer_values:
  "(\<forall>(i, v) \<in> set a0. v \<in> V) \<Longrightarrow> (\<forall>(i, v) \<in> set changes. v \<in> V) \<Longrightarrow>
     \<forall>(i, v) \<in> set (foldl (\<lambda>a (i, v). set_answer i v a) a0 changes). v \<in> V"
proof (induction changes arbitrary: a0)
  case Nil then show ?case by simp
next
  case (Cons c changes)
  obtain i v where c: "c = (i, v)" by fastforce
  have "\<forall>(j, w) \<in> set (set_answer i v a0). w \<in> V"
    using Cons.prems c by (auto dest: set_answer_mem)
  with Cons.IH [of "set_answer i v a0"] Cons.prems c show ?case by simp
qed

lemma answers_of_distinct: "distinct (map fst (answers_of changes))"
  using foldl_set_answer_sorted [of "[]" changes] by (simp add: strict_sorted_iff)

text \<open>
  C11 (safety). The completion gate: when the answers come from the page's radio groups
  (indices of existing questions) and the submit button is enabled, nothing is being saved
  and every question has an answer.
\<close>

theorem submit_enabled_all_answered:
  assumes keys: "\<forall>(i, v) \<in> set changes. i < n"
    and enabled: "submit_enabled (answers_of changes) n saving"
  shows "\<not> saving \<and> (\<forall>i < n. \<exists>v. map_of (answers_of changes) i = Some v)"
proof -
  let ?K = "fst ` set (answers_of changes)"
  have sub: "?K \<subseteq> {..<n}" using keys by (auto simp: foldl_set_answer_keys)
  have "n \<le> length (answers_of changes)" using enabled by (simp add: submit_enabled_def)
  also have "\<dots> = card ?K"
    using distinct_card [OF answers_of_distinct [of changes]] by simp
  finally have ge: "n \<le> card ?K" .
  have "card ?K \<le> card {..<n}" by (rule card_mono [OF finite_lessThan sub])
  with ge have "card ?K = card {..<n}" by simp
  then have K: "?K = {..<n}" by (rule card_subset_eq [OF finite_lessThan sub])
  have "\<forall>i < n. \<exists>v. map_of (answers_of changes) i = Some v"
  proof (intro allI impI)
    fix i assume "i < n"
    then have "i \<in> ?K" using K by simp
    then show "\<exists>v. map_of (answers_of changes) i = Some v"
      by (metis map_of_eq_None_iff not_None_eq)
  qed
  with enabled show ?thesis by (simp add: submit_enabled_def)
qed

lemma length_filter_answers_le:
  assumes "distinct (map fst ans)" and "\<forall>(i, v) \<in> set ans. i < n"
  shows "length (filter (\<lambda>(i, v). i < n \<and> P i) ans) \<le> length (filter P [0..<n])"
proof -
  let ?f = "filter (\<lambda>(i, v). i < n \<and> P i) ans"
  have d: "distinct (map fst ?f)" using assms(1) by (simp add: distinct_map_filter)
  have "length ?f = card (set (map fst ?f))"
    using distinct_card [OF d] by simp
  also have "\<dots> \<le> card (set (filter P [0..<n]))"
    by (intro card_mono) auto
  also have "\<dots> = length (filter P [0..<n])" by (metis distinct_card distinct_filter distinct_upt)
  finally show ?thesis .
qed

lemma mi_category_count: "length (filter (\<lambda>i. mi_questions ! i = c) [0..<length mi_questions]) = 10"
  unfolding count_positions by (cases c) (simp_all add: mi_questions_def count_list_replicate)

lemma mi_tally_bounds:
  assumes dist: "distinct (map fst A)"
    and A: "\<forall>(i, v) \<in> set A. i < length mi_questions \<and> v \<in> set mi_answerValues"
  shows "0 \<le> tally mi_questions A c \<and> tally mi_questions A c \<le> 30"
proof -
  let ?f = "filter (\<lambda>(i, v). i < length mi_questions \<and> mi_questions ! i = c) A"
  have keys: "\<forall>(i, v) \<in> set A. i < length mi_questions" using A by auto
  have vals': "\<forall>x \<in> set (map snd ?f). 0 \<le> x \<and> x \<le> 3"
    using A by (auto simp: mi_answerValues_def)
  have "length ?f \<le> 10"
    using length_filter_answers_le [OF dist keys, of "\<lambda>i. mi_questions ! i = c"]
      mi_category_count by simp
  moreover have "sum_list (map snd ?f) \<le> 3 * int (length (map snd ?f))"
    using vals' by (intro sum_list_le_length) auto
  moreover have "0 \<le> sum_list (map snd ?f)"
    using vals' by (intro sum_list_nonneg) auto
  ultimately show ?thesis by (simp add: tally_eq)
qed

text \<open>
  C13 (bounds). On the multiple-intelligence page, with answers from the scale 0..3 on
  existing questions, every intelligence scores between 0 and 30 (ten questions each).
\<close>

theorem mi_score_bounds:
  assumes "\<forall>(i, v) \<in> set changes. i < length mi_questions \<and> v \<in> set mi_answerValues"
  shows "0 \<le> tally mi_questions (answers_of changes) c \<and> tally mi_questions (answers_of changes) c \<le> 30"
proof (rule mi_tally_bounds [OF answers_of_distinct])
  have vals: "\<forall>(i, v) \<in> set (answers_of changes). v \<in> set mi_answerValues"
    using assms by (intro foldl_set_answer_values) auto
  have "fst ` set (answers_of changes) \<subseteq> {..<length mi_questions}"
    using assms by (auto simp: foldl_set_answer_keys)
  with vals show "\<forall>(i, v) \<in> set (answers_of changes). i < length mi_questions \<and> v \<in> set mi_answerValues"
    by fastforce
qed


text \<open>
  The Holland code does not identify the top three types: it takes the
  initials of the Turkish names, which coincide (G for realistic, enterprising and
  conventional; S for artistic and social). Two complete answer sets with different top
  three types in different orders both print the code GGG.
\<close>

theorem holland_code_ambiguous:
  "hollandCode (rankedResults personalityKeys holland_questions holland_colorCount
      (map (\<lambda>i. (i, if i < 10 then 2 else if 40 \<le> i \<and> i < 50 then 1 else if i = 50 then 1 else 0)) [0..<60])) = ''GGG''
   \<and> hollandCode (rankedResults personalityKeys holland_questions holland_colorCount
      (map (\<lambda>i. (i, if 50 \<le> i then 2 else if 40 \<le> i \<and> i < 50 then 1 else if i = 0 then 1 else 0)) [0..<60])) = ''GGG''
   \<and> map fst (take 3 (rankedResults personalityKeys holland_questions holland_colorCount
      (map (\<lambda>i. (i, if i < 10 then 2 else if 40 \<le> i \<and> i < 50 then 1 else if i = 50 then 1 else 0)) [0..<60])))
       = [Realistic, Enterprising, Conventional]
   \<and> map fst (take 3 (rankedResults personalityKeys holland_questions holland_colorCount
      (map (\<lambda>i. (i, if 50 \<le> i then 2 else if 40 \<le> i \<and> i < 50 then 1 else if i = 0 then 1 else 0)) [0..<60])))
       = [Conventional, Enterprising, Realistic]"
  by code_simp

text \<open>
  C15 (error). Submitting the multiple-intelligence survey: on any error (missing student or
  class, no signed-in user, a rejected write) the store is unchanged and the page does not turn complete; on
  success the page is complete and exactly one record, carrying the ranked results, is
  appended to the signed-in teacher's surveys.
\<close>

theorem calculateResults_mi_store:
  assumes "calculateResults_mi sid cid user created now pg db = (err, pg', db')"
  shows "(err \<noteq> None \<longrightarrow> db' = db \<and> pg_complete pg' = pg_complete pg)
       \<and> (err = None \<longrightarrow> pg_complete pg' \<and>
            (\<exists>u r. user = Some u \<and> db' = db(u := db u @ [r]) \<and> created = Inr (sr_id r) \<and>
                   sr_studentId r = str_of sid \<and> sr_classId r = str_of cid \<and>
                   sr_results r = IntelligenceResults (pg_result pg') \<and>
                   pg_result pg' = rankedResults intelligenceKeys mi_questions mi_colorCount (pg_answers pg)))"
  using assms
  by (auto simp: calculateResults_mi_def saveSurveyResult_def Let_def split: if_splits option.splits sum.splits)

text \<open>Witness of C8 on the learning-style survey.\<close>

theorem tally_total_witness:
  "distinct learningStyleKeys \<and> set ls_questions \<subseteq> set learningStyleKeys \<and>
   sum_list (map (tally ls_questions [(0, 2), (1, 1), (2, 0), (3, 2), (4, 1)]) learningStyleKeys) = 6"
proof -
  have d: "distinct learningStyleKeys" by (simp add: learningStyleKeys_def)
  have s: "set ls_questions \<subseteq> set learningStyleKeys" by (simp add: learningStyleKeys_def ls_questions_def)
  from tally_total [OF d s, of "[(0, 2), (1, 1), (2, 0), (3, 2), (4, 1)]"] d s show ?thesis
    by (simp add: ls_questions_def)
qed

text \<open>Witness of C10: with every answer 1, visual and auditory tie at 2 and auditory wins.\<close>

theorem reduce_dominant_last_max_witness:
  "reduce_dominant (tally ls_questions [(0, 1), (1, 1), (2, 1), (3, 1), (4, 1)]) Visual [Auditory, Kinesthetic] = Auditory
   \<and> (\<exists>ys zs. [Visual, Auditory, Kinesthetic] =
          ys @ reduce_dominant (tally ls_questions [(0, 1), (1, 1), (2, 1), (3, 1), (4, 1)]) Visual [Auditory, Kinesthetic] # zs)"
proof -
  have r: "reduce_dominant (tally ls_questions [(0, 1), (1, 1), (2, 1), (3, 1), (4, 1)]) Visual [Auditory, Kinesthetic] = Auditory"
    by (simp add: reduce_dominant_def tally_def ls_questions_def)
  from reduce_dominant_last_max [of Visual "[Auditory, Kinesthetic]" "tally ls_questions [(0, 1), (1, 1), (2, 1), (3, 1), (4, 1)]"]
  have "\<exists>ys zs. [Visual, Auditory, Kinesthetic] =
          ys @ reduce_dominant (tally ls_questions [(0, 1), (1, 1), (2, 1), (3, 1), (4, 1)]) Visual [Auditory, Kinesthetic] # zs"
    by blast
  with r show ?thesis by simp
qed

text \<open>Witness of C11: the five learning-style answers enable the button.\<close>

theorem submit_enabled_all_answered_witness:
  "submit_enabled (answers_of [(4, 1), (0, 2), (2, 0), (1, 1), (3, 2)]) 5 False
   \<and> list_all (\<lambda>i. map_of (answers_of [(4, 1), (0, 2), (2, 0), (1, 1), (3, 2)]) i \<noteq> None) [0..<5]"
proof -
  have k: "\<forall>(i, v) \<in> set [(4, 1), (0, 2), (2, 0), (1, 1), (3, 2)]. i < (5::nat)" by simp
  have e: "submit_enabled (answers_of [(4, 1), (0, 2), (2, 0), (1, 1), (3, 2)]) 5 False"
    by (simp add: submit_enabled_def)
  from submit_enabled_all_answered [OF k e]
  have "\<forall>i < 5. \<exists>v. map_of (answers_of [(4, 1), (0, 2), (2, 0), (1, 1), (3, 2)]) i = Some v" by simp
  with e show ?thesis by (auto simp: list_all_iff)
qed

text \<open>Witness of C12: answering question 2 of a sorted answer object.\<close>

theorem set_answer_roundtrip_witness:
  "sorted_wrt (<) (map fst [(0::nat, 2::int), (3, 1)])
   \<and> map_of (set_answer 2 0 [(0, 2), (3, 1)]) = (map_of [(0, 2), (3, 1)])(2 \<mapsto> 0)
   \<and> sorted_wrt (<) (map fst (set_answer 2 0 [(0, 2), (3, 1)]))"
  using set_answer_roundtrip [of 2 0 "[(0, 2), (3, 1)]"] by simp

text \<open>Witness of C13: every question answered 3 gives the maximum 30.\<close>

theorem mi_score_bounds_witness:
  "0 \<le> tally mi_questions (answers_of (map (\<lambda>i. (i, 3)) [0..<80])) Musical
   \<and> tally mi_questions (answers_of (map (\<lambda>i. (i, 3)) [0..<80])) Musical \<le> 30"
proof -
  have h: "\<forall>(i, v) \<in> set (map (\<lambda>i. (i, 3)) [0..<80]). i < length mi_questions \<and> v \<in> set mi_answerValues"
    by (simp add: mi_questions_def mi_answerValues_def)
  from mi_score_bounds [OF h, of Musical] show ?thesis by simp
qed

text \<open>Witness of C15: a successful submission with every answer 0.\<close>

theorem calculateResults_mi_store_witness:
  "calculateResults_mi (Some ''s'') (Some ''c'') (Some ''t'') (Inr ''r'') ''now''
      \<lparr>pg_answers = map (\<lambda>i. (i, 0)) [0..<80], pg_complete = False, pg_result = []\<rparr> (\<lambda>_. [])
   = (None, \<lparr>pg_answers = map (\<lambda>i. (i, 0)) [0..<80], pg_complete = True,
             pg_result = rankedResults intelligenceKeys mi_questions mi_colorCount (map (\<lambda>i. (i, 0)) [0..<80])\<rparr>,
      (\<lambda>_. [])(''t'' := [\<lparr>sr_id = ''r'', sr_userId = ''t'', sr_studentId = ''s'', sr_classId = ''c'',
          surveyType = ''coklu-zeka'',
          sr_results = IntelligenceResults (rankedResults intelligenceKeys mi_questions mi_colorCount (map (\<lambda>i. (i, 0)) [0..<80])),
          completedAt = ''now''\<rparr>]))
   \<and> (\<exists>u (r :: survey_record). Some ''t'' = Some u \<and> sr_id r = ''r'' \<and> sr_studentId r = ''s'')"
proof -
  have eq: "calculateResults_mi (Some ''s'') (Some ''c'') (Some ''t'') (Inr ''r'') ''now''
      \<lparr>pg_answers = map (\<lambda>i. (i, 0)) [0..<80], pg_complete = False, pg_result = []\<rparr> (\<lambda>_. [])
   = (None, \<lparr>pg_answers = map (\<lambda>i. (i, 0)) [0..<80], pg_complete = True,
             pg_result = rankedResults intelligenceKeys mi_questions mi_colorCount (map (\<lambda>i. (i, 0)) [0..<80])\<rparr>,
      (\<lambda>_. [])(''t'' := [\<lparr>sr_id = ''r'', sr_userId = ''t'', sr_studentId = ''s'', sr_classId = ''c'',
          surveyType = ''coklu-zeka'',
          sr_results = IntelligenceResults (rankedResults intelligenceKeys mi_questions mi_colorCount (map (\<lambda>i. (i, 0)) [0..<80])),
          completedAt = ''now''\<rparr>]))"
    by (simp add: calculateResults_mi_def saveSurveyResult_def js_truthy_str_def str_of_def Let_def)
  from calculateResults_mi_store [OF eq]
  have "\<exists>u (r :: survey_record). Some ''t'' = Some u \<and> sr_id r = ''r'' \<and> sr_studentId r = ''s''"
    by (auto simp: str_of_def)
  with eq show ?thesis by blast
qed

end
