(* ===== verification/ReminderPopup.thy ===== *)
theory ReminderPopup
  imports SchedulePage
begin

text \<open>
  The overdue-reminder dialog, \<^verbatim>\<open>src/src/components/smart-reminder-popup.tsx\<close>. The
  parent passes a reminder (or \<^verbatim>\<open>null\<close>, which renders nothing but keeps the
  component's state), and the callbacks \<^verbatim>\<open>onUpdate\<close>, \<^verbatim>\<open>onMarkAsComplete\<close> and
  \<^verbatim>\<open>onClose\<close>. The dialog tells whether the reminder is overdue, offers to mark it
  done or, when overdue, to pick a new date and time. Dates are the local calendar;
  the zone's offset \<open>tz\<close> (milliseconds, local = UTC + \<open>tz\<close>) matters where the
  code parses a date-only string, which JavaScript reads as UTC midnight.
\<close>

section \<open>Dates\<close>

text \<open>The fields of \<^verbatim>\<open>Reminder\<close> that the dialog reads.\<close>

record reminder =
  reminder_id :: string
  reminder_title :: string
  dueDate :: string
  reminder_time :: "string option"

type_synonym ymd = "nat \<times> nat \<times> nat"

definition leap_year :: "nat \<Rightarrow> bool" where
  "leap_year y \<longleftrightarrow> y mod 4 = 0 \<and> (y mod 100 \<noteq> 0 \<or> y mod 400 = 0)"

definition days_in_month :: "nat \<Rightarrow> nat \<Rightarrow> nat" where
  "days_in_month y m =
     (if m = 2 then (if leap_year y then 29 else 28) else if m \<in> {4, 6, 9, 11} then 30 else 31)"

fun valid_ymd :: "ymd \<Rightarrow> bool" where
  "valid_ymd (y, m, d) \<longleftrightarrow> 1 \<le> m \<and> m \<le> 12 \<and> 1 \<le> d \<and> d \<le> days_in_month y m"

text \<open>The day before a valid date.\<close>

fun prev_day :: "ymd \<Rightarrow> ymd" where
  "prev_day (y, m, d) =
     (if 1 < d then (y, m, d - 1)
      else if 1 < m then (y, m - 1, days_in_month y (m - 1))
      else (y - 1, 12, 31))"

definition digits_exact :: "nat \<Rightarrow> string \<Rightarrow> nat option" where
  "digits_exact n s = (if length s = n \<and> list_all is_digit s then Some (digits_val s) else None)"

text \<open>
  The ISO forms \<^verbatim>\<open>YYYY-MM-DD\<close> and \<^verbatim>\<open>HH:mm[:ss]\<close> that \<^verbatim>\<open>new Date\<close> accepts, with
  fields in range; any other string is an invalid date here (the engine's fallback
  parsers for other formats are not modelled; the stored dates are written by
  \<^verbatim>\<open>format(..., 'yyyy-MM-dd')\<close> and the time input).
\<close>

definition parse_ymd :: "string \<Rightarrow> ymd option" where
  "parse_ymd s =
     (case split_on (CHR ''-'') s of
        [ys, ms, ds] \<Rightarrow>
          (case (digits_exact 4 ys, digits_exact 2 ms, digits_exact 2 ds) of
             (Some y, Some m, Some d) \<Rightarrow> if valid_ymd (y, m, d) then Some (y, m, d) else None
           | _ \<Rightarrow> None)
      | _ \<Rightarrow> None)"

definition parse_hms :: "string \<Rightarrow> (nat \<times> nat \<times> nat) option" where
  "parse_hms s =
     (case map (digits_exact 2) (split_on (CHR '':'') s) of
        [Some h, Some mi] \<Rightarrow> if h < 24 \<and> mi < 60 then Some (h, mi, 0) else None
      | [Some h, Some mi, Some sec] \<Rightarrow> if h < 24 \<and> mi < 60 \<and> sec < 60 then Some (h, mi, sec) else None
      | _ \<Rightarrow> None)"

definition parse_local_datetime :: "string \<Rightarrow> (ymd \<times> nat \<times> nat \<times> nat) option" where
  "parse_local_datetime s =
     (case split_on (CHR ''T'') s of
        [dp, tp] \<Rightarrow> (case (parse_ymd dp, parse_hms tp) of (Some d, Some t) \<Rightarrow> Some (d, t) | _ \<Rightarrow> None)
      | _ \<Rightarrow> None)"

text \<open>
  A local time as one number, increasing with the time for valid fields; the clock
  \<open>now\<close> is given in the same encoding, in milliseconds.
\<close>

fun local_stamp :: "ymd \<times> nat \<times> nat \<times> nat \<Rightarrow> nat" where
  "local_stamp ((y, m, d), (h, mi, sec)) = ((((y * 13 + m) * 32 + d) * 24 + h) * 60 + mi) * 60 + sec"

text \<open>
  Line 85: the due date with its time, or the end of the day, parsed as local time;
  \<^verbatim>\<open>isPast\<close> of an invalid date is false.
\<close>

definition isOverdue :: "nat \<Rightarrow> reminder \<Rightarrow> bool" where
  "isOverdue now r =
     (case parse_local_datetime (dueDate r @ (if js_truthy_str (reminder_time r)
                                               then ''T'' @ the (reminder_time r) else ''T23:59:59'')) of
        None \<Rightarrow> False
      | Some dt \<Rightarrow> local_stamp dt * 1000 < now)"

text \<open>
  \<^verbatim>\<open>new Date(reminder.dueDate)\<close> (lines 48 and 56): UTC midnight of the date, which is
  the previous local day in a zone west of Greenwich (\<open>-86400000 < tz < 0\<close>).
\<close>

definition date_only_local :: "int \<Rightarrow> string \<Rightarrow> ymd option" where
  "date_only_local tz s = map_option (\<lambda>d. if tz < 0 then prev_day d else d) (parse_ymd s)"

text \<open>\<^verbatim>\<open>format(date, 'yyyy-MM-dd')\<close>.\<close>

definition pad4 :: "nat \<Rightarrow> string" where
  "pad4 n = (let s = nat_str n in replicate (4 - length s) (CHR ''0'') @ s)"

fun format_ymd :: "ymd \<Rightarrow> string" where
  "format_ymd (y, m, d) = pad4 y @ ''-'' @ pad2 m @ ''-'' @ pad2 d"

section \<open>The dialog\<close>

record popup_state =
  isUpdating :: bool
  showReschedule :: bool
  form_dueDate :: "ymd option"
  form_time :: "string option"
  closed :: bool

datatype popup_call = OnUpdate string string "string option" | OnMarkAsComplete string bool | OnClose

text \<open>
  The effect of lines 53--61 when a new reminder arrives: the form is reset to its date
  and time and the reschedule view is left; \<^verbatim>\<open>isUpdating\<close> is not reset.
\<close>

definition popup_open :: "int \<Rightarrow> reminder \<Rightarrow> popup_state \<Rightarrow> popup_state" where
  "popup_open tz r s =
     s\<lparr>form_dueDate := date_only_local tz (dueDate r), form_time := reminder_time r,
       showReschedule := False, closed := False\<rparr>"

text \<open>
  \<^verbatim>\<open>handleUpdate(values)\<close>, lines 67--76, behind the form's schema (an invalid date
  does not pass, and nothing happens). \<open>ok\<close> tells whether \<^verbatim>\<open>onUpdate\<close> resolves;
  a rejection leaves the handler before \<^verbatim>\<open>setIsUpdating(false)\<close> and
  \<^verbatim>\<open>onClose()\<close>.
\<close>

definition handleUpdate :: "bool \<Rightarrow> reminder \<Rightarrow> popup_state \<Rightarrow> popup_state \<times> popup_call list" where
  "handleUpdate ok r s =
     (case form_dueDate s of
        None \<Rightarrow> (s, [])
      | Some d \<Rightarrow>
          let call = OnUpdate (reminder_id r) (format_ymd d) (form_time s)
          in if ok then (s\<lparr>isUpdating := False, closed := True\<rparr>, [call, OnClose])
             else (s\<lparr>isUpdating := True\<rparr>, [call]))"

text \<open>\<^verbatim>\<open>handleMarkAsComplete()\<close>, lines 78--83.\<close>

definition handleMarkAsComplete :: "bool \<Rightarrow> reminder \<Rightarrow> popup_state \<Rightarrow> popup_state \<times> popup_call list" where
  "handleMarkAsComplete ok r s =
     (let call = OnMarkAsComplete (reminder_id r) True
      in if ok then (s\<lparr>isUpdating := False, closed := True\<rparr>, [call, OnClose])
         else (s\<lparr>isUpdating := True\<rparr>, [call]))"

text \<open>
  The buttons of lines 154--173 (each disabled while \<^verbatim>\<open>isUpdating\<close>; the reschedule
  button exists only for an overdue reminder), the form fields, and the dialog's own
  close (\<^verbatim>\<open>onOpenChange\<close>, always available).
\<close>

text \<open>
  The calendar of the date field (lines 125--132) disables every day before today:
  \<^verbatim>\<open>date < new Date(new Date().setHours(0,0,0,0))\<close>, the day's local midnight before
  today's. \<open>now\<close> is the local clock in the encoding of \<open>local_stamp\<close>, in which a
  day is 86400 seconds.
\<close>

definition calendar_disabled :: "nat \<Rightarrow> ymd \<Rightarrow> bool" where
  "calendar_disabled now d \<longleftrightarrow> local_stamp (d, 0, 0, 0) * 1000 < now div 86400000 * 86400000"

datatype popup_event =
    ClickReschedule | ClickBack | Submit bool | MarkComplete bool
  | PickDate ymd | SetTime string | Dismiss

definition popup_step :: "nat \<Rightarrow> reminder \<Rightarrow> popup_state \<Rightarrow> popup_event \<Rightarrow> popup_state \<times> popup_call list" where
  "popup_step now r s e =
     (case e of
        ClickReschedule \<Rightarrow>
          if \<not> showReschedule s \<and> isOverdue now r \<and> \<not> isUpdating s then (s\<lparr>showReschedule := True\<rparr>, []) else (s, [])
      | ClickBack \<Rightarrow> if showReschedule s \<and> \<not> isUpdating s then (s\<lparr>showReschedule := False\<rparr>, []) else (s, [])
      | Submit ok \<Rightarrow> if showReschedule s \<and> \<not> isUpdating s then handleUpdate ok r s else (s, [])
      | MarkComplete ok \<Rightarrow> if \<not> showReschedule s \<and> \<not> isUpdating s then handleMarkAsComplete ok r s else (s, [])
      | PickDate d \<Rightarrow> if valid_ymd d \<and> \<not> calendar_disabled now d then (s\<lparr>form_dueDate := Some d\<rparr>, []) else (s, [])
      | SetTime t \<Rightarrow> (s\<lparr>form_time := Some t\<rparr>, [])
      | Dismiss \<Rightarrow> (s\<lparr>closed := True\<rparr>, [OnClose]))"

text \<open>
  What the dialog shows (lines 63--65 and 87--178): nothing without a reminder;
  otherwise the title with the reminder's title and either the reschedule form (the
  date button's label, \<^verbatim>\<open>format(date, "PPP", {locale: tr})\<close> or a placeholder; the
  time input's value \<^verbatim>\<open>field.value || ''\<close>; the back and submit buttons, disabled and
  spinning while updating) or the footer (the reschedule button, only for an overdue
  reminder, and the complete button, both disabled while updating).
\<close>

datatype dialog_body =
    RescheduleForm "string option" string bool bool
  | ActionFooter bool bool bool

datatype popup_view = NoDialog | DialogView string dialog_body

text \<open>The \<^verbatim>\<open>tr\<close> locale's month names and its long date \<^verbatim>\<open>d MMMM y\<close> (UTF-8 bytes).\<close>

definition month_tr :: "nat \<Rightarrow> string" where
  "month_tr m =
     [''Ocak'', [CHR 0xC5, CHR 0x9E] @ ''ubat'', ''Mart'', ''Nisan'', ''May'' @ [CHR 0xC4, CHR 0xB1] @ ''s'',
      ''Haziran'', ''Temmuz'', ''A'' @ [CHR 0xC4, CHR 0x9F] @ ''ustos'', ''Eyl'' @ [CHR 0xC3, CHR 0xBC] @ ''l'',
      ''Ekim'', ''Kas'' @ [CHR 0xC4, CHR 0xB1] @ ''m'', ''Aral'' @ [CHR 0xC4, CHR 0xB1] @ ''k''] ! (m - 1)"

fun format_PPP_tr :: "ymd \<Rightarrow> string" where
  "format_PPP_tr (y, m, d) = nat_str d @ '' '' @ month_tr m @ '' '' @ nat_str y"

definition popup_view :: "nat \<Rightarrow> reminder option \<Rightarrow> popup_state \<Rightarrow> popup_view" where
  "popup_view now r s =
     (case r of
        None \<Rightarrow> NoDialog
      | Some r \<Rightarrow>
          DialogView (reminder_title r)
            (if showReschedule s
             then RescheduleForm (map_option format_PPP_tr (form_dueDate s))
                    (case form_time s of Some t \<Rightarrow> t | None \<Rightarrow> []) (isUpdating s) (isUpdating s)
             else ActionFooter (isOverdue now r) (isUpdating s) (isUpdating s)))"

section \<open>Lemmas\<close>

subsection \<open>Decimal strings\<close>

lemma nat_str_digits: "list_all is_digit (nat_str n)"
proof (induction n rule: nat_str.induct)
  case (1 n)
  have d: "is_digit (char_of (48 + k))" if "k < 10" for k :: nat
    using that by (simp add: is_digit_def)
  show ?case
    using 1 d [of n] d [of "n mod 10"] by (subst nat_str.simps) simp
qed

lemma digits_val_snoc: "digits_val (xs @ [c]) = 10 * digits_val xs + (of_char c - 48)"
  by (simp add: digits_val_def)

lemma of_char_digit: "k < 10 \<Longrightarrow> of_char (char_of (48 + k)) - 48 = (k::nat)"
  by simp

lemma digits_val_nat_str: "digits_val (nat_str n) = n"
proof (induction n rule: nat_str.induct)
  case (1 n)
  show ?case
  proof (cases "n < 10")
    case True
    then show ?thesis by (subst nat_str.simps) (simp add: digits_val_def)
  next
    case False
    then have "digits_val (nat_str n) = 10 * (n div 10) + n mod 10"
      using 1 by (subst nat_str.simps) (simp add: digits_val_snoc of_char_digit)
    then show ?thesis by simp
  qed
qed

lemma nat_str_nonempty: "nat_str n \<noteq> []"
  by (subst nat_str.simps) simp

lemma length_nat_str_le: "n < 10 ^ k \<Longrightarrow> 0 < k \<Longrightarrow> length (nat_str n) \<le> k"
proof (induction n arbitrary: k rule: nat_str.induct)
  case (1 n)
  show ?case
  proof (cases "n < 10")
    case True
    with 1 show ?thesis by (subst nat_str.simps) simp
  next
    case False
    obtain k' where k0: "k = Suc k'" using 1(3) by (cases k) auto
    have "0 < k'" using 1(2) False k0 by (cases k') auto
    note k = k0 this
    with 1(2) have "n div 10 < 10 ^ k'" by (simp add: less_mult_imp_div_less mult.commute)
    with 1(1) False k have "length (nat_str (n div 10)) \<le> k'" by simp
    with False k show ?thesis by (subst nat_str.simps) simp
  qed
qed

lemma digits_val_zeros: "digits_val (replicate k (CHR ''0'') @ s) = digits_val s"
proof -
  have "foldl (\<lambda>n c. 10 * n + (of_char c - 48)) (0::nat) (replicate k (CHR ''0'')) = 0"
    by (induction k) simp_all
  then show ?thesis by (simp add: digits_val_def)
qed

lemma padded_digits:
  assumes "length (nat_str n) \<le> k"
  shows "digits_exact k (replicate (k - length (nat_str n)) (CHR ''0'') @ nat_str n) = Some n"
  using assms nat_str_digits [of n]
  by (auto simp: digits_exact_def digits_val_zeros digits_val_nat_str list_all_iff is_digit_def)

lemma no_sep_digits: "list_all is_digit s \<Longrightarrow> c \<in> set s \<Longrightarrow> is_digit c"
  by (simp add: list_all_iff)

subsection \<open>Dates\<close>

text \<open>\<^verbatim>\<open>format(..., 'yyyy-MM-dd')\<close> and the date parser are inverse on valid four-digit dates.\<close>

lemma parse_ymd_format:
  assumes "valid_ymd (y, m, d)" and "y < 10000"
  shows "parse_ymd (format_ymd (y, m, d)) = Some (y, m, d)"
proof -
  have m: "m < 100" and d: "d < 100" using assms(1) by (auto simp: days_in_month_def split: if_splits)
  have ly: "length (nat_str y) \<le> 4" using length_nat_str_le [of y 4] assms(2) by simp
  have lm: "length (nat_str m) \<le> 2" using length_nat_str_le [of m 2] m by simp
  have ld: "length (nat_str d) \<le> 2" using length_nat_str_le [of d 2] d by simp
  have dig: "CHR ''-'' \<notin> set (replicate j (CHR ''0'') @ nat_str n)" for j n
    using nat_str_digits [of n] by (auto simp: list_all_iff is_digit_def)
  then have "CHR ''-'' \<notin> set (pad4 y)" "CHR ''-'' \<notin> set (pad2 m)" "CHR ''-'' \<notin> set (pad2 d)"
    by (simp_all add: pad4_def pad2_def Let_def)
  then have sp: "split_on (CHR ''-'') (format_ymd (y, m, d)) = [pad4 y, pad2 m, pad2 d]"
    by (simp add: split_on_append_sep split_on_no_sep)
  have "digits_exact 4 (pad4 y) = Some y" "digits_exact 2 (pad2 m) = Some m" "digits_exact 2 (pad2 d) = Some d"
    using padded_digits [OF ly] padded_digits [OF lm] padded_digits [OF ld]
    by (simp_all add: pad4_def pad2_def Let_def)
  with assms(1) show ?thesis
    unfolding parse_ymd_def sp by simp
qed

lemma prev_day_valid:
  assumes "valid_ymd d"
  shows "valid_ymd (prev_day d) \<and> prev_day d \<noteq> d \<and> fst (prev_day d) \<le> fst d"
proof -
  obtain y m dd where d: "d = (y, m, dd)" by (cases d) auto
  have "1 \<le> days_in_month y (m - 1)" by (simp add: days_in_month_def)
  with assms d show ?thesis by (auto simp: days_in_month_def)
qed

text \<open>
  West of Greenwich, rescheduling without touching the date field sends the day before
  the stored due date: the form was filled from \<^verbatim>\<open>new Date(dueDate)\<close>, UTC midnight,
  which is the previous local day. East of it (and in Turkey) the date is kept.
\<close>

lemma reschedule_keeps_date_east:
  assumes "0 \<le> tz" and "parse_ymd (dueDate r) = Some d" and "fst d < 10000"
  shows "snd (handleUpdate True r (popup_open tz r s)) = [OnUpdate (reminder_id r) (format_ymd d) (reminder_time r), OnClose] \<and>
         parse_ymd (format_ymd d) = Some d"
proof -
  obtain y m dd where d: "d = (y, m, dd)" by (cases d) auto
  have "valid_ymd d" using assms(2) by (auto simp: parse_ymd_def split: list.splits option.splits if_splits)
  then have "parse_ymd (format_ymd d) = Some d"
    using parse_ymd_format [of y m dd] assms(3) d by simp
  with assms show ?thesis
    by (simp add: handleUpdate_def popup_open_def date_only_local_def Let_def)
qed

lemma reschedule_shifts_date_west:
  assumes "tz < 0" and "parse_ymd (dueDate r) = Some d" and "fst d < 10000"
  shows "snd (handleUpdate True r (popup_open tz r s)) =
           [OnUpdate (reminder_id r) (format_ymd (prev_day d)) (reminder_time r), OnClose] \<and>
         parse_ymd (format_ymd (prev_day d)) = Some (prev_day d) \<and> prev_day d \<noteq> d"
proof -
  have v: "valid_ymd d" using assms(2) by (auto simp: parse_ymd_def split: list.splits option.splits if_splits)
  obtain y m dd where p: "prev_day d = (y, m, dd)" by (cases "prev_day d") auto
  from prev_day_valid [OF v] p assms(3) have "valid_ymd (y, m, dd)" "y < 10000" "prev_day d \<noteq> d" by auto
  with p have "parse_ymd (format_ymd (prev_day d)) = Some (prev_day d)"
    using parse_ymd_format [of y m dd] by simp
  with assms(1,2) \<open>prev_day d \<noteq> d\<close> show ?thesis
    by (simp add: handleUpdate_def popup_open_def date_only_local_def Let_def)
qed

text \<open>
  A rejected \<^verbatim>\<open>onUpdate\<close> or \<^verbatim>\<open>onMarkAsComplete\<close> leaves \<^verbatim>\<open>isUpdating\<close> set; no
  later reminder resets it, and while it is set every button of the dialog is disabled.
\<close>

lemma failed_update_sets_updating:
  "form_dueDate s \<noteq> None \<Longrightarrow> isUpdating (fst (handleUpdate False r s))"
  by (auto simp: handleUpdate_def Let_def)

lemma failed_complete_sets_updating: "isUpdating (fst (handleMarkAsComplete False r s))"
  by (simp add: handleMarkAsComplete_def Let_def)

lemma popup_open_keeps_updating: "isUpdating (popup_open tz r s) = isUpdating s"
  by (simp add: popup_open_def)

lemma updating_disables_buttons:
  assumes "isUpdating s" and "e \<in> {ClickReschedule, ClickBack} \<union> range Submit \<union> range MarkComplete"
  shows "popup_step now r s e = (s, [])"
  using assms by (auto simp: popup_step_def)

lemma reschedule_west_example:
  "snd (handleUpdate True \<lparr>reminder_id = ''r1'', reminder_title = ''Veli toplant'' @ [CHR 0xC4, CHR 0xB1] @ ''s'' @ [CHR 0xC4, CHR 0xB1],
                             dueDate = ''2025-03-01'', reminder_time = None\<rparr>
         (popup_open (-18000000) \<lparr>reminder_id = ''r1'', reminder_title = ''Veli toplant'' @ [CHR 0xC4, CHR 0xB1] @ ''s'' @ [CHR 0xC4, CHR 0xB1],
                                   dueDate = ''2025-03-01'', reminder_time = None\<rparr>
            \<lparr>isUpdating = False, showReschedule = True, form_dueDate = None, form_time = None, closed = False\<rparr>)) =
   [OnUpdate ''r1'' ''2025-02-28'' None, OnClose]"
  by code_simp


text \<open>
  Only days from today on can be picked, and each of them is still to come at the moment
  of picking: its local midnight is not before today's.
\<close>

lemma pick_date_not_past:
  assumes "fst (popup_step now r s (PickDate d)) = s'" and "form_dueDate s' = Some d'" and "form_dueDate s \<noteq> Some d'"
  shows "d' = d \<and> valid_ymd d \<and> now div 86400000 * 86400000 \<le> local_stamp (d, 0, 0, 0) * 1000"
  using assms by (auto simp: popup_step_def calendar_disabled_def split: if_splits)

text \<open>
  Rescheduling sends the form's time, which the dialog initialises with the reminder's
  old time: unless the user changes it, the old time is kept. A reminder moved to
  today at a time already past, such as 09:00 at 15:00, is overdue again at once.
\<close>

lemma submit_sends_form_time:
  assumes "showReschedule s" and "\<not> isUpdating s" and "form_dueDate s = Some d"
  shows "snd (popup_step now r s (Submit True)) = [OnUpdate (reminder_id r) (format_ymd d) (form_time s), OnClose]"
  using assms by (simp add: popup_step_def handleUpdate_def Let_def)

lemma popup_open_time: "form_time (popup_open tz r s) = reminder_time r"
  by (simp add: popup_open_def)

lemma today_earlier_time_overdue:
  "isOverdue (local_stamp ((2025, 1, 15), (15, 0, 0)) * 1000)
     \<lparr>reminder_id = ''r1'', reminder_title = ''T'', dueDate = ''2025-01-15'', reminder_time = Some ''09:00''\<rparr>"
proof -
  have p: "parse_local_datetime (''2025-01-15'' @ ''T'' @ ''09:00'') = Some ((2025, 1, 15), (9, 0, 0))"
    by code_simp
  show ?thesis by (simp only: isOverdue_def reminder.simps js_truthy_str_def option.case list.simps
                              simp_thms if_True option.sel p) simp
qed

end
