(* ===== verification/Login.thy ===== *)
theory Login
  imports Prelude "HOL-Library.Char_ord"
begin

text \<open>
  Student sign-in. The server action \<^verbatim>\<open>studentLoginAction\<close>
  (\<^verbatim>\<open>src/src/app/actions/student-login.ts\<close>) scans every teacher's classes for the
  class code and that class's students for the student code; the login page
  (\<^verbatim>\<open>src/src/app/ogrenci-giris/page.tsx\<close>) validates and upper-cases the codes,
  calls the action and stores the session in \<^verbatim>\<open>sessionStorage\<close>; the dashboard
  (\<^verbatim>\<open>src/src/app/ogrenci/[studentId]/page.tsx\<close>) admits the stored student only on
  the page of its own id. The Admin SDK's collections are lists in the order the queries
  return them.
\<close>

section \<open>Documents\<close>

record student =
  student_id :: string
  studentCode :: string
  firstName :: string
  lastName :: string

record class_doc =
  class_id :: string
  classCode :: string
  class_students :: "student list"

record user_doc =
  user_id :: uid
  role :: string
  user_classes :: "class_doc list"

type_synonym admin_db = "user_doc list"

section \<open>The server action\<close>

text \<open>\<^verbatim>\<open>StudentLoginResult\<close> and the three error messages of the action.\<close>

datatype login_error = NoTeachers | WrongCodes | ServerError

record login_result =
  success :: bool
  student :: "student option"
  classId :: "string option"
  error :: "login_error option"

definition login_failure :: "login_error \<Rightarrow> login_result" where
  "login_failure e = \<lparr>success = False, student = None, classId = None, error = Some e\<rparr>"

text \<open>
  The loop of lines 24--47: for each teacher, the first class with the code
  (\<^verbatim>\<open>where(...).limit(1)\<close>), then the first student with the code in that class; a
  miss at either stage moves on to the next teacher.
\<close>

fun search_teachers :: "string \<Rightarrow> string \<Rightarrow> user_doc list \<Rightarrow> login_result" where
  "search_teachers cc sc [] = login_failure WrongCodes"
| "search_teachers cc sc (u # us) =
     (case find (\<lambda>c. classCode c = cc) (user_classes u) of
        None \<Rightarrow> search_teachers cc sc us
      | Some c \<Rightarrow>
          (case find (\<lambda>s. studentCode s = sc) (class_students c) of
             None \<Rightarrow> search_teachers cc sc us
           | Some s \<Rightarrow> \<lparr>success = True, student = Some s, classId = Some (class_id c), error = None\<rparr>))"

text \<open>
  \<^verbatim>\<open>studentLoginAction(classCode, studentCode)\<close>, lines 13--56. \<open>crash\<close> is a
  query that throws, answered by the \<^verbatim>\<open>catch\<close>.
\<close>

definition studentLoginAction :: "bool \<Rightarrow> admin_db \<Rightarrow> string \<Rightarrow> string \<Rightarrow> login_result" where
  "studentLoginAction crash db cc sc =
     (if crash then login_failure ServerError
      else let teachers = filter (\<lambda>u. role u = ''teacher'') db
           in if teachers = [] then login_failure NoTeachers else search_teachers cc sc teachers)"

section \<open>The login page\<close>

text \<open>JavaScript's \<^verbatim>\<open>toUpperCase\<close>, modelled on ASCII letters; other characters are kept.\<close>

definition js_upper_char :: "char \<Rightarrow> char" where
  "js_upper_char c = (if CHR ''a'' \<le> c \<and> c \<le> CHR ''z'' then char_of (of_char c - (32::nat)) else c)"

definition js_upper :: "string \<Rightarrow> string" where
  "js_upper = map js_upper_char"

text \<open>The value \<^verbatim>\<open>onSubmit\<close> stores under \<^verbatim>\<open>studentAuth\<close>.\<close>

record student_auth =
  auth_studentId :: string
  studentData :: student
  auth_classId :: string

datatype login_outcome = FormInvalid | GoToDashboard string | ShowError "login_error option"

text \<open>
  \<^verbatim>\<open>onSubmit(values)\<close>, lines 64--92, with the form's schema of lines 34--37 (both
  codes non-empty) and the inputs' upper-casing. A result that is not a success with a
  student and a non-empty (truthy) class id throws \<^verbatim>\<open>result.error\<close> or the
  fallback message (\<open>None\<close>), which the page shows; the session is written only on
  success and is otherwise left as it was.
\<close>

definition onSubmit ::
  "bool \<Rightarrow> admin_db \<Rightarrow> student_auth option \<Rightarrow> string \<Rightarrow> string \<Rightarrow> student_auth option \<times> login_outcome" where
  "onSubmit crash db sess cc sc =
     (if js_upper cc = [] \<or> js_upper sc = [] then (sess, FormInvalid)
      else let r = studentLoginAction crash db (js_upper cc) (js_upper sc)
           in case (success r, student r, classId r) of
                (True, Some s, Some cid) \<Rightarrow>
                  if cid = [] then (sess, ShowError (error r))
                  else (Some \<lparr>auth_studentId = student_id s, studentData = s, auth_classId = cid\<rparr>,
                        GoToDashboard (student_id s))
              | _ \<Rightarrow> (sess, ShowError (error r)))"

section \<open>The student dashboard\<close>

text \<open>
  The mount effect of lines 26--52: without a session, with a session that does not
  parse, or with the session of another student the page goes back to the login (the
  last two also remove the session); otherwise it shows the student and the class.
  \<^verbatim>\<open>handleLogout\<close> (lines 54--58) removes the session.
\<close>

datatype stored_session = StoredAuth student_auth | Unparsable

datatype dashboard_view = RedirectToLogin | Dashboard student string

definition dashboard_mount :: "stored_session option \<Rightarrow> string \<Rightarrow> stored_session option \<times> dashboard_view" where
  "dashboard_mount sess studentId =
     (case sess of
        None \<Rightarrow> (None, RedirectToLogin)
      | Some Unparsable \<Rightarrow> (None, RedirectToLogin)
      | Some (StoredAuth a) \<Rightarrow>
          if student_id (studentData a) \<noteq> studentId then (None, RedirectToLogin)
          else (Some (StoredAuth a), Dashboard (studentData a) (auth_classId a)))"

definition handleLogout :: "stored_session option \<Rightarrow> stored_session option \<times> dashboard_view" where
  "handleLogout sess = (None, RedirectToLogin)"

subsection \<open>An example school\<close>

abbreviation ex_student :: student where
  "ex_student \<equiv> \<lparr>student_id = ''s1'', studentCode = ''123'', firstName = ''Ali'', lastName = ''Kaya''\<rparr>"

abbreviation ex_school :: admin_db where
  "ex_school \<equiv>
     [\<lparr>user_id = ''a0'', role = ''admin'', user_classes = []\<rparr>,
      \<lparr>user_id = ''t1'', role = ''teacher'', user_classes =
         [\<lparr>class_id = ''c1'', classCode = ''5A'', class_students = [ex_student]\<rparr>]\<rparr>]"

section \<open>Lemmas\<close>

lemma search_teachers_cases:
  "search_teachers cc sc us = login_failure WrongCodes \<or>
   (\<exists>u \<in> set us. \<exists>c \<in> set (user_classes u). classCode c = cc \<and>
      (\<exists>s \<in> set (class_students c). studentCode s = sc \<and>
         search_teachers cc sc us = \<lparr>success = True, student = Some s, classId = Some (class_id c), error = None\<rparr>))"
proof (induction us)
  case Nil
  then show ?case by simp
next
  case (Cons u us)
  show ?case
  proof (cases "find (\<lambda>c. classCode c = cc) (user_classes u)")
    case None
    with Cons.IH show ?thesis by auto
  next
    case (Some c)
    then have c: "c \<in> set (user_classes u)" "classCode c = cc" by (auto simp: find_Some_iff)
    show ?thesis
    proof (cases "find (\<lambda>s. studentCode s = sc) (class_students c)")
      case None
      with Some Cons.IH show ?thesis by auto
    next
      case (Some s)
      then have "s \<in> set (class_students c)" "studentCode s = sc" by (auto simp: find_Some_iff)
      with c Some \<open>find (\<lambda>c. classCode c = cc) (user_classes u) = Some c\<close> show ?thesis by fastforce
    qed
  qed
qed

lemma search_teachers_success:
  assumes "\<forall>u \<in> set us. \<forall>c \<in> set (user_classes u). classCode c = cc \<longrightarrow> (\<exists>s \<in> set (class_students c). studentCode s = sc)"
    and "\<exists>u \<in> set us. \<exists>c \<in> set (user_classes u). classCode c = cc"
  shows "success (search_teachers cc sc us)"
  using assms
proof (induction us)
  case Nil
  then show ?case by simp
next
  case (Cons u us)
  show ?case
  proof (cases "find (\<lambda>c. classCode c = cc) (user_classes u)")
    case None
    then have "\<forall>c \<in> set (user_classes u). classCode c \<noteq> cc" by (simp add: find_None_iff)
    with Cons.prems(2) have ex: "\<exists>u \<in> set us. \<exists>c \<in> set (user_classes u). classCode c = cc" by auto
    have "\<forall>u \<in> set us. \<forall>c \<in> set (user_classes u). classCode c = cc \<longrightarrow> (\<exists>s \<in> set (class_students c). studentCode s = sc)"
      using Cons.prems(1) by simp
    from this ex have "success (search_teachers cc sc us)" by (rule Cons.IH)
    with None show ?thesis by simp
  next
    case (Some c)
    then have "c \<in> set (user_classes u)" "classCode c = cc" by (auto simp: find_Some_iff)
    with Cons.prems(1) obtain s where "s \<in> set (class_students c)" "studentCode s = sc" by auto
    then have "find (\<lambda>s. studentCode s = sc) (class_students c) \<noteq> None" by (auto simp: find_None_iff)
    with Some show ?thesis by (auto split: option.split)
  qed
qed

section \<open>Properties\<close>

text \<open>
  C33 (functional). A successful student login names a class with the entered class code, held by a user whose role is teacher, and a student of that class with the entered student code.
\<close>

theorem studentLoginAction_sound:
  assumes "success (studentLoginAction crash db cc sc)"
  shows "\<exists>u \<in> set db. role u = ''teacher'' \<and>
           (\<exists>c \<in> set (user_classes u). classCode c = cc \<and> classId (studentLoginAction crash db cc sc) = Some (class_id c) \<and>
              (\<exists>s \<in> set (class_students c). studentCode s = sc \<and> student (studentLoginAction crash db cc sc) = Some s))"
proof -
  let ?ts = "filter (\<lambda>u. role u = ''teacher'') db"
  from assms have r: "studentLoginAction crash db cc sc = search_teachers cc sc ?ts"
    by (auto simp: studentLoginAction_def login_failure_def Let_def split: if_splits)
  from search_teachers_cases [of cc sc ?ts] assms r
  obtain u c s where "u \<in> set ?ts" "c \<in> set (user_classes u)" "classCode c = cc" "s \<in> set (class_students c)"
    "studentCode s = sc" "search_teachers cc sc ?ts = \<lparr>success = True, student = Some s, classId = Some (class_id c), error = None\<rparr>"
    by (auto simp: login_failure_def)
  with r show ?thesis by auto
qed

text \<open>
  C34 (functional). If some teacher has a class with the entered code, and every teachers' class carrying that code has a student with the entered student code, the login succeeds.
\<close>

theorem studentLoginAction_complete:
  assumes "\<not> crash" and "u \<in> set db" and "role u = ''teacher''" and "c \<in> set (user_classes u)" and "classCode c = cc"
    and "\<forall>u' \<in> set db. role u' = ''teacher'' \<longrightarrow>
           (\<forall>c' \<in> set (user_classes u'). classCode c' = cc \<longrightarrow> (\<exists>s \<in> set (class_students c'). studentCode s = sc))"
  shows "success (studentLoginAction crash db cc sc)"
proof -
  let ?ts = "filter (\<lambda>u. role u = ''teacher'') db"
  have "success (search_teachers cc sc ?ts)"
    using assms by (intro search_teachers_success) auto
  moreover have "?ts \<noteq> []" using assms(2,3) by (auto simp: filter_empty_conv)
  ultimately show ?thesis using assms(1) by (simp add: studentLoginAction_def)
qed

text \<open>
  When one teacher has two classes with the same code, only the first is searched: a student of the second class cannot log in and gets the wrong-codes error.
\<close>

theorem duplicate_class_code_blocks_login:
  "studentLoginAction False
     [\<lparr>user_id = ''t1'', role = ''teacher'', user_classes =
        [\<lparr>class_id = ''c1'', classCode = ''5A'', class_students = []\<rparr>,
         \<lparr>class_id = ''c2'', classCode = ''5A'', class_students =
            [\<lparr>student_id = ''s1'', studentCode = ''123'', firstName = ''Ali'', lastName = ''Kaya''\<rparr>]\<rparr>]\<rparr>]
     ''5A'' ''123'' = login_failure WrongCodes"
  by (simp add: studentLoginAction_def)

text \<open>
  C36 (error). A failed login reports a server error when a query throws, the no-teacher error when no user is a teacher, and otherwise the same wrong-codes error whether the class code or the student code was wrong.
\<close>

theorem login_errors_generic:
  assumes "\<not> success (studentLoginAction crash db cc sc)"
  shows "studentLoginAction crash db cc sc =
           login_failure (if crash then ServerError
                          else if filter (\<lambda>u. role u = ''teacher'') db = [] then NoTeachers else WrongCodes)"
  using assms search_teachers_cases [of cc sc "filter (\<lambda>u. role u = ''teacher'') db"]
  by (auto simp: studentLoginAction_def login_failure_def Let_def)

text \<open>
  C37 (roundtrip). After a successful submit, the session the login page stores admits the dashboard of the student it navigates to, showing the student found by the action and its class, and sends every other student page back to the login.
\<close>

theorem login_session_roundtrip:
  assumes "onSubmit crash db sess cc sc = (Some a, GoToDashboard i)"
  shows "dashboard_mount (Some (StoredAuth a)) i = (Some (StoredAuth a), Dashboard (studentData a) (auth_classId a)) \<and>
         student (studentLoginAction crash db (js_upper cc) (js_upper sc)) = Some (studentData a) \<and>
         (\<forall>j. j \<noteq> i \<longrightarrow> dashboard_mount (Some (StoredAuth a)) j = (None, RedirectToLogin))"
  using assms by (auto simp: onSubmit_def dashboard_mount_def Let_def split: if_splits option.splits bool.splits)

section \<open>Witnesses\<close>

theorem studentLoginAction_sound_witness:
  "success (studentLoginAction False ex_school ''5A'' ''123'') \<and>
   classId (studentLoginAction False ex_school ''5A'' ''123'') = Some ''c1'' \<and>
   student (studentLoginAction False ex_school ''5A'' ''123'') = Some ex_student"
proof -
  have a: "success (studentLoginAction False ex_school ''5A'' ''123'')" by (simp add: studentLoginAction_def)
  from studentLoginAction_sound [OF a] a show ?thesis by auto
qed

theorem studentLoginAction_complete_witness:
  "success (studentLoginAction False ex_school ''5A'' ''123'')"
proof -
  have "success (studentLoginAction False ex_school ''5A'' ''123'')"
    by (rule studentLoginAction_complete [where u = "ex_school ! 1" and c = "\<lparr>class_id = ''c1'', classCode = ''5A'', class_students = [ex_student]\<rparr>"])
       auto
  then show ?thesis .
qed

theorem login_errors_generic_witness:
  "\<not> success (studentLoginAction False ex_school ''5A'' ''999'') \<and>
   studentLoginAction False ex_school ''5A'' ''999'' = login_failure WrongCodes \<and>
   \<not> success (studentLoginAction False ex_school ''6B'' ''123'') \<and>
   studentLoginAction False ex_school ''6B'' ''123'' = login_failure WrongCodes"
proof -
  have a: "\<not> success (studentLoginAction False ex_school ''5A'' ''999'')" by (simp add: studentLoginAction_def login_failure_def)
  have b: "\<not> success (studentLoginAction False ex_school ''6B'' ''123'')" by (simp add: studentLoginAction_def login_failure_def)
  from login_errors_generic [OF a] login_errors_generic [OF b] a b show ?thesis by simp
qed

theorem login_session_roundtrip_witness:
  "onSubmit False ex_school None ''5a'' ''123'' =
     (Some \<lparr>auth_studentId = ''s1'', studentData = ex_student, auth_classId = ''c1''\<rparr>, GoToDashboard ''s1'') \<and>
   dashboard_mount (Some (StoredAuth \<lparr>auth_studentId = ''s1'', studentData = ex_student, auth_classId = ''c1''\<rparr>)) ''s1'' =
     (Some (StoredAuth \<lparr>auth_studentId = ''s1'', studentData = ex_student, auth_classId = ''c1''\<rparr>), Dashboard ex_student ''c1'') \<and>
   dashboard_mount (Some (StoredAuth \<lparr>auth_studentId = ''s1'', studentData = ex_student, auth_classId = ''c1''\<rparr>)) ''s2'' =
     (None, RedirectToLogin)"
proof -
  have a: "onSubmit False ex_school None ''5a'' ''123'' =
     (Some \<lparr>auth_studentId = ''s1'', studentData = ex_student, auth_classId = ''c1''\<rparr>, GoToDashboard ''s1'')"
    by code_simp
  from login_session_roundtrip [OF a] a show ?thesis by simp
qed

end
