(* ===== verification/SurveyPages.thy ===== *)
theory SurveyPages
  imports Survey ReminderPopup Login Complex_Main
begin

text \<open>
  What the three survey pages under \<^verbatim>\<open>src/src/app/anket/\<close> show and how their
  controls drive the handlers of \<open>Survey\<close>: the radio group of each question, the
  progress bar, the submit button, the result views, the back and finish links and the
  wrapper that puts the page behind the teacher's sign-in. The page is an event system:
  the user answers a question through its radio group or clicks the submit button, and
  only the controls the current view shows can fire. Texts, icons and styles are not
  modelled.
\<close>

section \<open>Links and the student session\<close>

text \<open>
  \<^verbatim>\<open>setIsStudentSession(!!sessionStorage.getItem('studentAuth'))\<close> (the effect of lines
  66--69 of \<^verbatim>\<open>ogrenme-stilleri/page.tsx\<close>; the stored value is a JSON object, never
  empty).
\<close>

definition student_session :: "stored_session option \<Rightarrow> bool" where
  "student_session sess = (sess \<noteq> None)"

text \<open>
  \<^verbatim>\<open>BackLink\<close> and \<^verbatim>\<open>FinishButton\<close>: \<^verbatim>\<open>isStudentSession ? `/ogrenci/${studentId}` :
  '/anket'\<close>, where a missing \<^verbatim>\<open>studentId\<close> prints as \<^verbatim>\<open>null\<close>.
\<close>

definition survey_back_href :: "bool \<Rightarrow> string option \<Rightarrow> string" where
  "survey_back_href isStudentSession studentId =
     (if isStudentSession then ''/ogrenci/'' @ (case studentId of Some i \<Rightarrow> i | None \<Rightarrow> ''null'') else ''/anket'')"

section \<open>The radio group of a question\<close>

text \<open>
  \<^verbatim>\<open>value={answers[index]?.toString()}\<close>: the selected item's value, or none.
  Each item has the value \<^verbatim>\<open>opt.value.toString()\<close> of one answer option.
\<close>

definition radio_value :: "answers \<Rightarrow> nat \<Rightarrow> string option" where
  "radio_value ans i = map_option int_str (map_of ans i)"

definition radio_items :: "int list \<Rightarrow> string list" where
  "radio_items answerValues = map int_str answerValues"

text \<open>
  \<^verbatim>\<open>onValueChange={(value) => handleAnswerChange(index, value)}\<close> with the
  \<^verbatim>\<open>parseInt(value)\<close> of \<^verbatim>\<open>handleAnswerChange\<close>. A string without digits would store
  \<^verbatim>\<open>NaN\<close>, which the model's integer answers do not hold: that case is \<open>None\<close>; the
  group only sends the values of its items.
\<close>

definition answer_from_radio :: "nat \<Rightarrow> string \<Rightarrow> 'r survey_page \<Rightarrow> 'r survey_page option" where
  "answer_from_radio i value pg = map_option (\<lambda>v. handleAnswerChange i v pg) (js_parseInt value)"

section \<open>The question view\<close>

text \<open>
  \<^verbatim>\<open>answeredCount = Object.keys(answers).length\<close> and
  \<^verbatim>\<open>progress = (answeredCount / questions.length) * 100\<close>. The model computes in the
  reals; with at most 80 questions the double value is the same up to rounding of the last
  bit, and exactly 100 when every question is answered.
\<close>

definition progress :: "answers \<Rightarrow> nat \<Rightarrow> real" where
  "progress ans nQuestions = real (length ans) / real nQuestions * 100"

text \<open>
  The card of question \<open>index\<close>: its number \<^verbatim>\<open>index + 1\<close>, the green border and tick
  when \<^verbatim>\<open>answers[index] !== undefined\<close>, and the radio group's value.
\<close>

record question_card =
  qc_number :: nat
  qc_answered :: bool
  qc_value :: "string option"

definition question_cards :: "nat \<Rightarrow> answers \<Rightarrow> question_card list" where
  "question_cards nQuestions ans =
     map (\<lambda>index. \<lparr>qc_number = index + 1, qc_answered = (map_of ans index \<noteq> None),
                   qc_value = radio_value ans index\<rparr>) [0..<nQuestions]"

text \<open>
  The question view: the counter \<^verbatim>\<open>answeredCount / questions.length\<close>, the progress bar,
  the cards, the submit button (disabled, and showing the spinner while saving) and the
  back link.
\<close>

datatype 'v survey_view =
    QuestionsView nat real "question_card list" bool bool string
  | ResultsView 'v string

definition questions_view :: "nat \<Rightarrow> bool \<Rightarrow> string \<Rightarrow> answers \<Rightarrow> 'v survey_view" where
  "questions_view nQuestions isSaving href ans =
     QuestionsView (length ans) (progress ans nQuestions) (question_cards nQuestions ans)
       (\<not> submit_enabled ans nQuestions isSaving) isSaving href"

section \<open>The result views\<close>

text \<open>
  \<^verbatim>\<open>topThree.map((result, index) => ...)\<close>: a card with the rank \<^verbatim>\<open>index + 1\<close>, the
  category and its score, for the first three ranked entries.
\<close>

record 'c result_card =
  rc_rank :: nat
  rc_key :: 'c
  rc_score :: int

definition top_cards :: "('c \<times> int \<times> nat) list \<Rightarrow> 'c result_card list" where
  "top_cards results =
     reindex_from (\<lambda>index (c, s, k). \<lparr>rc_rank = index + 1, rc_key = c, rc_score = s\<rparr>) (take 3 results)"

text \<open>
  The multiple-intelligence page, lines 263--428 of \<^verbatim>\<open>coklu-zeka-kurami/page.tsx\<close>:
  when complete, the bar chart of all ranked entries (with their colour index), the top
  three cards and the finish link; otherwise the question view.
\<close>

definition mi_view ::
  "bool \<Rightarrow> string option \<Rightarrow> bool \<Rightarrow> (intelligence \<times> int \<times> nat) list survey_page \<Rightarrow>
   ((intelligence \<times> int \<times> nat) list \<times> intelligence result_card list) survey_view" where
  "mi_view isStudentSession studentId isSaving pg =
     (let href = survey_back_href isStudentSession studentId
      in if pg_complete pg then ResultsView (pg_result pg, top_cards (pg_result pg)) href
         else questions_view (length mi_questions) isSaving href (pg_answers pg))"

text \<open>
  The Holland page, lines 238--404 of \<^verbatim>\<open>holland-meslek-envanteri/page.tsx\<close>: the
  same, with the Holland code in the title.
\<close>

definition holland_view ::
  "bool \<Rightarrow> string option \<Rightarrow> bool \<Rightarrow> (personality \<times> int \<times> nat) list survey_page \<Rightarrow>
   (string \<times> (personality \<times> int \<times> nat) list \<times> personality result_card list) survey_view" where
  "holland_view isStudentSession studentId isSaving pg =
     (let href = survey_back_href isStudentSession studentId
      in if pg_complete pg then ResultsView (hollandCode (pg_result pg), pg_result pg, top_cards (pg_result pg)) href
         else questions_view (length holland_questions) isSaving href (pg_answers pg))"

text \<open>
  The learning-style page, lines 128--249 of \<^verbatim>\<open>ogrenme-stilleri/page.tsx\<close>: the result
  card of the dominant style when \<^verbatim>\<open>isSurveyComplete && dominantStyle\<close>, otherwise the
  question view.
\<close>

definition ls_view ::
  "bool \<Rightarrow> string option \<Rightarrow> bool \<Rightarrow> learning_style option survey_page \<Rightarrow> learning_style survey_view" where
  "ls_view isStudentSession studentId isSaving pg =
     (let href = survey_back_href isStudentSession studentId
      in case (pg_complete pg, pg_result pg) of
           (True, Some st) \<Rightarrow> ResultsView st href
         | _ \<Rightarrow> questions_view (length ls_questions) isSaving href (pg_answers pg))"

text \<open>
  \<^verbatim>\<open>PageWrapper\<close>: a signed-in teacher or a stored student session sees the page
  directly, anyone else through \<^verbatim>\<open>AuthGuard\<close> (outside \<^verbatim>\<open>src/src\<close>).
\<close>

datatype page_wrapper = BarePage | GuardedPage

definition survey_wrapper :: "uid option \<Rightarrow> string option \<Rightarrow> page_wrapper" where
  "survey_wrapper user studentAuth = (if user \<noteq> None \<or> js_truthy_str studentAuth then BarePage else GuardedPage)"

section \<open>The page as an event system\<close>

text \<open>
  The controls of the question view: the radio group of question \<open>i\<close> sends one of its
  item values, and the submit button runs \<^verbatim>\<open>calculateResults\<close>. A control fires only
  while the question view shows it, and the button only while it is enabled; between two
  events no save is in flight (React re-renders with \<^verbatim>\<open>isSaving\<close> before the next
  click). \<open>calc\<close> is the page's \<^verbatim>\<open>calculateResults\<close> with the URL parameters, the
  signed-in user, the new document id and the time applied; \<open>showsQuestions\<close> tells
  whether the page's view is the question view.
\<close>

datatype survey_event = AnswerEvent nat string | SubmitEvent

definition survey_step ::
  "('r survey_page \<Rightarrow> survey_db \<Rightarrow> survey_error option \<times> 'r survey_page \<times> survey_db) \<Rightarrow>
   ('r survey_page \<Rightarrow> bool) \<Rightarrow> nat \<Rightarrow> int list \<Rightarrow>
   'r survey_page \<times> survey_db \<Rightarrow> survey_event \<Rightarrow> 'r survey_page \<times> survey_db" where
  "survey_step calc showsQuestions nQuestions answerValues st e =
     (case st of (pg, db) \<Rightarrow>
        if \<not> showsQuestions pg then st
        else case e of
          AnswerEvent i value \<Rightarrow>
            if i < nQuestions \<and> value \<in> set (radio_items answerValues) then
              (case answer_from_radio i value pg of Some pg' \<Rightarrow> (pg', db) | None \<Rightarrow> st)
            else st
        | SubmitEvent \<Rightarrow>
            if submit_enabled (pg_answers pg) nQuestions False then
              (case calc pg db of (_, pg', db') \<Rightarrow> (pg', db'))
            else st)"

definition survey_run ::
  "('r survey_page \<Rightarrow> survey_db \<Rightarrow> survey_error option \<times> 'r survey_page \<times> survey_db) \<Rightarrow>
   ('r survey_page \<Rightarrow> bool) \<Rightarrow> nat \<Rightarrow> int list \<Rightarrow>
   'r survey_page \<times> survey_db \<Rightarrow> survey_event list \<Rightarrow> 'r survey_page \<times> survey_db" where
  "survey_run calc showsQuestions nQuestions answerValues st es =
     foldl (survey_step calc showsQuestions nQuestions answerValues) st es"

text \<open>The page on mount: no answers, not complete, no result.\<close>

definition mi_page_init :: "(intelligence \<times> int \<times> nat) list survey_page" where
  "mi_page_init = \<lparr>pg_answers = [], pg_complete = False, pg_result = []\<rparr>"

text \<open>The answers a page can hold: sorted keys of existing questions, values of the scale.\<close>

definition answers_ok :: "nat \<Rightarrow> int list \<Rightarrow> answers \<Rightarrow> bool" where
  "answers_ok nQuestions answerValues ans \<longleftrightarrow>
     sorted_wrt (<) (map fst ans) \<and> list_all (\<lambda>(i, v). i < nQuestions \<and> v \<in> set answerValues) ans"

section \<open>Lemmas\<close>

lemma takeWhile_nat_str [simp]: "takeWhile is_digit (nat_str m) = nat_str m"
  using nat_str_digits [of m] by (simp add: takeWhile_eq_all_conv list_all_iff)

lemma js_parseInt_int_str: "js_parseInt (int_str v) = Some v"
proof (cases "v < 0")
  case True
  then show ?thesis using nat_str_nonempty digits_val_nat_str
    by (simp add: int_str_def js_parseInt_def js_space_def Let_def)
next
  case False
  obtain c cs where cs: "nat_str (nat v) = c # cs"
    using nat_str_nonempty by (cases "nat_str (nat v)") auto
  have tw: "takeWhile is_digit (c # cs) = c # cs" using takeWhile_nat_str [of "nat v"] cs by simp
  have "is_digit c" using nat_str_digits [of "nat v"] cs by simp
  then have "\<not> js_space c" "c \<noteq> CHR ''-''" "c \<noteq> CHR ''+''"
    using is_digit_not_space by (auto simp: is_digit_def)
  then have "js_parseInt (c # cs) = Some (int (digits_val (c # cs)))"
    by (simp add: js_parseInt_def Let_def tw del: takeWhile.simps)
  with False cs show ?thesis using digits_val_nat_str [of "nat v"] by (simp add: int_str_def)
qed


lemma radio_value_set_answer:
  "radio_value (set_answer i v ans) = (radio_value ans)(i := Some (int_str v))"
  by (simp add: radio_value_def set_answer_map_of fun_eq_iff)

lemma answer_from_radio_item:
  "answer_from_radio i (int_str v) pg = Some (handleAnswerChange i v pg)"
  by (simp add: answer_from_radio_def js_parseInt_int_str)

lemma radio_items_parse:
  "value \<in> set (radio_items answerValues) \<Longrightarrow> \<exists>v \<in> set answerValues. answer_from_radio i value pg = Some (handleAnswerChange i v pg)"
  by (auto simp: radio_items_def answer_from_radio_item)

lemma answers_ok_set_answer:
  "answers_ok n V ans \<Longrightarrow> i < n \<Longrightarrow> v \<in> set V \<Longrightarrow> answers_ok n V (set_answer i v ans)"
  unfolding answers_ok_def list_all_iff
  by (auto simp: set_answer_sorted dest!: set_answer_mem)

lemma answers_ok_length:
  assumes "answers_ok n V ans"
  shows "length ans \<le> n"
proof -
  have "distinct (map fst ans)" using assms by (simp add: answers_ok_def strict_sorted_iff)
  moreover have "\<forall>x \<in> set (map fst ans). x < n" using assms by (auto simp: answers_ok_def list_all_iff)
  ultimately show ?thesis using distinct_bounded_length by fastforce
qed

lemma answers_ok_enabled:
  "answers_ok n V ans \<Longrightarrow> submit_enabled ans n False \<Longrightarrow> length ans = n"
  using answers_ok_length [of n V ans] by (simp add: submit_enabled_def)

text \<open>The progress bar stays within 0..100 and is full exactly when the button is enabled.\<close>

lemma progress_bounds:
  assumes "answers_ok n V ans" and "0 < n"
  shows "0 \<le> progress ans n \<and> progress ans n \<le> 100 \<and> (progress ans n = 100 \<longleftrightarrow> submit_enabled ans n False)"
proof -
  have le: "length ans \<le> n" by (rule answers_ok_length [OF assms(1)])
  then have "real (length ans) / real n \<le> 1" using assms(2) by simp
  then have "real (length ans) / real n * 100 \<le> 1 * 100" by (intro mult_right_mono) auto
  then have "progress ans n \<le> 100" by (simp add: progress_def)
  moreover have "0 \<le> progress ans n" by (simp add: progress_def)
  moreover have "progress ans n = 100 \<longleftrightarrow> length ans = n"
    using assms(2) by (auto simp: progress_def field_simps)
  ultimately show ?thesis using le by (auto simp: submit_enabled_def)
qed

subsection \<open>Runs of a page\<close>

text \<open>
  The store after a run, given the page: untouched while the page is not complete, one
  record \<open>r\<close> more, with \<open>R pg r\<close>, once it is.
\<close>

definition saved_once ::
  "('r survey_page \<Rightarrow> survey_record \<Rightarrow> bool) \<Rightarrow> survey_db \<Rightarrow> 'r survey_page \<Rightarrow> survey_db \<Rightarrow> bool" where
  "saved_once R db0 pg db \<longleftrightarrow>
     (if pg_complete pg then \<exists>u r. db = db0(u := db0 u @ [r]) \<and> R pg r else db = db0)"

lemma survey_step_inv:
  assumes calc_answers: "\<And>pg db. pg_answers (fst (snd (calc pg db))) = pg_answers pg"
    and calc_store: "\<And>pg db. \<not> pg_complete pg \<Longrightarrow> answers_ok n V (pg_answers pg) \<Longrightarrow>
                         submit_enabled (pg_answers pg) n False \<Longrightarrow>
                         saved_once R db (fst (snd (calc pg db))) (snd (snd (calc pg db)))"
    and stuck: "\<And>pg r. pg_complete pg \<Longrightarrow> R pg r \<Longrightarrow> \<not> showsQ pg"
    and inv: "answers_ok n V (pg_answers pg) \<and> saved_once R db0 pg db"
  shows "answers_ok n V (pg_answers (fst (survey_step calc showsQ n V (pg, db) e))) \<and>
         saved_once R db0 (fst (survey_step calc showsQ n V (pg, db) e)) (snd (survey_step calc showsQ n V (pg, db) e))"
proof (cases "showsQ pg")
  case False
  then show ?thesis using inv by (simp add: survey_step_def)
next
  case True
  have nc: "\<not> pg_complete pg"
  proof
    assume c: "pg_complete pg"
    then obtain r where "R pg r" using inv by (auto simp: saved_once_def)
    with stuck c True show False by blast
  qed
  then have db: "db = db0" using inv by (simp add: saved_once_def)
  show ?thesis
  proof (cases e)
    case (AnswerEvent i w)
    show ?thesis
    proof (cases "i < n \<and> w \<in> set (radio_items V)")
      case ok: True
      then obtain v where v: "v \<in> set V" and a: "answer_from_radio i w pg = Some (handleAnswerChange i v pg)"
        using radio_items_parse by blast
      have "answers_ok n V (set_answer i v (pg_answers pg))"
        using answers_ok_set_answer inv ok v by blast
      then show ?thesis using True AnswerEvent ok a nc db
        by (simp add: survey_step_def handleAnswerChange_def saved_once_def)
    next
      case False
      then show ?thesis using True AnswerEvent inv by (auto simp: survey_step_def)
    qed
  next
    case SubmitEvent
    show ?thesis
    proof (cases "submit_enabled (pg_answers pg) n False")
      case en: True
      obtain err pg' db' where c: "calc pg db = (err, pg', db')" by (cases "calc pg db") auto
      have "pg_answers pg' = pg_answers pg" using calc_answers [of pg db] c by simp
      moreover have "saved_once R db pg' db'" using calc_store [OF nc _ en, of db] inv c by simp
      ultimately show ?thesis using True SubmitEvent en c inv db by (simp add: survey_step_def)
    next
      case False
      then show ?thesis using True SubmitEvent inv by (auto simp: survey_step_def)
    qed
  qed
qed


lemma survey_run_inv:
  assumes calc_answers: "\<And>pg db. pg_answers (fst (snd (calc pg db))) = pg_answers pg"
    and calc_store: "\<And>pg db. \<not> pg_complete pg \<Longrightarrow> answers_ok n V (pg_answers pg) \<Longrightarrow>
                         submit_enabled (pg_answers pg) n False \<Longrightarrow>
                         saved_once R db (fst (snd (calc pg db))) (snd (snd (calc pg db)))"
    and stuck: "\<And>pg r. pg_complete pg \<Longrightarrow> R pg r \<Longrightarrow> \<not> showsQ pg"
  shows "answers_ok n V (pg_answers pg) \<and> saved_once R db0 pg db \<Longrightarrow>
         answers_ok n V (pg_answers (fst (survey_run calc showsQ n V (pg, db) es))) \<and>
         saved_once R db0 (fst (survey_run calc showsQ n V (pg, db) es)) (snd (survey_run calc showsQ n V (pg, db) es))"
proof (induction es arbitrary: pg db)
  case Nil
  then show ?case by (simp add: survey_run_def)
next
  case (Cons e es)
  obtain pg1 db1 where s1: "survey_step calc showsQ n V (pg, db) e = (pg1, db1)" by fastforce
  have "answers_ok n V (pg_answers pg1) \<and> saved_once R db0 pg1 db1"
    using survey_step_inv [where calc = calc and showsQ = showsQ and R = R and e = e, OF calc_answers calc_store stuck Cons.prems] s1
    by simp
  from Cons.IH [OF this] s1 show ?case by (simp add: survey_run_def)
qed

lemma answers_ok_all_answered:
  assumes "answers_ok n V ans" and "length ans = n"
  shows "\<forall>i < n. map_of ans i \<noteq> None"
proof -
  let ?K = "set (map fst ans)"
  have d: "distinct (map fst ans)" using assms(1) by (simp add: answers_ok_def strict_sorted_iff)
  have sub: "?K \<subseteq> {..<n}" using assms(1) by (auto simp: answers_ok_def list_all_iff)
  have "card ?K = n" using distinct_card [OF d] assms(2) by simp
  then have "?K = {..<n}" using card_subset_eq [OF finite_lessThan sub] by simp
  then show ?thesis by (auto simp: map_of_eq_None_iff)
qed

subsection \<open>The multiple-intelligence page\<close>

lemma calculateResults_mi_answers:
  "pg_answers (fst (snd (calculateResults_mi sid cid user fid now pg db))) = pg_answers pg"
  by (simp add: calculateResults_mi_def Let_def split: sum.split)

lemma calculateResults_mi_saved:
  assumes "\<not> pg_complete pg" and "answers_ok (length mi_questions) mi_answerValues (pg_answers pg)"
    and "submit_enabled (pg_answers pg) (length mi_questions) False"
  shows "saved_once (\<lambda>pg r. sr_results r = IntelligenceResults (pg_result pg) \<and>
                       pg_result pg = rankedResults intelligenceKeys mi_questions mi_colorCount (pg_answers pg) \<and>
                       length (pg_answers pg) = length mi_questions)
           db (fst (snd (calculateResults_mi sid cid user fid now pg db)))
           (snd (snd (calculateResults_mi sid cid user fid now pg db)))"
  using assms answers_ok_enabled [OF assms(2,3)]
  by (auto simp: calculateResults_mi_def saved_once_def saveSurveyResult_def Let_def
           split: sum.split option.split)
     (rule exI, rule exI, rule conjI, rule refl, simp)

lemma rankedResults_scores:
  "(c, s, k) \<in> set (rankedResults keys qs nColors ans) \<Longrightarrow> s = tally qs ans c"
  by (auto simp: rankedResults_def rank_results_def score_entries_def reindex_from_def
           in_set_enumerate_eq)


lemma mi_run_inv:
  "answers_ok (length mi_questions) mi_answerValues
     (pg_answers (fst (survey_run (calculateResults_mi sid cid user fid now) (\<lambda>pg. \<not> pg_complete pg)
        (length mi_questions) mi_answerValues (mi_page_init, db) es))) \<and>
   saved_once (\<lambda>pg r. sr_results r = IntelligenceResults (pg_result pg) \<and>
                  pg_result pg = rankedResults intelligenceKeys mi_questions mi_colorCount (pg_answers pg) \<and>
                  length (pg_answers pg) = length mi_questions) db
     (fst (survey_run (calculateResults_mi sid cid user fid now) (\<lambda>pg. \<not> pg_complete pg)
        (length mi_questions) mi_answerValues (mi_page_init, db) es))
     (snd (survey_run (calculateResults_mi sid cid user fid now) (\<lambda>pg. \<not> pg_complete pg)
        (length mi_questions) mi_answerValues (mi_page_init, db) es))"
  by (rule survey_run_inv [OF calculateResults_mi_answers calculateResults_mi_saved])
     (simp_all add: mi_page_init_def answers_ok_def saved_once_def)

subsection \<open>The views\<close>

lemma top_cards_ranks: "map rc_rank (top_cards rs) = map Suc [0..<min 3 (length rs)]"
  by (rule nth_equalityI) (auto simp: top_cards_def split: prod.split)

lemma top_cards_scores: "map rc_score (top_cards rs) = take 3 (map (\<lambda>(c, s, k). s) rs)"
  by (rule nth_equalityI) (auto simp: top_cards_def split: prod.split)

text \<open>
  A complete page shows its ranked results: the three cards are the first three entries
  of the chart, and the finish link goes where the back link went.
\<close>

lemma mi_view_complete:
  "pg_complete pg \<Longrightarrow>
   mi_view ss sid saving pg = ResultsView (pg_result pg, top_cards (pg_result pg)) (survey_back_href ss sid)"
  by (simp add: mi_view_def)

lemma holland_view_complete:
  "pg_complete pg \<Longrightarrow>
   holland_view ss sid saving pg =
     ResultsView (hollandCode (pg_result pg), pg_result pg, top_cards (pg_result pg)) (survey_back_href ss sid)"
  by (simp add: holland_view_def)

text \<open>
  An incomplete page shows the question view, whose counter, bar and button agree: the
  bar is within 0..100 and is full exactly when the button is enabled (nothing saving).
\<close>

lemma mi_view_questions:
  assumes "\<not> pg_complete pg" and "answers_ok (length mi_questions) mi_answerValues (pg_answers pg)"
  shows "\<exists>p cards. mi_view ss sid saving pg =
           QuestionsView (length (pg_answers pg)) p cards (\<not> submit_enabled (pg_answers pg) (length mi_questions) saving)
             saving (survey_back_href ss sid) \<and>
           0 \<le> p \<and> p \<le> 100 \<and> (p = 100 \<longleftrightarrow> submit_enabled (pg_answers pg) (length mi_questions) False) \<and>
           map qc_answered cards = map (\<lambda>i. map_of (pg_answers pg) i \<noteq> None) [0..<length mi_questions]"
  using assms progress_bounds [OF assms(2)]
  by (simp add: mi_view_def questions_view_def question_cards_def mi_questions_def comp_def)

text \<open>A student session opens the page without the teacher's sign-in.\<close>

lemma survey_wrapper_student: "s \<noteq> [] \<Longrightarrow> survey_wrapper user (Some s) = BarePage"
  by (simp add: survey_wrapper_def js_truthy_str_def)

text \<open>
  The learning-style page computes the dominant style before the save; when the save
  fails the page keeps the question view, the result unseen.
\<close>

lemma ls_failed_save_keeps_questions:
  assumes "calculateResults_ls sid cid user fid now pg db = (Some e, pg', db')" and "\<not> pg_complete pg"
  shows "ls_view ss sid saving pg' = questions_view (length ls_questions) saving (survey_back_href ss sid) (pg_answers pg)"
  using assms
  by (auto simp: calculateResults_ls_def ls_view_def Let_def split: if_splits sum.splits)

section \<open>Properties\<close>

text \<open>
  C14 (safety). Whatever the user does on the multiple-intelligence page (answering
  through the radio groups, clicking the submit button whenever it is enabled), the page
  saves at most one result: the store is unchanged while the page is not complete, and a
  complete page has every question answered and has added exactly one record, whose
  ranked results are the ones it shows, each score between 0 and 30.
\<close>

theorem mi_page_saves_once:
  "let (pg', db') = survey_run (calculateResults_mi sid cid user fid now) (\<lambda>pg. \<not> pg_complete pg)
                      (length mi_questions) mi_answerValues (mi_page_init, db) es
   in (\<not> pg_complete pg' \<and> db' = db) \<or>
      (pg_complete pg' \<and> (\<forall>i < length mi_questions. map_of (pg_answers pg') i \<noteq> None) \<and>
       (\<exists>u r. db' = db(u := db u @ [r]) \<and> sr_results r = IntelligenceResults (pg_result pg')) \<and>
       (\<forall>(c, s, k) \<in> set (pg_result pg'). 0 \<le> s \<and> s \<le> 30))"
proof -
  obtain pg' db' where run: "survey_run (calculateResults_mi sid cid user fid now) (\<lambda>pg. \<not> pg_complete pg)
      (length mi_questions) mi_answerValues (mi_page_init, db) es = (pg', db')" by fastforce
  have ok: "answers_ok (length mi_questions) mi_answerValues (pg_answers pg')"
    and so: "saved_once (\<lambda>pg r. sr_results r = IntelligenceResults (pg_result pg) \<and>
                  pg_result pg = rankedResults intelligenceKeys mi_questions mi_colorCount (pg_answers pg) \<and>
                  length (pg_answers pg) = length mi_questions) db pg' db'"
    using mi_run_inv [of sid cid user fid now db es] run by simp_all
  show ?thesis
  proof (cases "pg_complete pg'")
    case False
    then show ?thesis using so run by (simp add: saved_once_def)
  next
    case True
    then obtain u r where db': "db' = db(u := db u @ [r])" and r: "sr_results r = IntelligenceResults (pg_result pg')"
      and res: "pg_result pg' = rankedResults intelligenceKeys mi_questions mi_colorCount (pg_answers pg')"
      and len: "length (pg_answers pg') = length mi_questions"
      using so by (auto simp: saved_once_def)
    have all: "\<forall>i < length mi_questions. map_of (pg_answers pg') i \<noteq> None"
      by (rule answers_ok_all_answered [OF ok len])
    have "distinct (map fst (pg_answers pg'))" using ok by (simp add: answers_ok_def strict_sorted_iff)
    moreover have "\<forall>(i, v) \<in> set (pg_answers pg'). i < length mi_questions \<and> v \<in> set mi_answerValues"
      using ok by (simp add: answers_ok_def list_all_iff)
    ultimately have "\<forall>(c, s, k) \<in> set (pg_result pg'). 0 \<le> s \<and> s \<le> 30"
      using mi_tally_bounds res rankedResults_scores by fastforce
    then show ?thesis using True all db' r run by auto
  qed
qed

text \<open>
  C12 (roundtrip). Choosing an item in the radio group of question \<open>i\<close> (its value is
  the option's \<^verbatim>\<open>toString()\<close>): \<^verbatim>\<open>parseInt\<close> reads the option back, the group then
  shows that item, and every other question's group keeps its value.
\<close>

theorem radio_answer_roundtrip:
  "answer_from_radio i (int_str v) pg = Some (handleAnswerChange i v pg) \<and>
   radio_value (pg_answers (handleAnswerChange i v pg)) = (radio_value (pg_answers pg))(i := Some (int_str v))"
  by (simp add: answer_from_radio_item handleAnswerChange_def radio_value_set_answer)


section \<open>Witnesses\<close>

text \<open>Witness of C14: answering all eighty questions with 3 and submitting saves one record.\<close>

theorem mi_page_saves_once_witness:
  "pg_complete (fst (survey_run (calculateResults_mi (Some ''s1'') (Some ''c1'') (Some ''t1'') (Inr ''f1'') ''2025-01-01'')
      (\<lambda>pg. \<not> pg_complete pg) (length mi_questions) mi_answerValues (mi_page_init, \<lambda>_. [])
      (map (\<lambda>i. AnswerEvent i ''3'') [0..<80] @ [SubmitEvent]))) \<and>
   (let (pg', db') = survey_run (calculateResults_mi (Some ''s1'') (Some ''c1'') (Some ''t1'') (Inr ''f1'') ''2025-01-01'')
                      (\<lambda>pg. \<not> pg_complete pg) (length mi_questions) mi_answerValues (mi_page_init, \<lambda>_. [])
                      (map (\<lambda>i. AnswerEvent i ''3'') [0..<80] @ [SubmitEvent])
    in (\<not> pg_complete pg' \<and> db' = (\<lambda>_. [])) \<or>
       (pg_complete pg' \<and> (\<forall>i < length mi_questions. map_of (pg_answers pg') i \<noteq> None) \<and>
        (\<exists>u r. db' = (\<lambda>_. [])(u := [] @ [r]) \<and> sr_results r = IntelligenceResults (pg_result pg')) \<and>
        (\<forall>(c, s, k) \<in> set (pg_result pg'). 0 \<le> s \<and> s \<le> 30)))"
proof
  show "pg_complete (fst (survey_run (calculateResults_mi (Some ''s1'') (Some ''c1'') (Some ''t1'') (Inr ''f1'') ''2025-01-01'')
      (\<lambda>pg. \<not> pg_complete pg) (length mi_questions) mi_answerValues (mi_page_init, \<lambda>_. [])
      (map (\<lambda>i. AnswerEvent i ''3'') [0..<80] @ [SubmitEvent])))"
    by code_simp
  show "let (pg', db') = survey_run (calculateResults_mi (Some ''s1'') (Some ''c1'') (Some ''t1'') (Inr ''f1'') ''2025-01-01'')
                      (\<lambda>pg. \<not> pg_complete pg) (length mi_questions) mi_answerValues (mi_page_init, \<lambda>_. [])
                      (map (\<lambda>i. AnswerEvent i ''3'') [0..<80] @ [SubmitEvent])
    in (\<not> pg_complete pg' \<and> db' = (\<lambda>_. [])) \<or>
       (pg_complete pg' \<and> (\<forall>i < length mi_questions. map_of (pg_answers pg') i \<noteq> None) \<and>
        (\<exists>u r. db' = (\<lambda>_. [])(u := [] @ [r]) \<and> sr_results r = IntelligenceResults (pg_result pg')) \<and>
        (\<forall>(c, s, k) \<in> set (pg_result pg'). 0 \<le> s \<and> s \<le> 30))"
    using mi_page_saves_once [of "Some ''s1''" "Some ''c1''" "Some ''t1''" "Inr ''f1''" "''2025-01-01''" "\<lambda>_. []"
                                 "map (\<lambda>i. AnswerEvent i ''3'') [0..<80] @ [SubmitEvent]"]
    by simp
qed

end
