(* ===== verification/Forum.thy ===== *)
theory Forum
  imports Prelude "HOL-Library.AList" "HOL-Library.Sublist"
    "HOL-Library.List_Lexorder" "HOL-Library.Char_ord" "HOL-Library.Product_Lexorder"
begin

text \<open>
  The teachers' forum, \<^verbatim>\<open>src/src/hooks/use-forum.ts\<close> with the server action
  \<^verbatim>\<open>addReplyAction\<close> of \<^verbatim>\<open>src/src/app/actions.ts\<close> and the list filter of
  \<^verbatim>\<open>src/src/app/forum/soru/[id]/page.tsx\<close>. Firestore keeps three levels of
  collections, \<^verbatim>\<open>forum/{post}\<close>, \<^verbatim>\<open>forum/{post}/replies/{reply}\<close> and
  \<^verbatim>\<open>forum/{post}/replies/{reply}/comments/{comment}\<close>; a subcollection exists
  independently of its parent document, so the store is three flat keyed collections.
  A handler is a program of remote requests (a read of the store, or the commit of a
  write batch); the handlers' \<^verbatim>\<open>try/catch\<close> turns a failed request into the
  value the \<^verbatim>\<open>catch\<close> returns. Programs run alone (\<open>exec\<close>, with the number of
  requests that succeed before the network fails) or interleaved with other clients'
  programs (\<open>fsys_run\<close>).
\<close>

section \<open>Documents and the store\<close>

record forum_author =
  author_id :: uid
  author_name :: string

record forum_post =
  title :: string
  description :: string
  category :: string
  post_author :: forum_author
  post_date :: string

record forum_reply =
  reply_author :: forum_author
  reply_content :: string
  reply_date :: string
  upvotedBy :: "uid list"
  commentCount :: int

record forum_comment =
  comment_author :: forum_author
  comment_content :: string
  comment_date :: string

type_synonym post_id = string
type_synonym reply_key = "string \<times> string"
type_synonym comment_key = "string \<times> string \<times> string"

record forum_db =
  fposts :: "(post_id \<times> forum_post) list"
  freplies :: "(reply_key \<times> forum_reply) list"
  fcomments :: "(comment_key \<times> forum_comment) list"

text \<open>
  The writes a batch carries: \<^verbatim>\<open>set\<close>, \<^verbatim>\<open>delete\<close> and the field transforms
  \<^verbatim>\<open>increment\<close>, \<^verbatim>\<open>arrayUnion\<close>, \<^verbatim>\<open>arrayRemove\<close> of an \<^verbatim>\<open>update\<close>.
\<close>

datatype forum_write =
    SetPost post_id forum_post
  | DeletePostDoc post_id
  | SetReply reply_key forum_reply
  | DeleteReplyDoc reply_key
  | IncrementCommentCount reply_key int
  | UpvoteUnion reply_key uid
  | UpvoteRemove reply_key uid
  | SetComment comment_key forum_comment
  | DeleteCommentDoc comment_key

text \<open>
  Firestore's semantics of one write: \<^verbatim>\<open>set\<close> creates or replaces, \<^verbatim>\<open>delete\<close>
  of an absent document succeeds, \<^verbatim>\<open>update\<close> of an absent document fails with
  \<^verbatim>\<open>NOT_FOUND\<close>.
\<close>

definition update_reply :: "reply_key \<Rightarrow> (forum_reply \<Rightarrow> forum_reply) \<Rightarrow> forum_db \<Rightarrow> forum_db option" where
  "update_reply k f db =
     (case map_of (freplies db) k of None \<Rightarrow> None
      | Some r \<Rightarrow> Some (db\<lparr>freplies := AList.update k (f r) (freplies db)\<rparr>))"

fun apply_write :: "forum_db \<Rightarrow> forum_write \<Rightarrow> forum_db option" where
  "apply_write db (SetPost k p) = Some (db\<lparr>fposts := AList.update k p (fposts db)\<rparr>)"
| "apply_write db (DeletePostDoc k) = Some (db\<lparr>fposts := AList.delete k (fposts db)\<rparr>)"
| "apply_write db (SetReply k r) = Some (db\<lparr>freplies := AList.update k r (freplies db)\<rparr>)"
| "apply_write db (DeleteReplyDoc k) = Some (db\<lparr>freplies := AList.delete k (freplies db)\<rparr>)"
| "apply_write db (IncrementCommentCount k n) =
     update_reply k (\<lambda>r. r\<lparr>commentCount := commentCount r + n\<rparr>) db"
| "apply_write db (UpvoteUnion k u) = update_reply k (\<lambda>r. r\<lparr>upvotedBy := array_union (upvotedBy r) u\<rparr>) db"
| "apply_write db (UpvoteRemove k u) = update_reply k (\<lambda>r. r\<lparr>upvotedBy := array_remove (upvotedBy r) u\<rparr>) db"
| "apply_write db (SetComment k c) = Some (db\<lparr>fcomments := AList.update k c (fcomments db)\<rparr>)"
| "apply_write db (DeleteCommentDoc k) = Some (db\<lparr>fcomments := AList.delete k (fcomments db)\<rparr>)"

text \<open>
  \<^verbatim>\<open>batch.commit()\<close>: the writes apply in order and atomically; one failing write,
  or more than 500 writes in the batch, rejects the whole batch.
\<close>

definition batch_limit :: nat where
  "batch_limit = 500"

fun apply_writes :: "forum_db \<Rightarrow> forum_write list \<Rightarrow> forum_db option" where
  "apply_writes db [] = Some db"
| "apply_writes db (w # ws) = (case apply_write db w of None \<Rightarrow> None | Some db' \<Rightarrow> apply_writes db' ws)"

definition commit_batch :: "forum_db \<Rightarrow> forum_write list \<Rightarrow> forum_db option" where
  "commit_batch db ws = (if batch_limit < length ws then None else apply_writes db ws)"

text \<open>Reading a collection: the documents under one parent, in the store's order.\<close>

definition reply_ids :: "forum_db \<Rightarrow> post_id \<Rightarrow> string list" where
  "reply_ids db p = [snd k. (k, _) \<leftarrow> freplies db, fst k = p]"

definition comment_keys :: "forum_db \<Rightarrow> post_id \<Rightarrow> string \<Rightarrow> comment_key list" where
  "comment_keys db p r = [k. (k, _) \<leftarrow> fcomments db, fst k = p \<and> fst (snd k) = r]"

section \<open>Remote programs\<close>

text \<open>
  \<open>Get f\<close> reads the store (\<^verbatim>\<open>getDoc\<close>, \<^verbatim>\<open>getDocs\<close>) and continues with
  the snapshot; \<open>Put ws k\<close> commits a batch (a single \<^verbatim>\<open>addDoc\<close>,
  \<^verbatim>\<open>updateDoc\<close> or \<^verbatim>\<open>deleteDoc\<close> is a batch of one write) and continues
  when it succeeds.
\<close>

datatype 'a prog = Return 'a | Get "forum_db \<Rightarrow> 'a prog" | Put "forum_write list" "'a prog"

text \<open>
  Running a program alone. \<open>net\<close> is the number of requests that reach the server
  before the connection fails (\<open>None\<close>: all of them); a failed request or a rejected
  batch ends the program with the handler's \<^verbatim>\<open>catch\<close> value \<open>e\<close>.
\<close>

primrec exec :: "'a prog \<Rightarrow> nat option \<Rightarrow> 'a \<Rightarrow> forum_db \<Rightarrow> 'a \<times> forum_db" where
  "exec (Return x) net e db = (x, db)"
| "exec (Get f) net e db =
     (if net = Some 0 then (e, db) else exec (f db) (map_option (\<lambda>n. n - 1) net) e db)"
| "exec (Put ws k) net e db =
     (if net = Some 0 then (e, db) else
      case commit_batch db ws of None \<Rightarrow> (e, db)
      | Some db' \<Rightarrow> exec k (map_option (\<lambda>n. n - 1) net) e db')"

section \<open>Handlers\<close>

text \<open>
  \<^verbatim>\<open>deleteSubcollection(path)\<close>, lines 122--130: read the comments of one reply
  and delete them in one batch.
\<close>

definition deleteSubcollection :: "post_id \<Rightarrow> string \<Rightarrow> 'a prog \<Rightarrow> 'a prog" where
  "deleteSubcollection p r k = Get (\<lambda>db. Put (map DeleteCommentDoc (comment_keys db p r)) k)"

text \<open>
  \<^verbatim>\<open>addPost(postData)\<close>, lines 134--145: \<^verbatim>\<open>addDoc\<close> with the client's clock;
  \<open>pid\<close> is the id Firestore generates. The \<^verbatim>\<open>catch\<close> value is \<open>None\<close>.
\<close>

definition addPost :: "post_id \<Rightarrow> forum_post \<Rightarrow> string \<Rightarrow> post_id option prog" where
  "addPost pid postData now = Put [SetPost pid (postData\<lparr>post_date := now\<rparr>)] (Return (Some pid))"

text \<open>
  \<^verbatim>\<open>deletePost(postId)\<close>, lines 147--171: one read of the replies; for each reply,
  its comments are deleted by their own batch (awaited in turn) and the reply's delete
  joins the main batch; the main batch deletes the replies and the post. The
  \<^verbatim>\<open>catch\<close> value is \<open>False\<close>.
\<close>

definition deletePost :: "post_id \<Rightarrow> bool prog" where
  "deletePost p =
     Get (\<lambda>db. foldr (\<lambda>r k. deleteSubcollection p r k) (reply_ids db p)
                 (Put (map (\<lambda>r. DeleteReplyDoc (p, r)) (reply_ids db p) @ [DeletePostDoc p]) (Return True)))"

text \<open>
  \<^verbatim>\<open>addReplyAction(postId, replyData)\<close>, \<^verbatim>\<open>src/src/app/actions.ts\<close> lines
  114--130, a server action: the guard \<^verbatim>\<open>!replyData.author || !replyData.content\<close>,
  then \<^verbatim>\<open>addDoc\<close> of a reply with no upvotes and no comments. Its own
  \<^verbatim>\<open>catch\<close> answers \<open>ReplyError AddFailed\<close>. The post is not read: nothing
  checks that it exists.
\<close>

datatype reply_error = MissingContentOrAuthor | AddFailed

definition addReplyAction ::
  "post_id \<Rightarrow> string \<Rightarrow> forum_author option \<Rightarrow> string \<Rightarrow> string \<Rightarrow> (reply_error + unit) prog" where
  "addReplyAction p rid author content now =
     (case author of
        None \<Rightarrow> Return (Inl MissingContentOrAuthor)
      | Some a \<Rightarrow>
          if content = [] then Return (Inl MissingContentOrAuthor)
          else Put [SetReply (p, rid) \<lparr>reply_author = a, reply_content = content, reply_date = now,
                                       upvotedBy = [], commentCount = 0\<rparr>] (Return (Inr ())))"

definition addReplyAction_catch :: "reply_error + unit" where
  "addReplyAction_catch = Inl AddFailed"

text \<open>\<^verbatim>\<open>addReply\<close>, lines 174--185: \<open>True\<close> exactly when the action succeeded.\<close>

definition addReply :: "post_id \<Rightarrow> string \<Rightarrow> forum_author option \<Rightarrow> string \<Rightarrow> string \<Rightarrow> bool prog" where
  "addReply p rid author content now = map_prog (\<lambda>r. r = Inr ()) (addReplyAction p rid author content now)"

text \<open>
  \<^verbatim>\<open>deleteReply(postId, replyId)\<close>, lines 187--196: the comments' batch, then a
  separate \<^verbatim>\<open>deleteDoc\<close> of the reply.
\<close>

definition deleteReply :: "post_id \<Rightarrow> string \<Rightarrow> bool prog" where
  "deleteReply p r = deleteSubcollection p r (Put [DeleteReplyDoc (p, r)] (Return True))"

text \<open>
  \<^verbatim>\<open>addCommentToReply\<close>, lines 199--225, and \<^verbatim>\<open>deleteComment\<close>, lines
  227--247: the comment's write and the counter's \<^verbatim>\<open>increment\<close> share one batch.
  \<open>cid\<close> is the id \<^verbatim>\<open>doc(commentsColRef)\<close> generates.
\<close>

definition addCommentToReply ::
  "post_id \<Rightarrow> string \<Rightarrow> string \<Rightarrow> forum_author \<Rightarrow> string \<Rightarrow> string \<Rightarrow> bool prog" where
  "addCommentToReply p r cid author content now =
     Put [SetComment (p, r, cid) \<lparr>comment_author = author, comment_content = content, comment_date = now\<rparr>,
          IncrementCommentCount (p, r) 1] (Return True)"

definition deleteComment :: "post_id \<Rightarrow> string \<Rightarrow> string \<Rightarrow> bool prog" where
  "deleteComment p r cid =
     Put [DeleteCommentDoc (p, r, cid), IncrementCommentCount (p, r) (-1)] (Return True)"

text \<open>
  \<^verbatim>\<open>toggleUpvote(postId, replyId, userId)\<close>, lines 251--272: read the reply
  (an absent reply ends the handler), then remove or add the user according to that
  snapshot (\<^verbatim>\<open>upvotedBy || []\<close>: the field is always written by
  \<open>addReplyAction\<close>).
\<close>

definition toggleUpvote :: "post_id \<Rightarrow> string \<Rightarrow> uid \<Rightarrow> unit prog" where
  "toggleUpvote p r u =
     Get (\<lambda>db. case map_of (freplies db) (p, r) of
                 None \<Rightarrow> Return ()
               | Some rep \<Rightarrow>
                   if u \<in> set (upvotedBy rep) then Put [UpvoteRemove (p, r) u] (Return ())
                   else Put [UpvoteUnion (p, r) u] (Return ()))"

section \<open>The handlers as operations\<close>

text \<open>
  The forum's mutating handlers, each run alone against the store with the catch value
  of its source. \<open>op_ok\<close> is what the pages guarantee or Firestore makes all but
  certain: generated ids are fresh, a reply is added under an existing post, a comment
  deleted from the page exists, and the batches of a cascade stay within the 500-write
  limit.
\<close>

datatype forum_op =
    AddPostOp post_id forum_post string
  | AddReplyOp post_id string "forum_author option" string string
  | AddCommentOp post_id string string forum_author string string
  | DeleteCommentOp post_id string string
  | ToggleUpvoteOp post_id string uid
  | DeleteReplyOp post_id string
  | DeletePostOp post_id

definition run_op :: "nat option \<Rightarrow> forum_op \<Rightarrow> forum_db \<Rightarrow> forum_db" where
  "run_op net op db =
     (case op of
        AddPostOp pid d now \<Rightarrow> snd (exec (addPost pid d now) net None db)
      | AddReplyOp p rid a c now \<Rightarrow> snd (exec (addReply p rid a c now) net False db)
      | AddCommentOp p r cid a c now \<Rightarrow> snd (exec (addCommentToReply p r cid a c now) net False db)
      | DeleteCommentOp p r cid \<Rightarrow> snd (exec (deleteComment p r cid) net False db)
      | ToggleUpvoteOp p r u \<Rightarrow> snd (exec (toggleUpvote p r u) net () db)
      | DeleteReplyOp p r \<Rightarrow> snd (exec (deleteReply p r) net False db)
      | DeletePostOp p \<Rightarrow> snd (exec (deletePost p) net False db))"

definition op_ok :: "forum_db \<Rightarrow> forum_op \<Rightarrow> bool" where
  "op_ok db op =
     (case op of
        AddPostOp pid d now \<Rightarrow> True
      | AddReplyOp p rid a c now \<Rightarrow> p \<in> set (map fst (fposts db)) \<and> (p, rid) \<notin> set (map fst (freplies db))
      | AddCommentOp p r cid a c now \<Rightarrow> (p, r, cid) \<notin> set (map fst (fcomments db))
      | DeleteCommentOp p r cid \<Rightarrow> (p, r, cid) \<in> set (map fst (fcomments db))
      | ToggleUpvoteOp p r u \<Rightarrow> True
      | DeleteReplyOp p r \<Rightarrow> length (comment_keys db p r) \<le> batch_limit
      | DeletePostOp p \<Rightarrow> length (reply_ids db p) < batch_limit \<and>
                          list_all (\<lambda>r. length (comment_keys db p r) \<le> batch_limit) (reply_ids db p))"

definition single_request :: "forum_op \<Rightarrow> bool" where
  "single_request op = (case op of DeleteReplyOp p r \<Rightarrow> False | DeletePostOp p \<Rightarrow> False | _ \<Rightarrow> True)"


section \<open>Several clients on one store\<close>

text \<open>
  Each client runs one handler; \<open>Step c\<close> sends client \<open>c\<close>'s next request,
  \<open>Drop c\<close> loses it (the client's \<^verbatim>\<open>catch\<close> value ends its handler).
\<close>

record 'a forum_sys =
  sdb :: forum_db
  clients :: "('a prog \<times> 'a) list"

datatype forum_event = Step nat | Drop nat

definition req_step :: "forum_db \<Rightarrow> 'a prog \<Rightarrow> 'a \<Rightarrow> forum_db \<times> 'a prog" where
  "req_step db p e =
     (case p of
        Return x \<Rightarrow> (db, Return x)
      | Get f \<Rightarrow> (db, f db)
      | Put ws k \<Rightarrow> (case commit_batch db ws of None \<Rightarrow> (db, Return e) | Some db' \<Rightarrow> (db', k)))"

definition fsys_step :: "'a forum_sys \<Rightarrow> forum_event \<Rightarrow> 'a forum_sys" where
  "fsys_step s ev =
     (case ev of
        Step c \<Rightarrow>
          if c < length (clients s) then
            (case clients s ! c of (p, e) \<Rightarrow>
               (case req_step (sdb s) p e of (db', p') \<Rightarrow>
                  s\<lparr>sdb := db', clients := (clients s)[c := (p', e)]\<rparr>))
          else s
      | Drop c \<Rightarrow>
          if c < length (clients s) then
            (case clients s ! c of (p, e) \<Rightarrow>
               (case p of Return x \<Rightarrow> s | _ \<Rightarrow> s\<lparr>clients := (clients s)[c := (Return e, e)]\<rparr>))
          else s)"

definition fsys_run :: "'a forum_sys \<Rightarrow> forum_event list \<Rightarrow> 'a forum_sys" where
  "fsys_run s evs = foldl fsys_step s evs"


section \<open>What the pages show\<close>

text \<open>
  \<^verbatim>\<open>useForum\<close>, lines 28--55: all posts, \<^verbatim>\<open>orderBy('date', 'desc')\<close>; Firestore
  breaks ties by document id in the same direction. Strings compare by their UTF-8 bytes,
  which is the lexicographic order on \<open>string\<close>.
\<close>

definition useForum :: "forum_db \<Rightarrow> (post_id \<times> forum_post) list" where
  "useForum db = rev (sort_key (\<lambda>(i, p). (post_date p, i)) (fposts db))"

text \<open>
  \<^verbatim>\<open>useForumPost(postId)\<close>, lines 59--120: the post, its replies in
  \<^verbatim>\<open>orderBy('date', 'asc')\<close> order, and for every loaded reply its comments, ascending
  by date.
\<close>

definition post_replies :: "forum_db \<Rightarrow> post_id \<Rightarrow> (string \<times> forum_reply) list" where
  "post_replies db p = sort_key (\<lambda>(r, rep). (reply_date rep, r)) [(snd k, rep). (k, rep) \<leftarrow> freplies db, fst k = p]"

definition reply_comments :: "forum_db \<Rightarrow> post_id \<Rightarrow> string \<Rightarrow> (string \<times> forum_comment) list" where
  "reply_comments db p r =
     sort_key (\<lambda>(c, cm). (comment_date cm, c)) [(snd (snd k), cm). (k, cm) \<leftarrow> fcomments db, fst k = p \<and> fst (snd k) = r]"

definition useForumPost ::
  "forum_db \<Rightarrow> post_id \<Rightarrow> forum_post option \<times> (string \<times> forum_reply) list \<times> (string \<times> (string \<times> forum_comment) list) list" where
  "useForumPost db p =
     (map_of (fposts db) p, post_replies db p, map (\<lambda>(r, _). (r, reply_comments db p r)) (post_replies db p))"

text \<open>
  The forum list's filter (\<^verbatim>\<open>filteredPosts\<close>, page lines 25--38). JavaScript's
  \<^verbatim>\<open>toLowerCase\<close> is modelled on ASCII letters; other characters are kept.
\<close>

definition js_lower_char :: "char \<Rightarrow> char" where
  "js_lower_char c = (if CHR ''A'' \<le> c \<and> c \<le> CHR ''Z'' then char_of (of_char c + (32::nat)) else c)"

definition js_lower :: "string \<Rightarrow> string" where
  "js_lower = map js_lower_char"

definition category_all :: string where
  "category_all = ''T'' @ [CHR 0xC3, CHR 0xBC] @ ''m'' @ [CHR 0xC3, CHR 0xBC]"

definition filteredPosts :: "(post_id \<times> forum_post) list \<Rightarrow> string \<Rightarrow> string \<Rightarrow> (post_id \<times> forum_post) list" where
  "filteredPosts posts searchTerm selectedCategory =
     filter (\<lambda>(i, post).
               (selectedCategory = category_all \<or> category post = selectedCategory) \<and>
               (sublist (js_lower searchTerm) (js_lower (title post)) \<or>
                sublist (js_lower searchTerm) (js_lower (description post)))) posts"

section \<open>Consistency of the store\<close>

text \<open>
  The store is consistent when every collection has distinct ids, no reply or comment
  outlives its parent, every reply's \<open>commentCount\<close> is the number of its comments
  and no user appears twice in an \<open>upvotedBy\<close> array.
\<close>

definition keys_ok :: "forum_db \<Rightarrow> bool" where
  "keys_ok db \<longleftrightarrow>
     distinct (map fst (fposts db)) \<and> distinct (map fst (freplies db)) \<and> distinct (map fst (fcomments db))"

definition no_orphans :: "forum_db \<Rightarrow> bool" where
  "no_orphans db \<longleftrightarrow>
     (\<forall>k \<in> set (map fst (freplies db)). fst k \<in> set (map fst (fposts db))) \<and>
     (\<forall>k \<in> set (map fst (fcomments db)). (fst k, fst (snd k)) \<in> set (map fst (freplies db)))"

definition counts_ok :: "forum_db \<Rightarrow> bool" where
  "counts_ok db \<longleftrightarrow>
     (\<forall>(k, rep) \<in> set (freplies db). commentCount rep = int (length (comment_keys db (fst k) (snd k))))"

definition votes_ok :: "forum_db \<Rightarrow> bool" where
  "votes_ok db \<longleftrightarrow> (\<forall>(k, rep) \<in> set (freplies db). distinct (upvotedBy rep))"

text \<open>
  The effect of the comment batches of a cascade over the replies \<open>rs\<close> of post
  \<open>p\<close>: every comment under one of them is gone.
\<close>

definition comments_removed :: "post_id \<Rightarrow> string list \<Rightarrow> forum_db \<Rightarrow> forum_db" where
  "comments_removed p rs db =
     db\<lparr>fcomments := filter (\<lambda>(k, _). \<not> (fst k = p \<and> fst (snd k) \<in> set rs)) (fcomments db)\<rparr>"

definition forum_inv :: "forum_db \<Rightarrow> bool" where
  "forum_inv db \<longleftrightarrow> keys_ok db \<and> no_orphans db \<and> counts_ok db \<and> votes_ok db"


subsection \<open>An example store\<close>

text \<open>
  Two posts: \<open>p\<close> with reply \<open>X\<close> (two comments, one upvote) and reply
  \<open>Y\<close> (no comment), and \<open>q\<close> with reply \<open>Z\<close> (one comment).
\<close>

abbreviation ex_author :: forum_author where
  "ex_author \<equiv> \<lparr>author_id = ''a'', author_name = ''A''\<rparr>"

abbreviation ex_post :: forum_post where
  "ex_post \<equiv> \<lparr>title = ''Kesirler'', description = ''Nasil anlatilir?'', category = ''Matematik'',
               post_author = ex_author, post_date = ''2024-01-01''\<rparr>"

abbreviation ex_reply :: "uid list \<Rightarrow> int \<Rightarrow> forum_reply" where
  "ex_reply vs n \<equiv> \<lparr>reply_author = ex_author, reply_content = ''cevap'', reply_date = ''2024-01-02'',
                     upvotedBy = vs, commentCount = n\<rparr>"

abbreviation ex_comment :: forum_comment where
  "ex_comment \<equiv> \<lparr>comment_author = ex_author, comment_content = ''yorum'', comment_date = ''2024-01-03''\<rparr>"

abbreviation ex_db :: forum_db where
  "ex_db \<equiv> \<lparr>fposts = [(''p'', ex_post), (''q'', ex_post)],
             freplies = [((''p'', ''X''), ex_reply [''v''] 2), ((''p'', ''Y''), ex_reply [] 0),
                         ((''q'', ''Z''), ex_reply [] 1)],
             fcomments = [((''p'', ''X'', ''c1''), ex_comment), ((''p'', ''X'', ''c2''), ex_comment),
                          ((''q'', ''Z'', ''c3''), ex_comment)]\<rparr>"

section \<open>Lemmas\<close>

lemma comment_keys_filter:
  "comment_keys db p r = filter (\<lambda>k. fst k = p \<and> fst (snd k) = r) (map fst (fcomments db))"
  unfolding comment_keys_def using keys_comprehension [where g = "\<lambda>k. k"] by simp

lemma reply_ids_filter:
  "reply_ids db p = map snd (filter (\<lambda>k. fst k = p) (map fst (freplies db)))"
  unfolding reply_ids_def by (rule keys_comprehension)

lemma commit_small [simp]: "length ws \<le> 2 \<Longrightarrow> commit_batch db ws = apply_writes db ws"
  by (simp add: commit_batch_def batch_limit_def)

lemma keys_ok_iff [simp]: "keys_ok db \<longleftrightarrow>
     distinct (map fst (fposts db)) \<and> distinct (map fst (freplies db)) \<and> distinct (map fst (fcomments db))"
  by (simp add: keys_ok_def)

lemma inv_add_comment:
  assumes inv: "forum_inv db" and rep: "map_of (freplies db) (p, r) = Some rep"
    and fresh: "(p, r, c) \<notin> set (map fst (fcomments db))"
  shows "forum_inv (db\<lparr>fcomments := AList.update (p, r, c) cm (fcomments db),
                       freplies := AList.update (p, r) (rep\<lparr>commentCount := commentCount rep + 1\<rparr>) (freplies db)\<rparr>)"
    (is "forum_inv ?db")
proof -
  from inv have d: "distinct (map fst (fposts db))" "distinct (map fst (freplies db))" "distinct (map fst (fcomments db))"
    by (auto simp: forum_inv_def)
  have inR: "(p, r) \<in> set (map fst (freplies db))" using map_of_SomeD [OF rep] by force
  have ck: "comment_keys ?db p' r' = comment_keys db p' r' @ (if p' = p \<and> r' = r then [(p, r, c)] else [])" for p' r'
    using fresh by (simp add: comment_keys_filter update_keys)
  have keys: "map fst (freplies ?db) = map fst (freplies db)" using inR by (simp add: update_keys)
  have sR: "set (freplies ?db) = insert ((p, r), rep\<lparr>commentCount := commentCount rep + 1\<rparr>) {x \<in> set (freplies db). fst x \<noteq> (p, r)}"
    using d(2) by (simp add: set_alist_update)
  show ?thesis
    unfolding forum_inv_def
  proof (intro conjI)
    show "keys_ok ?db" using d fresh by (simp add: distinct_update keys)
    show "no_orphans ?db" using inv inR keys unfolding forum_inv_def no_orphans_def
      by (simp add: update_keys fresh)
    show "counts_ok ?db" using inv map_of_SomeD [OF rep] unfolding forum_inv_def counts_ok_def sR
      by (auto simp: ck)
    show "votes_ok ?db" using inv map_of_SomeD [OF rep] unfolding forum_inv_def votes_ok_def sR
      by auto
  qed
qed

lemma comment_keys_freplies [simp]: "comment_keys (db\<lparr>freplies := x\<rparr>) = comment_keys db"
  by (simp add: comment_keys_def fun_eq_iff)

lemma comment_keys_delete:
  "comment_keys (db\<lparr>fcomments := AList.delete k (fcomments db)\<rparr>) p r = removeAll k (comment_keys db p r)"
  by (simp add: comment_keys_filter delete_keys filter_removeAll_comm)

lemma counts_ok_replace:
  assumes "counts_ok db" and "set (freplies db') = insert (k0, rep') {x \<in> set (freplies db). fst x \<noteq> k0}"
    and "commentCount rep' = int (length (comment_keys db' (fst k0) (snd k0)))"
    and "\<And>k. k \<noteq> k0 \<Longrightarrow> comment_keys db' (fst k) (snd k) = comment_keys db (fst k) (snd k)"
  shows "counts_ok db'"
  using assms unfolding counts_ok_def by fastforce

lemma votes_ok_replace:
  assumes "votes_ok db" and "set (freplies db') = insert (k0, rep') {x \<in> set (freplies db). fst x \<noteq> k0}"
    and "distinct (upvotedBy rep')"
  shows "votes_ok db'"
  using assms unfolding votes_ok_def by fastforce

lemma no_orphans_shrink:
  assumes "no_orphans db" and "set (map fst (fposts db)) \<subseteq> set (map fst (fposts db'))"
    and "set (map fst (freplies db')) = set (map fst (freplies db))"
    and "set (map fst (fcomments db')) \<subseteq> set (map fst (fcomments db))"
  shows "no_orphans db'"
  using assms unfolding no_orphans_def by (metis (no_types, lifting) subsetD)

lemma reply_of_comment:
  assumes "no_orphans db" and "(p, r, c) \<in> set (map fst (fcomments db))"
  obtains rep where "map_of (freplies db) (p, r) = Some rep"
proof -
  from assms have "(p, r) \<in> fst ` set (freplies db)" unfolding no_orphans_def by fastforce
  then show ?thesis using that by (cases "map_of (freplies db) (p, r)") (auto simp: map_of_eq_None_iff)
qed

lemma inv_delete_comment:
  assumes inv: "forum_inv db" and c: "(p, r, c) \<in> set (map fst (fcomments db))"
    and rep: "map_of (freplies db) (p, r) = Some rep"
  shows "forum_inv (db\<lparr>fcomments := AList.delete (p, r, c) (fcomments db),
                       freplies := AList.update (p, r) (rep\<lparr>commentCount := commentCount rep + -1\<rparr>) (freplies db)\<rparr>)"
    (is "forum_inv ?db")
proof -
  from inv have d: "distinct (map fst (fposts db))" "distinct (map fst (freplies db))" "distinct (map fst (fcomments db))"
    by (auto simp: forum_inv_def)
  have inR: "(p, r) \<in> set (map fst (freplies db))" using map_of_SomeD [OF rep] by force
  have ck: "comment_keys ?db p' r' = removeAll (p, r, c) (comment_keys db p' r')" for p' r'
    by (simp add: comment_keys_filter delete_keys filter_removeAll_comm)
  have inck: "(p, r, c) \<in> set (comment_keys db p r)" using c by (simp add: comment_keys_filter)
  have len: "length (removeAll (p, r, c) (comment_keys db p r)) + 1 = length (comment_keys db p r)"
    using d(3) inck by (intro length_removeAll_distinct) (simp_all add: comment_keys_filter)
  have keys: "map fst (freplies ?db) = map fst (freplies db)" using inR by (simp add: update_keys)
  have sR: "set (freplies ?db) = insert ((p, r), rep\<lparr>commentCount := commentCount rep + -1\<rparr>) {x \<in> set (freplies db). fst x \<noteq> (p, r)}"
    using d(2) by (simp add: set_alist_update)
  have cnt: "commentCount rep = int (length (comment_keys db p r))"
    using inv map_of_SomeD [OF rep] by (auto simp: forum_inv_def counts_ok_def)
  show ?thesis
    unfolding forum_inv_def
  proof (intro conjI)
    show "keys_ok ?db" using d by (simp add: distinct_update keys delete_keys distinct_removeAll)
    have "no_orphans db" using inv by (simp add: forum_inv_def)
    then show "no_orphans ?db" by (rule no_orphans_shrink) (use inR in \<open>simp_all add: dom_update delete_keys insert_absorb\<close>)
    show "counts_ok ?db"
    proof (rule counts_ok_replace [OF _ sR])
      show "counts_ok db" using inv by (simp add: forum_inv_def)
      show "commentCount (rep\<lparr>commentCount := commentCount rep + -1\<rparr>) =
              int (length (comment_keys ?db (fst (p, r)) (snd (p, r))))"
        using cnt len by (simp add: comment_keys_delete)
      show "comment_keys ?db (fst k) (snd k) = comment_keys db (fst k) (snd k)" if "k \<noteq> (p, r)" for k
      proof -
        have "(p, r, c) \<notin> set (comment_keys db (fst k) (snd k))"
          using that by (cases k) (auto simp: comment_keys_filter)
        then show ?thesis by (simp add: comment_keys_delete)
      qed
    qed
    show "votes_ok ?db"
      using inv map_of_SomeD [OF rep] by (intro votes_ok_replace [OF _ sR]) (auto simp: forum_inv_def votes_ok_def)
  qed
qed

lemma inv_set_votes:
  assumes inv: "forum_inv db" and rep: "map_of (freplies db) k = Some rep" and dv: "distinct vs"
  shows "forum_inv (db\<lparr>freplies := AList.update k (rep\<lparr>upvotedBy := vs\<rparr>) (freplies db)\<rparr>)"
    (is "forum_inv ?db")
proof -
  from inv have d: "distinct (map fst (fposts db))" "distinct (map fst (freplies db))" "distinct (map fst (fcomments db))"
    by (auto simp: forum_inv_def)
  have inR: "k \<in> set (map fst (freplies db))" using map_of_SomeD [OF rep] by force
  have sR: "set (freplies ?db) = insert (k, rep\<lparr>upvotedBy := vs\<rparr>) {x \<in> set (freplies db). fst x \<noteq> k}"
    using d(2) by (simp add: set_alist_update)
  show ?thesis
    unfolding forum_inv_def
  proof (intro conjI)
    show "keys_ok ?db" using d by (simp add: distinct_update)
    have "no_orphans db" using inv by (simp add: forum_inv_def)
    then show "no_orphans ?db" by (rule no_orphans_shrink) (use inR in \<open>simp_all add: dom_update insert_absorb\<close>)
    show "counts_ok ?db"
      using inv map_of_SomeD [OF rep] by (intro counts_ok_replace [OF _ sR]) (auto simp: forum_inv_def counts_ok_def)
    show "votes_ok ?db"
      using inv dv by (intro votes_ok_replace [OF _ sR]) (auto simp: forum_inv_def)
  qed
qed

lemma comment_keys_no_reply:
  "no_orphans db \<Longrightarrow> (p, r) \<notin> set (map fst (freplies db)) \<Longrightarrow> comment_keys db p r = []"
  unfolding no_orphans_def comment_keys_filter filter_empty_conv by force

lemma inv_add_reply:
  assumes inv: "forum_inv db" and post: "p \<in> set (map fst (fposts db))"
    and fresh: "(p, rid) \<notin> set (map fst (freplies db))"
    and new: "commentCount rep = 0" "upvotedBy rep = []"
  shows "forum_inv (db\<lparr>freplies := AList.update (p, rid) rep (freplies db)\<rparr>)"
    (is "forum_inv ?db")
proof -
  from inv have d: "distinct (map fst (fposts db))" "distinct (map fst (freplies db))" "distinct (map fst (fcomments db))"
    and no: "no_orphans db"
    by (auto simp: forum_inv_def)
  have sR: "set (freplies ?db) = insert ((p, rid), rep) {x \<in> set (freplies db). fst x \<noteq> (p, rid)}"
    using d(2) by (simp add: set_alist_update)
  show ?thesis
    unfolding forum_inv_def
  proof (intro conjI)
    show "keys_ok ?db" using d by (simp add: distinct_update)
    show "no_orphans ?db" using no post unfolding no_orphans_def by (auto simp: update_keys)
    show "counts_ok ?db"
      using inv new comment_keys_no_reply [OF no fresh]
      by (intro counts_ok_replace [OF _ sR]) (auto simp: forum_inv_def)
    show "votes_ok ?db"
      using inv new by (intro votes_ok_replace [OF _ sR]) (auto simp: forum_inv_def)
  qed
qed

lemma inv_set_post:
  assumes inv: "forum_inv db"
  shows "forum_inv (db\<lparr>fposts := AList.update pid post (fposts db)\<rparr>)"
proof -
  have "comment_keys (db\<lparr>fposts := x\<rparr>) = comment_keys db" for x by (simp add: comment_keys_def fun_eq_iff)
  with inv show ?thesis
    unfolding forum_inv_def keys_ok_def no_orphans_def counts_ok_def votes_ok_def
    by (auto simp: distinct_update dom_update)
qed

lemma apply_writes_append:
  "apply_writes db (xs @ ys) = (case apply_writes db xs of None \<Rightarrow> None | Some db' \<Rightarrow> apply_writes db' ys)"
  by (induction xs arbitrary: db) (auto split: option.split)

lemma filter_field_cong:
  "(\<And>x. x \<in> set (fcomments db) \<Longrightarrow> P x = Q x) \<Longrightarrow>
     db\<lparr>fcomments := filter P (fcomments db)\<rparr> = db\<lparr>fcomments := filter Q (fcomments db)\<rparr>"
  "(\<And>x. x \<in> set (freplies db) \<Longrightarrow> P' x = Q' x) \<Longrightarrow>
     db\<lparr>freplies := filter P' (freplies db)\<rparr> = db\<lparr>freplies := filter Q' (freplies db)\<rparr>"
  by (simp_all cong: filter_cong)

lemma apply_writes_delete_comments:
  "apply_writes db (map DeleteCommentDoc ks) = Some (db\<lparr>fcomments := filter (\<lambda>(k, _). k \<notin> set ks) (fcomments db)\<rparr>)"
  by (induction ks arbitrary: db) (auto simp: AList.delete_eq filter_filter intro!: filter_field_cong)

lemma apply_writes_delete_replies:
  "apply_writes db (map (\<lambda>r. DeleteReplyDoc (p, r)) rs) =
     Some (db\<lparr>freplies := filter (\<lambda>(k, _). \<not> (fst k = p \<and> snd k \<in> set rs)) (freplies db)\<rparr>)"
  by (induction rs arbitrary: db) (auto simp: AList.delete_eq filter_filter intro!: filter_field_cong)

lemma delete_comment_keys_removed:
  "db\<lparr>fcomments := filter (\<lambda>(k, _). k \<notin> set (comment_keys db p r)) (fcomments db)\<rparr> = comments_removed p [r] db"
  unfolding comments_removed_def comment_keys_filter
  by (rule filter_field_cong) (auto simp: image_iff)

lemma comments_removed_Nil [simp]: "comments_removed p [] db = db"
  by (simp add: comments_removed_def)

lemma comments_removed_Cons:
  "comments_removed p rs (comments_removed p [r] db) = comments_removed p (r # rs) db"
  by (auto simp: comments_removed_def filter_filter intro!: filter_field_cong)

lemma comment_keys_removed_le:
  "length (comment_keys (comments_removed p rs db) p' r') \<le> length (comment_keys db p' r')"
  unfolding comments_removed_def comment_keys_filter
  by (simp add: filter_map filter_filter) (rule length_filter_mono_imp, auto)

lemma commit_delete_comments:
  "length (comment_keys db p r) \<le> batch_limit \<Longrightarrow>
     commit_batch db (map DeleteCommentDoc (comment_keys db p r)) = Some (comments_removed p [r] db)"
  by (simp add: commit_batch_def apply_writes_delete_comments delete_comment_keys_removed)

lemma exec_deleteSubcollections_reliable:
  "list_all (\<lambda>r. length (comment_keys db p r) \<le> batch_limit) rs \<Longrightarrow>
     exec (foldr (\<lambda>r k. deleteSubcollection p r k) rs K) None e db = exec K None e (comments_removed p rs db)"
proof (induction rs arbitrary: db)
  case Nil
  then show ?case by simp
next
  case (Cons r rs)
  let ?db' = "comments_removed p [r] db"
  have "list_all (\<lambda>r'. length (comment_keys ?db' p r') \<le> batch_limit) rs"
    using Cons.prems comment_keys_removed_le [of p "[r]" db p] by (auto simp: list_all_iff intro: order_trans)
  with Cons.IH have "exec (foldr (\<lambda>r k. deleteSubcollection p r k) rs K) None e ?db' =
                       exec K None e (comments_removed p rs ?db')" by blast
  with Cons.prems show ?case
    by (simp add: deleteSubcollection_def commit_delete_comments comments_removed_Cons)
qed

lemma exec_deleteSubcollections_any:
  "(\<exists>j \<le> length rs. exec (foldr (\<lambda>r k. deleteSubcollection p r k) rs K) net e db =
                     (e, comments_removed p (take j rs) db)) \<or>
   (\<exists>net'. exec (foldr (\<lambda>r k. deleteSubcollection p r k) rs K) net e db =
             exec K net' e (comments_removed p rs db))"
proof (induction rs arbitrary: db net)
  case Nil
  then show ?case by auto
next
  case (Cons r rs)
  let ?run = "exec (foldr (\<lambda>r k. deleteSubcollection p r k) (r # rs) K) net e db"
  let ?net1 = "map_option (\<lambda>n. n - 1) net"
  let ?net2 = "map_option (\<lambda>n. n - 1) ?net1"
  show ?case
  proof (cases "net = Some 0 \<or> ?net1 = Some 0 \<or> commit_batch db (map DeleteCommentDoc (comment_keys db p r)) = None")
    case True
    then have "?run = (e, comments_removed p (take 0 (r # rs)) db)"
      by (auto simp: deleteSubcollection_def)
    then show ?thesis by blast
  next
    case False
    then obtain db' where c: "commit_batch db (map DeleteCommentDoc (comment_keys db p r)) = Some db'"
      and n: "net \<noteq> Some 0" "?net1 \<noteq> Some 0" by auto
    have db': "db' = comments_removed p [r] db"
      using c by (auto simp: commit_batch_def apply_writes_delete_comments delete_comment_keys_removed split: if_splits)
    have run: "?run = exec (foldr (\<lambda>r k. deleteSubcollection p r k) rs K) ?net2 e db'"
      using n c by (auto simp: deleteSubcollection_def)
    from Cons.IH [of ?net2 db'] show ?thesis
    proof
      assume "\<exists>j \<le> length rs. exec (foldr (\<lambda>r k. deleteSubcollection p r k) rs K) ?net2 e db' =
                                (e, comments_removed p (take j rs) db')"
      then obtain j where "j \<le> length rs"
        and "exec (foldr (\<lambda>r k. deleteSubcollection p r k) rs K) ?net2 e db' = (e, comments_removed p (take j rs) db')"
        by blast
      with run db' have "Suc j \<le> length (r # rs) \<and> ?run = (e, comments_removed p (take (Suc j) (r # rs)) db)"
        by (simp add: comments_removed_Cons)
      then show ?thesis by blast
    next
      assume "\<exists>net'. exec (foldr (\<lambda>r k. deleteSubcollection p r k) rs K) ?net2 e db' =
                      exec K net' e (comments_removed p rs db')"
      with run db' show ?thesis by (auto simp: comments_removed_Cons)
    qed
  qed
qed

lemma commit_final_batch:
  "commit_batch db (map (\<lambda>r. DeleteReplyDoc (p, r)) rs @ [DeletePostDoc p]) =
     (if batch_limit < Suc (length rs) then None
      else Some (db\<lparr>freplies := filter (\<lambda>(k, _). \<not> (fst k = p \<and> snd k \<in> set rs)) (freplies db),
                    fposts := AList.delete p (fposts db)\<rparr>))"
  by (simp add: commit_batch_def apply_writes_append apply_writes_delete_replies)

lemma reply_ids_comments_removed [simp]: "reply_ids (comments_removed p rs db) = reply_ids db"
  by (simp add: comments_removed_def reply_ids_def fun_eq_iff)

lemma freplies_comments_removed [simp]: "freplies (comments_removed p rs db) = freplies db"
  by (simp add: comments_removed_def)

lemma fposts_comments_removed [simp]: "fposts (comments_removed p rs db) = fposts db"
  by (simp add: comments_removed_def)

lemma replies_of_post_removed:
  "filter (\<lambda>(k, _). fst k = p \<longrightarrow> snd k \<notin> set (reply_ids db p)) (freplies db) =
     filter (\<lambda>(k, _). fst k \<noteq> p) (freplies db)"
  by (rule filter_cong) (auto simp: reply_ids_filter image_iff)

lemma comments_of_post_removed:
  "no_orphans db \<Longrightarrow> fcomments (comments_removed p (reply_ids db p) db) = filter (\<lambda>(k, _). fst k \<noteq> p) (fcomments db)"
  unfolding comments_removed_def no_orphans_def
  by (auto intro!: filter_cong simp: reply_ids_filter image_iff) force

lemma exec_deletePost_reliable:
  assumes "no_orphans db" and "op_ok db (DeletePostOp p)"
  shows "exec (deletePost p) None False db =
           (True, db\<lparr>fposts := AList.delete p (fposts db),
                     freplies := filter (\<lambda>(k, _). fst k \<noteq> p) (freplies db),
                     fcomments := filter (\<lambda>(k, _). fst k \<noteq> p) (fcomments db)\<rparr>)"
proof -
  let ?rs = "reply_ids db p"
  from assms(2) have lim: "length ?rs < batch_limit" "list_all (\<lambda>r. length (comment_keys db p r) \<le> batch_limit) ?rs"
    by (simp_all add: op_ok_def)
  have "exec (deletePost p) None False db =
          exec (foldr (\<lambda>r k. deleteSubcollection p r k) ?rs
                  (Put (map (\<lambda>r. DeleteReplyDoc (p, r)) ?rs @ [DeletePostDoc p]) (Return True))) None False db"
    by (simp add: deletePost_def)
  also have "\<dots> = exec (Put (map (\<lambda>r. DeleteReplyDoc (p, r)) ?rs @ [DeletePostDoc p]) (Return True)) None False
            (comments_removed p ?rs db)"
    by (rule exec_deleteSubcollections_reliable [OF lim(2)])
  also have "\<dots> = (True, (comments_removed p ?rs db)\<lparr>freplies := filter (\<lambda>(k, _). fst k \<noteq> p) (freplies db),
                                                      fposts := AList.delete p (fposts db)\<rparr>)"
    using lim(1) by (simp add: commit_final_batch replies_of_post_removed)
  also have "\<dots> = (True, db\<lparr>fposts := AList.delete p (fposts db),
                     freplies := filter (\<lambda>(k, _). fst k \<noteq> p) (freplies db),
                     fcomments := filter (\<lambda>(k, _). fst k \<noteq> p) (fcomments db)\<rparr>)"
    using comments_of_post_removed [OF assms(1), of p] by (simp add: comments_removed_def)
  finally show ?thesis .
qed

lemma comment_keys_other_post:
  "fcomments db' = filter (\<lambda>(k, _). fst k \<noteq> p) (fcomments db) \<Longrightarrow> q \<noteq> p \<Longrightarrow>
     comment_keys db' q r = comment_keys db q r"
  unfolding comment_keys_filter
  by (simp add: filter_map filter_filter o_def) (intro arg_cong [where f = "map fst"] filter_cong; auto)

lemma inv_delete_post_subtree:
  assumes inv: "forum_inv db"
  shows "forum_inv (db\<lparr>fposts := AList.delete p (fposts db),
                       freplies := filter (\<lambda>(k, _). fst k \<noteq> p) (freplies db),
                       fcomments := filter (\<lambda>(k, _). fst k \<noteq> p) (fcomments db)\<rparr>)"
    (is "forum_inv ?db")
proof -
  from inv have d: "distinct (map fst (fposts db))" "distinct (map fst (freplies db))" "distinct (map fst (fcomments db))"
    and no: "no_orphans db" and cnt: "counts_ok db" and v: "votes_ok db"
    by (auto simp: forum_inv_def)
  show ?thesis
    unfolding forum_inv_def
  proof (intro conjI)
    show "keys_ok ?db" using d by (simp add: distinct_delete distinct_map_filter)
    show "no_orphans ?db" using no unfolding no_orphans_def by (force simp: delete_keys)
    show "counts_ok ?db" unfolding counts_ok_def
    proof (intro ballI, clarify)
      fix a b rep assume "((a, b), rep) \<in> set (freplies ?db)"
      then have r: "((a, b), rep) \<in> set (freplies db)" and a: "a \<noteq> p" by auto
      have "comment_keys ?db a b = comment_keys db a b" using a by (intro comment_keys_other_post) simp_all
      with cnt r show "commentCount rep = int (length (comment_keys ?db (fst (a, b)) (snd (a, b))))"
        unfolding counts_ok_def by auto
    qed
    show "votes_ok ?db" using v unfolding votes_ok_def by auto
  qed
qed

lemma comment_keys_comments_removed:
  "comment_keys (comments_removed p rs db) q r = (if q = p \<and> r \<in> set rs then [] else comment_keys db q r)"
  unfolding comment_keys_filter comments_removed_def
  by (auto simp: filter_map filter_filter o_def filter_empty_conv intro!: arg_cong [where f = "map fst"] filter_cong)

lemma struct_comments_removed:
  assumes "keys_ok db" "no_orphans db" "votes_ok db"
  shows "keys_ok (comments_removed p rs db) \<and> no_orphans (comments_removed p rs db) \<and> votes_ok (comments_removed p rs db)"
proof (intro conjI)
  show "keys_ok (comments_removed p rs db)" using assms(1) by (simp add: comments_removed_def distinct_map_filter)
  show "no_orphans (comments_removed p rs db)" using assms(2)
    by (rule no_orphans_shrink) (auto simp: comments_removed_def)
  show "votes_ok (comments_removed p rs db)" using assms(3) by (simp add: votes_ok_def)
qed

lemma inv_delete_reply_subtree:
  assumes inv: "forum_inv db"
  shows "forum_inv ((comments_removed p [r] db)\<lparr>freplies := AList.delete (p, r) (freplies db)\<rparr>)"
    (is "forum_inv ?db")
proof -
  from inv have k: "keys_ok db" and no: "no_orphans db" and cnt: "counts_ok db" and v: "votes_ok db"
    by (auto simp: forum_inv_def)
  show ?thesis
    unfolding forum_inv_def
  proof (intro conjI)
    show "keys_ok ?db" using k by (simp add: comments_removed_def distinct_map_filter distinct_delete)
    show "no_orphans ?db" using no unfolding no_orphans_def comments_removed_def
      by (force simp: delete_keys)
    show "counts_ok ?db" using cnt unfolding counts_ok_def
      by (fastforce simp: comment_keys_comments_removed set_alist_delete)
    show "votes_ok ?db" using v unfolding votes_ok_def by (auto simp: set_alist_delete)
  qed
qed

lemma exec_single_batch:
  "snd (exec (Put ws (Return x)) net e db) = db \<or> commit_batch db ws = Some (snd (exec (Put ws (Return x)) net e db))"
  by (auto split: option.split)

lemma inv_run_addPost: "forum_inv db \<Longrightarrow> forum_inv (run_op net (AddPostOp pid d now) db)"
  using exec_single_batch [of "[SetPost pid (d\<lparr>post_date := now\<rparr>)]" "Some pid" net None db]
  by (auto simp: run_op_def addPost_def inv_set_post)

lemma inv_run_addReply:
  assumes "forum_inv db" and "op_ok db (AddReplyOp p rid a c now)"
  shows "forum_inv (run_op net (AddReplyOp p rid a c now) db)"
proof (cases "a = None \<or> c = []")
  case True
  then show ?thesis using assms(1) by (auto simp: run_op_def addReply_def addReplyAction_def split: option.split)
next
  case False
  then obtain au where a: "a = Some au" and c: "c \<noteq> []" by auto
  let ?rep = "\<lparr>reply_author = au, reply_content = c, reply_date = now, upvotedBy = [], commentCount = 0\<rparr>"
  have "addReply p rid a c now = Put [SetReply (p, rid) ?rep] (Return True)"
    using a c by (simp add: addReply_def addReplyAction_def)
  moreover have "forum_inv (db\<lparr>freplies := AList.update (p, rid) ?rep (freplies db)\<rparr>)"
    using assms by (intro inv_add_reply) (auto simp: op_ok_def)
  ultimately show ?thesis
    using exec_single_batch [of "[SetReply (p, rid) ?rep]" True net False db] assms(1)
    by (auto simp: run_op_def)
qed

lemma inv_run_addComment:
  assumes inv: "forum_inv db" and ok: "op_ok db (AddCommentOp p r cid a c now)"
  shows "forum_inv (run_op net (AddCommentOp p r cid a c now) db)"
proof -
  let ?cm = "\<lparr>comment_author = a, comment_content = c, comment_date = now\<rparr>"
  let ?ws = "[SetComment (p, r, cid) ?cm, IncrementCommentCount (p, r) 1]"
  have commit: "commit_batch db ?ws =
      map_option (\<lambda>rep. db\<lparr>fcomments := AList.update (p, r, cid) ?cm (fcomments db),
                           freplies := AList.update (p, r) (rep\<lparr>commentCount := commentCount rep + 1\<rparr>) (freplies db)\<rparr>)
        (map_of (freplies db) (p, r))"
    by (simp add: update_reply_def split: option.split)
  have fresh: "(p, r, cid) \<notin> set (map fst (fcomments db))" using ok by (simp add: op_ok_def)
  have "forum_inv db'" if "commit_batch db ?ws = Some db'" for db'
  proof -
    from that commit obtain rep where "map_of (freplies db) (p, r) = Some rep"
      and "db' = db\<lparr>fcomments := AList.update (p, r, cid) ?cm (fcomments db),
                    freplies := AList.update (p, r) (rep\<lparr>commentCount := commentCount rep + 1\<rparr>) (freplies db)\<rparr>"
      by auto
    with inv_add_comment [OF inv _ fresh] show ?thesis by simp
  qed
  then have "forum_inv (snd (exec (Put ?ws (Return True)) net False db))"
    using exec_single_batch [of ?ws True net False db] inv by metis
  then show ?thesis by (simp only: run_op_def forum_op.case addCommentToReply_def)
qed

lemma inv_run_deleteComment:
  assumes inv: "forum_inv db" and ok: "op_ok db (DeleteCommentOp p r cid)"
  shows "forum_inv (run_op net (DeleteCommentOp p r cid) db)"
proof -
  let ?ws = "[DeleteCommentDoc (p, r, cid), IncrementCommentCount (p, r) (-1)]"
  have commit: "commit_batch db ?ws =
      map_option (\<lambda>rep. db\<lparr>fcomments := AList.delete (p, r, cid) (fcomments db),
                           freplies := AList.update (p, r) (rep\<lparr>commentCount := commentCount rep + -1\<rparr>) (freplies db)\<rparr>)
        (map_of (freplies db) (p, r))"
    by (simp add: update_reply_def split: option.split)
  have c: "(p, r, cid) \<in> set (map fst (fcomments db))" using ok by (simp add: op_ok_def)
  have "forum_inv db'" if "commit_batch db ?ws = Some db'" for db'
  proof -
    from that commit obtain rep where "map_of (freplies db) (p, r) = Some rep"
      and "db' = db\<lparr>fcomments := AList.delete (p, r, cid) (fcomments db),
                    freplies := AList.update (p, r) (rep\<lparr>commentCount := commentCount rep + -1\<rparr>) (freplies db)\<rparr>"
      by auto
    with inv_delete_comment [OF inv c] show ?thesis by simp
  qed
  then have "forum_inv (snd (exec (Put ?ws (Return True)) net False db))"
    using exec_single_batch [of ?ws True net False db] inv by metis
  then show ?thesis by (simp only: run_op_def forum_op.case deleteComment_def)
qed

lemma inv_run_toggleUpvote:
  assumes inv: "forum_inv db"
  shows "forum_inv (run_op net (ToggleUpvoteOp p r u) db)"
proof (cases "map_of (freplies db) (p, r)")
  case None
  then show ?thesis using inv by (simp add: run_op_def toggleUpvote_def)
next
  case (Some rep)
  have dv: "distinct (upvotedBy rep)" using inv map_of_SomeD [OF Some] by (auto simp: forum_inv_def votes_ok_def)
  have "commit_batch db [UpvoteRemove (p, r) u] =
          Some (db\<lparr>freplies := AList.update (p, r) (rep\<lparr>upvotedBy := array_remove (upvotedBy rep) u\<rparr>) (freplies db)\<rparr>)"
    using Some by (simp add: update_reply_def)
  then have rm: "forum_inv (snd (exec (Put [UpvoteRemove (p, r) u] (Return ())) n () db))" for n
    using exec_single_batch [of "[UpvoteRemove (p, r) u]" "()" n "()" db] inv inv_set_votes [OF inv Some] dv
    by (metis array_remove_distinct option.inject)
  have "commit_batch db [UpvoteUnion (p, r) u] =
          Some (db\<lparr>freplies := AList.update (p, r) (rep\<lparr>upvotedBy := array_union (upvotedBy rep) u\<rparr>) (freplies db)\<rparr>)"
    using Some by (simp add: update_reply_def)
  then have un: "forum_inv (snd (exec (Put [UpvoteUnion (p, r) u] (Return ())) n () db))" for n
    using exec_single_batch [of "[UpvoteUnion (p, r) u]" "()" n "()" db] inv inv_set_votes [OF inv Some] dv
    by (metis array_union_distinct option.inject)
  show ?thesis
    using inv rm un Some by (simp add: run_op_def toggleUpvote_def del: exec.simps(3))
qed

lemma exec_deleteReply_cases:
  "exec (deleteReply p r) net False db \<in>
     {(False, db), (False, comments_removed p [r] db),
      (True, (comments_removed p [r] db)\<lparr>freplies := AList.delete (p, r) (freplies db)\<rparr>)}"
proof -
  let ?K = "Put [DeleteReplyDoc (p, r)] (Return True)"
  have eq: "deleteReply p r = foldr (\<lambda>r k. deleteSubcollection p r k) [r] ?K"
    by (simp add: deleteReply_def)
  have K: "exec ?K n False db' \<in> {(False, db'), (True, db'\<lparr>freplies := AList.delete (p, r) (freplies db')\<rparr>)}" for n db'
    by (simp add: commit_batch_def batch_limit_def)
  from exec_deleteSubcollections_any [of "[r]" p ?K net False db] show ?thesis
  proof
    assume "\<exists>j \<le> length [r]. exec (foldr (\<lambda>r k. deleteSubcollection p r k) [r] ?K) net False db =
                              (False, comments_removed p (take j [r]) db)"
    then obtain j where "j \<le> 1" and "exec (deleteReply p r) net False db = (False, comments_removed p (take j [r]) db)"
      unfolding eq by auto
    then show ?thesis by (cases j) auto
  next
    assume "\<exists>net'. exec (foldr (\<lambda>r k. deleteSubcollection p r k) [r] ?K) net False db =
                    exec ?K net' False (comments_removed p [r] db)"
    then obtain net' where "exec (deleteReply p r) net False db = exec ?K net' False (comments_removed p [r] db)"
      unfolding eq by blast
    with K [of net' "comments_removed p [r] db"] show ?thesis by auto
  qed
qed

lemma exec_deleteReply_reliable:
  "length (comment_keys db p r) \<le> batch_limit \<Longrightarrow>
     exec (deleteReply p r) None False db = (True, (comments_removed p [r] db)\<lparr>freplies := AList.delete (p, r) (freplies db)\<rparr>)"
  by (simp add: deleteReply_def deleteSubcollection_def commit_delete_comments)

lemma exec_deletePost_cases:
  "(\<exists>j \<le> length (reply_ids db p). exec (deletePost p) net False db = (False, comments_removed p (take j (reply_ids db p)) db)) \<or>
   exec (deletePost p) net False db =
     (True, (comments_removed p (reply_ids db p) db)\<lparr>freplies := filter (\<lambda>(k, _). fst k \<noteq> p) (freplies db),
                                                   fposts := AList.delete p (fposts db)\<rparr>)"
proof (cases "net = Some 0")
  case True
  then have "exec (deletePost p) net False db = (False, comments_removed p (take 0 (reply_ids db p)) db)"
    by (simp add: deletePost_def)
  then show ?thesis by blast
next
  case False
  let ?rs = "reply_ids db p"
  let ?K = "Put (map (\<lambda>r. DeleteReplyDoc (p, r)) ?rs @ [DeletePostDoc p]) (Return True)"
  let ?net1 = "map_option (\<lambda>n. n - 1) net"
  have run: "exec (deletePost p) net False db = exec (foldr (\<lambda>r k. deleteSubcollection p r k) ?rs ?K) ?net1 False db"
    using False by (simp add: deletePost_def)
  have K: "exec ?K n False db' \<in> {(False, db'),
             (True, db'\<lparr>freplies := filter (\<lambda>(k, _). fst k \<noteq> p) (freplies db'), fposts := AList.delete p (fposts db')\<rparr>)}"
    if "freplies db' = freplies db" for n db'
    using that by (auto simp: commit_final_batch replies_of_post_removed)
  from exec_deleteSubcollections_any [of ?rs p ?K ?net1 False db] show ?thesis
  proof
    assume "\<exists>j \<le> length ?rs. exec (foldr (\<lambda>r k. deleteSubcollection p r k) ?rs ?K) ?net1 False db =
                              (False, comments_removed p (take j ?rs) db)"
    with run show ?thesis by auto
  next
    assume "\<exists>net'. exec (foldr (\<lambda>r k. deleteSubcollection p r k) ?rs ?K) ?net1 False db =
                    exec ?K net' False (comments_removed p ?rs db)"
    then obtain net' where e: "exec (deletePost p) net False db = exec ?K net' False (comments_removed p ?rs db)"
      using run by auto
    from K [of "comments_removed p ?rs db" net'] have
      "exec ?K net' False (comments_removed p ?rs db) \<in> {(False, comments_removed p (take (length ?rs) ?rs) db),
         (True, (comments_removed p ?rs db)\<lparr>freplies := filter (\<lambda>(k, _). fst k \<noteq> p) (freplies db),
                                          fposts := AList.delete p (fposts db)\<rparr>)}"
      by simp
    with e show ?thesis by auto
  qed
qed

lemma deletePost_full_state:
  "no_orphans db \<Longrightarrow>
     (comments_removed p (reply_ids db p) db)\<lparr>freplies := filter (\<lambda>(k, _). fst k \<noteq> p) (freplies db),
                                              fposts := AList.delete p (fposts db)\<rparr> =
     db\<lparr>fposts := AList.delete p (fposts db), freplies := filter (\<lambda>(k, _). fst k \<noteq> p) (freplies db),
        fcomments := filter (\<lambda>(k, _). fst k \<noteq> p) (fcomments db)\<rparr>"
  using comments_of_post_removed [of db p] by (simp add: comments_removed_def)

lemma inv_struct: "forum_inv db \<Longrightarrow> keys_ok db \<and> no_orphans db \<and> votes_ok db"
  by (simp add: forum_inv_def)

lemma deleteComment_absent_effect:
  assumes "map_of (freplies db) (p, r) = Some rep" and "(p, r, c) \<notin> set (map fst (fcomments db))"
  shows "exec (deleteComment p r c) None False db =
           (True, db\<lparr>freplies := AList.update (p, r) (rep\<lparr>commentCount := commentCount rep - 1\<rparr>) (freplies db)\<rparr>)"
  using assms by (simp add: deleteComment_def update_reply_def image_iff)

lemma reply_of_reply_id:
  "r \<in> set (reply_ids db p) \<Longrightarrow> \<exists>rep. ((p, r), rep) \<in> set (freplies db)"
  by (auto simp: reply_ids_filter)

lemma exec_toggleUpvote:
  "map_of (freplies db) (p, r) = Some rep \<Longrightarrow>
     exec (toggleUpvote p r u) None () db =
       ((), db\<lparr>freplies := AList.update (p, r)
                 (rep\<lparr>upvotedBy := if u \<in> set (upvotedBy rep) then array_remove (upvotedBy rep) u
                                    else array_union (upvotedBy rep) u\<rparr>) (freplies db)\<rparr>)"
  by (simp add: toggleUpvote_def update_reply_def)

lemma set_post_replies:
  "(r, rep) \<in> set (post_replies db p) \<longleftrightarrow> ((p, r), rep) \<in> set (freplies db)"
  by (force simp: post_replies_def)

lemma js_lower_char_idem: "js_lower_char (js_lower_char x) = js_lower_char x"
proof (cases "CHR ''A'' \<le> x \<and> x \<le> CHR ''Z''")
  case True
  then have "(65::nat) \<le> of_char x" "of_char x \<le> (90::nat)" by (simp_all add: less_eq_char_def)
  then have "of_char (js_lower_char x) = of_char x + (32::nat)" by (simp add: js_lower_char_def True)
  with \<open>(65::nat) \<le> of_char x\<close> have "\<not> js_lower_char x \<le> CHR ''Z''" by (simp add: less_eq_char_def)
  then show ?thesis by (simp add: js_lower_char_def [of "js_lower_char x"])
next
  case False
  then have "js_lower_char x = x" unfolding js_lower_char_def by auto
  then show ?thesis by simp
qed

lemma js_lower_idem: "js_lower (js_lower s) = js_lower s"
  by (simp add: js_lower_def js_lower_char_idem)

lemma js_lower_Nil [simp]: "js_lower [] = []"
  by (simp add: js_lower_def)

section \<open>Properties\<close>



text \<open>
  C18 (functional). A deletePost that meets no failure removes the post, all its replies and all their comments, answers true, and leaves every other post, reply list and comment list as it was.
\<close>

theorem deletePost_removes_subtree:
  assumes inv: "forum_inv db" and ok: "op_ok db (DeletePostOp p)"
  shows "\<exists>db'. exec (deletePost p) None False db = (True, db') \<and>
           map_of (fposts db') p = None \<and> reply_ids db' p = [] \<and> (\<forall>r. comment_keys db' p r = []) \<and>
           (\<forall>q. q \<noteq> p \<longrightarrow> map_of (fposts db') q = map_of (fposts db) q \<and> reply_ids db' q = reply_ids db q \<and>
                            (\<forall>r. comment_keys db' q r = comment_keys db q r))"
proof -
  let ?db' = "db\<lparr>fposts := AList.delete p (fposts db), freplies := filter (\<lambda>(k, _). fst k \<noteq> p) (freplies db),
                 fcomments := filter (\<lambda>(k, _). fst k \<noteq> p) (fcomments db)\<rparr>"
  have run: "exec (deletePost p) None False db = (True, ?db')"
    using inv ok by (simp add: forum_inv_def exec_deletePost_reliable)
  have "reply_ids ?db' q = (if q = p then [] else reply_ids db q)" for q
    by (cases "q = p") (auto simp: reply_ids_filter filter_map filter_filter o_def split_def filter_empty_conv
        intro!: arg_cong [where f = "map (\<lambda>x. snd (fst x))"] filter_cong)
  moreover have "comment_keys ?db' q r = (if q = p then [] else comment_keys db q r)" for q r
    by (cases "q = p") (auto simp: comment_keys_filter filter_map filter_filter o_def split_def filter_empty_conv
        intro!: arg_cong [where f = "map fst"] filter_cong)
  ultimately show ?thesis using run by (auto simp: delete_conv')
qed

text \<open>
  C19 (safety). If the connection fails after the comments of the first reply are deleted, deletePost answers false and leaves the post and that reply, whose commentCount no longer matches its (now empty) comments.
\<close>

theorem deletePost_failure_stale_count:
  assumes inv: "forum_inv db" and rs: "reply_ids db p = r0 # rs"
    and some: "comment_keys db p r0 \<noteq> []" and lim: "length (comment_keys db p r0) \<le> batch_limit"
  shows "exec (deletePost p) (Some 3) False db = (False, comments_removed p [r0] db) \<and>
         no_orphans (comments_removed p [r0] db) \<and> \<not> counts_ok (comments_removed p [r0] db)"
proof (intro conjI)
  show "exec (deletePost p) (Some 3) False db = (False, comments_removed p [r0] db)"
    using rs lim by (cases rs) (simp_all add: deletePost_def deleteSubcollection_def commit_delete_comments numeral_3_eq_3)
  show "no_orphans (comments_removed p [r0] db)"
    using struct_comments_removed inv_struct [OF inv] by blast
  obtain rep where rep: "((p, r0), rep) \<in> set (freplies db)"
    using reply_of_reply_id [of r0 db p] rs by auto
  have "commentCount rep = int (length (comment_keys db p r0))"
    using inv rep by (auto simp: forum_inv_def counts_ok_def)
  with some rep show "\<not> counts_ok (comments_removed p [r0] db)"
    by (force simp: counts_ok_def comment_keys_comments_removed)
qed

text \<open>
  C20 (safety). Deleting a comment that is already gone (a second click, another tab) still decrements the reply's commentCount: Firestore deletes an absent document without error, so the batch succeeds and the counter drifts below the number of comments.
\<close>

theorem deleteComment_absent_breaks_count:
  assumes "forum_inv db" and "map_of (freplies db) (p, r) = Some rep"
    and "(p, r, c) \<notin> set (map fst (fcomments db))"
  shows "\<exists>db'. exec (deleteComment p r c) None False db = (True, db') \<and> \<not> counts_ok db'"
proof -
  let ?rep' = "rep\<lparr>commentCount := commentCount rep - 1\<rparr>"
  let ?db' = "db\<lparr>freplies := AList.update (p, r) ?rep' (freplies db)\<rparr>"
  have cnt: "commentCount rep = int (length (comment_keys db p r))"
    using assms(1) map_of_SomeD [OF assms(2)] by (auto simp: forum_inv_def counts_ok_def)
  have "((p, r), ?rep') \<in> set (freplies ?db')"
    using assms(1) by (simp add: forum_inv_def set_alist_update)
  then have "\<not> counts_ok ?db'" using cnt by (force simp: counts_ok_def)
  with deleteComment_absent_effect [OF assms(2,3)] show ?thesis by blast
qed




text \<open>
  C24 (error). addReplyAction does not check that the post exists: a reply to a missing post is written and the handler reports success, leaving an orphan reply.
\<close>

theorem addReply_without_post:
  assumes "p \<notin> set (map fst (fposts db))" and "c \<noteq> []"
  shows "\<exists>db'. exec (addReply p rid (Some au) c now) None False db = (True, db') \<and> \<not> no_orphans db'"
proof -
  let ?db' = "db\<lparr>freplies := AList.update (p, rid) \<lparr>reply_author = au, reply_content = c, reply_date = now,
                                                 upvotedBy = [], commentCount = 0\<rparr> (freplies db)\<rparr>"
  have "exec (addReply p rid (Some au) c now) None False db = (True, ?db')"
    using assms(2) by (simp add: addReply_def addReplyAction_def)
  moreover have "\<not> no_orphans ?db'" using assms(1) by (auto simp: no_orphans_def dom_update)
  ultimately show ?thesis by blast
qed

text \<open>
  C25 (functional). On a consistent store, the post page shows with every reply a commentCount equal to the number of comments it loads for that reply, reply by reply in the order of the list.
\<close>

theorem useForumPost_counts:
  assumes "counts_ok db"
  shows "list_all2 (\<lambda>(r, rep) (r', cms). r' = r \<and> commentCount rep = int (length cms))
           (fst (snd (useForumPost db p))) (snd (snd (useForumPost db p)))"
proof -
  have len: "length (reply_comments db p r) = length (comment_keys db p r)" for r
    by (simp add: reply_comments_def comment_keys_filter length_comprehension)
  have "commentCount rep = int (length (reply_comments db p r))" if "(r, rep) \<in> set (post_replies db p)" for r rep
    using assms that by (force simp: counts_ok_def set_post_replies len)
  then show ?thesis
    by (auto simp: useForumPost_def list_all2_map2 list_all2_same)
qed

text \<open>
  C26 (error). A post with 500 replies or more can never be deleted: after every reply's comments are deleted, the final batch exceeds the 500-write limit and is rejected; the handler answers false with the post and its replies still there.
\<close>

theorem deletePost_too_many_replies:
  assumes "batch_limit \<le> length (reply_ids db p)"
    and "list_all (\<lambda>r. length (comment_keys db p r) \<le> batch_limit) (reply_ids db p)"
  shows "exec (deletePost p) None False db = (False, comments_removed p (reply_ids db p) db)"
proof -
  have "exec (deletePost p) None False db =
          exec (foldr (\<lambda>r k. deleteSubcollection p r k) (reply_ids db p)
                  (Put (map (\<lambda>r. DeleteReplyDoc (p, r)) (reply_ids db p) @ [DeletePostDoc p]) (Return True))) None False db"
    by (simp add: deletePost_def)
  also have "\<dots> = exec (Put (map (\<lambda>r. DeleteReplyDoc (p, r)) (reply_ids db p) @ [DeletePostDoc p]) (Return True)) None False
            (comments_removed p (reply_ids db p) db)"
    by (rule exec_deleteSubcollections_reliable [OF assms(2)])
  also have "\<dots> = (False, comments_removed p (reply_ids db p) db)"
    using assms(1) by (simp add: commit_final_batch)
  finally show ?thesis .
qed


text \<open>
  The forum list shows every post exactly once, ordered by date, newest first (ties by id).
\<close>

theorem useForum_newest_first:
  "sorted (map (\<lambda>(i, p). (post_date p, i)) (rev (useForum db))) \<and> mset (useForum db) = mset (fposts db)"
  by (simp add: useForum_def)

section \<open>Witnesses\<close>

text \<open>The properties applied to the example store and to a post with 500 replies.\<close>

lemma ex_db_inv: "forum_inv ex_db"
  by (simp add: forum_inv_def no_orphans_def counts_ok_def votes_ok_def comment_keys_def)

lemma ex_db_delete_ok: "op_ok ex_db (DeletePostOp ''p'')"
  by (simp add: op_ok_def reply_ids_def comment_keys_def batch_limit_def)



theorem deletePost_removes_subtree_witness:
  "forum_inv ex_db \<and> op_ok ex_db (DeletePostOp ''p'') \<and>
   (\<exists>db'. exec (deletePost ''p'') None False ex_db = (True, db') \<and> map_of (fposts db') ''p'' = None \<and>
          reply_ids db' ''p'' = [] \<and> map_of (fposts db') ''q'' = Some ex_post \<and>
          reply_ids db' ''q'' = [''Z''])"
proof -
  have a: "forum_inv ex_db" by (rule ex_db_inv)
  have b: "op_ok ex_db (DeletePostOp ''p'')" by (rule ex_db_delete_ok)
  have q: "map_of (fposts ex_db) ''q'' = Some ex_post" "reply_ids ex_db ''q'' = [''Z'']" by (simp_all add: reply_ids_def)
  from deletePost_removes_subtree [OF a b] q a b show ?thesis by auto
qed

theorem deletePost_failure_stale_count_witness:
  "forum_inv ex_db \<and> reply_ids ex_db ''p'' = ''X'' # [''Y''] \<and> comment_keys ex_db ''p'' ''X'' \<noteq> [] \<and>
   length (comment_keys ex_db ''p'' ''X'') \<le> batch_limit \<and>
   exec (deletePost ''p'') (Some 3) False ex_db = (False, comments_removed ''p'' [''X''] ex_db) \<and>
   \<not> counts_ok (comments_removed ''p'' [''X''] ex_db)"
proof -
  have a: "forum_inv ex_db" by (rule ex_db_inv)
  have b: "reply_ids ex_db ''p'' = ''X'' # [''Y'']" by (simp add: reply_ids_def)
  have c: "comment_keys ex_db ''p'' ''X'' \<noteq> []" by (simp add: comment_keys_def)
  have d: "length (comment_keys ex_db ''p'' ''X'') \<le> batch_limit" by (simp add: comment_keys_def batch_limit_def)
  from deletePost_failure_stale_count [OF a b c d] a b c d show ?thesis by simp
qed

theorem deleteComment_absent_breaks_count_witness:
  "forum_inv ex_db \<and> map_of (freplies ex_db) (''p'', ''X'') = Some (ex_reply [''v''] 2) \<and>
   (''p'', ''X'', ''c9'') \<notin> set (map fst (fcomments ex_db)) \<and>
   (\<exists>db'. exec (deleteComment ''p'' ''X'' ''c9'') None False ex_db = (True, db') \<and> \<not> counts_ok db')"
proof -
  have a: "forum_inv ex_db" by (rule ex_db_inv)
  have b: "map_of (freplies ex_db) (''p'', ''X'') = Some (ex_reply [''v''] 2)" by simp
  have c: "(''p'', ''X'', ''c9'') \<notin> set (map fst (fcomments ex_db))" by simp
  from deleteComment_absent_breaks_count [OF a b c] a b c show ?thesis by blast
qed


theorem addReply_without_post_witness:
  "''r'' \<notin> set (map fst (fposts ex_db)) \<and> ''soru'' \<noteq> [] \<and>
   (\<exists>db'. exec (addReply ''r'' ''W'' (Some ex_author) ''soru'' ''2024-02-01'') None False ex_db = (True, db') \<and>
          \<not> no_orphans db')"
proof -
  have a: "''r'' \<notin> set (map fst (fposts ex_db))" by simp
  have b: "''soru'' \<noteq> []" by simp
  from addReply_without_post [OF a b] a b show ?thesis by blast
qed

theorem useForumPost_counts_witness:
  "counts_ok ex_db \<and>
   list_all2 (\<lambda>(r, rep) (r', cms). r' = r \<and> commentCount rep = int (length cms))
     (fst (snd (useForumPost ex_db ''p''))) (snd (snd (useForumPost ex_db ''p'')))"
proof -
  have a: "counts_ok ex_db" by (simp add: counts_ok_def comment_keys_def)
  from useForumPost_counts [OF a] a show ?thesis by simp
qed

theorem deletePost_too_many_replies_witness:
  "batch_limit \<le> length (reply_ids \<lparr>fposts = [(''p'', ex_post)],
       freplies = map (\<lambda>i. ((''p'', replicate i CHR ''x''), ex_reply [] 0)) [0..<500], fcomments = []\<rparr> ''p'') \<and>
   list_all (\<lambda>r. length (comment_keys \<lparr>fposts = [(''p'', ex_post)],
       freplies = map (\<lambda>i. ((''p'', replicate i CHR ''x''), ex_reply [] 0)) [0..<500], fcomments = []\<rparr> ''p'' r) \<le> batch_limit)
     (reply_ids \<lparr>fposts = [(''p'', ex_post)],
       freplies = map (\<lambda>i. ((''p'', replicate i CHR ''x''), ex_reply [] 0)) [0..<500], fcomments = []\<rparr> ''p'') \<and>
   exec (deletePost ''p'') None False \<lparr>fposts = [(''p'', ex_post)],
       freplies = map (\<lambda>i. ((''p'', replicate i CHR ''x''), ex_reply [] 0)) [0..<500], fcomments = []\<rparr> =
     (False, \<lparr>fposts = [(''p'', ex_post)],
       freplies = map (\<lambda>i. ((''p'', replicate i CHR ''x''), ex_reply [] 0)) [0..<500], fcomments = []\<rparr>)"
proof -
  let ?db = "\<lparr>fposts = [(''p'', ex_post)],
       freplies = map (\<lambda>i. ((''p'', replicate i CHR ''x''), ex_reply [] 0)) [0..<500], fcomments = []\<rparr>"
  have a: "batch_limit \<le> length (reply_ids ?db ''p'')"
    by (simp add: reply_ids_filter filter_map o_def batch_limit_def)
  have b: "list_all (\<lambda>r. length (comment_keys ?db ''p'' r) \<le> batch_limit) (reply_ids ?db ''p'')"
    by (simp add: comment_keys_def list_all_iff)
  have c: "comments_removed ''p'' (reply_ids ?db ''p'') ?db = ?db"
    by (simp add: comments_removed_def)
  from deletePost_too_many_replies [OF a b] a b c show ?thesis by simp
qed

end
