(* ===== verification/Tier.thy ===== *)
theory Tier
  imports Prelude Complex_Main "HOL-Library.Sublist"
begin

text \<open>
  The subscription page, \<^verbatim>\<open>src/src/app/paketler/page.tsx\<close>. A profile stores its
  tier as a string: one of the keys of the \<^verbatim>\<open>tiers\<close> table, or the same key behind
  \<^verbatim>\<open>pending-\<close> while an upgrade waits for an administrator. The page computes the
  active tier, its name, the AI credit limit and the usage bar, decides for each tier
  which button its card shows, and \<^verbatim>\<open>handleUpgrade\<close> writes the pending value with
  \<^verbatim>\<open>updateProfile\<close>. The administrator's approval happens outside the repository;
  it is modelled from the specification as the step that drops the prefix.
\<close>

section \<open>The tier table\<close>

datatype tier_key = Free | Standard | Pro

text \<open>\<^verbatim>\<open>Object.keys(tiers)\<close>, in declaration order.\<close>

definition tierKeys :: "tier_key list" where
  "tierKeys = [Free, Standard, Pro]"

fun key_str :: "tier_key \<Rightarrow> string" where
  "key_str Free = ''free''"
| "key_str Standard = ''standard''"
| "key_str Pro = ''pro''"

fun tier_name :: "tier_key \<Rightarrow> string" where
  "tier_name Free = ''Temel''"
| "tier_name Standard = ''Standart''"
| "tier_name Pro = ''Pro''"

fun tier_credits :: "tier_key \<Rightarrow> nat" where
  "tier_credits Free = 10"
| "tier_credits Standard = 100"
| "tier_credits Pro = 500"

text \<open>\<^verbatim>\<open>tiers[k]\<close>: the entry of a string key, \<open>None\<close> for \<^verbatim>\<open>undefined\<close>.\<close>

definition tier_lookup :: "string \<Rightarrow> tier_key option" where
  "tier_lookup k = find (\<lambda>t. key_str t = k) tierKeys"

section \<open>Profile and derived values\<close>

text \<open>The fields of \<^verbatim>\<open>UserProfile\<close> that the page reads; an absent field is \<open>None\<close>.\<close>

record user_profile =
  tier :: "string option"
  aiUsageCount :: "nat option"
  tierStartDate :: "string option"

definition pending_prefix :: string where
  "pending_prefix = ''pending-''"

text \<open>Lines 55--63.\<close>

definition activeTierKey :: "user_profile option \<Rightarrow> string" where
  "activeTierKey profile =
     (case profile of None \<Rightarrow> ''free''
      | Some p \<Rightarrow> (case tier p of None \<Rightarrow> ''free''
                  | Some t \<Rightarrow> if js_truthy_str (Some t) \<and> \<not> prefix pending_prefix t then t else ''free''))"

definition displayTierName :: "string \<Rightarrow> string" where
  "displayTierName k = (case tier_lookup k of Some t \<Rightarrow> tier_name t | None \<Rightarrow> ''Temel'')"

definition usage :: "user_profile option \<Rightarrow> nat" where
  "usage profile = (case profile of None \<Rightarrow> 0 | Some p \<Rightarrow> (case aiUsageCount p of None \<Rightarrow> 0 | Some n \<Rightarrow> n))"

definition tier_limit :: "string \<Rightarrow> nat" where
  "tier_limit k = (case tier_lookup k of Some t \<Rightarrow> (if tier_credits t = 0 then 10 else tier_credits t) | None \<Rightarrow> 10)"

definition usagePercentage :: "nat \<Rightarrow> nat \<Rightarrow> rat" where
  "usagePercentage u l = (if 0 < l then of_nat u / of_nat l * 100 else 0)"

section \<open>The tier cards\<close>

text \<open>
  Lines 103--163: a card is current when the stored tier is its key, pending when it is
  the key behind \<^verbatim>\<open>pending-\<close>; the free card, a current card and a pending card
  show a disabled button, every other card the purchase dialog whose confirmation calls
  \<^verbatim>\<open>handleUpgrade('pending-' + tierKey)\<close>.
\<close>

datatype card_button = CurrentButton | PendingButton | FreeButton | BuyButton

definition isCurrent :: "user_profile option \<Rightarrow> tier_key \<Rightarrow> bool" where
  "isCurrent profile k = (case profile of None \<Rightarrow> False | Some p \<Rightarrow> tier p = Some (key_str k))"

definition isPending :: "user_profile option \<Rightarrow> tier_key \<Rightarrow> bool" where
  "isPending profile k = (case profile of None \<Rightarrow> False | Some p \<Rightarrow> tier p = Some (pending_prefix @ key_str k))"

definition tier_button :: "user_profile option \<Rightarrow> tier_key \<Rightarrow> card_button" where
  "tier_button profile k =
     (if isCurrent profile k \<or> isPending profile k \<or> k = Free
      then (if isCurrent profile k then CurrentButton else if isPending profile k then PendingButton else FreeButton)
      else BuyButton)"

text \<open>
  \<^verbatim>\<open>handleUpgrade(newTier)\<close>, lines 35--53: nothing without a profile; otherwise the
  profile with the new tier is written; \<open>written = False\<close> is a rejected write (the
  error toast), which leaves the stored profile.
\<close>

definition handleUpgrade :: "bool \<Rightarrow> user_profile option \<Rightarrow> string \<Rightarrow> user_profile option" where
  "handleUpgrade written profile newTier =
     (case profile of None \<Rightarrow> None
      | Some p \<Rightarrow> if written then Some (p\<lparr>tier := Some newTier\<rparr>) else Some p)"

section \<open>The upgrade workflow\<close>

text \<open>
  The events on a profile: a purchase confirmed on a card that offers it (the write may
  fail), and the administrator's approval of a pending request, which the specification
  describes and no code of the repository performs.
\<close>

definition approve :: "user_profile \<Rightarrow> user_profile" where
  "approve p =
     (case tier p of
        Some t \<Rightarrow> if prefix pending_prefix t then p\<lparr>tier := Some (drop (length pending_prefix) t)\<rparr> else p
      | None \<Rightarrow> p)"

inductive tier_reachable :: "user_profile \<Rightarrow> bool" where
  start: "tier p \<in> {None, Some ''free''} \<Longrightarrow> tier_reachable p"
| buy: "tier_reachable p \<Longrightarrow> tier_button (Some p) k = BuyButton \<Longrightarrow>
          handleUpgrade w (Some p) (pending_prefix @ key_str k) = Some p' \<Longrightarrow> tier_reachable p'"
| approve: "tier_reachable p \<Longrightarrow> tier_reachable (approve p)"

section \<open>What a stored tier means\<close>

text \<open>
  The specification's reading of the stored value: an active tier, or a request for a
  tier awaiting approval; the quota is the active tier's, free while a request waits.
  \<open>None\<close> is a value that is neither.
\<close>

datatype tier_status = Active tier_key | Awaiting tier_key

definition tier_status :: "user_profile \<Rightarrow> tier_status option" where
  "tier_status p =
     (case tier p of
        None \<Rightarrow> Some (Active Free)
      | Some t \<Rightarrow>
          (case tier_lookup t of
             Some k \<Rightarrow> Some (Active k)
           | None \<Rightarrow> if prefix pending_prefix t
                     then map_option Awaiting (tier_lookup (drop (length pending_prefix) t)) else None))"

fun status_tier :: "tier_status \<Rightarrow> tier_key" where
  "status_tier (Active k) = k"
| "status_tier (Awaiting k) = Free"

section \<open>What the page shows\<close>

text \<open>
  Lines 65--171: the page is busy while the profile loads or an upgrade is being
  written (\<^verbatim>\<open>isLoading\<close>). The usage card shows the active tier's name, the usage
  against the limit with its bar, and the membership start when the profile has one. Each
  tier card shows the current and pending badges and its button; the purchase button is
  disabled and spins while the page is busy.
\<close>

record usage_card =
  uc_tierName :: string
  uc_usage :: nat
  uc_limit :: nat
  uc_percent :: rat
  uc_startShown :: bool

record tier_card =
  tc_key :: tier_key
  tc_current :: bool
  tc_pending :: bool
  tc_button :: card_button
  tc_disabled :: bool
  tc_spinner :: bool

definition paketler_view :: "bool \<Rightarrow> bool \<Rightarrow> user_profile option \<Rightarrow> usage_card \<times> tier_card list" where
  "paketler_view isProfileLoading isUpdating profile =
     (let k = activeTierKey profile; isLoading = (isProfileLoading \<or> isUpdating)
      in (\<lparr>uc_tierName = displayTierName k, uc_usage = usage profile, uc_limit = tier_limit k,
           uc_percent = usagePercentage (usage profile) (tier_limit k),
           uc_startShown = (case profile of Some p \<Rightarrow> js_truthy_str (tierStartDate p) | None \<Rightarrow> False)\<rparr>,
          map (\<lambda>t. \<lparr>tc_key = t, tc_current = isCurrent profile t, tc_pending = isPending profile t,
                     tc_button = tier_button profile t,
                     tc_disabled = (tier_button profile t \<noteq> BuyButton \<or> isLoading),
                     tc_spinner = (tier_button profile t = BuyButton \<and> isLoading)\<rparr>) tierKeys))"

section \<open>Lemmas\<close>

lemma tier_lookup_key [simp]: "tier_lookup (key_str k) = Some k"
  by (cases k) (simp_all add: tier_lookup_def tierKeys_def)

lemma tier_lookup_Some: "tier_lookup t = Some k \<longleftrightarrow> t = key_str k"
  by (cases k) (auto simp: tier_lookup_def tierKeys_def)

lemma tier_lookup_pending [simp]: "tier_lookup (pending_prefix @ s) = None"
  by (auto simp: tier_lookup_def tierKeys_def pending_prefix_def)

lemma not_prefix_key [simp]: "\<not> prefix pending_prefix (key_str k)"
  by (cases k) (simp_all add: pending_prefix_def)

lemma status_key [simp]: "tier p = Some (key_str k) \<Longrightarrow> tier_status p = Some (Active k)"
  by (simp add: tier_status_def)

lemma status_pending [simp]: "tier p = Some (pending_prefix @ key_str k) \<Longrightarrow> tier_status p = Some (Awaiting k)"
  by (simp add: tier_status_def)

lemma tier_lookup_free [simp]: "tier_lookup ''free'' = Some Free"
  by (simp add: tier_lookup_def tierKeys_def)

lemma tier_credits_pos: "0 < tier_credits k"
  by (cases k) simp_all

lemma prefix_pending_split: "prefix pending_prefix t \<Longrightarrow> t = pending_prefix @ drop (length pending_prefix) t"
  by (auto simp: prefix_def)

lemma tier_button_Buy:
  "tier_button (Some p) k = BuyButton \<Longrightarrow> k \<noteq> Free \<and> tier p \<noteq> Some (key_str k) \<and> tier p \<noteq> Some (pending_prefix @ key_str k)"
  by (auto simp: tier_button_def isCurrent_def isPending_def split: if_splits)

text \<open>
  At most one card is marked current and at most one pending, never the same one; the
  usage card names the current card's tier, and while a request waits it names the free
  tier.
\<close>

lemma key_str_inj [simp]: "key_str a = key_str b \<longleftrightarrow> a = b"
  by (cases a; cases b) simp_all

lemma paketler_view_badges:
  assumes "paketler_view l u profile = (uc, cards)"
  shows "length (filter tc_current cards) \<le> 1 \<and> length (filter tc_pending cards) \<le> 1 \<and>
         (\<forall>c \<in> set cards. \<not> (tc_current c \<and> tc_pending c)) \<and>
         (\<forall>c \<in> set cards. tc_current c \<longrightarrow> uc_tierName uc = tier_name (tc_key c)) \<and>
         (\<forall>c \<in> set cards. tc_pending c \<longrightarrow> uc_tierName uc = ''Temel'')"
  using assms
  by (cases profile)
     (auto simp: paketler_view_def tierKeys_def isCurrent_def isPending_def activeTierKey_def
                 displayTierName_def pending_prefix_def Let_def js_truthy_str_def tier_lookup_def
           split: option.splits)

section \<open>Properties\<close>

lemma tier_reachable_valid:
  "tier_reachable p \<Longrightarrow> \<exists>st. tier_status p = Some st \<and> st \<noteq> Awaiting Free"
proof (induction rule: tier_reachable.induct)
  case (start p)
  then show ?case by (auto simp: tier_status_def)
next
  case (buy p k w p')
  from tier_button_Buy [OF buy.hyps(2)] have k: "k \<noteq> Free" by simp
  from buy.hyps(3) have "p' = p \<or> p' = p\<lparr>tier := Some (pending_prefix @ key_str k)\<rparr>"
    by (auto simp: handleUpgrade_def split: if_splits)
  then show ?case using buy.IH k by auto
next
  case (approve p)
  then obtain st where st: "tier_status p = Some st" "st \<noteq> Awaiting Free" by blast
  show ?case
  proof (cases "\<exists>t. tier p = Some t \<and> prefix pending_prefix t")
    case True
    then obtain t where t: "tier p = Some t" "prefix pending_prefix t" by blast
    then have "tier_lookup t = None" using prefix_pending_split [OF t(2)] tier_lookup_pending by metis
    with st t obtain k where "tier_lookup (drop (length pending_prefix) t) = Some k"
      by (auto simp: tier_status_def)
    then have "drop (length pending_prefix) t = key_str k" by (simp add: tier_lookup_Some)
    with t show ?thesis by (simp add: approve_def)
  next
    case False
    then have "approve p = p" by (cases "tier p") (auto simp: approve_def)
    with st show ?thesis by auto
  qed
qed

lemma active_key_status:
  assumes "tier_status p = Some st"
  shows "activeTierKey (Some p) = key_str (status_tier st)"
proof (cases "tier p")
  case None
  with assms show ?thesis by (auto simp: tier_status_def activeTierKey_def)
next
  case (Some t)
  show ?thesis
  proof (cases "tier_lookup t")
    case (Some k)
    then have t: "t = key_str k" by (simp add: tier_lookup_Some)
    then have "js_truthy_str (Some t)" by (cases k) (simp_all add: js_truthy_str_def)
    with \<open>tier p = Some t\<close> t assms show ?thesis by (auto simp: activeTierKey_def)
  next
    case None
    with assms \<open>tier p = Some t\<close> have "prefix pending_prefix t" and "\<exists>k. st = Awaiting k"
      by (auto simp: tier_status_def split: if_splits)
    with \<open>tier p = Some t\<close> show ?thesis by (auto simp: activeTierKey_def)
  qed
qed

text \<open>
  C29 (invariant). Every profile the page and the administrator can produce, starting from no tier or the free tier, stores a value the page understands: an active tier or a request for a paid tier awaiting approval; no request for the free tier ever arises.
\<close>

theorem tier_reachable_status:
  "tier_reachable p \<Longrightarrow> \<exists>st. tier_status p = Some st \<and> st \<noteq> Awaiting Free"
  by (rule tier_reachable_valid)

text \<open>
  C30 (refinement). The quota and tier name the page shows are those of the stored tier read as the specification reads it: the active tier, or the free tier while a request awaits approval.
\<close>

theorem tier_limit_refines:
  assumes "tier_status p = Some st"
  shows "tier_limit (activeTierKey (Some p)) = tier_credits (status_tier st) \<and>
         displayTierName (activeTierKey (Some p)) = tier_name (status_tier st)"
  using active_key_status [OF assms] by (simp add: tier_limit_def displayTierName_def tier_credits_pos)

text \<open>
  C31 (functional). Confirming an upgrade from a paid tier replaces the active tier by the pending request, so the shown quota falls to the free 10 credits until an administrator approves: the request does change the effective tier.
\<close>

theorem upgrade_request_drops_quota:
  assumes "tier p = Some (key_str k)" and "tier_button (Some p) k' = BuyButton"
  shows "tier_limit (activeTierKey (Some p)) = tier_credits k \<and>
         tier_limit (activeTierKey (handleUpgrade True (Some p) (pending_prefix @ key_str k'))) = 10"
proof -
  have "activeTierKey (Some p) = key_str k"
    using active_key_status [of p "Active k"] assms(1) by simp
  moreover have "activeTierKey (Some (p\<lparr>tier := Some (pending_prefix @ key_str k')\<rparr>)) = ''free''"
    using active_key_status [of "p\<lparr>tier := Some (pending_prefix @ key_str k')\<rparr>" "Awaiting k'"] by simp
  ultimately show ?thesis by (simp add: handleUpgrade_def tier_limit_def tier_credits_pos)
qed


text \<open>
  C40 (type). The cast \<^verbatim>\<open>as TierKey\<close> of line 56 is sound on every profile the page and the administrator produce: the active tier key is a key of the tier table, so \<^verbatim>\<open>tiers[activeTierKey]\<close> is always defined.
\<close>

theorem activeTierKey_is_tier_key:
  "tier_reachable p \<Longrightarrow> activeTierKey (Some p) \<in> set (map key_str tierKeys) \<and> tier_lookup (activeTierKey (Some p)) \<noteq> None"
proof -
  assume "tier_reachable p"
  then obtain st where "tier_status p = Some st" using tier_reachable_valid by blast
  then have "activeTierKey (Some p) = key_str (status_tier st)" by (rule active_key_status)
  then show ?thesis
    using tier_lookup_key [of "status_tier st"] by (cases "status_tier st") (simp_all add: tierKeys_def)
qed

section \<open>Witnesses\<close>

theorem tier_reachable_status_witness:
  "tier_reachable (approve \<lparr>tier = Some (pending_prefix @ key_str Standard), aiUsageCount = Some 3, tierStartDate = None\<rparr>) \<and>
   tier_status (approve \<lparr>tier = Some (pending_prefix @ key_str Standard), aiUsageCount = Some 3, tierStartDate = None\<rparr>) = Some (Active Standard)"
proof -
  have s: "tier_reachable \<lparr>tier = Some ''free'', aiUsageCount = Some 3, tierStartDate = None\<rparr>"
    by (rule tier_reachable.start) simp
  have b: "tier_reachable \<lparr>tier = Some (pending_prefix @ key_str Standard), aiUsageCount = Some 3, tierStartDate = None\<rparr>"
    by (rule tier_reachable.buy [OF s, of Standard True])
       (simp_all add: tier_button_def isCurrent_def isPending_def pending_prefix_def handleUpgrade_def)
  have r: "tier_reachable (approve \<lparr>tier = Some (pending_prefix @ key_str Standard), aiUsageCount = Some 3, tierStartDate = None\<rparr>)"
    by (rule tier_reachable.approve [OF b])
  from tier_reachable_status [OF r] r show ?thesis
    by (simp add: approve_def tier_status_def pending_prefix_def tier_lookup_def tierKeys_def)
qed

theorem tier_limit_refines_witness:
  "tier_status \<lparr>tier = Some ''pending-pro'', aiUsageCount = Some 3, tierStartDate = None\<rparr> = Some (Awaiting Pro) \<and>
   tier_limit (activeTierKey (Some \<lparr>tier = Some ''pending-pro'', aiUsageCount = Some 3, tierStartDate = None\<rparr>)) = 10 \<and>
   displayTierName (activeTierKey (Some \<lparr>tier = Some ''pending-pro'', aiUsageCount = Some 3, tierStartDate = None\<rparr>)) = ''Temel''"
proof -
  have a: "tier_status \<lparr>tier = Some ''pending-pro'', aiUsageCount = Some 3, tierStartDate = None\<rparr> = Some (Awaiting Pro)"
    by (simp add: tier_status_def tier_lookup_def tierKeys_def pending_prefix_def)
  from tier_limit_refines [OF a] a show ?thesis by simp
qed

theorem upgrade_request_drops_quota_witness:
  "tier \<lparr>tier = Some ''standard'', aiUsageCount = Some 42, tierStartDate = None\<rparr> = Some (key_str Standard) \<and>
   tier_button (Some \<lparr>tier = Some ''standard'', aiUsageCount = Some 42, tierStartDate = None\<rparr>) Pro = BuyButton \<and>
   tier_limit (activeTierKey (Some \<lparr>tier = Some ''standard'', aiUsageCount = Some 42, tierStartDate = None\<rparr>)) = 100 \<and>
   tier_limit (activeTierKey (handleUpgrade True (Some \<lparr>tier = Some ''standard'', aiUsageCount = Some 42, tierStartDate = None\<rparr>)
     (pending_prefix @ key_str Pro))) = 10"
proof -
  have a: "tier \<lparr>tier = Some ''standard'', aiUsageCount = Some 42, tierStartDate = None\<rparr> = Some (key_str Standard)" by simp
  have b: "tier_button (Some \<lparr>tier = Some ''standard'', aiUsageCount = Some 42, tierStartDate = None\<rparr>) Pro = BuyButton"
    by (simp add: tier_button_def isCurrent_def isPending_def pending_prefix_def)
  from upgrade_request_drops_quota [OF a b] a b show ?thesis by simp
qed

theorem activeTierKey_is_tier_key_witness:
  "tier_reachable \<lparr>tier = Some (pending_prefix @ key_str Pro), aiUsageCount = None, tierStartDate = None\<rparr> \<and>
   activeTierKey (Some \<lparr>tier = Some (pending_prefix @ key_str Pro), aiUsageCount = None, tierStartDate = None\<rparr>) = ''free''"
proof -
  have s: "tier_reachable \<lparr>tier = None, aiUsageCount = None, tierStartDate = None\<rparr>"
    by (rule tier_reachable.start) simp
  have b: "tier_reachable \<lparr>tier = Some (pending_prefix @ key_str Pro), aiUsageCount = None, tierStartDate = None\<rparr>"
    by (rule tier_reachable.buy [OF s, of Pro True])
       (simp_all add: tier_button_def isCurrent_def isPending_def pending_prefix_def handleUpgrade_def)
  from activeTierKey_is_tier_key [OF b] b show ?thesis
    by (simp add: activeTierKey_def pending_prefix_def)
qed

end
