(* ===== verification/LoginPage.thy ===== *)
theory LoginPage
  imports Login
begin

text \<open>
  The student login page \<^verbatim>\<open>src/src/app/ogrenci-giris/page.tsx\<close> as an event system.
  The form (react-hook-form with the zod schema of lines 34--37) holds the two codes,
  upper-cased as they are typed; a submit validates them, and a valid submit starts the
  server action and shows the spinner on the disabled button until the action answers.
  The answer either stores the session and navigates to the dashboard or shows the error
  alert. While the request is in flight the inputs stay editable, so the page is modelled
  with the request as its own state and the answer as a separate event.
\<close>

section \<open>State\<close>

text \<open>
  The error alert (lines 111--116): the action's own error, the page's fallback when the
  result has none, the message of a rejected action (\<^verbatim>\<open>err.message\<close>), or the
  page's last fallback when that message is empty.
\<close>

datatype login_alert = ActionError login_error | LoginFailed | ActionRejected string | UnknownError

text \<open>
  The form values, react-hook-form's \<^verbatim>\<open>isSubmitted\<close> and the two field errors
  (\<^verbatim>\<open>FormMessage\<close>), the \<^verbatim>\<open>error\<close> and \<^verbatim>\<open>loading\<close> states (lines 45--46), the codes of
  the request in flight, the \<^verbatim>\<open>studentAuth\<close> entry of the session storage, and the
  route pushed.
\<close>

record login_page =
  lp_classCode :: string
  lp_studentCode :: string
  lp_submitted :: bool
  lp_classError :: bool
  lp_studentError :: bool
  lp_error :: "login_alert option"
  lp_loading :: bool
  lp_request :: "(string \<times> string) option"
  lp_session :: "student_auth option"
  lp_route :: "string option"

text \<open>The page on mount: \<^verbatim>\<open>defaultValues\<close> of lines 48--54, no error, not loading.\<close>

definition login_page_init :: "student_auth option \<Rightarrow> login_page" where
  "login_page_init sess =
     \<lparr>lp_classCode = [], lp_studentCode = [], lp_submitted = False, lp_classError = False,
      lp_studentError = False, lp_error = None, lp_loading = False, lp_request = None,
      lp_session = sess, lp_route = None\<rparr>"

section \<open>Handlers\<close>

text \<open>
  \<^verbatim>\<open>onChange={(e) => field.onChange(e.target.value.toUpperCase())}\<close> (lines 131 and
  153). After the first submit react-hook-form re-validates a field on each change
  (its default \<^verbatim>\<open>reValidateMode\<close>), so the field's message follows the value.
\<close>

definition changeClassCode :: "string \<Rightarrow> login_page \<Rightarrow> login_page" where
  "changeClassCode v p =
     (let v' = js_upper v
      in p\<lparr>lp_classCode := v', lp_classError := (if lp_submitted p then v' = [] else lp_classError p)\<rparr>)"

definition changeStudentCode :: "string \<Rightarrow> login_page \<Rightarrow> login_page" where
  "changeStudentCode v p =
     (let v' = js_upper v
      in p\<lparr>lp_studentCode := v', lp_studentError := (if lp_submitted p then v' = [] else lp_studentError p)\<rparr>)"

text \<open>
  \<^verbatim>\<open>form.handleSubmit(onSubmit)\<close> on the button \<^verbatim>\<open>disabled={loading}\<close> (line 161):
  the schema's \<^verbatim>\<open>min(1)\<close> checks set the field messages; a valid form runs the first
  part of \<^verbatim>\<open>onSubmit\<close> (lines 65--72): loading on, error cleared, and the action called
  with the upper-cased codes.
\<close>

definition submitForm :: "login_page \<Rightarrow> login_page" where
  "submitForm p =
     (if lp_loading p then p
      else let ce = (lp_classCode p = []); se = (lp_studentCode p = []);
               p' = p\<lparr>lp_submitted := True, lp_classError := ce, lp_studentError := se\<rparr>
           in if ce \<or> se then p'
              else p'\<lparr>lp_loading := True, lp_error := None,
                      lp_request := Some (js_upper (lp_classCode p), js_upper (lp_studentCode p))\<rparr>)"

text \<open>
  The rest of \<^verbatim>\<open>onSubmit\<close> (lines 74--91) when the action settles: \<open>Inl m\<close> is a
  rejected call with message \<open>m\<close> (e.g. the Admin SDK's initialisation error, thrown
  before the action's \<^verbatim>\<open>try\<close>), \<open>Inr r\<close> the action's result. A success with a student
  and a truthy class id stores the session and navigates; anything else throws
  \<^verbatim>\<open>result.error || 'Giris basarisiz oldu.'\<close>, which the catch shows. Loading ends.
\<close>

definition alert_of :: "login_result \<Rightarrow> login_alert" where
  "alert_of r = (case error r of Some e \<Rightarrow> ActionError e | None \<Rightarrow> LoginFailed)"

definition receiveResult :: "string + login_result \<Rightarrow> login_page \<Rightarrow> login_page" where
  "receiveResult res p =
     (case lp_request p of
        None \<Rightarrow> p
      | Some _ \<Rightarrow>
          let p' = p\<lparr>lp_loading := False, lp_request := None\<rparr>
          in case res of
               Inl m \<Rightarrow> p'\<lparr>lp_error := Some (if m = [] then UnknownError else ActionRejected m)\<rparr>
             | Inr r \<Rightarrow>
                 (case (success r, student r, classId r) of
                    (True, Some s, Some cid) \<Rightarrow>
                      if cid = [] then p'\<lparr>lp_error := Some (alert_of r)\<rparr>
                      else p'\<lparr>lp_session := Some \<lparr>auth_studentId = student_id s, studentData = s, auth_classId = cid\<rparr>,
                              lp_route := Some (''/ogrenci/'' @ student_id s)\<rparr>
                  | _ \<Rightarrow> p'\<lparr>lp_error := Some (alert_of r)\<rparr>))"

section \<open>The page with the server\<close>

text \<open>
  The events of the page against a server whose action answers from the database
  \<open>db\<close> (\<open>crash\<close>: its queries throw) or is rejected with any message: typing in either
  field, clicking submit, and the answer to the request in flight.
\<close>

datatype login_event = TypeClassCode string | TypeStudentCode string | ClickSubmit | ActionSettles "string option"

definition login_step :: "bool \<Rightarrow> admin_db \<Rightarrow> login_page \<Rightarrow> login_event \<Rightarrow> login_page" where
  "login_step crash db p e =
     (case e of
        TypeClassCode v \<Rightarrow> changeClassCode v p
      | TypeStudentCode v \<Rightarrow> changeStudentCode v p
      | ClickSubmit \<Rightarrow> submitForm p
      | ActionSettles rejected \<Rightarrow>
          (case lp_request p of
             None \<Rightarrow> p
           | Some (cc, sc) \<Rightarrow>
               receiveResult (case rejected of Some m \<Rightarrow> Inl m | None \<Rightarrow> Inr (studentLoginAction crash db cc sc)) p))"

definition login_run :: "bool \<Rightarrow> admin_db \<Rightarrow> login_page \<Rightarrow> login_event list \<Rightarrow> login_page" where
  "login_run crash db p es = foldl (login_step crash db) p es"

text \<open>
  What the page shows (lines 95--176): the error alert, the two inputs with their
  values and field messages, and the submit button, disabled and spinning while loading.
\<close>

record login_view =
  lv_alert :: "login_alert option"
  lv_classCode :: string
  lv_classMessage :: bool
  lv_studentCode :: string
  lv_studentMessage :: bool
  lv_buttonDisabled :: bool
  lv_spinner :: bool

definition login_page_view :: "login_page \<Rightarrow> login_view" where
  "login_page_view p =
     \<lparr>lv_alert = lp_error p, lv_classCode = lp_classCode p, lv_classMessage = lp_classError p,
      lv_studentCode = lp_studentCode p, lv_studentMessage = lp_studentError p,
      lv_buttonDisabled = lp_loading p, lv_spinner = lp_loading p\<rparr>"

text \<open>What a stored session must satisfy: a student of a teacher's class, under its id.\<close>

definition session_sound :: "admin_db \<Rightarrow> student_auth \<Rightarrow> bool" where
  "session_sound db a \<longleftrightarrow>
     auth_studentId a = student_id (studentData a) \<and>
     (\<exists>u \<in> set db. role u = ''teacher'' \<and>
        (\<exists>c \<in> set (user_classes u). class_id c = auth_classId a \<and> studentData a \<in> set (class_students c)))"

definition login_page_inv :: "admin_db \<Rightarrow> student_auth option \<Rightarrow> login_page \<Rightarrow> bool" where
  "login_page_inv db sess0 p \<longleftrightarrow>
     (lp_session p = sess0 \<or> (\<exists>a. lp_session p = Some a \<and> session_sound db a)) \<and>
     (lp_request p \<noteq> None \<longleftrightarrow> lp_loading p) \<and>
     (case lp_request p of None \<Rightarrow> True
      | Some (cc, sc) \<Rightarrow> cc \<noteq> [] \<and> sc \<noteq> [] \<and> js_upper cc = cc \<and> js_upper sc = sc) \<and>
     (case lp_route p of None \<Rightarrow> True
      | Some r \<Rightarrow> \<exists>a. lp_session p = Some a \<and> session_sound db a \<and> r = ''/ogrenci/'' @ auth_studentId a)"

section \<open>Lemmas\<close>

lemma js_upper_char_idem: "js_upper_char (js_upper_char c) = js_upper_char c"
proof -
  have "\<not> (CHR ''a'' \<le> char_of (of_char c - (32::nat)) \<and> char_of (of_char c - (32::nat)) \<le> CHR ''z'')"
    if "CHR ''a'' \<le> c" and "c \<le> CHR ''z''"
  proof -
    have "97 \<le> (of_char c :: nat)" and "(of_char c :: nat) \<le> 122"
      using that by (simp_all add: less_eq_char_def)
    then have "of_char (char_of (of_char c - (32::nat)) :: char) = (of_char c - 32 :: nat)"
      by (simp add: of_char_of)
    with \<open>97 \<le> (of_char c :: nat)\<close> \<open>(of_char c :: nat) \<le> 122\<close> show ?thesis
      by (simp add: less_eq_char_def)
  qed
  then show ?thesis by (auto simp: js_upper_char_def)
qed

lemma js_upper_idem: "js_upper (js_upper s) = js_upper s"
  by (simp add: js_upper_def comp_def js_upper_char_idem)

lemma js_upper_Nil_iff [simp]: "js_upper s = [] \<longleftrightarrow> s = []"
  by (simp add: js_upper_def)

lemma studentLoginAction_session_sound:
  assumes "success (studentLoginAction crash db cc sc)" and "student (studentLoginAction crash db cc sc) = Some s"
    and "classId (studentLoginAction crash db cc sc) = Some cid"
  shows "session_sound db \<lparr>auth_studentId = student_id s, studentData = s, auth_classId = cid\<rparr>"
proof -
  let ?ts = "filter (\<lambda>u. role u = ''teacher'') db"
  from assms(1) have r: "studentLoginAction crash db cc sc = search_teachers cc sc ?ts"
    by (auto simp: studentLoginAction_def login_failure_def Let_def split: if_splits)
  from search_teachers_cases [of cc sc ?ts] assms r
  obtain u c where "u \<in> set ?ts" "c \<in> set (user_classes u)" "class_id c = cid" "s \<in> set (class_students c)"
    by (auto simp: login_failure_def)
  then show ?thesis by (auto simp: session_sound_def)
qed

lemma login_page_inv_init: "login_page_inv db sess0 (login_page_init sess0)"
  by (simp add: login_page_inv_def login_page_init_def)

lemma receiveResult_inv:
  assumes inv: "login_page_inv db sess0 p" and req: "lp_request p = Some (cc, sc)"
    and res: "res = Inl m \<or> res = Inr (studentLoginAction crash db cc sc)"
  shows "login_page_inv db sess0 (receiveResult res p)"
  using res
proof
  assume "res = Inl m"
  then show ?thesis using inv req by (simp add: receiveResult_def login_page_inv_def Let_def split: option.splits)
next
  assume r: "res = Inr (studentLoginAction crash db cc sc)"
  let ?r = "studentLoginAction crash db cc sc"
  show ?thesis
  proof (cases "success ?r \<and> student ?r \<noteq> None \<and> classId ?r \<noteq> None \<and> classId ?r \<noteq> Some []")
    case True
    then obtain s cid where s: "student ?r = Some s" and c: "classId ?r = Some cid" and "cid \<noteq> []" by auto
    have "session_sound db \<lparr>auth_studentId = student_id s, studentData = s, auth_classId = cid\<rparr>"
      using studentLoginAction_session_sound True s c by blast
    then show ?thesis using inv req r True s c \<open>cid \<noteq> []\<close>
      by (simp add: receiveResult_def login_page_inv_def Let_def)
  next
    case False
    then have "receiveResult res p = p\<lparr>lp_loading := False, lp_request := None, lp_error := Some (alert_of ?r)\<rparr>"
      using req r by (auto simp: receiveResult_def Let_def split: option.split bool.split)
    then show ?thesis using inv req by (simp add: login_page_inv_def split: option.splits)
  qed
qed

lemma login_step_inv:
  assumes "login_page_inv db sess0 p"
  shows "login_page_inv db sess0 (login_step crash db p e)"
proof (cases e)
  case (TypeClassCode v)
  then show ?thesis using assms by (simp add: login_step_def changeClassCode_def login_page_inv_def Let_def split: option.splits)
next
  case (TypeStudentCode v)
  then show ?thesis using assms by (simp add: login_step_def changeStudentCode_def login_page_inv_def Let_def split: option.splits)
next
  case ClickSubmit
  then show ?thesis using assms
    by (auto simp: login_step_def submitForm_def login_page_inv_def Let_def js_upper_idem split: option.splits)
next
  case (ActionSettles rejected)
  show ?thesis
  proof (cases "lp_request p")
    case None
    then show ?thesis using assms ActionSettles by (simp add: login_step_def)
  next
    case (Some q)
    then obtain cc sc where q: "lp_request p = Some (cc, sc)" by (cases q) auto
    show ?thesis
    proof (cases rejected)
      case None
      then show ?thesis using receiveResult_inv [OF assms q] ActionSettles q by (simp add: login_step_def)
    next
      case (Some m)
      then show ?thesis using receiveResult_inv [OF assms q, of "Inl m" m] ActionSettles q by (simp add: login_step_def)
    qed
  qed
qed

lemma login_run_inv:
  "login_page_inv db sess0 p \<Longrightarrow> login_page_inv db sess0 (login_run crash db p es)"
  by (induction es arbitrary: p) (simp_all add: login_run_def login_step_inv)


text \<open>
  Without typing in between, a valid submit followed by the action's answer does what
  the one-shot model \<open>onSubmit\<close> of the login theory says: the same session, and the
  page shows no error exactly when \<open>onSubmit\<close> navigates to the dashboard.
\<close>

lemma submit_settle_refines_onSubmit:
  assumes "\<not> lp_loading p" and "lp_classCode p \<noteq> []" and "lp_studentCode p \<noteq> []"
  shows "lp_session (login_step crash db (submitForm p) (ActionSettles None)) =
           fst (onSubmit crash db (lp_session p) (lp_classCode p) (lp_studentCode p)) \<and>
         (lp_error (login_step crash db (submitForm p) (ActionSettles None)) = None \<longleftrightarrow>
           (\<exists>i. snd (onSubmit crash db (lp_session p) (lp_classCode p) (lp_studentCode p)) = GoToDashboard i))"
  using assms
  by (auto simp: login_step_def submitForm_def receiveResult_def onSubmit_def Let_def
           split: option.splits bool.splits)

section \<open>Properties\<close>

text \<open>
  C35 (invariant). Whatever the student types, clicks and whatever the server answers
  (including rejected calls), the login page only ever stores a session for a student of
  a teacher's class, under the student's own id; it loads exactly while a request is in
  flight; and it only navigates to the dashboard of the stored student.
\<close>

theorem login_page_session_sound:
  "let p = login_run crash db (login_page_init sess0) es in
     (lp_session p = sess0 \<or> (\<exists>a. lp_session p = Some a \<and> session_sound db a)) \<and>
     (lp_loading p \<longleftrightarrow> lp_request p \<noteq> None) \<and>
     (\<forall>r. lp_route p = Some r \<longrightarrow> (\<exists>a. lp_session p = Some a \<and> session_sound db a \<and> r = ''/ogrenci/'' @ auth_studentId a))"
proof -
  have "login_page_inv db sess0 (login_run crash db (login_page_init sess0) es)"
    by (rule login_run_inv [OF login_page_inv_init])
  then show ?thesis by (auto simp: login_page_inv_def Let_def split: option.splits)
qed

section \<open>Witnesses\<close>

text \<open>Witness of C35: typing the codes in lower case, submitting and the answer log the student in.\<close>

theorem login_page_session_sound_witness:
  "lp_session (login_run False ex_school (login_page_init None)
      [TypeClassCode ''5a'', TypeStudentCode ''123'', ClickSubmit, ActionSettles None]) =
     Some \<lparr>auth_studentId = ''s1'', studentData = ex_student, auth_classId = ''c1''\<rparr> \<and>
   (let p = login_run False ex_school (login_page_init None)
              [TypeClassCode ''5a'', TypeStudentCode ''123'', ClickSubmit, ActionSettles None] in
     (lp_session p = None \<or> (\<exists>a. lp_session p = Some a \<and> session_sound ex_school a)) \<and>
     (lp_loading p \<longleftrightarrow> lp_request p \<noteq> None) \<and>
     (\<forall>r. lp_route p = Some r \<longrightarrow> (\<exists>a. lp_session p = Some a \<and> session_sound ex_school a \<and> r = ''/ogrenci/'' @ auth_studentId a)))"
proof
  show "lp_session (login_run False ex_school (login_page_init None)
      [TypeClassCode ''5a'', TypeStudentCode ''123'', ClickSubmit, ActionSettles None]) =
     Some \<lparr>auth_studentId = ''s1'', studentData = ex_student, auth_classId = ''c1''\<rparr>"
    by code_simp
  show "let p = login_run False ex_school (login_page_init None)
              [TypeClassCode ''5a'', TypeStudentCode ''123'', ClickSubmit, ActionSettles None] in
     (lp_session p = None \<or> (\<exists>a. lp_session p = Some a \<and> session_sound ex_school a)) \<and>
     (lp_loading p \<longleftrightarrow> lp_request p \<noteq> None) \<and>
     (\<forall>r. lp_route p = Some r \<longrightarrow> (\<exists>a. lp_session p = Some a \<and> session_sound ex_school a \<and> r = ''/ogrenci/'' @ auth_studentId a))"
    by (rule login_page_session_sound)
qed

end
