(* ===== verification/AiActions.thy ===== *)
theory AiActions
  imports Prelude
begin

text \<open>
  The server actions around the generative-AI flows, \<^verbatim>\<open>src/src/app/actions.ts\<close>
  (lines 22--111 and 133--146), and the one flow of the repository,
  \<^verbatim>\<open>generateForumAnswer\<close> in \<^verbatim>\<open>src/src/ai/flows/forum-assistant-flow.ts\<close>. The
  model behind a flow is a service the code only calls: a call is a value of
  \<open>'a flow\<close>, the exception it throws or the value it resolves to. Each action
  catches every exception and answers with a value of its result type; the lemmas show
  which value on each branch. The messages the actions return are the constructors of
  \<open>ai_error\<close>, in the order of the source; a message that travels as a string is kept
  as its UTF-8 bytes.
\<close>

section \<open>Calls of a flow\<close>

text \<open>
  \<open>Throws m\<close>: the call rejects with an exception whose \<^verbatim>\<open>message\<close> is \<open>m\<close>
  (\<open>None\<close> for a thrown value without one); \<open>Resolves r\<close>: it resolves to \<open>r\<close>,
  \<open>None\<close> being \<^verbatim>\<open>null\<close> or \<^verbatim>\<open>undefined\<close>.
\<close>

datatype 'a flow = Throws "string option" | Resolves "'a option"

datatype ai_error =
    DescriptionFailed
  | ParseFailed | ParseError
  | SpeechFailed
  | NoAssistantAnswer | AssistantFailed
  | ReportFailed | ReportError
  | ClassReportFailed | ClassReportError
  | Message string

section \<open>The actions\<close>

text \<open>\<^verbatim>\<open>generateDescriptionAction\<close>, lines 22--36: the flow's \<^verbatim>\<open>description\<close> field.\<close>

definition description_default :: string where
  "description_default = ''AI-powered description could not be generated.''"

definition generateDescriptionAction :: "string option flow \<Rightarrow> ai_error + string" where
  "generateDescriptionAction call =
     (case call of
        Throws _ \<Rightarrow> Inl DescriptionFailed
      | Resolves result \<Rightarrow>
          (case result of
             Some d \<Rightarrow> if js_truthy_str d then Inr (the d) else Inr description_default
           | None \<Rightarrow> Inr description_default))"

text \<open>
  \<^verbatim>\<open>parseStudentListAction\<close>, lines 44--55: the flow's \<^verbatim>\<open>classes\<close> array, which is
  truthy whenever present, even empty.
\<close>

definition parseStudentListAction :: "'c option flow \<Rightarrow> ai_error + 'c" where
  "parseStudentListAction call =
     (case call of
        Throws _ \<Rightarrow> Inl ParseError
      | Resolves (Some (Some classes)) \<Rightarrow> Inr classes
      | Resolves _ \<Rightarrow> Inl ParseFailed)"

text \<open>
  \<^verbatim>\<open>speechToNoteAction\<close>, lines 57--71: the refined note, else the transcript; after
  an exception the transcript together with an error.
\<close>

record note_result =
  note_value :: string
  note_error :: "ai_error option"

definition speechToNoteAction :: "string \<Rightarrow> string option flow \<Rightarrow> note_result" where
  "speechToNoteAction transcript call =
     (case call of
        Throws _ \<Rightarrow> \<lparr>note_value = transcript, note_error = Some SpeechFailed\<rparr>
      | Resolves result \<Rightarrow>
          (case result of
             Some n \<Rightarrow> if js_truthy_str n then \<lparr>note_value = the n, note_error = None\<rparr>
                       else \<lparr>note_value = transcript, note_error = None\<rparr>
           | None \<Rightarrow> \<lparr>note_value = transcript, note_error = None\<rparr>))"

text \<open>\<^verbatim>\<open>assistantAction\<close>, lines 73--84: the flow's \<^verbatim>\<open>response\<close> field.\<close>

definition assistantAction :: "string option flow \<Rightarrow> ai_error + string" where
  "assistantAction call =
     (case call of
        Throws _ \<Rightarrow> Inl AssistantFailed
      | Resolves result \<Rightarrow>
          (case result of
             Some r \<Rightarrow> if js_truthy_str r then Inr (the r) else Inl NoAssistantAnswer
           | None \<Rightarrow> Inl NoAssistantAnswer))"

text \<open>
  \<^verbatim>\<open>generateIndividualReportAction\<close> and \<^verbatim>\<open>generateClassReportAction\<close>, lines
  87--111: a report object is truthy.
\<close>

definition generateIndividualReportAction :: "'r flow \<Rightarrow> ai_error + 'r" where
  "generateIndividualReportAction call =
     (case call of
        Throws _ \<Rightarrow> Inl ReportError
      | Resolves (Some report) \<Rightarrow> Inr report
      | Resolves None \<Rightarrow> Inl ReportFailed)"

definition generateClassReportAction :: "'r flow \<Rightarrow> ai_error + 'r" where
  "generateClassReportAction call =
     (case call of
        Throws _ \<Rightarrow> Inl ClassReportError
      | Resolves (Some report) \<Rightarrow> Inr report
      | Resolves None \<Rightarrow> Inl ClassReportFailed)"

section \<open>The forum answer\<close>

text \<open>
  The flow body of \<^verbatim>\<open>generateForumAnswer\<close>, lines 46--61: the prompt's output (its
  \<^verbatim>\<open>answer\<close>), or a fixed answer when the output is null. The text of that answer
  in the file is \<^verbatim>\<open>'Yapay zeka bir cevap \<close>, the two characters U+00C3 U+00BC, and
  \<^verbatim>\<open>'retemedi.'\<close>: the UTF-8 bytes of the letter u-umlaut read as Latin-1. Its UTF-8
  bytes are below; the action's own message of line 138, written correctly, follows.
\<close>

definition forum_fallback_answer :: string where
  "forum_fallback_answer =
     ''Yapay zeka bir cevap '' @ [CHR 0xC3, CHR 0x83, CHR 0xC2, CHR 0xBC] @ ''retemedi.''"

definition no_answer_message :: string where
  "no_answer_message = ''Yapay zeka bir cevap '' @ [CHR 0xC3, CHR 0xBC] @ ''retemedi.''"

definition unknown_answer_error :: string where
  "unknown_answer_error =
     ''Yapay zeka cevab'' @ [CHR 0xC4, CHR 0xB1] @ '' olu'' @ [CHR 0xC5, CHR 0x9F] @ ''turulurken bilinmeyen bir hata olu''
     @ [CHR 0xC5, CHR 0x9F] @ ''tu.''"

definition generateForumAnswer :: "string flow \<Rightarrow> string flow" where
  "generateForumAnswer promptCall =
     (case promptCall of
        Throws m \<Rightarrow> Throws m
      | Resolves None \<Rightarrow> Resolves (Some forum_fallback_answer)
      | Resolves (Some answer) \<Rightarrow> Resolves (Some answer))"

text \<open>
  The flow's input schema (lines 13--16) and its prompt (lines 25--44), whose
  \<^verbatim>\<open>{{{title}}}\<close> and \<^verbatim>\<open>{{{description}}}\<close> are Handlebars triple-stash
  substitutions: the values are inserted as they are, without escaping. The template's
  lines are joined with newlines.
\<close>

record forum_assistant_input =
  fa_title :: string
  fa_description :: string

definition nl :: string where
  "nl = [CHR 10]"

definition forum_prompt_head :: string where
  "forum_prompt_head =
     ''You are EduBot, an expert AI assistant for teachers, specializing in pedagogy, classroom management, and various subjects for K-12 education in Turkey. Your personality is helpful, insightful, and encouraging.''
     @ nl @ nl @
     ''A teacher has asked the following question on a forum. Your task is to provide a comprehensive, well-structured, and practical answer in Turkish.''
     @ nl @ nl @ ''Begin your answer with a supportive and acknowledging tone.''
     @ nl @ ''Structure your response with clear headings or bullet points if applicable.''
     @ nl @ ''Offer actionable advice, creative ideas, or different perspectives.''
     @ nl @ ''Conclude with an encouraging remark.'' @ nl @ nl @ ''Question Title: ''"

definition forum_prompt_sep :: string where
  "forum_prompt_sep = nl @ nl @ ''Question Description:'' @ nl"

definition forum_prompt_tail :: string where
  "forum_prompt_tail = nl @ nl @ ''Please generate your expert answer below.''"

definition forumAssistantPrompt :: "forum_assistant_input \<Rightarrow> string" where
  "forumAssistantPrompt input =
     forum_prompt_head @ fa_title input @ forum_prompt_sep @ fa_description input @ forum_prompt_tail"

text \<open>
  \<^verbatim>\<open>generateForumAnswer(input)\<close>, lines 24--62: the flow sends the rendered prompt to
  the model (\<open>model\<close>, a parameter) and applies the body above to its output.
\<close>

definition forum_answer_request :: "(string \<Rightarrow> string flow) \<Rightarrow> forum_assistant_input \<Rightarrow> string flow" where
  "forum_answer_request model input = generateForumAnswer (model (forumAssistantPrompt input))"

text \<open>
  \<^verbatim>\<open>generateStandaloneAiAnswerAction\<close>, lines 133--146: a missing or empty answer
  throws \<open>no_answer_message\<close> inside the \<^verbatim>\<open>try\<close>; the \<^verbatim>\<open>catch\<close> answers with the
  exception's message, or the generic one when it has none.
\<close>

definition generateStandaloneAiAnswerAction :: "string flow \<Rightarrow> ai_error + string" where
  "generateStandaloneAiAnswerAction call =
     (let caught = (\<lambda>m. Inl (Message (if js_truthy_str m then the m else unknown_answer_error)))
      in case call of
           Throws m \<Rightarrow> caught m
         | Resolves aiResponse \<Rightarrow>
             if \<not> js_truthy_str aiResponse then caught (Some no_answer_message)
             else Inr (the aiResponse))"

section \<open>Lemmas\<close>

lemma js_truthy_str_Some [simp]: "js_truthy_str (Some s) \<longleftrightarrow> s \<noteq> []"
  by (simp add: js_truthy_str_def)

lemma js_truthy_str_None [simp]: "\<not> js_truthy_str None"
  by (simp add: js_truthy_str_def)

text \<open>The transcript is never lost: the note is the refined one or the transcript.\<close>

lemma speechToNote_keeps_transcript:
  "note_value (speechToNoteAction t call) = t \<or>
   (\<exists>n. call = Resolves (Some (Some n)) \<and> n \<noteq> [] \<and> note_value (speechToNoteAction t call) = n)"
  by (cases call) (auto simp: speechToNoteAction_def js_truthy_str_def split: option.splits)

lemma speechToNote_error_iff:
  "note_error (speechToNoteAction t call) \<noteq> None \<longleftrightarrow> (\<exists>m. call = Throws m)"
  by (cases call) (auto simp: speechToNoteAction_def split: option.splits)

lemma generateDescriptionAction_error_iff:
  "(\<exists>e. generateDescriptionAction call = Inl e) \<longleftrightarrow> (\<exists>m. call = Throws m)"
  by (cases call) (auto simp: generateDescriptionAction_def split: option.splits)

text \<open>An empty class list is passed on as a result, not as the parse error.\<close>

lemma parseStudentList_empty_classes: "parseStudentListAction (Resolves (Some (Some []))) = Inr []"
  by (simp add: parseStudentListAction_def)

lemma generateStandaloneAiAnswer_ok:
  "generateStandaloneAiAnswerAction call = Inr a \<longleftrightarrow> call = Resolves (Some a) \<and> a \<noteq> []"
  by (cases call) (auto simp: generateStandaloneAiAnswerAction_def Let_def js_truthy_str_def split: option.splits)

text \<open>
  Composed with the flow, the action's no-answer error is unreachable when the model gives
  no output: the garbled fallback text comes back as an answer.
\<close>

lemma forum_answer_null_output:
  "generateStandaloneAiAnswerAction (generateForumAnswer (Resolves None)) = Inr forum_fallback_answer \<and>
   forum_fallback_answer \<noteq> no_answer_message"
  by (simp add: generateStandaloneAiAnswerAction_def generateForumAnswer_def forum_fallback_answer_def
                no_answer_message_def Let_def)

lemma forum_answer_errors:
  "generateStandaloneAiAnswerAction (generateForumAnswer call) \<in> Inl ` Message ` {no_answer_message, unknown_answer_error} \<union>
     Inl ` Message ` {m. m \<noteq> []} \<union> Inr ` {a. a \<noteq> []}"
  by (cases call) (auto simp: generateStandaloneAiAnswerAction_def generateForumAnswer_def Let_def
                              js_truthy_str_def forum_fallback_answer_def unknown_answer_error_def split: option.splits)


text \<open>
  The title can be read back from the prompt when it has no line break; but the
  template does not separate its parts safely: a title that contains the description's
  heading gives the same prompt as a different question, so the model cannot tell what
  the teacher wrote in which field.
\<close>

lemma forum_prompt_title:
  assumes "CHR 10 \<notin> set (fa_title i)"
  shows "takeWhile (\<lambda>c. c \<noteq> CHR 10) (drop (length forum_prompt_head) (forumAssistantPrompt i)) = fa_title i"
proof -
  have "forumAssistantPrompt i = forum_prompt_head @ fa_title i @ CHR 10 # tl forum_prompt_sep @ fa_description i @ forum_prompt_tail"
    by (simp add: forumAssistantPrompt_def forum_prompt_sep_def nl_def)
  then show ?thesis using assms by (auto simp: takeWhile_append2 takeWhile_tail)
qed

lemma forum_prompt_ambiguous:
  "forumAssistantPrompt \<lparr>fa_title = a @ forum_prompt_sep @ b, fa_description = c\<rparr> =
   forumAssistantPrompt \<lparr>fa_title = a, fa_description = b @ forum_prompt_sep @ c\<rparr>"
  by (simp add: forumAssistantPrompt_def)

lemma forum_answer_request_fallback:
  "model (forumAssistantPrompt i) = Resolves None \<Longrightarrow> forum_answer_request model i = Resolves (Some forum_fallback_answer)"
  by (simp add: forum_answer_request_def generateForumAnswer_def)

end
