(* ===== verification/SurveyPicker.thy ===== *)
theory SurveyPicker
  imports Login
begin

text \<open>
  The survey index page, \<^verbatim>\<open>src/src/app/anket/page.tsx\<close>: the teacher picks a class,
  then a student of it, and the page links the three surveys with the student's and the
  class's ids in the query string. The classes come from \<^verbatim>\<open>useClassesAndStudents\<close>
  (a hook outside the repository) and may be reloaded at any time; the page's effect
  (lines 30--39) runs after each change of the selected class or of the classes.
\<close>

section \<open>State and handlers\<close>

record picker_class =
  pc_id :: string
  pc_name :: string
  pc_students :: "student list"

record picker_state =
  classes :: "picker_class list"
  selectedClassId :: "string option"
  selectedStudent :: "student option"
  studentsInClass :: "student list"

text \<open>The effect of lines 30--39.\<close>

definition class_effect :: "picker_state \<Rightarrow> picker_state" where
  "class_effect s =
     (case selectedClassId s of
        Some cid \<Rightarrow>
          s\<lparr>studentsInClass := (case find (\<lambda>c. pc_id c = cid) (classes s) of
                                  Some c \<Rightarrow> pc_students c | None \<Rightarrow> []),
            selectedStudent := None\<rparr>
      | None \<Rightarrow> s\<lparr>studentsInClass := [], selectedStudent := None\<rparr>)"

text \<open>\<^verbatim>\<open>handleStudentSelect(studentId)\<close>, lines 41--44.\<close>

definition handleStudentSelect :: "string \<Rightarrow> picker_state \<Rightarrow> picker_state" where
  "handleStudentSelect studentId s =
     s\<lparr>selectedStudent := find (\<lambda>st. student_id st = studentId) (studentsInClass s)\<rparr>"

text \<open>
  The events: a class chosen in the class select (line 69), the classes reloaded by the
  hook, a student chosen in the student select (line 80), which is disabled without a
  class or without students.
\<close>

datatype picker_event = SelectClass string | ClassesLoaded "picker_class list" | SelectStudent string

definition picker_step :: "picker_state \<Rightarrow> picker_event \<Rightarrow> picker_state" where
  "picker_step s e =
     (case e of
        SelectClass cid \<Rightarrow> class_effect (s\<lparr>selectedClassId := Some cid\<rparr>)
      | ClassesLoaded cs \<Rightarrow> class_effect (s\<lparr>classes := cs\<rparr>)
      | SelectStudent sid \<Rightarrow>
          if selectedClassId s = None \<or> studentsInClass s = [] then s else handleStudentSelect sid s)"

definition picker_init :: "picker_class list \<Rightarrow> picker_state" where
  "picker_init cs = \<lparr>classes = cs, selectedClassId = None, selectedStudent = None, studentsInClass = []\<rparr>"

text \<open>
  The survey links of lines 92--152, shown once a student is selected; the class id is
  the template value of \<^verbatim>\<open>selectedClassId\<close>, which would print \<^verbatim>\<open>null\<close> without one.
\<close>

definition survey_paths :: "string list" where
  "survey_paths = [''/anket/coklu-zeka-kurami'', ''/anket/holland-meslek-envanteri'', ''/anket/ogrenme-stilleri'']"

definition survey_links :: "picker_state \<Rightarrow> string list option" where
  "survey_links s =
     (case selectedStudent s of
        None \<Rightarrow> None
      | Some st \<Rightarrow>
          Some (map (\<lambda>path. path @ ''?studentId='' @ student_id st @ ''&classId='' @
                       (case selectedClassId s of Some cid \<Rightarrow> cid | None \<Rightarrow> ''null'')) survey_paths))"

text \<open>
  What the page shows (lines 46--155): the class select, disabled while the classes load,
  with one item per class; the student select, disabled without a class or without
  students, with its placeholder (choose a student, or choose a class first) and one item
  per student of the class; the survey links once a student is selected.
\<close>

record picker_view =
  pv_classDisabled :: bool
  pv_classOptions :: "string list"
  pv_studentDisabled :: bool
  pv_askStudent :: bool
  pv_studentOptions :: "string list"
  pv_links :: "string list option"

definition picker_page_view :: "bool \<Rightarrow> picker_state \<Rightarrow> picker_view" where
  "picker_page_view isLoading s =
     \<lparr>pv_classDisabled = isLoading, pv_classOptions = map pc_id (classes s),
      pv_studentDisabled = (selectedClassId s = None \<or> studentsInClass s = []),
      pv_askStudent = (selectedClassId s \<noteq> None),
      pv_studentOptions = map student_id (studentsInClass s), pv_links = survey_links s\<rparr>"

inductive picker_reachable :: "picker_state \<Rightarrow> bool" where
  init: "picker_reachable (picker_init cs)"
| step: "picker_reachable s \<Longrightarrow> picker_reachable (picker_step s e)"

text \<open>
  The invariant: the student list is that of the selected class in the current classes,
  and a selected student belongs to it.
\<close>

definition class_students_of :: "picker_class list \<Rightarrow> string option \<Rightarrow> student list" where
  "class_students_of cs cid =
     (case cid of None \<Rightarrow> [] | Some i \<Rightarrow> (case find (\<lambda>c. pc_id c = i) cs of Some c \<Rightarrow> pc_students c | None \<Rightarrow> []))"

definition picker_inv :: "picker_state \<Rightarrow> bool" where
  "picker_inv s \<longleftrightarrow>
     studentsInClass s = class_students_of (classes s) (selectedClassId s) \<and>
     (case selectedStudent s of None \<Rightarrow> True | Some st \<Rightarrow> st \<in> set (studentsInClass s))"

section \<open>Lemmas\<close>

lemma class_effect_inv: "picker_inv (class_effect s)"
  by (auto simp: class_effect_def picker_inv_def class_students_of_def split: option.splits)

lemma handleStudentSelect_inv: "picker_inv s \<Longrightarrow> picker_inv (handleStudentSelect sid s)"
  by (auto simp: handleStudentSelect_def picker_inv_def dest: find_Some_iff [THEN iffD1] split: option.splits)

lemma picker_reachable_inv: "picker_reachable s \<Longrightarrow> picker_inv s"
proof (induction rule: picker_reachable.induct)
  case (init cs)
  then show ?case by (simp add: picker_init_def picker_inv_def class_students_of_def)
next
  case (step s e)
  then show ?case
    by (cases e) (simp_all add: picker_step_def class_effect_inv handleStudentSelect_inv)
qed

lemma selected_student_has_class:
  "picker_inv s \<Longrightarrow> selectedStudent s = Some st \<Longrightarrow>
     \<exists>cid c. selectedClassId s = Some cid \<and> find (\<lambda>c. pc_id c = cid) (classes s) = Some c \<and> st \<in> set (pc_students c)"
  by (auto simp: picker_inv_def class_students_of_def split: option.splits)

text \<open>
  Every link the page shows carries a student of the class it names, in the classes as
  currently loaded; no link says \<^verbatim>\<open>classId=null\<close>.
\<close>

lemma survey_links_sound:
  assumes "picker_reachable s" and "survey_links s = Some links"
  shows "\<exists>st cid c. links = map (\<lambda>path. path @ ''?studentId='' @ student_id st @ ''&classId='' @ cid) survey_paths \<and>
           find (\<lambda>c. pc_id c = cid) (classes s) = Some c \<and> st \<in> set (pc_students c)"
proof -
  from assms(2) obtain st where st: "selectedStudent s = Some st"
    by (auto simp: survey_links_def split: option.splits)
  from selected_student_has_class [OF picker_reachable_inv [OF assms(1)] st]
  obtain cid c where "selectedClassId s = Some cid" "find (\<lambda>c. pc_id c = cid) (classes s) = Some c" "st \<in> set (pc_students c)"
    by blast
  with assms(2) st show ?thesis by (auto simp: survey_links_def)
qed


text \<open>
  The student select offers exactly the students of the selected class as currently
  loaded, and is enabled exactly when that class has students.
\<close>

lemma picker_view_students:
  assumes "picker_reachable s"
  shows "pv_studentOptions (picker_page_view b s) = map student_id (class_students_of (classes s) (selectedClassId s)) \<and>
         (\<not> pv_studentDisabled (picker_page_view b s) \<longleftrightarrow> class_students_of (classes s) (selectedClassId s) \<noteq> [])"
  using picker_reachable_inv [OF assms]
  by (auto simp: picker_page_view_def picker_inv_def class_students_of_def split: option.splits)

end
