(* ===== verification/FirestoreErrors.thy ===== *)
theory FirestoreErrors
  imports Prelude
begin

text \<open>
  \<^verbatim>\<open>FirestorePermissionError\<close> (\<^verbatim>\<open>src/src/firebase/errors.ts\<close>), the error the
  survey listener of \<^verbatim>\<open>src/src/hooks/use-surveys.ts\<close> (lines 68--74) emits on the
  shared \<^verbatim>\<open>errorEmitter\<close> (\<^verbatim>\<open>src/src/firebase/error-emitter.ts\<close>) when the server
  refuses the query. The emitter itself is Node's \<^verbatim>\<open>EventEmitter\<close>; the model records
  the emitted events as a list.
\<close>

section \<open>The error\<close>

datatype rule_operation = OpGet | OpList | OpCreate | OpUpdate | OpDelete

fun operation_name :: "rule_operation \<Rightarrow> string" where
  "operation_name OpGet = ''get''"
| "operation_name OpList = ''list''"
| "operation_name OpCreate = ''create''"
| "operation_name OpUpdate = ''update''"
| "operation_name OpDelete = ''delete''"

text \<open>
  \<^verbatim>\<open>SecurityRuleContext\<close>: the path is a string in the type, but a value the caller
  reads from an object may be \<^verbatim>\<open>undefined\<close> (\<open>None\<close>), which the template literal
  prints as \<^verbatim>\<open>"undefined"\<close>. The optional \<^verbatim>\<open>requestResourceData\<close> is not used.
\<close>

record security_rule_context =
  rule_path :: "string option"
  rule_operation :: rule_operation

record permission_error =
  perm_name :: string
  perm_message :: string
  perm_context :: security_rule_context

definition template_str :: "string option \<Rightarrow> string" where
  "template_str v = (case v of Some s \<Rightarrow> s | None \<Rightarrow> ''undefined'')"

text \<open>The constructor, lines 12--20.\<close>

definition FirestorePermissionError :: "security_rule_context \<Rightarrow> permission_error" where
  "FirestorePermissionError ctx =
     \<lparr>perm_name = ''FirestorePermissionError'',
      perm_message = ''FirestorePermissionError: Insufficient permissions for '' @
                     operation_name (rule_operation ctx) @ '' on '' @ template_str (rule_path ctx) @ ''.'',
      perm_context = ctx\<rparr>"

section \<open>The survey listener's error path\<close>

text \<open>
  Lines 68--74 of \<^verbatim>\<open>use-surveys.ts\<close>: the listener's error callback emits a
  \<^verbatim>\<open>list\<close> error for \<^verbatim>\<open>q.path\<close> and clears the loading flag. \<open>q\<close> is the
  \<^verbatim>\<open>Query\<close> built by \<^verbatim>\<open>query(surveysRef, where(...))\<close>; \<open>qpath\<close> is what reading its
  \<^verbatim>\<open>path\<close> property gives.
\<close>

datatype emitted = PermissionErrorEvent permission_error

definition surveys_listener_error :: "string option \<Rightarrow> emitted list \<times> bool \<Rightarrow> emitted list \<times> bool" where
  "surveys_listener_error qpath st =
     (fst st @ [PermissionErrorEvent (FirestorePermissionError \<lparr>rule_path = qpath, rule_operation = OpList\<rparr>)], False)"

section \<open>Lemmas\<close>

lemma operation_name_inj: "operation_name a = operation_name b \<longleftrightarrow> a = b"
  by (cases a; cases b) simp_all

text \<open>
  The message determines the operation and the printed path: the context can be read
  back from the message. The operation names are distinct and none is followed by the
  same text as another.
\<close>

lemma permission_message_determines:
  assumes "perm_message (FirestorePermissionError c1) = perm_message (FirestorePermissionError c2)"
  shows "rule_operation c1 = rule_operation c2 \<and> template_str (rule_path c1) = template_str (rule_path c2)"
proof -
  let ?o1 = "operation_name (rule_operation c1)" and ?o2 = "operation_name (rule_operation c2)"
  from assms have e: "?o1 @ '' on '' @ template_str (rule_path c1) @ ''.'' = ?o2 @ '' on '' @ template_str (rule_path c2) @ ''.''"
    by (simp add: FirestorePermissionError_def)
  have "rule_operation c1 = rule_operation c2"
  proof (rule ccontr)
    assume "rule_operation c1 \<noteq> rule_operation c2"
    with e show False
      by (cases "rule_operation c1"; cases "rule_operation c2") simp_all
  qed
  with e show ?thesis by simp
qed

text \<open>Without a path, the message names the path \<^verbatim>\<open>undefined\<close>.\<close>

lemma listener_error_undefined_path:
  "surveys_listener_error None (evs, True) =
     (evs @ [PermissionErrorEvent \<lparr>perm_name = ''FirestorePermissionError'',
               perm_message = ''FirestorePermissionError: Insufficient permissions for list on undefined.'',
               perm_context = \<lparr>rule_path = None, rule_operation = OpList\<rparr>\<rparr>], False)"
  by (simp add: surveys_listener_error_def FirestorePermissionError_def template_str_def)

end
