(* ===== verification/AdminInit.thy ===== *)
theory AdminInit
  imports Prelude
begin

text \<open>
  The Admin SDK set-up of \<^verbatim>\<open>src/src/lib/firebaseAdmin.ts\<close>: the module keeps the SDK's
  app list and two cached handles; \<^verbatim>\<open>initializeAdmin\<close> checks three environment
  variables, unescapes the private key and initialises the app, and the getters retry
  the initialisation while the database handle is missing. The SDK's credential check
  is a parameter \<open>cert\<close>: \<open>None\<close> when \<^verbatim>\<open>initializeApp\<close> accepts the credential,
  \<open>Some m\<close> when it throws an error with message \<open>m\<close>. Errors are values
  \<open>Inl message\<close>.
\<close>

section \<open>Environment and state\<close>

record admin_env =
  FIREBASE_PRIVATE_KEY :: "string option"
  FIREBASE_PROJECT_ID :: "string option"
  FIREBASE_CLIENT_EMAIL :: "string option"

record admin_state =
  apps_length :: nat
  adminDb :: bool
  adminAuth :: bool

text \<open>\<^verbatim>\<open>Array.prototype.join(sep)\<close>.\<close>

fun js_join :: "string \<Rightarrow> string list \<Rightarrow> string" where
  "js_join sep [] = []"
| "js_join sep [x] = x"
| "js_join sep (x # xs) = x @ sep @ js_join sep xs"

text \<open>Lines 16--20: the names of the missing variables, in the order of the array.\<close>

definition missingVars :: "admin_env \<Rightarrow> string" where
  "missingVars env =
     js_join '', ''
       (map snd (filter (\<lambda>(v, name). \<not> js_truthy_str v)
          [(FIREBASE_PROJECT_ID env, ''FIREBASE_PROJECT_ID''),
           (FIREBASE_CLIENT_EMAIL env, ''FIREBASE_CLIENT_EMAIL''),
           (FIREBASE_PRIVATE_KEY env, ''FIREBASE_PRIVATE_KEY'')]))"

text \<open>\<^verbatim>\<open>privateKey.replace(/\\n/g, '\n')\<close>: each backslash followed by \<open>n\<close> becomes a newline.\<close>

fun unescape_newlines :: "string \<Rightarrow> string" where
  "unescape_newlines [] = []"
| "unescape_newlines (c # d # cs) =
     (if c = CHR 92 \<and> d = CHR ''n'' then CHR 10 # unescape_newlines cs else c # unescape_newlines (d # cs))"
| "unescape_newlines [c] = [c]"

definition init_failed :: "string \<Rightarrow> string" where
  "init_failed m = ''Firebase Admin SDK initialization failed. See server logs for details. Error: '' @ m"

definition missing_message :: "admin_env \<Rightarrow> string" where
  "missing_message env =
     ''Required environment variable(s) are missing: '' @ missingVars env @ ''. '' @
     ''Please check your .env file and hosting provider settings. See docs/FIREBASE_ADMIN_SETUP.md for instructions.''"

section \<open>Initialisation\<close>

text \<open>\<^verbatim>\<open>initializeAdmin()\<close>, lines 6--50.\<close>

definition initializeAdmin :: "(string \<Rightarrow> string option) \<Rightarrow> admin_env \<Rightarrow> admin_state \<Rightarrow> string + admin_state" where
  "initializeAdmin cert env s =
     (let handles = (\<lambda>s. s\<lparr>adminDb := True, adminAuth := True\<rparr>)
      in if apps_length s = 0 then
           (if \<not> js_truthy_str (FIREBASE_PRIVATE_KEY env) \<or> \<not> js_truthy_str (FIREBASE_PROJECT_ID env)
               \<or> \<not> js_truthy_str (FIREBASE_CLIENT_EMAIL env)
            then Inl (init_failed (missing_message env))
            else case cert (unescape_newlines (the (FIREBASE_PRIVATE_KEY env))) of
                   Some m \<Rightarrow> Inl (init_failed m)
                 | None \<Rightarrow> Inr (handles (s\<lparr>apps_length := 1\<rparr>)))
         else Inr (handles s))"

text \<open>The module's load (lines 53--57): a failure is logged and the state kept.\<close>

definition admin_initial :: admin_state where
  "admin_initial = \<lparr>apps_length = 0, adminDb = False, adminAuth = False\<rparr>"

definition module_load :: "(string \<Rightarrow> string option) \<Rightarrow> admin_env \<Rightarrow> admin_state" where
  "module_load cert env =
     (case initializeAdmin cert env admin_initial of Inl _ \<Rightarrow> admin_initial | Inr s \<Rightarrow> s)"

text \<open>\<^verbatim>\<open>getAdminDb()\<close>, lines 60--66: the state after the call, or the thrown message.\<close>

definition getAdminDb :: "(string \<Rightarrow> string option) \<Rightarrow> admin_env \<Rightarrow> admin_state \<Rightarrow> string + admin_state" where
  "getAdminDb cert env s = (if \<not> adminDb s then initializeAdmin cert env s else Inr s)"

definition getAdminAuth :: "(string \<Rightarrow> string option) \<Rightarrow> admin_env \<Rightarrow> admin_state \<Rightarrow> string + admin_state" where
  "getAdminAuth cert env s = (if \<not> adminAuth s then initializeAdmin cert env s else Inr s)"

text \<open>The \<^verbatim>\<open>.env\<close> convention the unescaping undoes: a newline written as backslash-n.\<close>

fun escape_newlines :: "string \<Rightarrow> string" where
  "escape_newlines [] = []"
| "escape_newlines (c # cs) = (if c = CHR 10 then CHR 92 # CHR ''n'' # escape_newlines cs else c # escape_newlines cs)"

text \<open>The module's state: both handles set together, exactly once the app exists.\<close>

definition admin_inv :: "admin_state \<Rightarrow> bool" where
  "admin_inv s \<longleftrightarrow> adminDb s = adminAuth s \<and> (adminDb s \<longleftrightarrow> 0 < apps_length s)"

section \<open>Lemmas\<close>

lemma unescape_escape:
  "CHR 92 \<notin> set s \<Longrightarrow> unescape_newlines (escape_newlines s) = s"
proof (induction s)
  case Nil
  then show ?case by simp
next
  case (Cons c cs)
  then show ?case
    by (cases "c = CHR 10"; cases "escape_newlines cs") auto
qed

lemma admin_inv_initial: "admin_inv admin_initial"
  by (simp add: admin_inv_def admin_initial_def)

lemma initializeAdmin_ok:
  "initializeAdmin cert env s = Inr s' \<Longrightarrow> admin_inv s'"
  by (auto simp: initializeAdmin_def admin_inv_def Let_def split: if_splits option.splits)

lemma module_load_inv: "admin_inv (module_load cert env)"
  using initializeAdmin_ok admin_inv_initial
  by (auto simp: module_load_def split: sum.split)

lemma initializeAdmin_sets_db: "initializeAdmin cert env s = Inr s' \<Longrightarrow> adminDb s'"
  by (auto simp: initializeAdmin_def Let_def split: if_splits option.splits)

lemma getAdminDb_inv:
  assumes "admin_inv s" and "getAdminDb cert env s = Inr s'"
  shows "admin_inv s' \<and> adminDb s'"
proof (cases "adminDb s")
  case True
  with assms show ?thesis by (simp add: getAdminDb_def)
next
  case False
  with assms(2) have i: "initializeAdmin cert env s = Inr s'" by (simp add: getAdminDb_def)
  show ?thesis using initializeAdmin_ok [OF i] initializeAdmin_sets_db [OF i] by simp
qed

text \<open>Once the database handle exists, the getter returns it without touching the state.\<close>

lemma getAdminDb_cached: "adminDb s \<Longrightarrow> getAdminDb cert env s = Inr s"
  by (simp add: getAdminDb_def)

text \<open>
  On a module whose load failed, the getter fails exactly when a variable is missing or
  the credential is refused, and then with the message naming the missing variables.
\<close>

lemma getAdminDb_after_failed_load:
  "getAdminDb cert env admin_initial =
     (if \<not> js_truthy_str (FIREBASE_PRIVATE_KEY env) \<or> \<not> js_truthy_str (FIREBASE_PROJECT_ID env)
         \<or> \<not> js_truthy_str (FIREBASE_CLIENT_EMAIL env)
      then Inl (init_failed (missing_message env))
      else case cert (unescape_newlines (the (FIREBASE_PRIVATE_KEY env))) of
             Some m \<Rightarrow> Inl (init_failed m)
           | None \<Rightarrow> Inr \<lparr>apps_length = 1, adminDb = True, adminAuth = True\<rparr>)"
  by (simp add: getAdminDb_def initializeAdmin_def admin_initial_def Let_def split: option.split)

lemma missingVars_names:
  "missingVars env =
     js_join '', '' ((if js_truthy_str (FIREBASE_PROJECT_ID env) then [] else [''FIREBASE_PROJECT_ID'']) @
                     (if js_truthy_str (FIREBASE_CLIENT_EMAIL env) then [] else [''FIREBASE_CLIENT_EMAIL'']) @
                     (if js_truthy_str (FIREBASE_PRIVATE_KEY env) then [] else [''FIREBASE_PRIVATE_KEY'']))"
  by (simp add: missingVars_def)

lemma missing_key_example:
  "getAdminDb (\<lambda>_. None) \<lparr>FIREBASE_PRIVATE_KEY = Some [], FIREBASE_PROJECT_ID = Some ''p'',
                            FIREBASE_CLIENT_EMAIL = None\<rparr> admin_initial =
     Inl (init_failed (''Required environment variable(s) are missing: FIREBASE_CLIENT_EMAIL, FIREBASE_PRIVATE_KEY. '' @
          ''Please check your .env file and hosting provider settings. See docs/FIREBASE_ADMIN_SETUP.md for instructions.''))"
  by (simp add: getAdminDb_def initializeAdmin_def admin_initial_def missing_message_def missingVars_def Let_def js_truthy_str_def)

end
