(* ===== verification/ForumPage.thy ===== *)
theory ForumPage
  imports Forum
begin

text \<open>
  The page at \<^verbatim>\<open>src/src/app/forum/soru/[id]/page.tsx\<close>. Its route names one question,
  but the component renders the forum list: the posts of \<^verbatim>\<open>useForum\<close> through the
  search and category filter, each card linking to \<^verbatim>\<open>/forum/soru/{post.id}\<close>, which
  is this same page. The route parameter is never read.
\<close>

section \<open>The page\<close>

text \<open>\<^verbatim>\<open>categories\<close>, line 25 (UTF-8 bytes).\<close>

definition categories :: "string list" where
  "categories =
     [category_all, ''Matematik'', ''T'' @ [CHR 0xC3, CHR 0xBC] @ ''rk'' @ [CHR 0xC3, CHR 0xA7] @ ''e'',
      ''Fen Bilimleri'', ''Sosyal Bilgiler'', ''E'' @ [CHR 0xC4, CHR 0x9F] @ ''itim Teknolojileri'',
      ''Okul '' @ [CHR 0xC3, CHR 0x96] @ ''ncesi'', ''Rehberlik'', ''Di'' @ [CHR 0xC4, CHR 0x9F] @ ''er'']"

record forum_page =
  searchTerm :: string
  selectedCategory :: string

definition forum_page_init :: forum_page where
  "forum_page_init = \<lparr>searchTerm = [], selectedCategory = category_all\<rparr>"

text \<open>The search input (line 68) and the category select (line 71), which offers \<open>categories\<close>.\<close>

datatype forum_page_event = SetSearch string | SetCategory string

definition forum_page_step :: "forum_page \<Rightarrow> forum_page_event \<Rightarrow> forum_page" where
  "forum_page_step s e =
     (case e of
        SetSearch t \<Rightarrow> s\<lparr>searchTerm := t\<rparr>
      | SetCategory c \<Rightarrow> if c \<in> set categories then s\<lparr>selectedCategory := c\<rparr> else s)"

definition post_href :: "post_id \<Rightarrow> string" where
  "post_href i = ''/forum/soru/'' @ i"

text \<open>
  A card (lines 90--113): title, category, description, author's name and the link; the
  date's formatting is not modelled. Lines 84--122: the spinner while loading, else the
  cards and, when there are none, the empty message.
\<close>

record post_card =
  card_title :: string
  card_category :: string
  card_description :: string
  card_author :: string
  card_href :: string

datatype forum_view = ForumSpinner | ForumList "post_card list" bool

definition card_of_post :: "post_id \<times> forum_post \<Rightarrow> post_card" where
  "card_of_post ip =
     (case ip of (i, p) \<Rightarrow>
        \<lparr>card_title = title p, card_category = category p, card_description = description p,
         card_author = author_name (post_author p), card_href = post_href i\<rparr>)"

definition forum_page_view :: "string \<Rightarrow> bool \<Rightarrow> forum_db \<Rightarrow> forum_page \<Rightarrow> forum_view" where
  "forum_page_view routeId isLoading db s =
     (if isLoading then ForumSpinner
      else let ps = filteredPosts (useForum db) (searchTerm s) (selectedCategory s)
           in ForumList (map card_of_post ps) (ps = []))"

section \<open>Lemmas\<close>

text \<open>
  Following the link of any card gives the same view as the page it was clicked on: the
  question page never shows the question.
\<close>

lemma read_more_shows_list:
  "forum_page_view (drop (length ''/forum/soru/'') (card_href c)) isLoading db s =
   forum_page_view routeId isLoading db s"
  by (simp add: forum_page_view_def)

lemma card_links_to_post:
  assumes "c \<in> set cs" and "forum_page_view routeId False db s = ForumList cs e"
  shows "\<exists>i p. (i, p) \<in> set (fposts db) \<and> card_href c = post_href i"
proof -
  let ?ps = "filteredPosts (useForum db) (searchTerm s) (selectedCategory s)"
  from assms(2) have "cs = map card_of_post ?ps" by (simp add: forum_page_view_def Let_def)
  with assms(1) obtain i p where ip: "(i, p) \<in> set ?ps" "c = card_of_post (i, p)" by auto
  then have "(i, p) \<in> set (fposts db)" by (simp add: filteredPosts_def useForum_def)
  with ip show ?thesis by (auto simp: card_of_post_def)
qed

lemma empty_message_iff:
  "forum_page_view routeId False db s = ForumList cs e \<Longrightarrow> e \<longleftrightarrow> cs = []"
  by (auto simp: forum_page_view_def Let_def)

lemma forum_page_category_offered:
  "selectedCategory s \<in> set categories \<Longrightarrow> selectedCategory (forum_page_step s e) \<in> set categories"
  by (cases e) (auto simp: forum_page_step_def)

end
