(* ===== verification/Spec2Isabelle.thy ===== *)
theory Spec2Isabelle
  imports Schedule SchedulePage SchedulePanel Survey SurveyPages Forum Tier Login LoginPage AiActions SurveyPicker ReminderPopup FirestoreErrors AdminInit ForumPage
begin

text \<open>
  Verification development of the teacher application under \<^verbatim>\<open>src/src\<close>: a Next.js
  front end whose state lives in Firestore, with server actions around a generative-AI
  service. The program is a set of React pages and hooks that read and write documents;
  each theory below models one part as executable HOL functions over explicit states,
  with the part's handlers as functions from a state to a new state or an error value.

  \<^bold>\<open>Parts and theories.\<close>
  \<^item> \<open>Prelude\<close>: the JavaScript idioms the parts share (\<^verbatim>\<open>findIndex\<close>,
    truthiness, \<^verbatim>\<open>arrayUnion\<close>/\<^verbatim>\<open>arrayRemove\<close>, index-keyed objects) and
    generic lemmas on lists and association lists.
  \<^item> \<open>Schedule\<close>: the weekly schedule hook \<^verbatim>\<open>hooks/use-weekly-schedule.ts\<close>
    (\<open>updateLesson\<close>, \<open>updateSettings\<close>, \<open>setSchedule\<close>, the snapshot listener) on
    a document of seven day arrays and settings; the hook of one tab as the relation
    \<open>hook_reachable\<close>, several tabs as \<open>sys_step\<close>; the lesson grid \<open>grid\<close> as the
    abstract view that \<open>updateLesson\<close> refines; the slot handlers of the page.
  \<^item> \<open>SchedulePage\<close>: the rest of \<^verbatim>\<open>components/ders-programi.tsx\<close>: the end time
    of a slot (\<open>calculateEndTime\<close>, with JavaScript's \<^verbatim>\<open>Number\<close> and \<^verbatim>\<open>Date\<close>
    arithmetic), the decoding of a plan file (\<open>dataURIToBlob\<close>, its byte loop as a
    \<open>while_option\<close> over 8-bit words) and its spreadsheet rows, the related plan, the
    single/double click timer as the event system \<open>page_step\<close>, the editor's save
    and clear handlers composed with \<open>updateLesson\<close>. \<open>SchedulePanel\<close>: the settings
    card with the page's local copy of the settings against the document and the hook's
    snapshots (\<open>panel_step\<close>), the loading card, the day tabs and the editor's props.
  \<^item> \<open>Survey\<close>: the scoring of the three surveys under \<^verbatim>\<open>app/anket/\<close> and the
    survey store \<^verbatim>\<open>hooks/use-surveys.ts\<close> (\<open>saveSurveyResult\<close>: no signed-in
    user, a rejected \<^verbatim>\<open>addDoc\<close> rethrown with its prefix, or one appended record, as the
    sum \<open>created\<close> of the write's outcome); \<open>SurveyPages\<close>: what the three survey
    pages show (radio groups, progress, submit button, result views, links, the sign-in
    wrapper) and each page as an event system of radio choices and submit clicks
    (\<open>survey_step\<close>, \<open>survey_run\<close>) over those handlers; \<open>SurveyPicker\<close>: the survey
    index page \<^verbatim>\<open>app/anket/page.tsx\<close> (class and student selection, links).
  \<^item> \<open>Forum\<close>: \<^verbatim>\<open>hooks/use-forum.ts\<close> and \<open>addReplyAction\<close> of
    \<^verbatim>\<open>app/actions.ts\<close> over a store of three keyed collections. A handler is a
    program of reads (\<open>Get\<close>) and atomic write batches (\<open>Put\<close>) run by \<open>exec\<close>;
    \<open>net\<close> is the number of requests that reach the server before the connection
    fails (\<open>None\<close>: it never fails), so every failure point of a handler is a value of
    \<open>net\<close>. Interleavings of several clients are \<open>fsys_run\<close> over \<open>Step\<close> and
    \<open>Drop\<close> events. Batches follow Firestore: in order, all or nothing, at most 500
    writes (\<open>batch_limit\<close>). \<open>ForumPage\<close>: the page at
    \<^verbatim>\<open>app/forum/soru/[id]/page.tsx\<close>, which renders the filtered list of posts.
  \<^item> \<open>Tier\<close>: the packages page \<^verbatim>\<open>app/paketler/page.tsx\<close> (active tier, quota,
    usage bar, card buttons, \<open>handleUpgrade\<close>), with the administrator's approval
    from the specification; reachable profiles as \<open>tier_reachable\<close>, refined to the
    specification's reading \<open>tier_status\<close>.
  \<^item> \<open>Login\<close>: \<^verbatim>\<open>app/actions/student-login.ts\<close>, the login page's submit handler and
    the student dashboard's session check; \<open>LoginPage\<close>: the login page
    \<^verbatim>\<open>app/ogrenci-giris/page.tsx\<close> as an event system (typing, submit, the action's
    answer arriving later), refining the one-shot \<open>onSubmit\<close>.
  \<^item> \<open>AiActions\<close>: the AI server actions of \<^verbatim>\<open>app/actions.ts\<close> and the forum answer
    flow with its prompt template; a call of the service is a value of \<open>'a flow\<close>
    (result or exception).
  \<^item> \<open>ReminderPopup\<close>: \<^verbatim>\<open>components/smart-reminder-popup.tsx\<close> (overdue test,
    rescheduling with the calendar's guard against past days, completion, what the
    dialog shows) with ISO date parsing and formatting.
  \<^item> \<open>FirestoreErrors\<close>: \<^verbatim>\<open>firebase/errors.ts\<close>, \<^verbatim>\<open>firebase/error-emitter.ts\<close>
    and the survey listener's error path; \<open>AdminInit\<close>: \<^verbatim>\<open>lib/firebaseAdmin.ts\<close>.
  \<^item> This theory: the student login request as the server runs it, the Admin SDK
    initialisation followed by the action; and the student's way to a survey, from the
    login page's sign-out through the dashboard's links and the survey page's query
    parameters to the survey store's save (claim C28).

  \<^bold>\<open>What the lemmas show.\<close> Each theory ends with its lemmas, its properties (the
  claims C1--C40, each after a text naming it) and their witnesses. Schedule: the hook's
  invariant (distinct slots below the slot count) over reachable states, refinement of
  the grid, re-indexing on settings changes, and the failures (a stale tab, a missing
  document). Survey: the spec's example, conservation of the tally, stable ranking,
  bounds of the scores, the store's error paths. SurveyPages: the radio group's
  print/parse round trip, and that a run of the page saves at most one record, only with
  every question answered. Forum: the consistency invariant under
  every handler and every failure point, the cascade of \<open>deletePost\<close>, the broken
  counters and orphans that failures and interleavings leave, the page views. Tier: the
  reachable-state invariant, the refinement of the quota, the soundness of the
  \<^verbatim>\<open>as TierKey\<close> cast. Login: soundness, completeness, error values, the session
  round trip; LoginPage: over every interleaving of typing, submits and answers, only
  sound sessions are stored. SchedulePage: the liveness of clicks, the termination and wrap-around of
  the byte loop, the end-time arithmetic. The other theories prove their invariants,
  round trips and the behaviours behind the findings.

  \<^bold>\<open>Bounds and parameters.\<close> The network of a forum handler is the number \<open>net\<close>;
  the cascade lemmas quantify over every value, and the success lemmas take
  \<open>net = None\<close>. Dates are time values in milliseconds with the \<^verbatim>\<open>TimeClip\<close> bound
  \<open>8.64 \<cdot> 10^15\<close>; the clock is a day number and a fixed zone offset (no
  daylight-saving change, as in Europe/Istanbul). Bytes are \<open>8 word\<close>, so the
  \<^verbatim>\<open>Uint8Array\<close> store wraps modulo 256. The libraries the code calls (the AI
  service, \<^verbatim>\<open>atob\<close>, \<^verbatim>\<open>decodeURI\<close>, the XLSX reader, the SDK's credential check)
  are parameters: the lemmas hold for every behaviour of them.

  \<^bold>\<open>Not modelled.\<close> The rendering (styles, icons, texts), the app layout
  \<^verbatim>\<open>app/layout.tsx\<close> (providers only), negative lesson durations (the model's
  durations are natural numbers: a negative entry is \<open>None\<close>), the rounding of
  floating-point values (the progress bar is computed in the reals), the
  \<^verbatim>\<open>AuthGuard\<close> component, which is not under \<^verbatim>\<open>src/src\<close>,
  \<^verbatim>\<open>toUpperCase\<close> beyond ASCII letters, JavaScript number literals other than decimal
  ones, date strings outside the ISO forms, and the code outside \<^verbatim>\<open>src/src\<close> (types,
  other hooks and flows), of which only the fields the code reads are modelled.
\<close>

section \<open>The student login request\<close>

text \<open>
  \<^verbatim>\<open>studentLoginAction\<close> calls \<^verbatim>\<open>getAdminDb()\<close> on line 14, before its
  \<^verbatim>\<open>try\<close>: an initialisation failure rejects the action with the initialisation
  message instead of the action's own server-error result.
\<close>

definition studentLoginRequest ::
  "(string \<Rightarrow> string option) \<Rightarrow> admin_env \<Rightarrow> admin_state \<Rightarrow> bool \<Rightarrow> admin_db \<Rightarrow> string \<Rightarrow> string \<Rightarrow>
   string + admin_state \<times> login_result" where
  "studentLoginRequest cert env s crash db cc sc =
     (case getAdminDb cert env s of
        Inl m \<Rightarrow> Inl m
      | Inr s' \<Rightarrow> Inr (s', studentLoginAction crash db cc sc))"

section \<open>The student's way to a survey\<close>

text \<open>
  The login page signs a teacher out on mount (\<^verbatim>\<open>ogrenci-giris/page.tsx\<close>, lines
  57--61): afterwards the Firebase client has no current user. The student dashboard
  links the three surveys with the student's id and class id
  (\<^verbatim>\<open>ogrenci/[studentId]/page.tsx\<close>, lines 107--143); a survey page reads them back
  with \<^verbatim>\<open>useSearchParams().get\<close> (e.g. \<^verbatim>\<open>ogrenme-stilleri/page.tsx\<close>, lines 54--57),
  knows a student session by the presence of \<^verbatim>\<open>studentAuth\<close> and links back to the
  dashboard (\<open>student_session\<close> and \<open>survey_back_href\<close> of \<open>SurveyPages\<close>).
\<close>

definition ogrenci_giris_mount :: "uid option \<Rightarrow> uid option" where
  "ogrenci_giris_mount teacherUser = (case teacherUser of Some _ \<Rightarrow> None | None \<Rightarrow> teacherUser)"

definition dashboard_links :: "student \<Rightarrow> string \<Rightarrow> string list" where
  "dashboard_links st cid =
     map (\<lambda>path. path @ ''?studentId='' @ student_id st @ ''&classId='' @ cid) survey_paths"

text \<open>
  \<^verbatim>\<open>URLSearchParams.get\<close> on the query of a link: the value of the first pair with the
  name. Percent and plus decoding are not modelled; \<open>url_plain\<close> values need none.
\<close>

definition url_plain :: "string \<Rightarrow> bool" where
  "url_plain s \<longleftrightarrow> (\<forall>c \<in> set s. c \<notin> {CHR ''&'', CHR ''#'', CHR ''%'', CHR ''+''})"

definition url_query :: "string \<Rightarrow> string" where
  "url_query url =
     (case dropWhile (\<lambda>c. c \<noteq> CHR ''?'') url of [] \<Rightarrow> [] | _ # q \<Rightarrow> takeWhile (\<lambda>c. c \<noteq> CHR ''#'') q)"

definition search_param :: "string \<Rightarrow> string \<Rightarrow> string option" where
  "search_param name url =
     map_option (drop (Suc (length name)))
       (find (\<lambda>kv. takeWhile (\<lambda>c. c \<noteq> CHR ''='') kv = name) (split_on (CHR ''&'') (url_query url)))"

text \<open>
  What the dashboard shows (lines 60--153): the spinner while loading or without a
  student and a class id, otherwise the student's name, the logout button and the three
  survey cards with their links.
\<close>

datatype dashboard_screen = DashboardSpinner | DashboardPanel string "string list"

definition dashboard_render :: "bool \<Rightarrow> student option \<Rightarrow> string option \<Rightarrow> dashboard_screen" where
  "dashboard_render isLoading st cid =
     (case (st, cid) of
        (Some s, Some c) \<Rightarrow>
          if isLoading \<or> c = [] then DashboardSpinner
          else DashboardPanel (firstName s @ '' '' @ lastName s) (dashboard_links s c)
      | _ \<Rightarrow> DashboardSpinner)"

section \<open>Lemmas\<close>

lemma studentLoginRequest_init_failure:
  "getAdminDb cert env s = Inl m \<Longrightarrow> studentLoginRequest cert env s crash db cc sc = Inl m"
  by (simp add: studentLoginRequest_def)

text \<open>
  Once a request has initialised the SDK, every later request on that server reaches the
  action, whatever the environment then holds.
\<close>

lemma studentLoginRequest_after_success:
  assumes "admin_inv s" and "studentLoginRequest cert env s crash db cc sc = Inr (s', r)"
  shows "studentLoginRequest cert' env' s' crash' db' cc' sc' = Inr (s', studentLoginAction crash' db' cc' sc')"
proof -
  from assms(2) have "getAdminDb cert env s = Inr s'"
    by (auto simp: studentLoginRequest_def split: sum.splits)
  from getAdminDb_inv [OF assms(1) this] have "adminDb s'" by simp
  then show ?thesis by (simp add: studentLoginRequest_def getAdminDb_cached)
qed

lemma split_on_two:
  "c \<notin> set xs \<Longrightarrow> c \<notin> set ys \<Longrightarrow> split_on c (xs @ c # ys) = [xs, ys]"
  by (simp add: split_on_append_sep split_on_no_sep)

lemma search_param_link:
  assumes "url_plain i" and "url_plain c" and "CHR ''?'' \<notin> set path" and "CHR ''#'' \<notin> set path"
  shows "search_param ''studentId'' (path @ ''?studentId='' @ i @ ''&classId='' @ c) = Some i \<and>
         search_param ''classId'' (path @ ''?studentId='' @ i @ ''&classId='' @ c) = Some c"
proof -
  have d: "dropWhile (\<lambda>x. x \<noteq> CHR ''?'') (path @ ''?studentId='' @ i @ ''&classId='' @ c) =
            ''?studentId='' @ i @ ''&classId='' @ c"
    using assms(3) by (subst dropWhile_append2) auto
  have t: "takeWhile (\<lambda>x. x \<noteq> CHR ''#'') (''studentId='' @ i @ ''&classId='' @ c) = ''studentId='' @ i @ ''&classId='' @ c"
    using assms(1,2) by (auto simp: url_plain_def takeWhile_eq_all_conv)
  have q: "url_query (path @ ''?studentId='' @ i @ ''&classId='' @ c) = ''studentId='' @ i @ ''&classId='' @ c"
    unfolding url_query_def d using t by simp
  have "split_on (CHR ''&'') ((''studentId='' @ i) @ CHR ''&'' # (''classId='' @ c)) = [''studentId='' @ i, ''classId='' @ c]"
    by (rule split_on_two) (use assms(1,2) in \<open>auto simp: url_plain_def\<close>)
  then have sp: "split_on (CHR ''&'') (''studentId='' @ i @ ''&classId='' @ c) = [''studentId='' @ i, ''classId='' @ c]"
    by (simp only: append_assoc append_Cons)
  show ?thesis unfolding search_param_def q sp by simp
qed

lemma onSubmit_success:
  "onSubmit crash db sess cc sc = (Some a, GoToDashboard i) \<Longrightarrow> i = student_id (studentData a) \<and> auth_classId a \<noteq> []"
  by (auto simp: onSubmit_def Let_def split: if_splits option.splits bool.splits)

lemma learning_styles_link:
  "dashboard_links st c ! 2 = ''/anket/ogrenme-stilleri'' @ ''?studentId='' @ student_id st @ ''&classId='' @ c"
  by (simp add: dashboard_links_def survey_paths_def)

text \<open>
  The survey page's back link of a student session leads to the dashboard of the same
  student, which the stored session admits.
\<close>

lemma survey_back_to_dashboard:
  assumes "onSubmit crash db sess cc sc = (Some a, GoToDashboard i)"
    and "url_plain (student_id (studentData a))" and "url_plain (auth_classId a)"
  shows "survey_back_href (student_session (Some (StoredAuth a)))
           (search_param ''studentId'' (dashboard_links (studentData a) (auth_classId a) ! 2)) = ''/ogrenci/'' @ i \<and>
         dashboard_mount (Some (StoredAuth a)) i = (Some (StoredAuth a), Dashboard (studentData a) (auth_classId a))"
proof -
  from onSubmit_success [OF assms(1)] have i: "i = student_id (studentData a)" by auto
  have "search_param ''studentId'' (dashboard_links (studentData a) (auth_classId a) ! 2) = Some i"
    unfolding learning_styles_link i by (rule search_param_link [THEN conjunct1]) (use assms(2,3) in simp_all)
  with i show ?thesis by (simp add: survey_back_href_def student_session_def dashboard_mount_def)
qed

text \<open>
  After a successful login the dashboard of the student shows the panel with the
  student's name and links carrying the student's id and class id.
\<close>

lemma dashboard_after_login:
  assumes "onSubmit crash db sess cc sc = (Some a, GoToDashboard i)"
  shows "dashboard_mount (Some (StoredAuth a)) i = (Some (StoredAuth a), Dashboard (studentData a) (auth_classId a)) \<and>
         dashboard_render False (Some (studentData a)) (Some (auth_classId a)) =
           DashboardPanel (firstName (studentData a) @ '' '' @ lastName (studentData a))
             (dashboard_links (studentData a) (auth_classId a))"
  using onSubmit_success [OF assms]
  by (simp add: dashboard_render_def dashboard_mount_def)

section \<open>Properties\<close>

text \<open>
  C28 (error). A student who signs in through the student login never gets a survey saved: the survey link of the dashboard carries the student's id and class id to the survey page, but the login page has signed every Firebase user out, so \<^verbatim>\<open>saveSurveyResult\<close> finds no current user; the page reports the error and the store is unchanged.
\<close>

theorem student_survey_never_saved:
  assumes "onSubmit crash db sess cc sc = (Some a, GoToDashboard i)"
    and "url_plain (student_id (studentData a))" and "url_plain (auth_classId a)"
  shows "search_param ''studentId'' (dashboard_links (studentData a) (auth_classId a) ! 2) = Some i \<and>
         search_param ''classId'' (dashboard_links (studentData a) (auth_classId a) ! 2) = Some (auth_classId a) \<and>
         fst (calculateResults_ls (search_param ''studentId'' (dashboard_links (studentData a) (auth_classId a) ! 2))
                (search_param ''classId'' (dashboard_links (studentData a) (auth_classId a) ! 2))
                (ogrenci_giris_mount teacher) freshId now pg store) =
           Some (if i = [] then MissingStudentOrClass else NotSignedIn) \<and>
         snd (snd (calculateResults_ls (search_param ''studentId'' (dashboard_links (studentData a) (auth_classId a) ! 2))
                (search_param ''classId'' (dashboard_links (studentData a) (auth_classId a) ! 2))
                (ogrenci_giris_mount teacher) freshId now pg store)) = store"
proof -
  from onSubmit_success [OF assms(1)] have i: "i = student_id (studentData a)" and c: "auth_classId a \<noteq> []" by auto
  have p: "search_param ''studentId'' (dashboard_links (studentData a) (auth_classId a) ! 2) = Some i \<and>
           search_param ''classId'' (dashboard_links (studentData a) (auth_classId a) ! 2) = Some (auth_classId a)"
    unfolding learning_styles_link i by (rule search_param_link) (use assms(2,3) in simp_all)
  have u: "ogrenci_giris_mount teacher = None" by (simp add: ogrenci_giris_mount_def split: option.split)
  show ?thesis
    using p c u by (simp add: calculateResults_ls_def saveSurveyResult_def js_truthy_str_def Let_def)
qed

section \<open>Witnesses\<close>

theorem student_survey_never_saved_witness:
  "onSubmit False ex_school None ''5a'' ''123'' = (Some \<lparr>auth_studentId = ''s1'', studentData = ex_student, auth_classId = ''c1''\<rparr>, GoToDashboard ''s1'') \<and>
   url_plain (student_id (studentData \<lparr>auth_studentId = ''s1'', studentData = ex_student, auth_classId = ''c1''\<rparr>)) \<and> url_plain (auth_classId \<lparr>auth_studentId = ''s1'', studentData = ex_student, auth_classId = ''c1''\<rparr>) \<and>
   fst (calculateResults_ls (search_param ''studentId'' (dashboard_links (studentData \<lparr>auth_studentId = ''s1'', studentData = ex_student, auth_classId = ''c1''\<rparr>) (auth_classId \<lparr>auth_studentId = ''s1'', studentData = ex_student, auth_classId = ''c1''\<rparr>) ! 2))
          (search_param ''classId'' (dashboard_links (studentData \<lparr>auth_studentId = ''s1'', studentData = ex_student, auth_classId = ''c1''\<rparr>) (auth_classId \<lparr>auth_studentId = ''s1'', studentData = ex_student, auth_classId = ''c1''\<rparr>) ! 2))
          (ogrenci_giris_mount (Some ''t1'')) (Inr ''f'') ''2025-01-01'' \<lparr>pg_answers = [], pg_complete = False, pg_result = None\<rparr> (\<lambda>_. [])) = Some NotSignedIn"
proof -
  have a: "onSubmit False ex_school None ''5a'' ''123'' = (Some \<lparr>auth_studentId = ''s1'', studentData = ex_student, auth_classId = ''c1''\<rparr>, GoToDashboard ''s1'')"
    by code_simp
  have b1: "url_plain (student_id (studentData \<lparr>auth_studentId = ''s1'', studentData = ex_student, auth_classId = ''c1''\<rparr>))" and b2: "url_plain (auth_classId \<lparr>auth_studentId = ''s1'', studentData = ex_student, auth_classId = ''c1''\<rparr>)"
    by (simp_all add: url_plain_def)
  have c: "fst (calculateResults_ls (search_param ''studentId'' (dashboard_links (studentData \<lparr>auth_studentId = ''s1'', studentData = ex_student, auth_classId = ''c1''\<rparr>) (auth_classId \<lparr>auth_studentId = ''s1'', studentData = ex_student, auth_classId = ''c1''\<rparr>) ! 2))
          (search_param ''classId'' (dashboard_links (studentData \<lparr>auth_studentId = ''s1'', studentData = ex_student, auth_classId = ''c1''\<rparr>) (auth_classId \<lparr>auth_studentId = ''s1'', studentData = ex_student, auth_classId = ''c1''\<rparr>) ! 2))
          (ogrenci_giris_mount (Some ''t1'')) (Inr ''f'') ''2025-01-01'' \<lparr>pg_answers = [], pg_complete = False, pg_result = None\<rparr> (\<lambda>_. [])) = Some (if ''s1'' = [] then MissingStudentOrClass else NotSignedIn)"
    using student_survey_never_saved [OF a b1 b2, where teacher = "Some ''t1''" and freshId = "Inr ''f''"
            and now = "''2025-01-01''" and pg = "\<lparr>pg_answers = [], pg_complete = False, pg_result = None\<rparr>"
            and store = "\<lambda>_. []"]
    by blast
  have e: "''s1'' \<noteq> []" by simp
  from c have "fst (calculateResults_ls (search_param ''studentId'' (dashboard_links (studentData \<lparr>auth_studentId = ''s1'', studentData = ex_student, auth_classId = ''c1''\<rparr>) (auth_classId \<lparr>auth_studentId = ''s1'', studentData = ex_student, auth_classId = ''c1''\<rparr>) ! 2))
          (search_param ''classId'' (dashboard_links (studentData \<lparr>auth_studentId = ''s1'', studentData = ex_student, auth_classId = ''c1''\<rparr>) (auth_classId \<lparr>auth_studentId = ''s1'', studentData = ex_student, auth_classId = ''c1''\<rparr>) ! 2))
          (ogrenci_giris_mount (Some ''t1'')) (Inr ''f'') ''2025-01-01'' \<lparr>pg_answers = [], pg_complete = False, pg_result = None\<rparr> (\<lambda>_. [])) = Some NotSignedIn" by (simp only: e if_False)
  with a b1 b2 show ?thesis by blast
qed

end
